(* ===== verification/Prelude.thy ===== *)
theory Prelude
  imports Main "HOL-Library.Finite_Map" "HOL-Library.List_Lexorder" "HOL-Library.Char_ord"
    "HOL-Library.Sublist" "HOL-Library.Word"
begin

text \<open>
  Shared vocabulary of the development: Go strings, integers, errors and maps, the order
  in which a Go \<open>range\<close> loop visits a map, the pieces of \<open>strings\<close> and \<open>strconv\<close> the program
  calls, and the two bind combinators (pure results and state-passing operations) with the
  collections of facts the component proofs use.
\<close>

section \<open>Collections\<close>

named_theorems result_iff \<open>how an operation built with the error binds can end\<close>
named_theorems keyed_rules \<open>introduction rules for maps whose entries carry their own key\<close>

section \<open>Values\<close>

text \<open>Go's \<open>string\<close> is a byte sequence; a \<open>char\<close> here is a byte. Go's \<open>int\<close> (64 bit) is only
  compared, printed and parsed by this program, never computed with beyond small counters, so
  it is an \<open>int\<close> whose 64-bit range is checked where a number enters the program. \<open>int32\<close>
  fields are 32-bit words.\<close>

type_synonym int32 = "32 word"
type_synonym 'v gomap = "(string, 'v) fmap"

definition int64_range :: "int \<Rightarrow> bool" where
  "int64_range i \<longleftrightarrow> - (2 ^ 63) \<le> i \<and> i < 2 ^ 63"

definition int32_range :: "int \<Rightarrow> bool" where
  "int32_range i \<longleftrightarrow> - (2 ^ 31) \<le> i \<and> i < 2 ^ 31"

lemma int32_range_sint [simp]: "int32_range (sint (w :: int32))"
  using sint_range_size [of w] by (simp add: int32_range_def wsst_TYs)

section \<open>Errors\<close>

text \<open>\<open>Errorf\<close> is \<open>fmt.Errorf\<close> of a message without an inner error, \<open>Wrapf\<close> one with the verb
  \<open>%w\<close>; the other constructors are the errors of the operating system, of \<open>encoding/json\<close>,
  of \<open>strconv\<close>, of the docker daemon, of the other packages the program only calls and of the
  docker client (a timeout, a missing image).
  \<open>Panic\<close> is a run-time panic (an index out of range, a nil dereference).\<close>

datatype error =
    Errorf string
  | Wrapf string error
  | NotExist string
  | AlreadyExists string
  | NotDirectory string
  | IsDirectory string
  | JsonError string
  | NumError string
  | DockerError string
  | PackageError string
  | OperationTimeout error
  | ImageNotFound string
  | Panic string

type_synonym 'a result = "error + 'a"

definition bindR :: "'a result \<Rightarrow> ('a \<Rightarrow> 'b result) \<Rightarrow> 'b result" where
  "bindR r k = (case r of Inl e \<Rightarrow> Inl e | Inr x \<Rightarrow> k x)"

lemma bindR_simps [simp]:
  "bindR (Inl e) k = Inl e"
  "bindR (Inr x) k = k x"
  by (simp_all add: bindR_def)

lemma bindR_Inr_iff [result_iff]: "bindR r k = Inr y \<longleftrightarrow> (\<exists>x. r = Inr x \<and> k x = Inr y)"
  by (cases r) simp_all

lemma bindR_Inl_iff [result_iff]:
  "bindR r k = Inl e \<longleftrightarrow> r = Inl e \<or> (\<exists>x. r = Inr x \<and> k x = Inl e)"
  by (cases r) simp_all

fun foldR :: "('a \<Rightarrow> 'b \<Rightarrow> 'b result) \<Rightarrow> 'a list \<Rightarrow> 'b \<Rightarrow> 'b result" where
  "foldR f [] b = Inr b"
| "foldR f (x # xs) b = bindR (f x b) (foldR f xs)"

lemma foldR_append: "foldR f (xs @ ys) b = bindR (foldR f xs b) (foldR f ys)"
  by (induction xs arbitrary: b) (auto simp: bindR_def split: sum.splits)

fun mapR :: "('a \<Rightarrow> 'b result) \<Rightarrow> 'a list \<Rightarrow> 'b list result" where
  "mapR f [] = Inr []"
| "mapR f (x # xs) = bindR (f x) (\<lambda>y. bindR (mapR f xs) (\<lambda>ys. Inr (y # ys)))"

lemma mapR_map_Inr: "(\<And>x. x \<in> set xs \<Longrightarrow> f (g x) = Inr x) \<Longrightarrow> mapR f (map g xs) = Inr xs"
  by (induction xs) simp_all

lemma mapR_length: "mapR f xs = Inr ys \<Longrightarrow> length ys = length xs"
  by (induction xs arbitrary: ys) (auto simp: result_iff)

section \<open>State-passing operations\<close>

text \<open>An operation reads and changes the world and ends with an error or a value. \<open>bindE h m k\<close>
  is the Go idiom: call \<open>m\<close>, return \<open>h err\<close> if it failed, go on with its value otherwise. The
  world of the failed call stays changed. A panic is not an error value: it passes through.\<close>

definition raised :: "(error \<Rightarrow> error) \<Rightarrow> error \<Rightarrow> error" where
  "raised h e = (case e of Panic p \<Rightarrow> Panic p | _ \<Rightarrow> h e)"

lemma raised_id [simp]: "raised id e = e"
  by (simp add: raised_def split: error.split)

type_synonym ('w, 'a) oper = "'w \<Rightarrow> 'a result \<times> 'w"

definition returnE :: "'a \<Rightarrow> ('w, 'a) oper" where
  "returnE x w = (Inr x, w)"

definition failE :: "error \<Rightarrow> ('w, 'a) oper" where
  "failE e w = (Inl e, w)"

definition liftE :: "'a result \<Rightarrow> ('w, 'a) oper" where
  "liftE r w = (r, w)"

definition bindE :: "(error \<Rightarrow> error) \<Rightarrow> ('w, 'a) oper \<Rightarrow> ('a \<Rightarrow> ('w, 'b) oper) \<Rightarrow> ('w, 'b) oper"
where
  "bindE h m k w = (case m w of (Inl e, w') \<Rightarrow> (Inl (raised h e), w') | (Inr x, w') \<Rightarrow> k x w')"

text \<open>\<open>tryE m k\<close> hands the result of \<open>m\<close>, error or value, to \<open>k\<close>: the calls whose error the
  program looks at, logs or drops.\<close>

definition tryE :: "('w, 'a) oper \<Rightarrow> ('a result \<Rightarrow> ('w, 'b) oper) \<Rightarrow> ('w, 'b) oper" where
  "tryE m k w = (case m w of (r, w') \<Rightarrow> k r w')"

fun forE :: "('a \<Rightarrow> ('w, unit) oper) \<Rightarrow> 'a list \<Rightarrow> ('w, unit) oper" where
  "forE f [] = returnE ()"
| "forE f (x # xs) = bindE id (f x) (\<lambda>_. forE f xs)"

text \<open>A call whose error is only logged, or dropped: a panic is not caught.\<close>

definition logged :: "('w, 'a) oper \<Rightarrow> ('w, unit) oper" where
  "logged m = tryE m (\<lambda>r. case r of Inl (Panic p) \<Rightarrow> failE (Panic p) | _ \<Rightarrow> returnE ())"

lemma oper_simps [simp]:
  "returnE x w = (Inr x, w)"
  "failE e w = (Inl e, w)"
  "liftE r w = (r, w)"
  by (simp_all add: returnE_def failE_def liftE_def)

lemma bindE_step [simp]:
  "m w = (Inl e, w') \<Longrightarrow> bindE h m k w = (Inl (raised h e), w')"
  "m w = (Inr x, w') \<Longrightarrow> bindE h m k w = k x w'"
  by (simp_all add: bindE_def)

lemma tryE_step [simp]: "m w = (r, w') \<Longrightarrow> tryE m k w = k r w'"
  by (simp add: tryE_def)

lemma bindE_Inr_iff [result_iff]:
  "bindE h m k w = (Inr y, w'') \<longleftrightarrow> (\<exists>x w'. m w = (Inr x, w') \<and> k x w' = (Inr y, w''))"
  by (auto simp: bindE_def split: prod.splits sum.splits)

lemma bindE_Inl_iff [result_iff]:
  "bindE h m k w = (Inl e, w'') \<longleftrightarrow>
     (\<exists>e0. m w = (Inl e0, w'') \<and> e = raised h e0) \<or> (\<exists>x w'. m w = (Inr x, w') \<and> k x w' = (Inl e, w''))"
  by (auto simp: bindE_def split: prod.splits sum.splits)

text \<open>A relation between worlds that every step keeps is kept by the composition.\<close>

definition keeps :: "('w \<Rightarrow> 'w \<Rightarrow> bool) \<Rightarrow> ('w, 'a) oper \<Rightarrow> bool" where
  "keeps R m \<longleftrightarrow> (\<forall>w. R w (snd (m w)))"

lemma keepsD: "keeps R m \<Longrightarrow> m w = (r, w') \<Longrightarrow> R w w'"
  by (metis keeps_def snd_conv)

lemma keeps_bindE:
  assumes "keeps R m" and "\<And>x. keeps R (k x)" and "transp R"
  shows "keeps R (bindE h m k)"
  unfolding keeps_def
proof
  fix w
  obtain r w' where m: "m w = (r, w')" by (cases "m w")
  then have "R w w'" using assms(1) by (rule keepsD [rotated])
  then show "R w (snd (bindE h m k w))"
    using m assms(2,3) by (cases r) (auto simp: keeps_def dest: transpD)
qed

lemma keeps_tryE:
  assumes "keeps R m" and "\<And>r. keeps R (k r)" and "transp R"
  shows "keeps R (tryE m k)"
  unfolding keeps_def
proof
  fix w
  obtain r w' where m: "m w = (r, w')" by (cases "m w")
  then have "R w w'" using assms(1) by (rule keepsD [rotated])
  then show "R w (snd (tryE m k w))"
    using m assms(2,3) by (auto simp: keeps_def dest: transpD)
qed

lemma keeps_pure:
  assumes "reflp R"
  shows "keeps R (returnE x)" and "keeps R (failE e)" and "keeps R (liftE r)"
  using assms by (auto simp: keeps_def reflp_def)

lemma keeps_logged:
  fixes m :: "('w, 'a) oper"
  assumes "keeps R m" and "reflp R" and "transp R"
  shows "keeps R (logged m)"
  unfolding logged_def
proof (rule keeps_tryE [OF assms(1) _ assms(3)])
  fix r :: "'a result"
  show "keeps R (case r of Inl (Panic p) \<Rightarrow> failE (Panic p) | _ \<Rightarrow> returnE ())"
    by (auto split: sum.split error.split intro: keeps_pure [OF assms(2)])
qed

lemma keeps_forE:
  assumes "\<And>x. x \<in> set xs \<Longrightarrow> keeps R (f x)" and "reflp R" and "transp R"
  shows "keeps R (forE f xs)"
  using assms(1)
proof (induction xs)
  case Nil
  show ?case unfolding forE.simps using assms(2) by (rule keeps_pure)
next
  case (Cons x xs)
  then show ?case using assms(3) by (auto intro!: keeps_bindE)
qed

text \<open>What the steps of a program may do to the world is a reflexive and transitive relation; an operation
  built from steps that keep it keeps it.\<close>

locale step_relation =
  fixes R :: "'w \<Rightarrow> 'w \<Rightarrow> bool"
  assumes refl_R: "reflp R" and trans_R: "transp R"
begin

lemma kept:
  "keeps R (returnE x)" "keeps R (failE e)" "keeps R (liftE r)"
  "keeps R m \<Longrightarrow> (\<And>x. keeps R (k x)) \<Longrightarrow> keeps R (bindE h m k)"
  "keeps R m \<Longrightarrow> (\<And>r. keeps R (k' r)) \<Longrightarrow> keeps R (tryE m k')"
  "(\<And>x. keeps R (f x)) \<Longrightarrow> keeps R (forE f xs)"
  "keeps R m \<Longrightarrow> keeps R (logged m)"
  by (auto intro: keeps_pure keeps_bindE keeps_tryE keeps_forE keeps_logged refl_R trans_R)

lemma kept_same: "keeps (=) m \<Longrightarrow> keeps R m"
  using refl_R by (auto simp: keeps_def reflp_def)

lemma kept_option:
  "(\<And>x. q = Some x \<Longrightarrow> keeps R (k x)) \<Longrightarrow> keeps R m \<Longrightarrow> keeps R (case q of None \<Rightarrow> m | Some x \<Rightarrow> k x)"
  by (cases q) simp_all

lemma kept_prod: "(\<And>a b. keeps R (k a b)) \<Longrightarrow> keeps R (case q of (a, b) \<Rightarrow> k a b)"
  by (cases q) simp

lemma kept_sum:
  "(\<And>e. keeps R (k e)) \<Longrightarrow> (\<And>x. keeps R (k' x)) \<Longrightarrow> keeps R (case r of Inl e \<Rightarrow> k e | Inr x \<Rightarrow> k' x)"
  by (cases r) simp_all

end

end
