(* ===== verification/GoMaps.thy ===== *)
theory GoMaps
  imports Prelude
begin

text \<open>
  Go maps. A map value is a finite map from strings. A \<open>range\<close> loop visits the keys in an
  order the runtime chooses; here the order is an argument \<open>rng\<close> of every definition with such
  a loop, a function from the key set to a list, and \<open>range_ok rng\<close> says all the language
  promises of it: each key once. Then the contract of the collections whose entries carry
  their own key, which the router configuration has eight of.
\<close>

section \<open>Range loops\<close>

type_synonym range_order = "string fset \<Rightarrow> string list"

definition range_ok :: "range_order \<Rightarrow> bool" where
  "range_ok rng \<longleftrightarrow> (\<forall>S. distinct (rng S) \<and> fset_of_list (rng S) = S)"

definition range_of :: "range_order \<Rightarrow> 'v gomap \<Rightarrow> (string \<times> 'v) list" where
  "range_of rng m = map (\<lambda>k. (k, the (fmlookup m k))) (rng (fmdom m))"

text \<open>Two orders: increasing, which \<open>encoding/json\<close> uses for maps, and decreasing.\<close>

definition rng_up :: range_order where
  "rng_up = sorted_list_of_fset"

definition rng_down :: range_order where
  "rng_down S = rev (sorted_list_of_fset S)"

lemma distinct_sorted_list_of_fset [simp]: "distinct (sorted_list_of_fset S)"
  by (simp add: sorted_list_of_fset.rep_eq)

lemma range_ok_up [simp]: "range_ok rng_up"
  by (simp add: range_ok_def rng_up_def)

lemma range_ok_down [simp]: "range_ok rng_down"
  by (simp add: range_ok_def rng_down_def fset_of_list_rev)

lemma range_ok_set:
  assumes "range_ok rng"
  shows "set (rng S) = fset S" and "distinct (rng S)"
  using assms by (auto simp: range_ok_def simp flip: fset_of_list.rep_eq)

lemma range_of_keys: "map fst (range_of rng m) = rng (fmdom m)"
  by (simp add: range_of_def comp_def)

lemma range_of_distinct: "range_ok rng \<Longrightarrow> distinct (map fst (range_of rng m))"
  by (simp add: range_of_keys range_ok_set)

lemma range_of_iff:
  "range_ok rng \<Longrightarrow> (k, v) \<in> set (range_of rng m) \<longleftrightarrow> fmlookup m k = Some v"
  by (auto simp: range_of_def range_ok_set image_iff fmlookup_dom_iff)

lemma range_of_map_of: "range_ok rng \<Longrightarrow> map_of (range_of rng m) = fmlookup m"
  by (rule ext) (metis map_of_eq_None_iff map_of_is_SomeI map_of_SomeD not_Some_eq
      range_of_distinct range_of_iff)

lemma fmap_of_list_range [simp]: "range_ok rng \<Longrightarrow> fmap_of_list (range_of rng m) = m"
  by (rule fmap_ext) (simp add: fmlookup_of_list range_of_map_of)

lemma range_of_values:
  "range_ok rng \<Longrightarrow> v \<in> set (map snd (range_of rng m)) \<longleftrightarrow> (\<exists>k. fmlookup m k = Some v)"
proof -
  assume "range_ok rng"
  then have "(\<exists>k. (k, v) \<in> set (range_of rng m)) \<longleftrightarrow> (\<exists>k. fmlookup m k = Some v)"
    by (simp add: range_of_iff)
  then show ?thesis by force
qed

lemma range_of_empty [simp]: "range_ok rng \<Longrightarrow> range_of rng fmempty = []"
  using range_ok_set [of rng "{||}"] by (simp add: range_of_def)

lemma range_of_length: "range_ok rng \<Longrightarrow> length (range_of rng m) = fcard (fmdom m)"
  by (metis distinct_card fcard.rep_eq length_map range_of_def range_ok_set)

section \<open>Building and pruning maps in a loop\<close>

definition upd_all :: "('e \<Rightarrow> string) \<Rightarrow> 'e list \<Rightarrow> 'e gomap \<Rightarrow> 'e gomap" where
  "upd_all key es m = fold (\<lambda>e. fmupd (key e) e) es m"

definition del_all :: "string list \<Rightarrow> 'e gomap \<Rightarrow> 'e gomap" where
  "del_all ks m = fold fmdrop ks m"

lemma fmlookup_del_all [simp]:
  "fmlookup (del_all ks m) k = (if k \<in> set ks then None else fmlookup m k)"
  unfolding del_all_def by (induction ks arbitrary: m) auto

lemma del_all_eq: "del_all ks m = fmfilter (\<lambda>k. k \<notin> set ks) m"
  by (rule fmap_ext) simp

lemma fmlookup_upd_all_other:
  "(\<And>e. e \<in> set es \<Longrightarrow> key e \<noteq> k) \<Longrightarrow> fmlookup (upd_all key es m) k = fmlookup m k"
  unfolding upd_all_def by (induction es arbitrary: m) auto

lemma upd_all_Cons [simp]: "upd_all key (e # es) m = upd_all key es (fmupd (key e) e m)"
  and upd_all_Nil [simp]: "upd_all key [] m = m"
  by (simp_all add: upd_all_def)

lemma fmlookup_upd_all:
  "distinct (map key es) \<Longrightarrow> e \<in> set es \<Longrightarrow> fmlookup (upd_all key es m) (key e) = Some e"
proof (induction es arbitrary: m)
  case (Cons x xs)
  show ?case
  proof (cases "e = x")
    case True
    with Cons.prems(1) have "\<And>y. y \<in> set xs \<Longrightarrow> key y \<noteq> key e"
      by (metis distinct.simps(2) image_eqI list.set_map list.simps(9))
    with True show ?thesis by (simp add: fmlookup_upd_all_other)
  next
    case False
    with Cons show ?thesis by simp
  qed
qed simp

lemma fmlookup_upd_all_cases:
  "fmlookup (upd_all key es m) k = Some e \<Longrightarrow>
     (e \<in> set es \<and> key e = k) \<or> fmlookup m k = Some e"
proof (induction es arbitrary: m)
  case (Cons x xs)
  from Cons.IH [of "fmupd (key x) x m"] Cons.prems show ?case by (auto split: if_splits)
qed simp

lemma fmdom_upd_all: "fset (fmdom (upd_all key es m)) = key ` set es \<union> fset (fmdom m)"
  by (induction es arbitrary: m) auto

text \<open>When every entry is stored under its own key, ranging over a map and storing each
  value under its key rebuilds the map, whatever the order.\<close>

definition keyed :: "('e \<Rightarrow> string) \<Rightarrow> 'e gomap \<Rightarrow> bool" where
  "keyed key m \<longleftrightarrow> fmpred (\<lambda>k e. key e = k) m"

lemma keyedD: "keyed key m \<Longrightarrow> fmlookup m k = Some e \<Longrightarrow> key e = k"
  by (auto simp: keyed_def)

lemma keyed_empty [simp, keyed_rules]: "keyed key fmempty"
  by (simp add: keyed_def)

lemma keyed_upd [keyed_rules]: "keyed key m \<Longrightarrow> key e = k \<Longrightarrow> keyed key (fmupd k e m)"
  by (auto simp: keyed_def)

lemma keyed_drop [keyed_rules]: "keyed key m \<Longrightarrow> keyed key (fmdrop k m)"
  by (auto simp: keyed_def)

lemma keyed_upd_all: "keyed key m \<Longrightarrow> keyed key (upd_all key es m)"
  by (induction es arbitrary: m) (auto intro: keyed_upd)

lemma upd_all_range:
  assumes "range_ok rng" and "keyed key m"
  shows "upd_all key (map snd (range_of rng m)) fmempty = m"
proof (rule fmap_ext)
  fix k
  let ?vs = "map snd (range_of rng m)"
  have key: "\<And>p. p \<in> set (range_of rng m) \<Longrightarrow> key (snd p) = fst p"
    using assms by (auto simp: range_of_iff dest: keyedD)
  have "map key ?vs = map fst (range_of rng m)"
    using key by (simp add: comp_def)
  then have dist: "distinct (map key ?vs)"
    using assms(1) by (metis range_of_distinct)
  show "fmlookup (upd_all key ?vs fmempty) k = fmlookup m k"
  proof (cases "fmlookup m k")
    case None
    then have "\<And>e. e \<in> set ?vs \<Longrightarrow> key e \<noteq> k"
      using assms by (force simp: range_of_iff dest: keyedD)
    then have "fmlookup (upd_all key ?vs fmempty) k = fmlookup fmempty k"
      by (rule fmlookup_upd_all_other)
    with None show ?thesis by simp
  next
    case (Some e)
    then have "e \<in> set ?vs" by (simp only: range_of_values [OF assms(1)]) (rule exI)
    moreover have "key e = k" using Some assms(2) by (rule keyedD [rotated])
    ultimately show ?thesis using fmlookup_upd_all [OF dist, of e] Some by simp
  qed
qed

section \<open>Collections whose entries carry their key\<close>

text \<open>The contract of the \<open>Add\<close> and \<open>Remove\<close> methods: \<open>put\<close> completes the entry (\<open>norm\<close>) and
  stores it under the key it carries.\<close>

locale keyed_store =
  fixes entries :: "'s \<Rightarrow> 'e gomap"
    and put :: "'e \<Rightarrow> 's \<Rightarrow> 's"
    and norm :: "'e \<Rightarrow> 'e"
    and key :: "'e \<Rightarrow> string"
  assumes entries_put: "entries (put e s) = fmupd (key (norm e)) (norm e) (entries s)"
begin

lemma put_lookup: "fmlookup (entries (put e s)) (key (norm e)) = Some (norm e)"
  by (simp add: entries_put)

lemma put_other: "k \<noteq> key (norm e) \<Longrightarrow> fmlookup (entries (put e s)) k = fmlookup (entries s) k"
  by (simp add: entries_put)

lemma put_keyed: "keyed key (entries s) \<Longrightarrow> keyed key (entries (put e s))"
  by (simp add: entries_put keyed_upd)

lemma put_overwrites:
  "key (norm e) = key (norm e') \<Longrightarrow> entries (put e (put e' s)) = entries (put e s)"
  by (simp add: entries_put)

lemma put_commute:
  "key (norm e) \<noteq> key (norm e') \<Longrightarrow> entries (put e (put e' s)) = entries (put e' (put e s))"
  by (simp add: entries_put fmupd_reorder_neq)

end

locale keyed_store_remove = keyed_store +
  fixes remove :: "string \<Rightarrow> 's \<Rightarrow> bool \<times> 's"
  assumes remove_found: "fst (remove k s) \<longleftrightarrow> k |\<in>| fmdom (entries s)"
    and entries_remove: "entries (snd (remove k s)) = fmdrop k (entries s)"
begin

lemma put_remove:
  assumes "key (norm e) |\<notin>| fmdom (entries s)"
  shows "entries (snd (remove (key (norm e)) (put e s))) = entries s"
    and "fst (remove (key (norm e)) (put e s))"
  using assms
  by (simp_all add: entries_remove entries_put fmdrop_fmupd_same fmdrop_idle remove_found)

lemma remove_keyed: "keyed key (entries s) \<Longrightarrow> keyed key (entries (snd (remove k s)))"
  by (simp add: entries_remove keyed_drop)

lemma remove_twice: "\<not> fst (remove k (snd (remove k s)))"
  by (simp add: entries_remove remove_found)

end

end
