(* ===== verification/GoStrings.thy ===== *)
theory GoStrings
  imports Prelude
begin

text \<open>
  The functions of Go's \<open>strings\<close>, \<open>strconv\<close> and \<open>path/filepath\<close> that the program calls, on byte
  strings, with the facts the component proofs need: a decimal number prints without the
  separators the program splits at and reads back, splitting is total and never empty.
\<close>

section \<open>strings\<close>

text \<open>\<open>strings.Split(s, sep)\<close> and \<open>strings.SplitN(s, sep, 2)\<close> for a one-byte separator.\<close>

fun split_on :: "char \<Rightarrow> string \<Rightarrow> string list" where
  "split_on c [] = [[]]"
| "split_on c (x # xs) =
     (if x = c then [] # split_on c xs
      else (case split_on c xs of [] \<Rightarrow> [[x]] | y # ys \<Rightarrow> (x # y) # ys))"

definition split_two :: "char \<Rightarrow> string \<Rightarrow> string list" where
  "split_two c s =
     (if c \<in> set s then [takeWhile (\<lambda>x. x \<noteq> c) s, tl (dropWhile (\<lambda>x. x \<noteq> c) s)] else [s])"

fun join_with :: "string \<Rightarrow> string list \<Rightarrow> string" where
  "join_with sep [] = []"
| "join_with sep [x] = x"
| "join_with sep (x # y # ys) = x @ sep @ join_with sep (y # ys)"

definition has_prefix :: "string \<Rightarrow> string \<Rightarrow> bool" where
  "has_prefix s p \<longleftrightarrow> prefix p s"

definition trim_prefix :: "string \<Rightarrow> string \<Rightarrow> string" where
  "trim_prefix s p = (if prefix p s then drop (length p) s else s)"

definition trim_suffix :: "string \<Rightarrow> string \<Rightarrow> string" where
  "trim_suffix s p = (if suffix p s then take (length s - length p) s else s)"

definition contains_str :: "string \<Rightarrow> string \<Rightarrow> bool" where
  "contains_str s p \<longleftrightarrow> sublist p s"

definition contains_char :: "string \<Rightarrow> char \<Rightarrow> bool" where
  "contains_char s c \<longleftrightarrow> c \<in> set s"

lemma split_on_not_Nil [simp]: "split_on c s \<noteq> []"
  by (induction s) (auto split: list.splits)

lemma split_on_length: "length (split_on c s) = Suc (count_list s c)"
proof (induction s)
  case (Cons x xs)
  then show ?case by (cases "split_on c xs") auto
qed simp

lemma split_on_join: "join_with [c] (split_on c s) = s"
proof (induction s)
  case (Cons x xs)
  obtain y ys where "split_on c xs = y # ys"
    by (meson split_on_not_Nil neq_Nil_conv)
  with Cons show ?case by (cases ys) auto
qed simp

lemma split_on_no_sep: "\<forall>p \<in> set (split_on c s). c \<notin> set p"
proof (induction s)
  case (Cons x xs)
  then show ?case by (cases "split_on c xs") auto
qed simp

lemma split_on_absent: "c \<notin> set s \<Longrightarrow> split_on c s = [s]"
  by (induction s) auto

lemma split_on_append: "c \<notin> set p \<Longrightarrow> split_on c (p @ c # s) = p # split_on c s"
  by (induction p) auto

lemma hd_split_on: "hd (split_on c s) = takeWhile (\<lambda>x. x \<noteq> c) s"
proof (induction s)
  case (Cons x xs)
  then show ?case by (cases "split_on c xs") auto
qed simp

lemma split_on_two_parts: "c \<in> set s \<Longrightarrow> 2 \<le> length (split_on c s)"
  by (simp add: split_on_length Suc_le_eq count_list_0_iff neq0_conv [symmetric] del: neq0_conv)

lemma split_two_length: "length (split_two c s) = (if c \<in> set s then 2 else 1)"
  by (simp add: split_two_def)

lemma split_two_append: "c \<notin> set p \<Longrightarrow> split_two c (p @ c # s) = [p, s]"
  by (induction p) (auto simp: split_two_def)

lemma trim_prefix_append [simp]: "trim_prefix (p @ s) p = s"
  by (simp add: trim_prefix_def)

lemma trim_suffix_append [simp]: "trim_suffix (s @ p) p = s"
  by (auto simp: trim_suffix_def suffix_def)

lemma has_prefix_append [simp]: "has_prefix (p @ s) p"
  by (simp add: has_prefix_def)

section \<open>strconv\<close>

text \<open>\<open>strconv.Itoa\<close> and \<open>strconv.Atoi\<close>. \<open>Atoi\<close> accepts an optional sign and at least one decimal
  digit, and fails outside the 64-bit range.\<close>

definition digit_char :: "nat \<Rightarrow> char" where
  "digit_char d = char_of (48 + d)"

definition digit_val :: "char \<Rightarrow> nat option" where
  "digit_val c = (let n = of_char c in if 48 \<le> n \<and> n \<le> 57 then Some (n - 48) else None)"

fun nat_digits :: "nat \<Rightarrow> string" where
  "nat_digits n =
     (if n < 10 then [digit_char n] else nat_digits (n div 10) @ [digit_char (n mod 10)])"

declare nat_digits.simps [simp del]

definition itoa :: "int \<Rightarrow> string" where
  "itoa i = (if i < 0 then CHR ''-'' # nat_digits (nat (- i)) else nat_digits (nat i))"

fun digits_val :: "nat \<Rightarrow> string \<Rightarrow> nat option" where
  "digits_val acc [] = Some acc"
| "digits_val acc (c # cs) =
     (case digit_val c of None \<Rightarrow> None | Some d \<Rightarrow> digits_val (10 * acc + d) cs)"

definition parse_nat :: "string \<Rightarrow> nat option" where
  "parse_nat s = (if s = [] then None else digits_val 0 s)"

definition atoi :: "string \<Rightarrow> int result" where
  "atoi s =
     (let neg = (case s of c # _ \<Rightarrow> c = CHR ''-'' | [] \<Rightarrow> False);
          body = (case s of c # cs \<Rightarrow> if c = CHR ''-'' \<or> c = CHR ''+'' then cs else s | [] \<Rightarrow> [])
      in (case parse_nat body of
            None \<Rightarrow> Inl (NumError s)
          | Some n \<Rightarrow>
              (let i = (if neg then - int n else int n)
               in if int64_range i then Inr i else Inl (NumError s))))"

lemma digit_val_digit_char [simp]: "d < 10 \<Longrightarrow> digit_val (digit_char d) = Some d"
  by (simp add: digit_val_def digit_char_def)

lemma digit_char_neq [simp]:
  "d < 10 \<Longrightarrow> digit_char d \<noteq> CHR ''-''" "d < 10 \<Longrightarrow> digit_char d \<noteq> CHR ''+''"
  by (auto simp: digit_char_def dest!: arg_cong [where f = "of_char :: char \<Rightarrow> nat"])

lemma nat_digits_not_Nil [simp]: "nat_digits n \<noteq> []"
  by (subst nat_digits.simps) simp

lemma nat_digits_chars: "c \<in> set (nat_digits n) \<Longrightarrow> \<exists>d < 10. c = digit_char d"
proof (induction n rule: nat_digits.induct)
  case (1 n)
  from "1.prems" have "c \<in> set (nat_digits (n div 10)) \<and> \<not> n < 10 \<or> c = digit_char (n mod 10)"
    by (subst (asm) nat_digits.simps) (auto split: if_splits)
  then show ?case
  proof
    assume "c \<in> set (nat_digits (n div 10)) \<and> \<not> n < 10"
    then show ?case using "1.IH" by blast
  next
    assume "c = digit_char (n mod 10)"
    then show ?case by (intro exI [of _ "n mod 10"]) simp
  qed
qed

lemma digits_val_append:
  "digits_val acc (xs @ ys) =
     (case digits_val acc xs of None \<Rightarrow> None | Some a \<Rightarrow> digits_val a ys)"
  by (induction xs arbitrary: acc) (auto split: option.splits)

lemma digits_val_nat_digits [simp]: "digits_val 0 (nat_digits n) = Some n"
proof (induction n rule: nat_digits.induct)
  case (1 n)
  then show ?case
    by (subst nat_digits.simps) (auto simp: digits_val_append)
qed

lemma parse_nat_digits [simp]: "parse_nat (nat_digits n) = Some n"
  by (simp add: parse_nat_def)

lemma hd_nat_digits: "\<exists>d cs. nat_digits n = digit_char d # cs \<and> d < 10"
proof -
  obtain c cs where "nat_digits n = c # cs" by (meson nat_digits_not_Nil neq_Nil_conv)
  with nat_digits_chars [of c n] show ?thesis by auto
qed

theorem atoi_itoa: "int64_range i \<Longrightarrow> atoi (itoa i) = Inr i"
proof -
  assume r: "int64_range i"
  obtain d cs where d: "nat_digits (nat i) = digit_char d # cs" "d < 10"
    using hd_nat_digits by blast
  show ?thesis
  proof (cases "i < 0")
    case True
    with r show ?thesis by (simp add: atoi_def itoa_def)
  next
    case False
    have "parse_nat (digit_char d # cs) = Some (nat i)"
      using parse_nat_digits [of "nat i"] d(1) by simp
    with False d r show ?thesis by (simp add: atoi_def itoa_def)
  qed
qed

lemma itoa_chars: "c \<in> set (itoa i) \<Longrightarrow> c = CHR ''-'' \<or> (\<exists>d < 10. c = digit_char d)"
  using nat_digits_chars by (auto simp: itoa_def split: if_splits)

lemma itoa_not_Nil [simp]: "itoa i \<noteq> []"
  by (simp add: itoa_def)

lemma inj_nat_digits: "nat_digits m = nat_digits n \<Longrightarrow> m = n"
  by (metis option.inject parse_nat_digits)

section \<open>path/filepath\<close>

text \<open>\<open>filepath.Clean\<close> on a slash-separated path: empty and \<open>.\<close> elements go, \<open>..\<close> takes back the
  element before it (and is dropped at the root, kept at the start of a relative path).
  \<open>filepath.Join\<close> leaves out empty arguments and cleans the rest joined by slashes.\<close>

fun clean_elems :: "bool \<Rightarrow> string list \<Rightarrow> string list \<Rightarrow> string list" where
  "clean_elems rooted acc [] = rev acc"
| "clean_elems rooted acc (x # xs) =
     (if x = [] \<or> x = ''.'' then clean_elems rooted acc xs
      else if x = ''..'' then
        (case acc of
           [] \<Rightarrow> clean_elems rooted (if rooted then [] else [''..'']) xs
         | a # as \<Rightarrow> clean_elems rooted (if a = ''..'' then ''..'' # acc else as) xs)
      else clean_elems rooted (x # acc) xs)"

definition path_clean :: "string \<Rightarrow> string" where
  "path_clean s =
     (let rooted = (case s of c # _ \<Rightarrow> c = CHR ''/'' | [] \<Rightarrow> False);
          body = join_with ''/'' (clean_elems rooted [] (split_on (CHR ''/'') s))
      in if rooted then ''/'' @ body else if body = [] then ''.'' else body)"

definition path_join :: "string list \<Rightarrow> string" where
  "path_join ps =
     (let qs = filter (\<lambda>p. p \<noteq> []) ps
      in if qs = [] then [] else path_clean (join_with ''/'' qs))"

end
