(* ===== verification/JsonText.thy ===== *)
theory JsonText
  imports GoStrings
begin

text \<open>
  The text layer of Go's \<open>encoding/json\<close> as the program uses it: \<open>json.Marshal\<close> and
  \<open>json.MarshalIndent(_, "", "    ")\<close> as one printer with two layouts, and the syntax half of
  \<open>json.Unmarshal\<close> as a parser from bytes to a JSON tree. The main result is that the parser
  reads back what the printer wrote, for every tree and both layouts.

  Bytes of 128 and above pass through both directions unchanged, as Go does for valid UTF-8
  other than U+2028 and U+2029; the replacement of invalid UTF-8 is not modelled. A number
  without fraction and exponent is a \<open>JNum\<close>, any other number \<open>JDec m e\<close> stands for
  \<open>m * 10 ^ e\<close>.
\<close>

datatype json =
    JNull
  | JBool bool
  | JNum int
  | JDec int int
  | JStr string
  | JArr "json list"
  | JObj "(string \<times> json) list"

section \<open>Printing\<close>

definition hex_char :: "nat \<Rightarrow> char" where
  "hex_char d = (if d < 10 then char_of (48 + d) else char_of (87 + d))"

definition escape_char :: "char \<Rightarrow> string" where
  "escape_char c =
     (if c = CHR 0x22 then [CHR 0x5C, CHR 0x22]
      else if c = CHR 0x5C then [CHR 0x5C, CHR 0x5C]
      else if c = CHR 0x0A then [CHR 0x5C, CHR ''n'']
      else if c = CHR 0x0D then [CHR 0x5C, CHR ''r'']
      else if c = CHR 0x09 then [CHR 0x5C, CHR ''t'']
      else if of_char c < (32 :: nat) \<or> c = CHR ''<'' \<or> c = CHR ''>'' \<or> c = CHR ''&'' then
        [CHR 0x5C, CHR ''u'', CHR ''0'', CHR ''0'',
         hex_char (of_char c div 16), hex_char (of_char c mod 16)]
      else [c])"

definition quote_str :: "string \<Rightarrow> string" where
  "quote_str s = CHR 0x22 # concat (map escape_char s) @ [CHR 0x22]"

text \<open>A layout gives the white space before an element at a nesting depth and after a colon.\<close>

type_synonym layout = "(nat \<Rightarrow> string) \<times> string"

definition compact :: layout where
  "compact = ((\<lambda>_. []), [])"

definition indent4 :: layout where
  "indent4 = ((\<lambda>d. CHR 0x0A # replicate (4 * d) CHR '' ''), '' '')"

fun print_value :: "layout \<Rightarrow> nat \<Rightarrow> json \<Rightarrow> string"
  and print_elems :: "layout \<Rightarrow> nat \<Rightarrow> json list \<Rightarrow> string"
  and print_members :: "layout \<Rightarrow> nat \<Rightarrow> (string \<times> json) list \<Rightarrow> string"
where
  "print_value l d JNull = ''null''"
| "print_value l d (JBool b) = (if b then ''true'' else ''false'')"
| "print_value l d (JNum n) = itoa n"
| "print_value l d (JDec m e) = itoa m @ CHR ''e'' # itoa e"
| "print_value l d (JStr s) = quote_str s"
| "print_value l d (JArr xs) =
     (if xs = [] then ''[]''
      else CHR ''['' # fst l (Suc d) @ print_elems l (Suc d) xs @ fst l d @ '']'')"
| "print_value l d (JObj kvs) =
     (if kvs = [] then ''{}''
      else CHR ''{'' # fst l (Suc d) @ print_members l (Suc d) kvs @ fst l d @ ''}'')"
| "print_elems l d [] = []"
| "print_elems l d (x # xs) =
     print_value l d x @ (if xs = [] then [] else CHR '','' # fst l d @ print_elems l d xs)"
| "print_members l d [] = []"
| "print_members l d ((k, v) # kvs) =
     quote_str k @ CHR '':'' # snd l @ print_value l d v @
       (if kvs = [] then [] else CHR '','' # fst l d @ print_members l d kvs)"

section \<open>Parsing\<close>

definition is_ws :: "char \<Rightarrow> bool" where
  "is_ws c \<longleftrightarrow> c = CHR '' '' \<or> c = CHR 0x0A \<or> c = CHR 0x0D \<or> c = CHR 0x09"

definition skip_ws :: "string \<Rightarrow> string" where
  "skip_ws s = dropWhile is_ws s"

definition hex_val :: "char \<Rightarrow> nat option" where
  "hex_val c =
     (let n = of_char c in
      if 48 \<le> n \<and> n \<le> 57 then Some (n - 48)
      else if 97 \<le> n \<and> n \<le> 102 then Some (n - 87)
      else if 65 \<le> n \<and> n \<le> 70 then Some (n - 55)
      else None)"

definition hex4 :: "char \<Rightarrow> char \<Rightarrow> char \<Rightarrow> char \<Rightarrow> nat option" where
  "hex4 a b c d =
     (case (hex_val a, hex_val b, hex_val c, hex_val d) of
        (Some w, Some x, Some y, Some z) \<Rightarrow> Some (4096 * w + 256 * x + 16 * y + z)
      | _ \<Rightarrow> None)"

text \<open>The UTF-8 encoding of a code point, with U+FFFD for a lone surrogate.\<close>

definition utf8 :: "nat \<Rightarrow> string" where
  "utf8 n =
     (if n < 128 then [char_of n]
      else if n < 2048 then [char_of (192 + n div 64), char_of (128 + n mod 64)]
      else if 55296 \<le> n \<and> n < 57344 then [char_of (239 :: nat), char_of (191 :: nat), char_of (189 :: nat)]
      else if n < 65536 then
        [char_of (224 + n div 4096), char_of (128 + n div 64 mod 64), char_of (128 + n mod 64)]
      else [char_of (240 + n div 262144), char_of (128 + n div 4096 mod 64),
            char_of (128 + n div 64 mod 64), char_of (128 + n mod 64)])"

definition unescape :: "char \<Rightarrow> char option" where
  "unescape c =
     (if c = CHR 0x22 \<or> c = CHR 0x5C \<or> c = CHR ''/'' then Some c
      else if c = CHR ''b'' then Some (CHR 0x08)
      else if c = CHR ''f'' then Some (CHR 0x0C)
      else if c = CHR ''n'' then Some (CHR 0x0A)
      else if c = CHR ''r'' then Some (CHR 0x0D)
      else if c = CHR ''t'' then Some (CHR 0x09)
      else None)"

definition prepend :: "string \<Rightarrow> (string \<times> string) option \<Rightarrow> (string \<times> string) option" where
  "prepend p r = map_option (\<lambda>(t, rest). (p @ t, rest)) r"

text \<open>The body of a string literal, after its opening quote. A high surrogate followed by an
  escaped low surrogate is one code point.\<close>

definition low_surrogate :: "string \<Rightarrow> (nat \<times> string) option" where
  "low_surrogate s =
     (case s of
        p # q # a # b # c # d # r \<Rightarrow>
          if p = CHR 0x5C \<and> q = CHR ''u'' then
            (case hex4 a b c d of
               Some m \<Rightarrow> if 56320 \<le> m \<and> m < 57344 then Some (m, r) else None
             | None \<Rightarrow> None)
          else None
      | _ \<Rightarrow> None)"

lemma low_surrogate_shorter: "low_surrogate s = Some (m, r) \<Longrightarrow> length r < length s"
  by (auto simp: low_surrogate_def split: list.splits if_splits option.splits)

function parse_str :: "string \<Rightarrow> (string \<times> string) option" where
  "parse_str [] = None"
| "parse_str (c # cs) =
     (if c = CHR 0x22 then Some ([], cs)
      else if c = CHR 0x5C then
        (case cs of
           [] \<Rightarrow> None
         | e # r \<Rightarrow>
             if e = CHR ''u'' then
               (case r of
                  h1 # h2 # h3 # h4 # r' \<Rightarrow>
                    (case hex4 h1 h2 h3 h4 of
                       None \<Rightarrow> None
                     | Some n \<Rightarrow>
                         if 55296 \<le> n \<and> n < 56320 then
                           (case low_surrogate r' of
                              Some (m, r'') \<Rightarrow>
                                prepend (utf8 (65536 + 1024 * (n - 55296) + (m - 56320)))
                                  (parse_str r'')
                            | None \<Rightarrow> prepend (utf8 n) (parse_str r'))
                         else prepend (utf8 n) (parse_str r'))
                | _ \<Rightarrow> None)
             else (case unescape e of None \<Rightarrow> None | Some x \<Rightarrow> prepend [x] (parse_str r)))
      else if of_char c < (32 :: nat) then None
      else prepend [c] (parse_str cs))"
  by pat_completeness auto
termination
  by (relation "measure length") (auto dest: low_surrogate_shorter)

definition is_digit :: "char \<Rightarrow> bool" where
  "is_digit c \<longleftrightarrow> digit_val c \<noteq> None"

definition signed :: "bool \<Rightarrow> nat \<Rightarrow> int" where
  "signed neg n = (if neg then - int n else int n)"

definition digits_num :: "string \<Rightarrow> nat" where
  "digits_num ds = (case digits_val 0 ds of Some n \<Rightarrow> n | None \<Rightarrow> 0)"

text \<open>An optional exponent: the value, the rest, and whether one was there. \<open>None\<close> is a letter \<open>e\<close>
  without digits.\<close>

definition parse_exp :: "string \<Rightarrow> (bool \<times> int \<times> string) option" where
  "parse_exp s =
     (case s of
        [] \<Rightarrow> Some (False, 0, [])
      | c # cs \<Rightarrow>
          if c = CHR ''e'' \<or> c = CHR ''E'' then
            (let neg = (case cs of x # _ \<Rightarrow> x = CHR ''-'' | [] \<Rightarrow> False);
                 body = (case cs of x # xs \<Rightarrow> if x = CHR ''-'' \<or> x = CHR ''+'' then xs else cs | [] \<Rightarrow> []);
                 ds = takeWhile is_digit body
             in if ds = [] then None
                else Some (True, signed neg (digits_num ds), dropWhile is_digit body))
          else Some (False, 0, s))"

definition parse_frac :: "string \<Rightarrow> (string \<times> string) option" where
  "parse_frac s =
     (case s of
        c # cs \<Rightarrow>
          if c = CHR ''.'' then
            (if takeWhile is_digit cs = [] then None
             else Some (takeWhile is_digit cs, dropWhile is_digit cs))
          else Some ([], s)
      | [] \<Rightarrow> Some ([], []))"

definition parse_num :: "string \<Rightarrow> (json \<times> string) option" where
  "parse_num s =
     (let neg = (case s of c # _ \<Rightarrow> c = CHR ''-'' | [] \<Rightarrow> False);
          body = (if neg then tl s else s);
          ds = takeWhile is_digit body
      in if ds = [] \<or> (1 < length ds \<and> hd ds = CHR ''0'') then None
         else
           (case parse_frac (dropWhile is_digit body) of
              None \<Rightarrow> None
            | Some (fs, r1) \<Rightarrow>
                (case parse_exp r1 of
                   None \<Rightarrow> None
                 | Some (has_exp, e, r2) \<Rightarrow>
                     if fs = [] \<and> \<not> has_exp then Some (JNum (signed neg (digits_num ds)), r2)
                     else Some (JDec (signed neg (digits_num (ds @ fs))) (e - int (length fs)), r2))))"

definition parse_lit :: "string \<Rightarrow> (json \<times> string) option" where
  "parse_lit s =
     (if prefix ''null'' s then Some (JNull, drop 4 s)
      else if prefix ''true'' s then Some (JBool True, drop 4 s)
      else if prefix ''false'' s then Some (JBool False, drop 5 s)
      else parse_num s)"

fun parse_value :: "nat \<Rightarrow> string \<Rightarrow> (json \<times> string) option"
  and parse_elems :: "nat \<Rightarrow> string \<Rightarrow> (json list \<times> string) option"
  and parse_members :: "nat \<Rightarrow> string \<Rightarrow> ((string \<times> json) list \<times> string) option"
where
  "parse_value 0 s = None"
| "parse_value (Suc n) s =
     (case skip_ws s of
        [] \<Rightarrow> None
      | c # cs \<Rightarrow>
          if c = CHR ''['' then
            (case skip_ws cs of
               [] \<Rightarrow> None
             | d # ds \<Rightarrow>
                 if d = CHR '']'' then Some (JArr [], ds)
                 else map_option (\<lambda>(xs, r). (JArr xs, r)) (parse_elems n (d # ds)))
          else if c = CHR ''{'' then
            (case skip_ws cs of
               [] \<Rightarrow> None
             | d # ds \<Rightarrow>
                 if d = CHR ''}'' then Some (JObj [], ds)
                 else map_option (\<lambda>(kvs, r). (JObj kvs, r)) (parse_members n (d # ds)))
          else if c = CHR 0x22 then map_option (\<lambda>(t, r). (JStr t, r)) (parse_str cs)
          else parse_lit (c # cs))"
| "parse_elems 0 s = None"
| "parse_elems (Suc n) s =
     (case parse_value n s of
        None \<Rightarrow> None
      | Some (x, r) \<Rightarrow>
          (case skip_ws r of
             [] \<Rightarrow> None
           | c # cs \<Rightarrow>
               if c = CHR '','' then map_option (\<lambda>(xs, r'). (x # xs, r')) (parse_elems n cs)
               else if c = CHR '']'' then Some ([x], cs)
               else None))"
| "parse_members 0 s = None"
| "parse_members (Suc n) s =
     (case skip_ws s of
        [] \<Rightarrow> None
      | q # qs \<Rightarrow>
          if q \<noteq> CHR 0x22 then None
          else
            (case parse_str qs of
               None \<Rightarrow> None
             | Some (k, r) \<Rightarrow>
                 (case skip_ws r of
                    [] \<Rightarrow> None
                  | c # cs \<Rightarrow>
                      if c \<noteq> CHR '':'' then None
                      else
                        (case parse_value n cs of
                           None \<Rightarrow> None
                         | Some (v, r') \<Rightarrow>
                             (case skip_ws r' of
                                [] \<Rightarrow> None
                              | e # es \<Rightarrow>
                                  if e = CHR '','' then
                                    map_option (\<lambda>(kvs, r''). ((k, v) # kvs, r'')) (parse_members n es)
                                  else if e = CHR ''}'' then Some ([(k, v)], es)
                                  else None)))))"

definition parse_json :: "string \<Rightarrow> json option" where
  "parse_json s =
     (case parse_value (Suc (2 * length s)) s of
        Some (j, r) \<Rightarrow> if skip_ws r = [] then Some j else None
      | None \<Rightarrow> None)"

section \<open>Round trip\<close>

lemma hex_val_hex_char [simp]: "d < 16 \<Longrightarrow> hex_val (hex_char d) = Some d"
  by (auto simp: hex_val_def hex_char_def Let_def)

lemma of_char_less_256 [simp]: "of_char (c :: char) < (256 :: nat)"
  using of_char_mod_256 [of c, where 'a = nat] by (metis mod_less_divisor zero_less_numeral)

lemma hex4_low_byte:
  "n < 256 \<Longrightarrow> hex4 (CHR ''0'') (CHR ''0'') (hex_char (n div 16)) (hex_char (n mod 16)) = Some n"
proof -
  assume "n < 256"
  then have "hex_val (hex_char (n div 16)) = Some (n div 16)"
    and "hex_val (hex_char (n mod 16)) = Some (n mod 16)"
    by (auto intro: hex_val_hex_char)
  moreover have "hex_val (CHR ''0'') = Some 0" by (simp add: hex_val_def)
  ultimately show ?thesis by (simp add: hex4_def)
qed

lemma parse_str_u:
  "hex4 h1 h2 h3 h4 = Some n \<Longrightarrow> n < 128 \<Longrightarrow>
     parse_str (CHR 0x5C # CHR ''u'' # h1 # h2 # h3 # h4 # t) = prepend [char_of n] (parse_str t)"
  by (simp add: utf8_def)

lemma parse_str_escape: "parse_str (escape_char c @ t) = prepend [c] (parse_str t)"
proof -
  have lt: "of_char c < (128 :: nat)"
    if "of_char c < (32 :: nat) \<or> c = CHR ''<'' \<or> c = CHR ''>'' \<or> c = CHR ''&''"
    using that by auto
  have hex: "hex4 (CHR ''0'') (CHR ''0'') (hex_char (of_char c div 16)) (hex_char (of_char c mod 16))
      = Some (of_char c)"
    by (rule hex4_low_byte) (rule of_char_less_256)
  note u = parse_str_u [OF hex lt]
  consider "c = CHR 0x22" | "c = CHR 0x5C" | "c = CHR 0x0A" | "c = CHR 0x0D" | "c = CHR 0x09"
    | (special) "c \<noteq> CHR 0x22" "c \<noteq> CHR 0x5C" "c \<noteq> CHR 0x0A" "c \<noteq> CHR 0x0D" "c \<noteq> CHR 0x09"
        "of_char c < (32 :: nat) \<or> c = CHR ''<'' \<or> c = CHR ''>'' \<or> c = CHR ''&''"
    | (plain) "c \<noteq> CHR 0x22" "c \<noteq> CHR 0x5C" "\<not> of_char c < (32 :: nat)"
        "\<not> (c = CHR ''<'' \<or> c = CHR ''>'' \<or> c = CHR ''&'')"
    by blast
  then show ?thesis
  proof cases
    case special
    then have "escape_char c = [CHR 0x5C, CHR ''u'', CHR ''0'', CHR ''0'',
         hex_char (of_char c div 16), hex_char (of_char c mod 16)]"
      by (simp only: escape_char_def if_False if_True)
    with u [OF special(6)] show ?thesis by (simp only: append_Cons append_Nil char_of_char)
  next
    case plain
    have "c \<noteq> CHR 0x0A" "c \<noteq> CHR 0x0D" "c \<noteq> CHR 0x09"
      using plain(3) by (intro notI; simp)+
    with plain have "escape_char c = [c]"
      by (simp only: escape_char_def if_False de_Morgan_disj simp_thms)
    with plain(1-3) show ?thesis by (simp only: append_Cons append_Nil parse_str.simps if_False)
  qed (simp_all add: escape_char_def unescape_def)
qed

lemma parse_str_quote: "parse_str (concat (map escape_char s) @ CHR 0x22 # rest) = Some (s, rest)"
  by (induction s) (simp_all add: parse_str_escape prepend_def)

lemma skip_ws_append: "\<forall>c \<in> set w. is_ws c \<Longrightarrow> skip_ws (w @ s) = skip_ws s"
  by (simp add: skip_ws_def dropWhile_append2)

lemma skip_ws_Cons: "\<not> is_ws c \<Longrightarrow> skip_ws (c # s) = c # s"
  by (simp add: skip_ws_def)

text \<open>A text after a number: it must not go on with the number.\<close>

definition delim :: "string \<Rightarrow> bool" where
  "delim s \<longleftrightarrow> (case s of [] \<Rightarrow> True
     | c # _ \<Rightarrow> \<not> is_digit c \<and> c \<noteq> CHR ''.'' \<and> c \<noteq> CHR ''e'' \<and> c \<noteq> CHR ''E'')"

lemma is_digit_nat_digits: "\<forall>c \<in> set (nat_digits n). is_digit c"
  using nat_digits_chars by (fastforce simp: is_digit_def)

lemma digits_num_nat_digits [simp]: "digits_num (nat_digits n) = n"
  by (simp add: digits_num_def)

lemma takeWhile_nat_digits:
  assumes "case r of [] \<Rightarrow> True | c # _ \<Rightarrow> \<not> is_digit c"
  shows "takeWhile is_digit (nat_digits n @ r) = nat_digits n"
    and "dropWhile is_digit (nat_digits n @ r) = r"
  using assms is_digit_nat_digits [of n]
  by (auto simp: takeWhile_append2 dropWhile_append2 split: list.splits)

lemma hd_nat_digits_nonzero: "0 < n \<Longrightarrow> hd (nat_digits n) \<noteq> CHR ''0''"
proof (induction n rule: nat_digits.induct)
  case (1 n)
  have ne: "digit_char d \<noteq> CHR ''0''" if "0 < d" "d < 10" for d
    using that by (auto simp: digit_char_def dest!: arg_cong [where f = "of_char :: char \<Rightarrow> nat"])
  from 1 show ?case
    by (subst nat_digits.simps) (auto simp: ne)
qed

lemma nat_digits_no_leading_zero:
  "\<not> (1 < length (nat_digits n) \<and> hd (nat_digits n) = CHR ''0'')"
proof (cases "n = 0")
  case True
  then show ?thesis by (simp add: nat_digits.simps)
qed (simp add: hd_nat_digits_nonzero)

lemma is_digit_consts [simp]:
  "\<not> is_digit (CHR ''-'')" "\<not> is_digit (CHR ''+'')" "\<not> is_digit (CHR ''e'')"
  "\<not> is_digit (CHR '','')" "\<not> is_digit (CHR '']'')" "\<not> is_digit (CHR ''}'')"
  by (simp_all add: is_digit_def digit_val_def)

lemma hd_nat_digits_append:
  "(case nat_digits n @ r of [] \<Rightarrow> False | c # _ \<Rightarrow> c = CHR ''-'') = False"
  "(case nat_digits n @ r of [] \<Rightarrow> [] | c # cs \<Rightarrow> if c = CHR ''-'' \<or> c = CHR ''+'' then cs else c # cs)
     = nat_digits n @ r"
  using hd_nat_digits [of n] by auto

text \<open>What the number parser does after an optional sign and a printed natural number.\<close>

lemma parse_num_itoa:
  assumes "case r of [] \<Rightarrow> True | c # _ \<Rightarrow> \<not> is_digit c"
  shows "parse_num (itoa i @ r) =
     (case parse_frac r of
        None \<Rightarrow> None
      | Some (fs, r1) \<Rightarrow>
          (case parse_exp r1 of
             None \<Rightarrow> None
           | Some (has_exp, e, r2) \<Rightarrow>
               if fs = [] \<and> \<not> has_exp then Some (JNum i, r2)
               else Some (JDec (signed (i < 0) (digits_num (nat_digits (nat \<bar>i\<bar>) @ fs)))
                      (e - int (length fs)), r2)))"
proof (cases "i < 0")
  case True
  then show ?thesis
    using takeWhile_nat_digits [OF assms] nat_digits_no_leading_zero [of "nat (- i)"]
    by (auto simp: parse_num_def itoa_def signed_def Let_def split: option.splits prod.splits)
next
  case False
  then show ?thesis
    using takeWhile_nat_digits [OF assms] nat_digits_no_leading_zero [of "nat i"]
      hd_nat_digits_append(1) [of "nat i" r]
    by (simp add: parse_num_def itoa_def signed_def Let_def split: option.splits prod.splits)
qed

lemma parse_frac_delim: "delim r \<or> (\<exists>s. r = CHR ''e'' # s) \<Longrightarrow> parse_frac r = Some ([], r)"
  by (auto simp: parse_frac_def delim_def split: list.splits)

lemma parse_exp_delim: "delim r \<Longrightarrow> parse_exp r = Some (False, 0, r)"
  by (auto simp: parse_exp_def delim_def split: list.splits)

lemma delim_no_digit: "delim r \<Longrightarrow> (case r of [] \<Rightarrow> True | c # _ \<Rightarrow> \<not> is_digit c)"
  by (auto simp: delim_def split: list.splits)

lemma parse_exp_itoa:
  "delim r \<Longrightarrow> parse_exp (CHR ''e'' # itoa e @ r) = Some (True, e, r)"
proof -
  assume "delim r"
  note tw = takeWhile_nat_digits [OF delim_no_digit [OF this]]
  obtain d cs where d: "nat_digits (nat e) = digit_char d # cs" "d < 10"
    using hd_nat_digits by blast
  show ?thesis
  proof (cases "e < 0")
    case True
    then show ?thesis by (simp add: parse_exp_def itoa_def tw signed_def Let_def)
  next
    case False
    with d tw [of "nat e"] show ?thesis
      using digits_num_nat_digits [of "nat e"]
      by (simp add: parse_exp_def itoa_def signed_def Let_def)
  qed
qed

lemma parse_num_JNum: "delim r \<Longrightarrow> parse_num (itoa i @ r) = Some (JNum i, r)"
  by (simp add: parse_num_itoa delim_no_digit parse_frac_delim parse_exp_delim)

lemma parse_num_JDec:
  "delim r \<Longrightarrow> parse_num (itoa m @ CHR ''e'' # itoa e @ r) = Some (JDec m e, r)"
  by (simp add: parse_num_itoa parse_frac_delim parse_exp_itoa signed_def)

definition good_layout :: "layout \<Rightarrow> bool" where
  "good_layout l \<longleftrightarrow> (\<forall>d. \<forall>c \<in> set (fst l d). is_ws c) \<and> (\<forall>c \<in> set (snd l). is_ws c)"

lemma good_compact [simp]: "good_layout compact"
  by (simp add: good_layout_def compact_def)

lemma good_indent4 [simp]: "good_layout indent4"
  by (auto simp: good_layout_def indent4_def is_ws_def)

lemma good_layout_ws:
  "good_layout l \<Longrightarrow> skip_ws (fst l d @ s) = skip_ws s"
  "good_layout l \<Longrightarrow> skip_ws (snd l @ s) = skip_ws s"
  by (simp_all add: good_layout_def skip_ws_append)

lemma parse_skip_ws:
  "skip_ws s = skip_ws s' \<Longrightarrow> parse_value n s = parse_value n s'"
  "skip_ws s = skip_ws s' \<Longrightarrow> parse_elems n s = parse_elems n s'"
  "skip_ws s = skip_ws s' \<Longrightarrow> parse_members n s = parse_members n s'"
proof -
  show v: "skip_ws s = skip_ws s' \<Longrightarrow> parse_value n s = parse_value n s'" for n
    by (cases n) simp_all
  show "skip_ws s = skip_ws s' \<Longrightarrow> parse_elems n s = parse_elems n s'"
  proof (cases n)
    case (Suc m)
    then show "skip_ws s = skip_ws s' \<Longrightarrow> parse_elems n s = parse_elems n s'"
      using v [of m] by simp
  qed simp
  show "skip_ws s = skip_ws s' \<Longrightarrow> parse_members n s = parse_members n s'"
    by (cases n) simp_all
qed

lemma digit_char_not_ws: "d < 10 \<Longrightarrow> \<not> is_ws (digit_char d)"
  by (auto simp: is_ws_def digit_char_def dest!: arg_cong [where f = "of_char :: char \<Rightarrow> nat"])

lemma hd_itoa: "\<exists>c cs. itoa i = c # cs \<and> (c = CHR ''-'' \<or> is_digit c)"
proof (cases "i < 0")
  case False
  then show ?thesis using hd_nat_digits [of "nat i"] by (auto simp: itoa_def is_digit_def)
qed (simp add: itoa_def)

lemma is_digit_not:
  assumes "c = CHR ''-'' \<or> is_digit c"
  shows "c \<noteq> CHR ''[''" "c \<noteq> CHR ''{''" "c \<noteq> CHR 0x22" "\<not> is_ws c" "c \<noteq> CHR ''n''"
    "c \<noteq> CHR ''t''" "c \<noteq> CHR ''f''" "c \<noteq> CHR '']''"
  subgoal using assms by (intro notI) (simp add: is_digit_def digit_val_def)
  subgoal using assms by (intro notI) (simp add: is_digit_def digit_val_def)
  subgoal using assms by (intro notI) (simp add: is_digit_def digit_val_def)
  subgoal using assms unfolding is_ws_def
    by (intro notI, elim disjE) (simp_all add: is_digit_def digit_val_def)
  subgoal using assms by (intro notI) (simp add: is_digit_def digit_val_def)
  subgoal using assms by (intro notI) (simp add: is_digit_def digit_val_def)
  subgoal using assms by (intro notI) (simp add: is_digit_def digit_val_def)
  subgoal using assms by (intro notI) (simp add: is_digit_def digit_val_def)
  done

lemma parse_value_num:
  assumes "parse_num (itoa i @ s) = r"
  shows "parse_value (Suc n) (itoa i @ s) = r"
proof -
  obtain c cs where c: "itoa i = c # cs" "c = CHR ''-'' \<or> is_digit c"
    using hd_itoa by blast
  note n = is_digit_not [OF c(2)]
  have "parse_lit (c # cs @ s) = r"
    using assms by (simp add: parse_lit_def c(1) n(5-7) [symmetric])
  with c(1) n(1-4) show ?thesis
    by (simp only: parse_value.simps skip_ws_Cons append_Cons list.case if_False not_False_eq_True)
qed

text \<open>The first byte of a printed value is neither white space nor a closing bracket.\<close>

lemma hd_print_value:
  "\<exists>c cs. print_value l d j = c # cs \<and> \<not> is_ws c \<and> c \<noteq> CHR '']''"
proof -
  have first: "\<exists>c cs. itoa i = c # cs \<and> \<not> is_ws c \<and> c \<noteq> CHR '']''" for i
    using hd_itoa [of i] is_digit_not(4,8) by blast
  show ?thesis
proof (cases j)
  case (JNum n)
  then show ?thesis using first [of n] by force
next
  case (JDec m e)
  then show ?thesis using first [of m] by force
qed (simp_all add: quote_str_def is_ws_def)
qed

lemma print_value_not_Nil [simp]: "print_value l d j \<noteq> []"
  using hd_print_value [of l d j] by auto

lemma hd_print_elems:
  "xs \<noteq> [] \<Longrightarrow> \<exists>c cs. print_elems l d xs = c # cs \<and> \<not> is_ws c \<and> c \<noteq> CHR '']''"
  using hd_print_value [of l d "hd xs"] by (cases xs) auto

lemma hd_print_members: "kvs \<noteq> [] \<Longrightarrow> \<exists>cs. print_members l d kvs = CHR 0x22 # cs"
  by (cases kvs) (auto simp: quote_str_def)

lemma delim_Cons_ws: "good_layout l \<Longrightarrow> c \<in> {CHR '','', CHR '']'', CHR ''}''} \<Longrightarrow> delim (fst l d @ c # s)"
proof (cases "fst l d")
  case Nil
  moreover assume "c \<in> {CHR '','', CHR '']'', CHR ''}''}"
  ultimately show ?thesis by (auto simp: delim_def is_digit_def digit_val_def)
next
  case (Cons w ws)
  moreover assume "good_layout l"
  ultimately have "is_ws w" by (metis good_layout_def list.set_intros(1))
  with Cons show ?thesis by (auto simp: delim_def is_ws_def is_digit_def digit_val_def)
qed

lemma delim_Cons: "c \<in> {CHR '','', CHR '']'', CHR ''}''} \<Longrightarrow> delim (c # s)"
  by (auto simp: delim_def is_digit_def digit_val_def)

lemma skip_ws_consts [simp]:
  "skip_ws (CHR ''['' # s) = CHR ''['' # s" "skip_ws (CHR '']'' # s) = CHR '']'' # s"
  "skip_ws (CHR ''{'' # s) = CHR ''{'' # s" "skip_ws (CHR ''}'' # s) = CHR ''}'' # s"
  "skip_ws (CHR '','' # s) = CHR '','' # s" "skip_ws (CHR '':'' # s) = CHR '':'' # s"
  "skip_ws (CHR 0x22 # s) = CHR 0x22 # s" "skip_ws (CHR ''n'' # s) = CHR ''n'' # s"
  "skip_ws (CHR ''t'' # s) = CHR ''t'' # s" "skip_ws (CHR ''f'' # s) = CHR ''f'' # s"
  by (simp_all add: skip_ws_def is_ws_def)

lemma parse_print:
  shows "good_layout l \<Longrightarrow> length (print_value l d j) \<le> n \<Longrightarrow> delim rest \<Longrightarrow>
      parse_value n (print_value l d j @ rest) = Some (j, rest)"
    and "good_layout l \<Longrightarrow> xs \<noteq> [] \<Longrightarrow> length (print_elems l d xs) < n \<Longrightarrow>
      parse_elems n (print_elems l d xs @ fst l d' @ CHR '']'' # rest) = Some (xs, rest)"
    and "good_layout l \<Longrightarrow> kvs \<noteq> [] \<Longrightarrow> length (print_members l d kvs) < n \<Longrightarrow>
      parse_members n (print_members l d kvs @ fst l d' @ CHR ''}'' # rest) = Some (kvs, rest)"
proof (induction l d j and l d xs and l d kvs arbitrary: n rest and n d' rest and n d' rest
    rule: print_value_print_elems_print_members.induct)
  case (1 l d)
  then obtain m where "n = Suc m" by (cases n) auto
  then show ?case by (simp add: parse_lit_def)
next
  case (2 l d b)
  then obtain m where "n = Suc m" by (cases n) (auto split: if_splits)
  then show ?case by (simp add: parse_lit_def)
next
  case (3 l d i)
  then obtain m where "n = Suc m" by (cases n) auto
  with 3 show ?case by (simp add: parse_value_num [OF parse_num_JNum] del: parse_value.simps)
next
  case (4 l d i e)
  then obtain m where "n = Suc m" by (cases n) auto
  with 4 show ?case by (simp add: parse_value_num [OF parse_num_JDec] del: parse_value.simps)
next
  case (5 l d s)
  then obtain m where "n = Suc m" by (cases n) (auto simp: quote_str_def)
  then show ?case by (simp add: quote_str_def parse_str_quote)
next
  case (6 l d xs)
  show ?case
  proof (cases "xs = []")
    case False
    with "6.prems" obtain m where m: "n = Suc m" "length (print_elems l (Suc d) xs) < m"
      by (cases n) auto
    obtain c cs where c: "print_elems l (Suc d) xs = c # cs" "\<not> is_ws c" "c \<noteq> CHR '']''"
      using hd_print_elems [OF False] by blast
    have "parse_elems m (print_elems l (Suc d) xs @ fst l d @ CHR '']'' # rest) = Some (xs, rest)"
      using "6.IH" False m(2) \<open>good_layout l\<close> by blast
    with False m(1) c \<open>good_layout l\<close> show ?thesis
      by (simp add: good_layout_ws skip_ws_Cons)
  next
    case True
    with "6.prems" show ?thesis by (cases n) auto
  qed
next
  case (7 l d kvs)
  show ?case
  proof (cases "kvs = []")
    case False
    with "7.prems" obtain m where m: "n = Suc m" "length (print_members l (Suc d) kvs) < m"
      by (cases n) auto
    obtain cs where c: "print_members l (Suc d) kvs = CHR 0x22 # cs"
      using hd_print_members [OF False] by blast
    have "parse_members m (print_members l (Suc d) kvs @ fst l d @ CHR ''}'' # rest) = Some (kvs, rest)"
      using "7.IH" False m(2) \<open>good_layout l\<close> by blast
    with False m(1) c \<open>good_layout l\<close> show ?thesis
      by (simp add: good_layout_ws)
  next
    case True
    with "7.prems" show ?thesis by (cases n) auto
  qed
next
  case (8 l d)
  then show ?case by simp
next
  case (9 l d x xs)
  then obtain m where m: "n = Suc m" by (cases n) auto
  show ?case
  proof (cases "xs = []")
    case True
    have "parse_value m (print_value l d x @ fst l d' @ CHR '']'' # rest) = Some (x, fst l d' @ CHR '']'' # rest)"
      using "9.IH"(1) "9.prems" m True delim_Cons_ws by simp
    with True m "9.prems" show ?thesis by (simp add: good_layout_ws)
  next
    case False
    let ?tail = "CHR '','' # fst l d @ print_elems l d xs @ fst l d' @ CHR '']'' # rest"
    have v: "parse_value m (print_value l d x @ ?tail) = Some (x, ?tail)"
      using "9.IH"(1) "9.prems" m False delim_Cons by simp
    have "parse_elems m (print_elems l d xs @ fst l d' @ CHR '']'' # rest) = Some (xs, rest)"
      using "9.IH"(2) "9.prems" m False by simp
    then have "parse_elems m (fst l d @ print_elems l d xs @ fst l d' @ CHR '']'' # rest) = Some (xs, rest)"
      using parse_skip_ws(2) [OF good_layout_ws(1) [OF "9.prems"(1)]] by simp
    with v False m show ?thesis by simp
  qed
next
  case (10 l d)
  then show ?case by simp
next
  case (11 l d k v kvs)
  then obtain m where m: "n = Suc m" by (cases n) auto
  show ?case
  proof (cases "kvs = []")
    case True
    have "parse_value m (print_value l d v @ fst l d' @ CHR ''}'' # rest) = Some (v, fst l d' @ CHR ''}'' # rest)"
      using "11.IH"(1) "11.prems" m True delim_Cons_ws by simp
    then have "parse_value m (snd l @ print_value l d v @ fst l d' @ CHR ''}'' # rest)
        = Some (v, fst l d' @ CHR ''}'' # rest)"
      using parse_skip_ws(1) [OF good_layout_ws(2) [OF "11.prems"(1)]] by simp
    with True m "11.prems" show ?thesis
      by (simp add: good_layout_ws quote_str_def parse_str_quote)
  next
    case False
    let ?tail = "CHR '','' # fst l d @ print_members l d kvs @ fst l d' @ CHR ''}'' # rest"
    have "parse_value m (print_value l d v @ ?tail) = Some (v, ?tail)"
      using "11.IH"(1) "11.prems" m False delim_Cons by simp
    then have v: "parse_value m (snd l @ print_value l d v @ ?tail) = Some (v, ?tail)"
      using parse_skip_ws(1) [OF good_layout_ws(2) [OF "11.prems"(1)]] by simp
    have "parse_members m (print_members l d kvs @ fst l d' @ CHR ''}'' # rest) = Some (kvs, rest)"
      using "11.IH"(2) "11.prems" m False by simp
    then have "parse_members m (fst l d @ print_members l d kvs @ fst l d' @ CHR ''}'' # rest) = Some (kvs, rest)"
      using parse_skip_ws(3) [OF good_layout_ws(1) [OF "11.prems"(1)]] by simp
    with v False m show ?thesis by (simp add: quote_str_def parse_str_quote)
  qed
qed

lemma parse_json_print:
  assumes "good_layout l"
  shows "parse_json (print_value l d j) = Some j"
proof -
  have "parse_value (Suc (2 * length (print_value l d j))) (print_value l d j @ []) = Some (j, [])"
    using assms by (intro parse_print(1)) (simp_all add: delim_def)
  then show ?thesis by (simp add: parse_json_def skip_ws_def)
qed

text \<open>The fuel of the parser is enough: a successful parse consumes input, so no more than one unit
  per byte is ever spent, and more fuel changes no result.\<close>

lemma skip_ws_length [simp]: "length (skip_ws s) \<le> length s"
  by (simp add: skip_ws_def length_dropWhile_le)

lemma skip_ws_le: "skip_ws s = c # cs \<Longrightarrow> length cs < length s"
  using skip_ws_length [of s] by simp

lemma prepend_Some: "prepend p r = Some (t, rest) \<longleftrightarrow> (\<exists>t'. r = Some (t', rest) \<and> t = p @ t')"
  by (auto simp: prepend_def)

lemma parse_str_shorter: "parse_str s = Some (t, r) \<Longrightarrow> length r < length s"
proof (induction s arbitrary: t r rule: length_induct)
  case (1 s)
  have IH: "length r' < length s" if "parse_str s' = Some (t', r')" "length s' < length s" for s' t' r'
    using 1(1) that less_trans by blast
  show ?case
  proof (cases s)
    case Nil
    with 1(2) show ?thesis by simp
  next
    case (Cons c cs)
    have low: "length r'' < length s"
      if "low_surrogate r' = Some (m, q)" "parse_str q = Some (t', r'')" "length r' < length s" for r' m q t' r''
      using that by (meson IH less_trans low_surrogate_shorter)
    from 1(2) Cons show ?thesis
      using IH low
      by (simp split: if_splits list.splits option.splits prod.splits) (fastforce simp: prepend_Some)+
  qed
qed

lemma parse_frac_le: "parse_frac s = Some (fs, r) \<Longrightarrow> length r \<le> length s"
  by (auto simp: parse_frac_def split: list.splits if_splits intro: le_SucI length_dropWhile_le)

lemma parse_exp_le: "parse_exp s = Some (b, e, r) \<Longrightarrow> length r \<le> length s"
  by (auto simp: parse_exp_def Let_def split: list.splits if_splits
      intro: le_SucI length_dropWhile_le)

lemma parse_num_shorter: "parse_num s = Some (j, r) \<Longrightarrow> length r < length s"
proof -
  assume p: "parse_num s = Some (j, r)"
  define body where "body = (if (case s of c # _ \<Rightarrow> c = CHR ''-'' | [] \<Rightarrow> False) then tl s else s)"
  from p have ds: "takeWhile is_digit body \<noteq> []"
    and "length r \<le> length (dropWhile is_digit body)"
    by (auto simp: parse_num_def Let_def body_def [symmetric] split: if_splits option.splits
        dest!: parse_frac_le parse_exp_le)
  moreover have "length (dropWhile is_digit body) < length body"
    using ds by (cases body) (auto simp: less_Suc_eq_le length_dropWhile_le split: if_splits)
  moreover have "length body \<le> length s" by (simp add: body_def)
  ultimately show ?thesis by simp
qed

lemma parse_lit_shorter: "parse_lit s = Some (j, r) \<Longrightarrow> length r < length s"
  by (auto simp: parse_lit_def prefix_def split: if_splits dest: parse_num_shorter)

lemma parse_shorter:
  shows "parse_value n s = Some (j, r) \<Longrightarrow> length r < length s"
    and "parse_elems n s = Some (js, r) \<Longrightarrow> length r < length s"
    and "parse_members n s = Some (kvs, r) \<Longrightarrow> length r < length s"
proof (induction n arbitrary: s j js kvs r)
  case (Suc n)
  note shorter = Suc.IH skip_ws_le parse_str_shorter parse_lit_shorter
  {
    case 1
    then show ?case by (auto split: list.splits if_splits dest!: shorter)
  next
    case 2
    then show ?case by (auto split: list.splits if_splits option.splits dest!: shorter)
  next
    case 3
    then show ?case by (auto split: list.splits if_splits option.splits dest!: shorter)
  }
qed simp_all

lemma parse_fuel:
  shows "2 * length s < n \<Longrightarrow> parse_value (Suc n) s = parse_value n s"
    and "Suc (2 * length s) < n \<Longrightarrow> parse_elems (Suc n) s = parse_elems n s"
    and "Suc (2 * length s) < n \<Longrightarrow> parse_members (Suc n) s = parse_members n s"
proof (induction n arbitrary: s)
  case (Suc n)
  note V = Suc.IH(1) and E = Suc.IH(2) and M = Suc.IH(3)
  {
    case 1
    show ?case
    proof (cases "skip_ws s")
      case (Cons c cs)
      show ?thesis
      proof (cases "skip_ws cs")
        case (Cons d ds)
        have "Suc (2 * length (d # ds)) < n"
          using 1 skip_ws_le [OF Cons] skip_ws_le [OF \<open>skip_ws s = c # cs\<close>] by simp
        then show ?thesis
          by (simp only: parse_value.simps(2) [of "Suc n" s] parse_value.simps(2) [of n s]
              Cons \<open>skip_ws s = c # cs\<close> list.case E M)
      qed (simp add: \<open>skip_ws s = c # cs\<close>)
    qed simp
  next
    case 2
    then have v: "parse_value (Suc n) s = parse_value n s" by (intro V) simp
    show ?case
    proof (cases "parse_value n s")
      case (Some p)
      obtain x r where p: "p = (x, r)" by (cases p)
      have e: "parse_elems (Suc n) cs = parse_elems n cs" if "skip_ws r = c # cs" for c cs
        using 2 Some p parse_shorter(1) [of n s x r] skip_ws_le [OF that] by (intro E) simp
      show ?thesis
        by (simp only: parse_elems.simps(2) [of "Suc n" s] parse_elems.simps(2) [of n s]
            v Some p option.case prod.case)
          (auto simp del: parse_elems.simps simp: e split: list.split)
    qed (simp add: v del: parse_value.simps)
  next
    case 3
    show ?case
    proof (cases "skip_ws s")
      case (Cons q qs)
      have v: "parse_value (Suc n) cs = parse_value n cs"
        and m: "\<And>v r' e es. parse_value n cs = Some (v, r') \<Longrightarrow> skip_ws r' = e # es \<Longrightarrow>
          parse_members (Suc n) es = parse_members n es"
        if "parse_str qs = Some (k, r)" "skip_ws r = c # cs" for k r c cs
      proof -
        have l: "length cs < length s"
          using 3 skip_ws_le [OF Cons] parse_str_shorter [OF that(1)] skip_ws_le [OF that(2)] by simp
        then show "parse_value (Suc n) cs = parse_value n cs"
          using 3 by (intro V) simp
        show "parse_members (Suc n) es = parse_members n es"
          if "parse_value n cs = Some (v, r')" "skip_ws r' = e # es" for v r' e es
          using 3 l parse_shorter(1) [OF that(1)] skip_ws_le [OF that(2)] by (intro M) simp
      qed
      show ?thesis
        by (simp only: parse_members.simps(2) [of "Suc n" s] parse_members.simps(2) [of n s] Cons list.case)
          (auto simp del: parse_value.simps parse_members.simps simp: v m split: option.split list.split)
    qed simp
  }
qed simp_all

lemma parse_json_fuel:
  assumes "2 * length s < n"
  shows "parse_value n s = parse_value (Suc (2 * length s)) s"
proof -
  have "parse_value (Suc (2 * length s) + k) s = parse_value (Suc (2 * length s)) s" for k
    by (induction k) (simp_all del: parse_value.simps add: parse_fuel(1))
  from this [of "n - Suc (2 * length s)"] assms show ?thesis by simp
qed

end
