(* ===== verification/JsonCodec.thy ===== *)
theory JsonCodec
  imports GoMaps JsonText
begin

text \<open>
  The value half of \<open>encoding/json\<close>: how a Go struct is turned into a JSON object and back. A
  struct is described, as its field tags do for the Go runtime, by a list of field descriptors
  (name in the object, \<open>omitempty\<close> or not, how to encode and decode). Decoding follows Go: fields
  are matched exactly first and then ignoring case, unknown fields are skipped, \<open>null\<close> leaves a
  value as it is, a value of the wrong kind is an error, later duplicates win. The locale
  \<open>json_codec\<close> is the contract a type must meet, and its lemmas lift the round trip to slices,
  maps and texts.

  A nil and an empty slice are one list value here (the encoder writes \<open>[]\<close> for both), and the
  value \<open>null\<close> read into a map is the empty map.
\<close>

section \<open>Codecs of basic types\<close>

definition type_error :: "json \<Rightarrow> error" where
  "type_error j = JsonError (''cannot unmarshal '' @ print_value compact 0 j)"

definition enc_str :: "string \<Rightarrow> json" where
  "enc_str s = JStr s"

definition dec_str :: "json \<Rightarrow> string \<Rightarrow> string result" where
  "dec_str j cur = (case j of JStr s \<Rightarrow> Inr s | JNull \<Rightarrow> Inr cur | _ \<Rightarrow> Inl (type_error j))"

definition enc_bool :: "bool \<Rightarrow> json" where
  "enc_bool b = JBool b"

definition dec_bool :: "json \<Rightarrow> bool \<Rightarrow> bool result" where
  "dec_bool j cur = (case j of JBool b \<Rightarrow> Inr b | JNull \<Rightarrow> Inr cur | _ \<Rightarrow> Inl (type_error j))"

definition enc_int :: "int \<Rightarrow> json" where
  "enc_int i = JNum i"

definition dec_int :: "json \<Rightarrow> int \<Rightarrow> int result" where
  "dec_int j cur =
     (case j of
        JNum n \<Rightarrow> if int64_range n then Inr n else Inl (type_error j)
      | JNull \<Rightarrow> Inr cur
      | _ \<Rightarrow> Inl (type_error j))"

definition enc_int32 :: "int32 \<Rightarrow> json" where
  "enc_int32 w = JNum (sint w)"

definition dec_int32 :: "json \<Rightarrow> int32 \<Rightarrow> int32 result" where
  "dec_int32 j cur =
     (case j of
        JNum n \<Rightarrow> if int32_range n then Inr (word_of_int n) else Inl (type_error j)
      | JNull \<Rightarrow> Inr cur
      | _ \<Rightarrow> Inl (type_error j))"

section \<open>Structs\<close>

record 's jfield =
  jname :: string
  jget :: "'s \<Rightarrow> json option"
  jset :: "json \<Rightarrow> 's \<Rightarrow> 's result"
  jcopy :: "'s \<Rightarrow> 's \<Rightarrow> 's"

text \<open>\<open>field_of n omit emp enc dec get upd\<close>: the field read by \<open>get\<close> and written by \<open>upd\<close>.
  \<open>jcopy\<close> is not used by the coding, only to state what the fields together cover.\<close>

definition field_of ::
  "string \<Rightarrow> bool \<Rightarrow> ('v \<Rightarrow> bool) \<Rightarrow> ('v \<Rightarrow> json) \<Rightarrow> (json \<Rightarrow> 'v \<Rightarrow> 'v result) \<Rightarrow>
     ('s \<Rightarrow> 'v) \<Rightarrow> (('v \<Rightarrow> 'v) \<Rightarrow> 's \<Rightarrow> 's) \<Rightarrow> 's jfield" where
  "field_of n omit emp enc dec get upd =
     \<lparr>jname = n,
      jget = (\<lambda>s. if omit \<and> emp (get s) then None else Some (enc (get s))),
      jset = (\<lambda>j s. bindR (dec j (get s)) (\<lambda>v. Inr (upd (\<lambda>_. v) s))),
      jcopy = (\<lambda>s t. upd (\<lambda>_. get s) t)\<rparr>"

definition str_field :: "string \<Rightarrow> bool \<Rightarrow> ('s \<Rightarrow> string) \<Rightarrow> ((string \<Rightarrow> string) \<Rightarrow> 's \<Rightarrow> 's) \<Rightarrow> 's jfield"
where "str_field n omit get upd = field_of n omit (\<lambda>v. v = []) enc_str dec_str get upd"

definition bool_field :: "string \<Rightarrow> bool \<Rightarrow> ('s \<Rightarrow> bool) \<Rightarrow> ((bool \<Rightarrow> bool) \<Rightarrow> 's \<Rightarrow> 's) \<Rightarrow> 's jfield"
where "bool_field n omit get upd = field_of n omit (\<lambda>v. \<not> v) enc_bool dec_bool get upd"

definition int_field :: "string \<Rightarrow> bool \<Rightarrow> ('s \<Rightarrow> int) \<Rightarrow> ((int \<Rightarrow> int) \<Rightarrow> 's \<Rightarrow> 's) \<Rightarrow> 's jfield"
where "int_field n omit get upd = field_of n omit (\<lambda>v. v = 0) enc_int dec_int get upd"

definition int32_field ::
  "string \<Rightarrow> bool \<Rightarrow> ('s \<Rightarrow> int32) \<Rightarrow> ((int32 \<Rightarrow> int32) \<Rightarrow> 's \<Rightarrow> 's) \<Rightarrow> 's jfield"
where "int32_field n omit get upd = field_of n omit (\<lambda>v. v = 0) enc_int32 dec_int32 get upd"

definition to_lower :: "char \<Rightarrow> char" where
  "to_lower c =
     (if 65 \<le> (of_char c :: nat) \<and> of_char c \<le> (90 :: nat) then char_of (of_char c + (32 :: nat)) else c)"

definition find_field :: "'s jfield list \<Rightarrow> string \<Rightarrow> 's jfield option" where
  "find_field fs k =
     (case find (\<lambda>f. jname f = k) fs of
        Some f \<Rightarrow> Some f
      | None \<Rightarrow> find (\<lambda>f. map to_lower (jname f) = map to_lower k) fs)"

definition encode_struct :: "'s jfield list \<Rightarrow> 's \<Rightarrow> json" where
  "encode_struct fs s =
     JObj (List.map_filter (\<lambda>f. map_option (\<lambda>j. (jname f, j)) (jget f s)) fs)"

definition decode_member :: "'s jfield list \<Rightarrow> string \<times> json \<Rightarrow> 's \<Rightarrow> 's result" where
  "decode_member fs kv s =
     (case find_field fs (fst kv) of None \<Rightarrow> Inr s | Some f \<Rightarrow> jset f (snd kv) s)"

definition decode_struct :: "'s jfield list \<Rightarrow> json \<Rightarrow> 's \<Rightarrow> 's result" where
  "decode_struct fs j s =
     (case j of
        JNull \<Rightarrow> Inr s
      | JObj kvs \<Rightarrow> foldR (decode_member fs) kvs s
      | _ \<Rightarrow> Inl (type_error j))"

text \<open>The descriptors of a struct are lawful for a value when decoding each field, at the point
  where the fields before it are already copied, copies it, and a field that is left out is
  already there.\<close>

fun lawful :: "'s jfield list \<Rightarrow> 's \<Rightarrow> 's \<Rightarrow> bool" where
  "lawful [] s t \<longleftrightarrow> t = s"
| "lawful (f # fs) s t \<longleftrightarrow>
     (case jget f s of None \<Rightarrow> jcopy f s t = t | Some j \<Rightarrow> jset f j t = Inr (jcopy f s t)) \<and>
     lawful fs s (jcopy f s t)"

lemma find_field_member:
  "distinct (map jname fs) \<Longrightarrow> f \<in> set fs \<Longrightarrow> find_field fs (jname f) = Some f"
proof -
  assume d: "distinct (map jname fs)" and f: "f \<in> set fs"
  have "find (\<lambda>g. jname g = jname f) fs = Some f"
    using d f by (induction fs) auto
  then show ?thesis by (simp add: find_field_def)
qed

lemma decode_encode_fields:
  assumes "distinct (map jname gs)" and "set fs \<subseteq> set gs" and "lawful fs s t"
  shows "foldR (decode_member gs)
           (List.map_filter (\<lambda>f. map_option (\<lambda>j. (jname f, j)) (jget f s)) fs) t = Inr s"
  using assms(2,3)
proof (induction fs arbitrary: t)
  case Nil
  then show ?case by (simp add: map_filter_simps)
next
  case (Cons f fs)
  have find: "find_field gs (jname f) = Some f"
    using assms(1) Cons.prems(1) by (simp add: find_field_member)
  with Cons show ?case
    by (auto simp: map_filter_simps decode_member_def split: option.splits)
qed

lemma decode_encode_struct:
  "distinct (map jname fs) \<Longrightarrow> lawful fs s t \<Longrightarrow> decode_struct fs (encode_struct fs s) t = Inr s"
  by (simp add: decode_struct_def encode_struct_def decode_encode_fields)

lemma field_of_sel [simp]:
  "jname (field_of n omit emp enc dec get upd) = n"
  "jcopy (field_of n omit emp enc dec get upd) s t = upd (\<lambda>_. get s) t"
  by (simp_all add: field_of_def)

text \<open>When one field is lawful.\<close>

lemma lawful_field_of [simp]:
  assumes "dec (enc (get s)) (get t) = Inr (get s)"
  shows "lawful (field_of n omit emp enc dec get upd # fs) s t \<longleftrightarrow>
     (omit \<and> emp (get s) \<longrightarrow> upd (\<lambda>_. get s) t = t) \<and> lawful fs s (upd (\<lambda>_. get s) t)"
  using assms by (auto simp: field_of_def)

declare lawful.simps(2) [simp del]

lemma basic_codecs [simp]:
  "dec_str (enc_str s) cur = Inr s"
  "dec_bool (enc_bool b) b' = Inr b"
  "int64_range i \<Longrightarrow> dec_int (enc_int i) i' = Inr i"
  "dec_int32 (enc_int32 w) w' = Inr w"
  by (simp_all add: dec_str_def enc_str_def dec_bool_def enc_bool_def dec_int_def enc_int_def
      dec_int32_def enc_int32_def)

lemmas field_defs = str_field_def bool_field_def int_field_def int32_field_def

section \<open>Slices, maps, texts\<close>

definition enc_list :: "('v \<Rightarrow> json) \<Rightarrow> 'v list \<Rightarrow> json" where
  "enc_list enc xs = JArr (map enc xs)"

definition dec_list :: "(json \<Rightarrow> 'v \<Rightarrow> 'v result) \<Rightarrow> 'v \<Rightarrow> json \<Rightarrow> 'v list \<Rightarrow> 'v list result" where
  "dec_list dec zero j cur =
     (case j of
        JArr js \<Rightarrow> mapR (\<lambda>x. dec x zero) js
      | JNull \<Rightarrow> Inr []
      | _ \<Rightarrow> Inl (type_error j))"

text \<open>A pointer field: \<open>null\<close> is nil, an object fills a new value.\<close>

definition enc_ptr :: "('v \<Rightarrow> json) \<Rightarrow> 'v option \<Rightarrow> json" where
  "enc_ptr enc p = (case p of None \<Rightarrow> JNull | Some v \<Rightarrow> enc v)"

definition dec_ptr ::
  "(json \<Rightarrow> 'v \<Rightarrow> 'v result) \<Rightarrow> 'v \<Rightarrow> json \<Rightarrow> 'v option \<Rightarrow> 'v option result" where
  "dec_ptr dec zero j cur =
     (case j of
        JNull \<Rightarrow> Inr None
      | _ \<Rightarrow> bindR (dec j (case cur of None \<Rightarrow> zero | Some v \<Rightarrow> v)) (\<lambda>v. Inr (Some v)))"

text \<open>Maps are written with their keys in increasing order.\<close>

definition enc_map :: "('v \<Rightarrow> json) \<Rightarrow> 'v gomap \<Rightarrow> json" where
  "enc_map enc m = JObj (map (\<lambda>(k, v). (k, enc v)) (sorted_list_of_fmap m))"

definition dec_map :: "(json \<Rightarrow> 'v \<Rightarrow> 'v result) \<Rightarrow> 'v \<Rightarrow> json \<Rightarrow> 'v gomap \<Rightarrow> 'v gomap result" where
  "dec_map dec zero j m =
     (case j of
        JObj kvs \<Rightarrow> foldR (\<lambda>(k, x) m. bindR (dec x zero) (\<lambda>v. Inr (fmupd k v m))) kvs m
      | JNull \<Rightarrow> Inr fmempty
      | _ \<Rightarrow> Inl (type_error j))"

text \<open>\<open>json.Marshal\<close>, \<open>json.MarshalIndent(_, "", "    ")\<close> and \<open>json.Unmarshal\<close>.\<close>

definition marshal :: "('v \<Rightarrow> json) \<Rightarrow> 'v \<Rightarrow> string" where
  "marshal enc v = print_value compact 0 (enc v)"

definition marshal_indent :: "('v \<Rightarrow> json) \<Rightarrow> 'v \<Rightarrow> string" where
  "marshal_indent enc v = print_value indent4 0 (enc v)"

definition unmarshal :: "(json \<Rightarrow> 'v \<Rightarrow> 'v result) \<Rightarrow> string \<Rightarrow> 'v \<Rightarrow> 'v result" where
  "unmarshal dec text cur =
     (case parse_json text of None \<Rightarrow> Inl (JsonError text) | Some j \<Rightarrow> dec j cur)"

lemma unmarshal_marshal [simp]:
  "unmarshal dec (marshal enc v) cur = dec (enc v) cur"
  "unmarshal dec (marshal_indent enc v) cur = dec (enc v) cur"
  by (simp_all add: unmarshal_def marshal_def marshal_indent_def parse_json_print)

lemma distinct_keys_sorted [simp]: "distinct (map fst (sorted_list_of_fmap m))"
  by (simp add: sorted_list_of_fmap_def comp_def)

lemma foldR_fmupd:
  "\<forall>v \<in> snd ` set kvs. dec (enc v) zero = Inr v \<Longrightarrow>
     foldR (\<lambda>(k, x) m. bindR (dec x zero) (\<lambda>v. Inr (fmupd k v m)))
       (map (\<lambda>(k, v). (k, enc v)) kvs) m = Inr (fold (\<lambda>(k, v). fmupd k v) kvs m)"
  by (induction kvs arbitrary: m) auto

lemma fold_fmupd_lookup:
  "distinct (map fst kvs) \<Longrightarrow>
     fmlookup (fold (\<lambda>(k, v). fmupd k v) kvs m) k =
       (case map_of kvs k of Some v \<Rightarrow> Some v | None \<Rightarrow> fmlookup m k)"
proof (induction kvs arbitrary: m)
  case (Cons p kvs)
  obtain k' v' where "p = (k', v')" by (cases p)
  with Cons show ?case by (auto split: option.splits dest: map_of_SomeD simp: image_iff)
qed simp

text \<open>What a reader produces: a property every field reader keeps holds of the struct read, and a
  number read is in the range of its type.\<close>

lemma foldR_keeps:
  "(\<And>x b b'. x \<in> set xs \<Longrightarrow> P b \<Longrightarrow> f x b = Inr b' \<Longrightarrow> P b') \<Longrightarrow> P b \<Longrightarrow> foldR f xs b = Inr b' \<Longrightarrow> P b'"
proof (induction xs arbitrary: b)
  case (Cons x xs)
  from Cons.prems(3) obtain c where c: "f x b = Inr c" "foldR f xs c = Inr b'"
    by (auto simp: bindR_Inr_iff)
  have "P c" by (rule Cons.prems(1) [OF _ Cons.prems(2) c(1)]) simp
  then show ?case
    by (rule Cons.IH [rotated, OF _ c(2)]) (meson Cons.prems(1) list.set_intros(2))
qed simp

lemma mapR_all: "(\<And>x y. f x = Inr y \<Longrightarrow> P y) \<Longrightarrow> mapR f xs = Inr ys \<Longrightarrow> list_all P ys"
  by (induction xs arbitrary: ys) (auto simp: bindR_Inr_iff)

lemma find_field_in: "find_field fs k = Some f \<Longrightarrow> f \<in> set fs"
  by (auto simp: find_field_def find_Some_iff split: option.splits)

lemma decode_struct_keeps:
  assumes "\<And>f j s s'. f \<in> set fs \<Longrightarrow> P s \<Longrightarrow> jset f j s = Inr s' \<Longrightarrow> P s'"
    and "P s" and "decode_struct fs j s = Inr s'"
  shows "P s'"
proof (cases j)
  case (JObj kvs)
  with assms(3) have "foldR (decode_member fs) kvs s = Inr s'" by (simp add: decode_struct_def)
  then show ?thesis
  proof (rule foldR_keeps [where P = P and xs = kvs, rotated 2])
    fix kv b b'
    assume "P b" and b': "decode_member fs kv b = Inr b'"
    show "P b'"
    proof (cases "find_field fs (fst kv)")
      case None
      with b' \<open>P b\<close> show ?thesis by (simp add: decode_member_def)
    next
      case (Some f)
      with b' have "jset f (snd kv) b = Inr b'" by (simp add: decode_member_def)
      then show ?thesis by (rule assms(1) [OF find_field_in [OF Some] \<open>P b\<close>])
    qed
  qed (rule assms(2))
qed (use assms(2,3) in \<open>simp_all add: decode_struct_def\<close>)

lemma dec_int_range: "dec_int j cur = Inr n \<Longrightarrow> int64_range cur \<Longrightarrow> int64_range n"
  by (auto simp: dec_int_def split: json.splits if_splits)

lemma jset_field_of:
  "jset (field_of n omit emp enc dec get upd) j s = Inr s' \<longleftrightarrow>
     (\<exists>v. dec j (get s) = Inr v \<and> s' = upd (\<lambda>_. v) s)"
  by (auto simp: field_of_def bindR_Inr_iff)

locale json_codec =
  fixes enc :: "'v \<Rightarrow> json"
    and dec :: "json \<Rightarrow> 'v \<Rightarrow> 'v result"
    and zero :: 'v
    and ok :: "'v \<Rightarrow> bool"
  assumes dec_enc: "ok v \<Longrightarrow> dec (enc v) zero = Inr v"
begin

lemma dec_enc_list: "list_all ok vs \<Longrightarrow> dec_list dec zero (enc_list enc vs) cur = Inr vs"
  unfolding dec_list_def enc_list_def
  by (simp, rule mapR_map_Inr) (simp add: list_all_iff dec_enc)

lemma dec_enc_map:
  assumes "fmpred (\<lambda>_. ok) m"
  shows "dec_map dec zero (enc_map enc m) fmempty = Inr m"
proof -
  let ?kvs = "sorted_list_of_fmap m"
  have mem: "(k, v) \<in> set ?kvs \<Longrightarrow> fmlookup m k = Some v" for k v
    by (metis distinct_keys_sorted map_of_is_SomeI map_of_sorted_list)
  have "fold (\<lambda>(k, v). fmupd k v) ?kvs fmempty = m"
    by (rule fmap_ext) (simp add: fold_fmupd_lookup split: option.split)
  moreover have "\<forall>v \<in> snd ` set ?kvs. dec (enc v) zero = Inr v"
    using fmpredD [OF assms mem] by (auto intro!: dec_enc)
  ultimately show ?thesis
    by (simp add: dec_map_def enc_map_def foldR_fmupd)
qed

lemma text_round_trip: "ok v \<Longrightarrow> unmarshal dec (marshal enc v) zero = Inr v"
  by (simp add: dec_enc)

lemma list_text_round_trip:
  "list_all ok vs \<Longrightarrow> unmarshal (dec_list dec zero) (marshal (enc_list enc) vs) [] = Inr vs"
  by (simp add: dec_enc_list)

lemma map_text_round_trip:
  "fmpred (\<lambda>_. ok) m \<Longrightarrow>
     unmarshal (dec_map dec zero) (marshal (enc_map enc) m) fmempty = Inr m"
  by (simp add: dec_enc_map)

end

end
