(* ===== verification/Types.thy ===== *)
theory Types
  imports JsonCodec
begin

text \<open>
  The data of \<open>api/types\<close> (\<open>types.go\<close>, \<open>client.go\<close>): constants, host paths, the service
  definitions shared by the command line and the service controller, the site configuration, and
  their JSON codecs. Field names carry a short prefix of their struct, because two Isabelle
  records cannot share a field name.
\<close>

section \<open>Constants\<close>

definition DefaultBridgeName :: string where
  "DefaultBridgeName = ''skupper0''"

definition TransportModeInterior :: string where
  "TransportModeInterior = ''interior''"

definition TransportModeEdge :: string where
  "TransportModeEdge = ''edge''"

definition TransportDeploymentName :: string where
  "TransportDeploymentName = ''skupper-router''"

definition TransportComponentName :: string where
  "TransportComponentName = ''router''"

definition DefaultTransportImage :: string where
  "DefaultTransportImage = ''quay.io/skupper/qdrouterd:0.4''"

definition TransportLivenessPort :: int32 where
  "TransportLivenessPort = 9090"

definition TransportEnvConfig :: string where
  "TransportEnvConfig = ''QDROUTERD_CONF''"

definition TransportNetworkName :: string where
  "TransportNetworkName = ''skupper-network''"

definition TransportConfigFile :: string where
  "TransportConfigFile = ''qdrouterd.json''"

definition ControllerDeploymentName :: string where
  "ControllerDeploymentName = ''skupper-service-controller''"

definition ControllerComponentName :: string where
  "ControllerComponentName = ''controller''"

definition DefaultControllerImage :: string where
  "DefaultControllerImage = ''quay.io/skupper/skupper-docker-controller''"

definition TokenGeneratedBy :: string where
  "TokenGeneratedBy = ''skupper.io'' @ ''/generated-by''"

definition ConsolePortName :: string where
  "ConsolePortName = ''console''"

definition ConsoleDefaultServicePort :: int32 where
  "ConsoleDefaultServicePort = 8080"

definition ConsoleAuthModeInternal :: string where
  "ConsoleAuthModeInternal = ''internal''"

definition ConsoleAuthModeUnsecured :: string where
  "ConsoleAuthModeUnsecured = ''unsecured''"

definition AmqpDefaultPort :: int32 where
  "AmqpDefaultPort = 5672"

definition AmqpsDefaultPort :: int32 where
  "AmqpsDefaultPort = 5671"

definition EdgeListenerPort :: int32 where
  "EdgeListenerPort = 45671"

definition InterRouterListenerPort :: int32 where
  "InterRouterListenerPort = 55671"

definition InterRouterProfile :: string where
  "InterRouterProfile = ''skupper-internal''"

definition ServiceSyncAddress :: string where
  "ServiceSyncAddress = ''mc/$skupper-service-sync''"

definition ConnectorRoleInterRouter :: string where
  "ConnectorRoleInterRouter = ''inter-router''"

definition ConnectorRoleEdge :: string where
  "ConnectorRoleEdge = ''edge''"

lemmas const_defs = DefaultBridgeName_def TransportModeInterior_def TransportModeEdge_def
  TransportDeploymentName_def TransportComponentName_def DefaultTransportImage_def
  TransportLivenessPort_def TransportEnvConfig_def TransportNetworkName_def
  TransportConfigFile_def ControllerDeploymentName_def ControllerComponentName_def
  DefaultControllerImage_def TokenGeneratedBy_def ConsolePortName_def
  ConsoleDefaultServicePort_def ConsoleAuthModeInternal_def ConsoleAuthModeUnsecured_def
  AmqpDefaultPort_def AmqpsDefaultPort_def EdgeListenerPort_def InterRouterListenerPort_def
  InterRouterProfile_def ServiceSyncAddress_def ConnectorRoleInterRouter_def
  ConnectorRoleEdge_def

section \<open>Host paths\<close>

datatype Path =
    HostPath | CertsPath | ConnectionsPath | ConfigPath
  | ConsoleUsersPath | SaslConfigPath | ServicesPath | SitesPath

fun skupperPaths :: "Path \<Rightarrow> string" where
  "skupperPaths HostPath = ''''"
| "skupperPaths CertsPath = ''qpid-dispatch-certs''"
| "skupperPaths ConnectionsPath = ''connections''"
| "skupperPaths ConfigPath = ''config''"
| "skupperPaths ConsoleUsersPath = ''console-users''"
| "skupperPaths SaslConfigPath = ''sasl-config''"
| "skupperPaths ServicesPath = ''services''"
| "skupperPaths SitesPath = ''sites''"

text \<open>\<open>env\<close> is \<open>os.Getenv\<close>: the empty string for an unset variable.\<close>

type_synonym environment = "string \<Rightarrow> string"

definition GetSkupperPath :: "environment \<Rightarrow> Path \<Rightarrow> string" where
  "GetSkupperPath env p = path_join [env ''SKUPPER_TMPDIR'', ''skupper'', skupperPaths p]"

section \<open>Service definitions\<close>

record Headless =
  hl_Name :: string
  hl_Size :: int
  hl_TargetPort :: int

record ServiceInterfaceTarget =
  st_Name :: string
  st_Selector :: string
  st_TargetPort :: int
  st_Service :: string

record ServiceInterface =
  si_Address :: string
  si_Protocol :: string
  si_Port :: int
  si_EventChannel :: bool
  si_Aggregate :: string
  si_Headless :: "Headless option"
  si_Targets :: "ServiceInterfaceTarget list"
  si_Origin :: string
  si_Alias :: string

definition zero_Headless :: Headless where
  "zero_Headless = \<lparr>hl_Name = [], hl_Size = 0, hl_TargetPort = 0\<rparr>"

definition zero_ServiceInterfaceTarget :: ServiceInterfaceTarget where
  "zero_ServiceInterfaceTarget =
     \<lparr>st_Name = [], st_Selector = [], st_TargetPort = 0, st_Service = []\<rparr>"

definition zero_ServiceInterface :: ServiceInterface where
  "zero_ServiceInterface =
     \<lparr>si_Address = [], si_Protocol = [], si_Port = 0, si_EventChannel = False, si_Aggregate = [],
      si_Headless = None, si_Targets = [], si_Origin = [], si_Alias = []\<rparr>"

text \<open>The method set of \<open>ByServiceInterfaceAddress\<close>. Both sides of the comparison read the same
  element, as in the source.\<close>

definition ByAddress_Less :: "ServiceInterface list \<Rightarrow> nat \<Rightarrow> nat \<Rightarrow> bool" where
  "ByAddress_Less a i j \<longleftrightarrow> si_Address (a ! i) > si_Address (a ! i)"

definition ByAddress_Swap :: "ServiceInterface list \<Rightarrow> nat \<Rightarrow> nat \<Rightarrow> ServiceInterface list" where
  "ByAddress_Swap a i j = a[i := a ! j, j := a ! i]"

section \<open>Codecs\<close>

definition headless_fields :: "Headless jfield list" where
  "headless_fields =
     [str_field ''name'' False hl_Name hl_Name_update,
      int_field ''size'' False hl_Size hl_Size_update,
      int_field ''targetPort'' True hl_TargetPort hl_TargetPort_update]"

definition enc_Headless :: "Headless \<Rightarrow> json" where
  "enc_Headless = encode_struct headless_fields"

definition dec_Headless :: "json \<Rightarrow> Headless \<Rightarrow> Headless result" where
  "dec_Headless = decode_struct headless_fields"

definition headless_ok :: "Headless \<Rightarrow> bool" where
  "headless_ok h \<longleftrightarrow> int64_range (hl_Size h) \<and> int64_range (hl_TargetPort h)"

definition target_fields :: "ServiceInterfaceTarget jfield list" where
  "target_fields =
     [str_field ''name'' True st_Name st_Name_update,
      str_field ''selector'' False st_Selector st_Selector_update,
      int_field ''targetPort'' True st_TargetPort st_TargetPort_update,
      str_field ''service'' True st_Service st_Service_update]"

definition enc_target :: "ServiceInterfaceTarget \<Rightarrow> json" where
  "enc_target = encode_struct target_fields"

definition dec_target :: "json \<Rightarrow> ServiceInterfaceTarget \<Rightarrow> ServiceInterfaceTarget result" where
  "dec_target = decode_struct target_fields"

definition target_ok :: "ServiceInterfaceTarget \<Rightarrow> bool" where
  "target_ok t \<longleftrightarrow> int64_range (st_TargetPort t)"

definition service_fields :: "ServiceInterface jfield list" where
  "service_fields =
     [str_field ''address'' False si_Address si_Address_update,
      str_field ''protocol'' False si_Protocol si_Protocol_update,
      int_field ''port'' False si_Port si_Port_update,
      bool_field ''eventchannel'' True si_EventChannel si_EventChannel_update,
      str_field ''aggregate'' True si_Aggregate si_Aggregate_update,
      field_of ''headless'' True (\<lambda>h. h = None) (enc_ptr enc_Headless)
        (dec_ptr dec_Headless zero_Headless) si_Headless si_Headless_update,
      field_of ''targets'' False (\<lambda>_. False) (enc_list enc_target)
        (dec_list dec_target zero_ServiceInterfaceTarget) si_Targets si_Targets_update,
      str_field ''origin'' True si_Origin si_Origin_update,
      str_field ''alias'' True si_Alias si_Alias_update]"

definition enc_service :: "ServiceInterface \<Rightarrow> json" where
  "enc_service = encode_struct service_fields"

definition dec_service :: "json \<Rightarrow> ServiceInterface \<Rightarrow> ServiceInterface result" where
  "dec_service = decode_struct service_fields"

definition service_ok :: "ServiceInterface \<Rightarrow> bool" where
  "service_ok s \<longleftrightarrow> int64_range (si_Port s) \<and> list_all target_ok (si_Targets s) \<and>
     (case si_Headless s of None \<Rightarrow> True | Some h \<Rightarrow> headless_ok h)"

interpretation headless: json_codec enc_Headless dec_Headless zero_Headless headless_ok
proof unfold_locales
  fix h :: Headless
  assume "headless_ok h"
  then show "dec_Headless (enc_Headless h) zero_Headless = Inr h"
    unfolding enc_Headless_def dec_Headless_def
    by (cases h, intro decode_encode_struct)
      (simp_all add: headless_fields_def field_defs zero_Headless_def headless_ok_def)
qed

interpretation target: json_codec enc_target dec_target zero_ServiceInterfaceTarget target_ok
proof unfold_locales
  fix t :: ServiceInterfaceTarget
  assume "target_ok t"
  then show "dec_target (enc_target t) zero_ServiceInterfaceTarget = Inr t"
    unfolding enc_target_def dec_target_def
    by (cases t, intro decode_encode_struct)
      (simp_all add: target_fields_def field_defs zero_ServiceInterfaceTarget_def target_ok_def)
qed

lemma dec_ptr_headless:
  "(case h of None \<Rightarrow> True | Some h' \<Rightarrow> headless_ok h') \<Longrightarrow>
     dec_ptr dec_Headless zero_Headless (enc_ptr enc_Headless h) None = Inr h"
  using headless.dec_enc
  by (cases h) (auto simp: enc_ptr_def dec_ptr_def enc_Headless_def encode_struct_def)

interpretation service: json_codec enc_service dec_service zero_ServiceInterface service_ok
proof unfold_locales
  fix s :: ServiceInterface
  assume "service_ok s"
  then show "dec_service (enc_service s) zero_ServiceInterface = Inr s"
    unfolding enc_service_def dec_service_def
    by (cases s, intro decode_encode_struct)
      (simp_all add: service_fields_def field_defs zero_ServiceInterface_def service_ok_def
        dec_ptr_headless target.dec_enc_list)
qed

text \<open>The content of the file \<open>skupper-services\<close>: a map from address to definition.\<close>

type_synonym service_defs = "ServiceInterface gomap"

definition marshal_defs :: "service_defs \<Rightarrow> string" where
  "marshal_defs = marshal (enc_map enc_service)"

definition unmarshal_defs :: "string \<Rightarrow> service_defs result" where
  "unmarshal_defs text = unmarshal (dec_map dec_service zero_ServiceInterface) text fmempty"

definition defs_ok :: "service_defs \<Rightarrow> bool" where
  "defs_ok m \<longleftrightarrow> fmpred (\<lambda>_. service_ok) m"

lemma unmarshal_marshal_defs [simp]: "defs_ok m \<Longrightarrow> unmarshal_defs (marshal_defs m) = Inr m"
  unfolding unmarshal_defs_def marshal_defs_def defs_ok_def
  by (rule service.map_text_round_trip)

lemma defs_ok_intros [keyed_rules]:
  "defs_ok fmempty"
  "defs_ok m \<Longrightarrow> service_ok s \<Longrightarrow> defs_ok (fmupd k s m)"
  "defs_ok m \<Longrightarrow> defs_ok (fmdrop k m)"
  by (auto simp: defs_ok_def)

lemma defs_okD: "defs_ok m \<Longrightarrow> fmlookup m k = Some s \<Longrightarrow> service_ok s"
  by (auto simp: defs_ok_def)

text \<open>Whatever the file holds, definitions that could be read are in range.\<close>

lemma dec_Headless_ok: "dec_Headless j h = Inr h' \<Longrightarrow> headless_ok h \<Longrightarrow> headless_ok h'"
  unfolding dec_Headless_def
  by (erule decode_struct_keeps [rotated 2];
      auto simp: headless_fields_def field_defs jset_field_of headless_ok_def; erule (1) dec_int_range)

lemma dec_target_ok: "dec_target j t = Inr t' \<Longrightarrow> target_ok t \<Longrightarrow> target_ok t'"
  unfolding dec_target_def
  by (erule decode_struct_keeps [rotated 2];
      auto simp: target_fields_def field_defs jset_field_of target_ok_def; erule (1) dec_int_range)

lemma zero_ok [simp]: "headless_ok zero_Headless" "target_ok zero_ServiceInterfaceTarget" "service_ok zero_ServiceInterface"
  by (simp_all add: zero_Headless_def headless_ok_def zero_ServiceInterfaceTarget_def target_ok_def
      zero_ServiceInterface_def service_ok_def int64_range_def)

lemma dec_list_targets_ok:
  "dec_list dec_target zero_ServiceInterfaceTarget j ts = Inr ts' \<Longrightarrow> list_all target_ok ts'"
  by (auto simp: dec_list_def split: json.splits intro: mapR_all dec_target_ok [OF _ zero_ok(2)])

lemma dec_ptr_headless_ok:
  "dec_ptr dec_Headless zero_Headless j p = Inr p' \<Longrightarrow> case_option True headless_ok p \<Longrightarrow>
     case_option True headless_ok p'"
  by (auto simp: dec_ptr_def bindR_Inr_iff split: json.splits option.splits
      dest: dec_Headless_ok [OF _ zero_ok(1)] dec_Headless_ok)

lemma dec_service_ok: "dec_service j s = Inr s' \<Longrightarrow> service_ok s \<Longrightarrow> service_ok s'"
  unfolding dec_service_def
  by (erule decode_struct_keeps [rotated 2];
      auto simp: service_fields_def field_defs jset_field_of service_ok_def;
      (erule (1) dec_int_range | erule dec_list_targets_ok | erule (1) dec_ptr_headless_ok))

lemma unmarshal_defs_ok: "unmarshal_defs text = Inr m \<Longrightarrow> defs_ok m"
proof -
  assume "unmarshal_defs text = Inr m"
  then obtain j where j: "dec_map dec_service zero_ServiceInterface j fmempty = Inr m"
    by (auto simp: unmarshal_defs_def unmarshal_def split: option.splits)
  show ?thesis
  proof (cases j)
    case (JObj kvs)
    with j have "foldR (\<lambda>(k, x) m. bindR (dec_service x zero_ServiceInterface)
        (\<lambda>v. Inr (fmupd k v m))) kvs fmempty = Inr m" by (simp add: dec_map_def)
    then show ?thesis
    proof (rule foldR_keeps [where P = defs_ok and xs = kvs, rotated 2])
      fix kv and b b' :: service_defs
      assume "defs_ok b" and "(case kv of (k, x) \<Rightarrow> \<lambda>m. bindR (dec_service x zero_ServiceInterface)
        (\<lambda>v. Inr (fmupd k v m))) b = Inr b'"
      then show "defs_ok b'"
        by (auto simp: bindR_Inr_iff keyed_rules dec_service_ok [OF _ zero_ok(3)] split: prod.splits)
    qed (simp add: keyed_rules)
  qed (use j in \<open>auto simp: dec_map_def keyed_rules\<close>)
qed

end
