(* ===== verification/Host.thy ===== *)
theory Host
  imports Types
begin

text \<open>
  The host the program runs on: the file system as the calls of \<open>os\<close> and \<open>ioutil\<close> see it, and
  the queries whose answer comes from outside (environment, network interfaces, random bytes, the
  certificate library), which are the fields of a parameter record. A path is resolved to its list
  of elements, with no symbolic links; permissions and a full disk are not modelled, so a call
  fails only when a name is missing, exists already or has the wrong kind.
\<close>

section \<open>Files\<close>

datatype node = Dir | File string

type_synonym path = "string list"
type_synonym filesystem = "(path, node) fmap"

definition is_dir :: "filesystem \<Rightarrow> path \<Rightarrow> bool" where
  "is_dir fs p \<longleftrightarrow> p = [] \<or> fmlookup fs p = Some Dir"

definition parent_error :: "filesystem \<Rightarrow> path \<Rightarrow> error" where
  "parent_error fs p =
     (case fmlookup fs (butlast p) of
        Some (File _) \<Rightarrow> NotDirectory (join_with ''/'' p)
      | _ \<Rightarrow> NotExist (join_with ''/'' p))"

definition fs_ReadFile :: "filesystem \<Rightarrow> path \<Rightarrow> string result" where
  "fs_ReadFile fs p =
     (if p = [] then Inl (IsDirectory ''/'')
      else case fmlookup fs p of
             Some (File c) \<Rightarrow> Inr c
           | Some Dir \<Rightarrow> Inl (IsDirectory (join_with ''/'' p))
           | None \<Rightarrow> Inl (parent_error fs p))"

definition fs_WriteFile :: "filesystem \<Rightarrow> path \<Rightarrow> string \<Rightarrow> unit result \<times> filesystem" where
  "fs_WriteFile fs p c =
     (if p = [] \<or> fmlookup fs p = Some Dir then (Inl (IsDirectory (join_with ''/'' p)), fs)
      else if \<not> is_dir fs (butlast p) then (Inl (parent_error fs p), fs)
      else (Inr (), fmupd p (File c) fs))"

definition fs_Mkdir :: "filesystem \<Rightarrow> path \<Rightarrow> unit result \<times> filesystem" where
  "fs_Mkdir fs p =
     (if p = [] \<or> p |\<in>| fmdom fs then (Inl (AlreadyExists (join_with ''/'' p)), fs)
      else if \<not> is_dir fs (butlast p) then (Inl (parent_error fs p), fs)
      else (Inr (), fmupd p Dir fs))"

text \<open>\<open>os.MkdirAll\<close> creates the missing directories from the root down and stops at a file.\<close>

fun mkdirs :: "path list \<Rightarrow> filesystem \<Rightarrow> unit result \<times> filesystem" where
  "mkdirs [] fs = (Inr (), fs)"
| "mkdirs (p # ps) fs =
     (case fmlookup fs p of
        Some (File _) \<Rightarrow> (Inl (NotDirectory (join_with ''/'' p)), fs)
      | Some Dir \<Rightarrow> mkdirs ps fs
      | None \<Rightarrow> mkdirs ps (fmupd p Dir fs))"

definition fs_MkdirAll :: "filesystem \<Rightarrow> path \<Rightarrow> unit result \<times> filesystem" where
  "fs_MkdirAll fs p = mkdirs (tl (prefixes p)) fs"

definition fs_RemoveAll :: "filesystem \<Rightarrow> path \<Rightarrow> filesystem" where
  "fs_RemoveAll fs p = fmfilter (\<lambda>q. \<not> prefix p q) fs"

text \<open>\<open>ioutil.ReadDir\<close> lists the entries of a directory by name, in increasing order.\<close>

definition children :: "filesystem \<Rightarrow> path \<Rightarrow> string fset" where
  "children fs p = last |`| ffilter (\<lambda>q. q \<noteq> [] \<and> butlast q = p) (fmdom fs)"

definition fs_ReadDir :: "filesystem \<Rightarrow> path \<Rightarrow> string list result" where
  "fs_ReadDir fs p =
     (if is_dir fs p then Inr (sorted_list_of_fset (children fs p))
      else case fmlookup fs p of
             Some (File _) \<Rightarrow> Inl (NotDirectory (join_with ''/'' p))
           | _ \<Rightarrow> Inl (NotExist (join_with ''/'' p)))"

text \<open>A well-formed file system: no entry for the root, and every entry in a directory.\<close>

definition wf_fs :: "filesystem \<Rightarrow> bool" where
  "wf_fs fs \<longleftrightarrow> (\<forall>p n. fmlookup fs p = Some n \<longrightarrow> p \<noteq> [] \<and> is_dir fs (butlast p))"

lemma is_dir_Nil [simp]: "is_dir fs []"
  by (simp add: is_dir_def)

lemma wf_fs_empty: "wf_fs fmempty"
  by (simp add: wf_fs_def)

lemma wf_fs_WriteFile: "wf_fs fs \<Longrightarrow> wf_fs (snd (fs_WriteFile fs p c))"
  by (auto simp: wf_fs_def fs_WriteFile_def is_dir_def)

lemma wf_fs_upd_Dir:
  "wf_fs fs \<Longrightarrow> fmlookup fs p = None \<Longrightarrow> p \<noteq> [] \<Longrightarrow> is_dir fs (butlast p) \<Longrightarrow> wf_fs (fmupd p Dir fs)"
  by (auto simp: wf_fs_def is_dir_def)

lemma wf_fs_upd_File:
  "wf_fs fs \<Longrightarrow> fmlookup fs p \<noteq> Some Dir \<Longrightarrow> p \<noteq> [] \<Longrightarrow> is_dir fs (butlast p) \<Longrightarrow> wf_fs (fmupd p (File c) fs)"
  using wf_fs_WriteFile [of fs p c] by (simp add: fs_WriteFile_def)

lemma wf_fs_Mkdir: "wf_fs fs \<Longrightarrow> wf_fs (snd (fs_Mkdir fs p))"
  by (auto simp: fs_Mkdir_def fmlookup_dom_iff intro!: wf_fs_upd_Dir)

lemma wf_fs_RemoveAll:
  assumes "wf_fs fs"
  shows "wf_fs (fs_RemoveAll fs p)"
  unfolding wf_fs_def
proof (intro allI impI)
  fix q n
  assume "fmlookup (fs_RemoveAll fs p) q = Some n"
  then have q: "fmlookup fs q = Some n" "\<not> prefix p q"
    by (auto simp: fs_RemoveAll_def split: if_splits)
  have "\<not> prefix p (butlast q)"
    using q(2) prefix_order.trans [OF _ prefixeq_butlast, of p q] by (rule contrapos_nn)
  moreover have "q \<noteq> []" and "butlast q = [] \<or> fmlookup fs (butlast q) = Some Dir"
    using assms q(1) by (simp_all add: wf_fs_def is_dir_def)
  ultimately show "q \<noteq> [] \<and> is_dir (fs_RemoveAll fs p) (butlast q)"
    by (simp add: is_dir_def fs_RemoveAll_def)
qed

lemma fs_ReadFile_WriteFile:
  "fst (fs_WriteFile fs p c) = Inr () \<Longrightarrow> fs_ReadFile (snd (fs_WriteFile fs p c)) p = Inr c"
  by (auto simp: fs_WriteFile_def fs_ReadFile_def split: if_splits)

lemma fs_WriteFile_existing:
  "wf_fs fs \<Longrightarrow> fs_ReadFile fs p = Inr c0 \<Longrightarrow> fs_WriteFile fs p c = (Inr (), fmupd p (File c) fs)"
  by (auto simp: wf_fs_def fs_WriteFile_def fs_ReadFile_def split: if_splits option.splits node.splits)

lemma fs_ReadFile_upd_same [simp]: "p \<noteq> [] \<Longrightarrow> fs_ReadFile (fmupd p (File c) fs) p = Inr c"
  by (simp add: fs_ReadFile_def)

lemma fs_ReadFile_not_root: "fs_ReadFile fs p = Inr c \<Longrightarrow> p \<noteq> [] \<and> fmlookup fs p = Some (File c)"
  by (auto simp: fs_ReadFile_def split: if_splits option.splits node.splits)

lemma children_iff: "x |\<in>| children fs p \<longleftrightarrow> p @ [x] |\<in>| fmdom fs"
proof
  assume "x |\<in>| children fs p"
  then obtain q where "q |\<in>| fmdom fs" "q \<noteq> []" "butlast q = p" "x = last q"
    by (auto simp: children_def)
  then show "p @ [x] |\<in>| fmdom fs" using append_butlast_last_id [of q] by simp
next
  assume "p @ [x] |\<in>| fmdom fs"
  then have "last (p @ [x]) |\<in>| last |`| ffilter (\<lambda>q. q \<noteq> [] \<and> butlast q = p) (fmdom fs)"
    by (intro fimageI) simp
  then show "x |\<in>| children fs p" by (simp add: children_def)
qed

section \<open>The world and the host\<close>

text \<open>What an operation of the program changes: the files, and \<open>calls\<close>, the calls made so far to
  the docker daemon (their type is fixed where the docker client is modelled).\<close>

record 'call world =
  files :: filesystem
  calls :: "'call list"

text \<open>\<open>h_ifaces h name\<close> are the addresses \<open>net.InterfaceByName(name)\<close> reports, empty if there is no such
  interface; of an address the program reads whether it is a loopback address, whether it is
  IPv4, and its text.\<close>

record iface_addr =
  ia_Loopback :: bool
  ia_IPv4 :: bool
  ia_Text :: string

text \<open>The order a \<open>range\<close> loop visits a map in is chosen by the runtime at every loop. \<open>h_rng\<close> is the order of the
  loops of one command or handler; \<open>h_loops n\<close> that of the loops that run when the daemon has had \<open>n\<close> requests, where
  one map is visited again between requests and the order shows, in the texts of the proxies.\<close>

record host =
  h_env :: environment
  h_cwd :: path
  h_goos :: string
  h_uuid :: string
  h_random_bytes :: "nat \<Rightarrow> nat list"
  h_ifaces :: "string \<Rightarrow> iface_addr list"
  h_rng :: range_order
  h_loops :: "nat \<Rightarrow> range_order"
  h_ca_cert :: "string \<Rightarrow> string \<Rightarrow> string gomap"
  h_gen_cert :: "string \<Rightarrow> string \<Rightarrow> string \<Rightarrow> string gomap \<Rightarrow> string gomap"
  h_get_secret :: "filesystem \<Rightarrow> string \<Rightarrow> string gomap result"
  h_put_secret :: "string \<Rightarrow> string \<Rightarrow> string gomap \<Rightarrow> string gomap \<Rightarrow> filesystem \<Rightarrow> filesystem"

definition resolve :: "host \<Rightarrow> string \<Rightarrow> path" where
  "resolve h s =
     (case s of
        [] \<Rightarrow> []
      | c # _ \<Rightarrow>
          if c = CHR ''/'' then clean_elems True [] (split_on (CHR ''/'') s)
          else clean_elems True [] (h_cwd h @ split_on (CHR ''/'') s))"

definition os_ReadFile :: "host \<Rightarrow> string \<Rightarrow> ('c world, string) oper" where
  "os_ReadFile h s w =
     (if s = [] then (Inl (NotExist []), w) else (fs_ReadFile (files w) (resolve h s), w))"

definition os_WriteFile :: "host \<Rightarrow> string \<Rightarrow> string \<Rightarrow> ('c world, unit) oper" where
  "os_WriteFile h s c w =
     (if s = [] then (Inl (NotExist []), w)
      else case fs_WriteFile (files w) (resolve h s) c of (r, fs') \<Rightarrow> (r, w\<lparr>files := fs'\<rparr>))"

definition os_Mkdir :: "host \<Rightarrow> string \<Rightarrow> ('c world, unit) oper" where
  "os_Mkdir h s w =
     (if s = [] then (Inl (NotExist []), w)
      else case fs_Mkdir (files w) (resolve h s) of (r, fs') \<Rightarrow> (r, w\<lparr>files := fs'\<rparr>))"

definition os_MkdirAll :: "host \<Rightarrow> string \<Rightarrow> ('c world, unit) oper" where
  "os_MkdirAll h s w =
     (if s = [] then (Inl (NotExist []), w)
      else case fs_MkdirAll (files w) (resolve h s) of (r, fs') \<Rightarrow> (r, w\<lparr>files := fs'\<rparr>))"

definition os_RemoveAll :: "host \<Rightarrow> string \<Rightarrow> ('c world, unit) oper" where
  "os_RemoveAll h s w =
     (if s = [] then (Inr (), w) else (Inr (), w\<lparr>files := fs_RemoveAll (files w) (resolve h s)\<rparr>))"

definition os_ReadDir :: "host \<Rightarrow> string \<Rightarrow> ('c world, string list) oper" where
  "os_ReadDir h s w =
     (if s = [] then (Inl (NotExist []), w) else (fs_ReadDir (files w) (resolve h s), w))"

lemmas os_defs = os_ReadFile_def os_WriteFile_def os_Mkdir_def os_MkdirAll_def os_RemoveAll_def
  os_ReadDir_def

section \<open>pkg/utils\<close>

definition alphanumerics :: string where
  "alphanumerics = ''abcdefghijklmnopqrstuvwxyzABCDEFGHIJKLMNOPQRSTUVWXYZ0123456789''"

definition RandomId :: "host \<Rightarrow> nat \<Rightarrow> string" where
  "RandomId h n = map (\<lambda>b. alphanumerics ! (b mod length alphanumerics)) (take n (h_random_bytes h n))"

definition GetInternalIP :: "host \<Rightarrow> string \<Rightarrow> string" where
  "GetInternalIP h iface =
     (case fold (\<lambda>a ip. if \<not> ia_Loopback a \<and> ia_IPv4 a then Some (ia_Text a) else ip) (h_ifaces h iface) None of
        Some ip \<Rightarrow> ip | None \<Rightarrow> [])"

definition ConnectJSON :: string where
  "ConnectJSON =
''
{
    \"scheme\": \"amqps\",
    \"host\": \"skupper-router\",
    \"port\": \"5671\",
    \"tls\": {
        \"ca\": \"/etc/messaging/ca.crt\",
        \"cert\": \"/etc/messaging/tls.crt\",
        \"key\": \"/etc/messaging/tls.key\",
        \"verify\": true
    }
}
''"

end
