(* ===== verification/EnvVars.thy ===== *)
theory EnvVars
  imports GoStrings
begin

text \<open>
  \<open>pkg/docker/envvars.go\<close>: looking up and replacing a variable in a container's environment,
  a list of \<open>NAME=value\<close> strings. Both functions compare with a prefix test on the name alone,
  so a longer name that starts with the same letters matches too.
\<close>

fun FindEnvVar :: "string list \<Rightarrow> string \<Rightarrow> string" where
  "FindEnvVar [] name = ''''"
| "FindEnvVar (v # env) name =
     (if has_prefix v name then trim_prefix v (name @ ''='') else FindEnvVar env name)"

fun SetEnvVar :: "string list \<Rightarrow> string \<Rightarrow> string \<Rightarrow> string list" where
  "SetEnvVar [] name val = []"
| "SetEnvVar (v # current) name val =
     (if has_prefix v name then name @ ''='' @ val else v) # SetEnvVar current name val"

lemma FindEnvVar_append:
  "\<forall>v \<in> set xs. \<not> has_prefix v name \<Longrightarrow> FindEnvVar (xs @ ys) name = FindEnvVar ys name"
  by (induction xs) auto

lemma trim_prefix_var: "trim_prefix (name @ CHR ''='' # val) (name @ ''='') = val"
  using trim_prefix_append [of "name @ ''=''" val] by simp

lemma has_prefix_var [simp]: "has_prefix (name @ s) name"
  by (simp add: has_prefix_def)

text \<open>A variable is found when no string before it starts with its name.\<close>

lemma FindEnvVar_first:
  "\<forall>v \<in> set xs. \<not> has_prefix v name \<Longrightarrow>
     FindEnvVar (xs @ (name @ ''='' @ val) # ys) name = val"
  by (simp add: FindEnvVar_append trim_prefix_var)

lemma FindEnvVar_absent: "\<forall>v \<in> set env. \<not> has_prefix v name \<Longrightarrow> FindEnvVar env name = ''''"
  using FindEnvVar_append [of env name "[]"] by simp

lemma SetEnvVar_absent: "\<forall>v \<in> set env. \<not> has_prefix v name \<Longrightarrow> SetEnvVar env name val = env"
  by (induction env) auto

lemma SetEnvVar_length: "length (SetEnvVar env name val) = length env"
  by (induction env) auto

lemma FindEnvVar_SetEnvVar_general:
  "FindEnvVar (SetEnvVar env name val) name =
     (if \<exists>v \<in> set env. has_prefix v name then val else '''')"
  by (induction env) (auto simp: trim_prefix_var)

text \<open>
  Reading a variable back after \<open>SetEnvVar\<close> gives the value just set when some
  string of the environment starts with the variable's name, and nothing otherwise: \<open>SetEnvVar\<close>
  replaces but never adds, and it leaves every string that does not start with the name, and
  the number of strings, alone.
\<close>

theorem SetEnvVar_correct:
  "FindEnvVar (SetEnvVar env name val) name =
     (if \<exists>v \<in> set env. has_prefix v name then val else '''') \<and>
   length (SetEnvVar env name val) = length env \<and>
   filter (\<lambda>v. \<not> has_prefix v name) (SetEnvVar env name val) = filter (\<lambda>v. \<not> has_prefix v name) env"
proof -
  have "filter (\<lambda>v. \<not> has_prefix v name) (SetEnvVar env name val) = filter (\<lambda>v. \<not> has_prefix v name) env"
    by (induction env) auto
  then show ?thesis by (simp add: FindEnvVar_SetEnvVar_general SetEnvVar_length)
qed

end
