(* ===== verification/LibDocker.thy ===== *)
theory LibDocker
  imports Host EnvVars
begin

text \<open>
  \<open>pkg/docker/libdocker\<close>: the client of the docker daemon. The daemon is not under \<open>src/\<close>: it is
  the parameter record \<open>docker_api\<close>, whose fields give its answer to the last of a list of requests
  (a function of the whole list, so the daemon may keep any state). Every request the client
  sends, with the context it is sent under, is appended to the \<open>calls\<close> of the world; the wrappers
  below are the methods of \<open>skupDockerClient\<close>, prefixed \<open>dd_\<close>.
\<close>

section \<open>The daemon's data\<close>

record Mount =
  mt_Type :: string
  mt_Source :: string
  mt_Target :: string

record MountPoint =
  mp_Type :: string
  mp_Source :: string
  mp_Destination :: string

record HealthConfig =
  hk_Test :: "string list"
  hk_StartPeriod :: int

record ContainerConfig =
  cc_Hostname :: string
  cc_Image :: string
  cc_Env :: "string list"
  cc_Cmd :: "string list"
  cc_Labels :: "string gomap"
  cc_ExposedPorts :: "string fset"
  cc_Healthcheck :: "HealthConfig option"

record HostConfig =
  hc_Mounts :: "Mount list"
  hc_NetworkMode :: string
  hc_ExtraHosts :: "string list"
  hc_Privileged :: bool
  hc_PortBindings :: "string list gomap"
  hc_ShmSize :: int

record ContainerCreateConfig =
  cr_Name :: string
  cr_Config :: ContainerConfig
  cr_HostConfig :: "HostConfig option"
  cr_Networks :: "string fset"

record ContainerJSON =
  cj_ID :: string
  cj_Status :: string
  cj_Config :: ContainerConfig
  cj_Mounts :: "MountPoint list"
  cj_Networks :: "string gomap"

record ContainerSummary =
  ct_ID :: string
  ct_Names :: "string list"
  ct_Labels :: "string gomap"

record ListOptions =
  lo_All :: bool
  lo_Labels :: "string list"

record PullMessage =
  pm_ID :: string
  pm_Status :: string
  pm_Progress :: "string option"
  pm_Error :: "string option"

datatype pull_item = PullOk PullMessage | PullBad error

record ExecOutput =
  ex_ExitCode :: int
  ex_Stdout :: string
  ex_Stderr :: string

text \<open>A stream from the daemon: the bytes it carries, and how it ends (\<open>None\<close> when it never does, an error
  or the end of the file otherwise).\<close>

record reader =
  rd_data :: string
  rd_end :: "error option option"

definition zero_Config :: ContainerConfig where
  "zero_Config =
     \<lparr>cc_Hostname = [], cc_Image = [], cc_Env = [], cc_Cmd = [], cc_Labels = fmempty,
      cc_ExposedPorts = {||}, cc_Healthcheck = None\<rparr>"

definition zero_HostConfig :: HostConfig where
  "zero_HostConfig =
     \<lparr>hc_Mounts = [], hc_NetworkMode = [], hc_ExtraHosts = [], hc_Privileged = False,
      hc_PortBindings = fmempty, hc_ShmSize = 0\<rparr>"

section \<open>Requests and the daemon\<close>

datatype docker_call =
    ContainerList ListOptions
  | ContainerInspect string
  | ContainerCreate ContainerCreateConfig
  | ContainerStart string
  | ContainerRestart string int
  | ContainerStop string int
  | ContainerWait string
  | ContainerRemove string
  | ImageInspect string
  | ImagePull string string
  | ImageRemove string
  | ImageList string
  | ContainerUpdate string string
  | ContainerLogs string string
  | ContainerAttach string string
  | ServerVersionCall
  | InfoCall
  | NetworkInspect string
  | NetworkCreate string bool string "string gomap"
  | NetworkConnect string string
  | NetworkDisconnect string string bool
  | NetworkRemove string
  | ExecCreate string "string list"
  | ExecAttach string
  | ExecInspect string
  | ExecStart string

text \<open>A context without a deadline, or with one (in nanoseconds); what \<open>ctx.Err()\<close> can be after
  the call.\<close>

datatype call_context = Cancelable | WithTimeout int

datatype context_state = NoContextError | DeadlineExceeded | Canceled

record request =
  rq_call :: docker_call
  rq_context :: call_context

type_synonym World = "request world"

type_synonym 'a answer = "request list \<Rightarrow> 'a result"

record docker_api =
  api_context :: "request list \<Rightarrow> context_state"
  api_list :: "ContainerSummary list answer"
  api_inspect :: "ContainerJSON answer"
  api_create :: "string answer"
  api_unit :: "unit answer"
  api_image :: "string list answer"
  api_not_found :: "error \<Rightarrow> bool"
  api_pull :: "pull_item list answer"
  api_os :: "string answer"
  api_info_name :: "string answer"
  api_network :: "string gomap answer"
  api_exec_create :: "string answer"
  api_exec_attach :: "(string \<times> string) answer"
  api_exec_inspect :: "int answer"
  api_wait :: "request list \<Rightarrow> error option option"
  api_images :: "string list list answer"
  api_stream :: "reader answer"

record skupDockerClient =
  sd_timeout :: int
  sd_pullDeadline :: int
  sd_client :: docker_api

definition second :: int where
  "second = 1000000000"

definition defaultTimeout :: int where
  "defaultTimeout = 119 * second"

definition defaultShmSize :: int where
  "defaultShmSize = 67108864"

definition newSkupDockerClient :: "docker_api \<Rightarrow> int \<Rightarrow> int \<Rightarrow> skupDockerClient" where
  "newSkupDockerClient client requestTimeout imagePullProgressDeadline =
     \<lparr>sd_timeout = (if requestTimeout = 0 then defaultTimeout else requestTimeout),
      sd_pullDeadline = imagePullProgressDeadline, sd_client = client\<rparr>"

definition contextError :: "context_state \<Rightarrow> error option" where
  "contextError c =
     (case c of
        NoContextError \<Rightarrow> None
      | DeadlineExceeded \<Rightarrow> Some (OperationTimeout (PackageError ''context deadline exceeded''))
      | Canceled \<Rightarrow> Some (PackageError ''context canceled''))"

definition getTimeoutContext :: "skupDockerClient \<Rightarrow> call_context" where
  "getTimeoutContext d = WithTimeout (sd_timeout d)"

definition getCustomTimeoutContext :: "skupDockerClient \<Rightarrow> int \<Rightarrow> call_context" where
  "getCustomTimeoutContext d timeout = WithTimeout (if sd_timeout d > timeout then sd_timeout d else timeout)"

definition send :: "docker_call \<Rightarrow> call_context \<Rightarrow> World \<Rightarrow> World" where
  "send call ctx w = w\<lparr>calls := calls w @ [\<lparr>rq_call = call, rq_context = ctx\<rparr>]\<rparr>"

text \<open>The pattern of every method: send, report a context error if there is one, the daemon's
  answer otherwise.\<close>

definition api_call ::
  "skupDockerClient \<Rightarrow> call_context \<Rightarrow> docker_call \<Rightarrow> 'a answer \<Rightarrow> (World, 'a) oper" where
  "api_call d ctx call answer w =
     (let w' = send call ctx w
      in case contextError (api_context (sd_client d) (calls w')) of
           Some e \<Rightarrow> (Inl e, w')
         | None \<Rightarrow> (answer (calls w'), w'))"

section \<open>Methods\<close>

definition dd_ListContainers :: "skupDockerClient \<Rightarrow> ListOptions \<Rightarrow> (World, ContainerSummary list) oper" where
  "dd_ListContainers d options =
     api_call d (getTimeoutContext d) (ContainerList options) (api_list (sd_client d))"

definition dd_InspectContainer :: "skupDockerClient \<Rightarrow> string \<Rightarrow> (World, ContainerJSON) oper" where
  "dd_InspectContainer d id' =
     api_call d (getTimeoutContext d) (ContainerInspect id') (api_inspect (sd_client d))"

definition with_shm :: "ContainerCreateConfig \<Rightarrow> ContainerCreateConfig" where
  "with_shm opts =
     (case cr_HostConfig opts of
        Some hc \<Rightarrow>
          if hc_ShmSize hc \<le> 0 then opts\<lparr>cr_HostConfig := Some (hc\<lparr>hc_ShmSize := defaultShmSize\<rparr>)\<rparr>
          else opts
      | None \<Rightarrow> opts)"

definition dd_CreateContainer :: "skupDockerClient \<Rightarrow> ContainerCreateConfig \<Rightarrow> (World, string) oper" where
  "dd_CreateContainer d opts =
     api_call d (getTimeoutContext d) (ContainerCreate (with_shm opts)) (api_create (sd_client d))"

definition dd_StartContainer :: "skupDockerClient \<Rightarrow> string \<Rightarrow> (World, unit) oper" where
  "dd_StartContainer d id' =
     api_call d (getTimeoutContext d) (ContainerStart id') (api_unit (sd_client d))"

definition dd_RestartContainer :: "skupDockerClient \<Rightarrow> string \<Rightarrow> int \<Rightarrow> (World, unit) oper" where
  "dd_RestartContainer d id' timeout =
     api_call d (getTimeoutContext d) (ContainerRestart id' timeout) (api_unit (sd_client d))"

definition dd_StopContainer :: "skupDockerClient \<Rightarrow> string \<Rightarrow> int \<Rightarrow> (World, unit) oper" where
  "dd_StopContainer d id' timeout =
     api_call d (getCustomTimeoutContext d timeout) (ContainerStop id' timeout) (api_unit (sd_client d))"

text \<open>The id given is not used, as in the source. Only the channel of errors is read: \<open>api_wait\<close> is what the
  daemon's client ever sends on it (\<open>Some None\<close> for a nil error or a closed channel), and the call
  does not return when that is nothing.\<close>

definition dd_WaitContainer :: "skupDockerClient \<Rightarrow> string \<Rightarrow> int \<Rightarrow> World \<Rightarrow> unit result option \<times> World" where
  "dd_WaitContainer d id' timeout w =
     (let w' = send (ContainerWait ''skupper-router'') (getTimeoutContext d) w
      in (case api_wait (sd_client d) (calls w') of
            None \<Rightarrow> None
          | Some None \<Rightarrow> Some (Inr ())
          | Some (Some waitErr) \<Rightarrow> Some (Inl waitErr), w'))"

definition dd_RemoveContainer :: "skupDockerClient \<Rightarrow> string \<Rightarrow> (World, unit) oper" where
  "dd_RemoveContainer d id' =
     api_call d (getTimeoutContext d) (ContainerRemove id') (api_unit (sd_client d))"

definition inspectImageRaw :: "skupDockerClient \<Rightarrow> string \<Rightarrow> (World, string list) oper" where
  "inspectImageRaw d ref =
     api_call d (getTimeoutContext d) (ImageInspect ref)
       (\<lambda>hist. case api_image (sd_client d) hist of
          Inl e \<Rightarrow> if api_not_found (sd_client d) e then Inl (ImageNotFound ref) else Inl e
        | Inr digests \<Rightarrow> Inr digests)"

definition dd_InspectImageByID :: "skupDockerClient \<Rightarrow> string \<Rightarrow> (World, string list) oper" where
  "dd_InspectImageByID d imageID = inspectImageRaw d imageID"

definition dd_InspectImageByRef :: "skupDockerClient \<Rightarrow> string \<Rightarrow> (World, string list) oper" where
  "dd_InspectImageByRef d imageRef = inspectImageRaw d imageRef"

definition dd_RemoveImage :: "skupDockerClient \<Rightarrow> string \<Rightarrow> (World, unit) oper" where
  "dd_RemoveImage d ref =
     api_call d (getTimeoutContext d) (ImageRemove ref)
       (\<lambda>hist. case api_unit (sd_client d) hist of
          Inl e \<Rightarrow> if api_not_found (sd_client d) e then Inl (ImageNotFound ref) else Inl e
        | Inr r \<Rightarrow> Inr r)"

definition dd_ServerVersion :: "skupDockerClient \<Rightarrow> (World, string) oper" where
  "dd_ServerVersion d = api_call d (getTimeoutContext d) ServerVersionCall (api_os (sd_client d))"

definition dd_Info :: "skupDockerClient \<Rightarrow> (World, string) oper" where
  "dd_Info d = api_call d (getTimeoutContext d) InfoCall (api_info_name (sd_client d))"

definition dd_CreateExec :: "skupDockerClient \<Rightarrow> string \<Rightarrow> string list \<Rightarrow> (World, string) oper" where
  "dd_CreateExec d id' cmd =
     api_call d (getTimeoutContext d) (ExecCreate id' cmd) (api_exec_create (sd_client d))"

definition dd_AttachExec :: "skupDockerClient \<Rightarrow> string \<Rightarrow> (World, string \<times> string) oper" where
  "dd_AttachExec d id' =
     api_call d (getTimeoutContext d) (ExecAttach id') (api_exec_attach (sd_client d))"

definition dd_InspectExec :: "skupDockerClient \<Rightarrow> string \<Rightarrow> (World, int) oper" where
  "dd_InspectExec d id' =
     api_call d (getTimeoutContext d) (ExecInspect id') (api_exec_inspect (sd_client d))"

definition dd_InspectNetwork :: "skupDockerClient \<Rightarrow> string \<Rightarrow> (World, string gomap) oper" where
  "dd_InspectNetwork d id' =
     api_call d (getTimeoutContext d) (NetworkInspect id') (api_network (sd_client d))"

definition network_options :: "string gomap" where
  "network_options = fmap_of_list
     [(''com.docker.network.bridge.name'', ''skupper0''),
      (''com.docker.network.bridge.enable_icc'', ''true''),
      (''com.docker.network.bridge.enable_ip_masquerade'', ''true'')]"

definition dd_CreateNetwork :: "skupDockerClient \<Rightarrow> string \<Rightarrow> (World, string) oper" where
  "dd_CreateNetwork d id' =
     api_call d (getTimeoutContext d) (NetworkCreate id' True ''bridge'' network_options)
       (api_create (sd_client d))"

definition dd_ConnectContainerToNetwork :: "skupDockerClient \<Rightarrow> string \<Rightarrow> string \<Rightarrow> (World, unit) oper" where
  "dd_ConnectContainerToNetwork d id' containerid =
     api_call d (getTimeoutContext d) (NetworkConnect id' containerid) (api_unit (sd_client d))"

definition dd_DisconnectContainerFromNetwork ::
  "skupDockerClient \<Rightarrow> string \<Rightarrow> string \<Rightarrow> bool \<Rightarrow> (World, unit) oper" where
  "dd_DisconnectContainerFromNetwork d id' containerid force =
     api_call d (getTimeoutContext d) (NetworkDisconnect id' containerid force) (api_unit (sd_client d))"

definition dd_RemoveNetwork :: "skupDockerClient \<Rightarrow> string \<Rightarrow> (World, unit) oper" where
  "dd_RemoveNetwork d id' =
     api_call d (getTimeoutContext d) (NetworkRemove id') (api_unit (sd_client d))"

section \<open>Pulling an image\<close>

text \<open>The authentication header: the JSON text of the credentials and a newline, in the URL-safe
  base 64 alphabet with padding.\<close>

definition base64_char :: "nat \<Rightarrow> char" where
  "base64_char n =
     (if n < 26 then char_of (65 + n) else if n < 52 then char_of (71 + n)
      else if n < 62 then char_of (n - 4) else if n = 62 then CHR ''-'' else CHR ''_'')"

fun base64_url :: "nat list \<Rightarrow> string" where
  "base64_url [] = []"
| "base64_url [a] = [base64_char (a div 4), base64_char (a mod 4 * 16), CHR ''='', CHR ''='']"
| "base64_url [a, b] =
     [base64_char (a div 4), base64_char (a mod 4 * 16 + b div 16), base64_char (b mod 16 * 4), CHR ''='']"
| "base64_url (a # b # c # rest) =
     base64_char (a div 4) # base64_char (a mod 4 * 16 + b div 16) #
     base64_char (b mod 16 * 4 + c div 64) # base64_char (c mod 64) # base64_url rest"

definition base64EncodeAuth :: "string \<Rightarrow> string" where
  "base64EncodeAuth auth_json = base64_url (map of_char (auth_json @ [CHR 0x0A]))"

fun pull_loop :: "pull_item list \<Rightarrow> unit result" where
  "pull_loop [] = Inr ()"
| "pull_loop (PullBad e # items) = Inl e"
| "pull_loop (PullOk m # items) =
     (case pm_Error m of Some msg \<Rightarrow> Inl (DockerError msg) | None \<Rightarrow> pull_loop items)"

text \<open>A message of a pull that goes well.\<close>

definition good_item :: "pull_item \<Rightarrow> bool" where
  "good_item item = (case item of PullBad _ \<Rightarrow> False | PullOk m \<Rightarrow> pm_Error m = None)"

lemma pull_loop_done: "pull_loop items = Inr u \<longleftrightarrow> list_all good_item items"
  by (induction items rule: pull_loop.induct) (auto simp: good_item_def split: option.split)

definition dd_PullImage :: "skupDockerClient \<Rightarrow> string \<Rightarrow> string \<Rightarrow> (World, unit) oper" where
  "dd_PullImage d ref auth_json w =
     (let w' = send (ImagePull ref (base64EncodeAuth auth_json)) Cancelable w
      in case api_pull (sd_client d) (calls w') of
           Inl e \<Rightarrow> (Inl e, w')
         | Inr items \<Rightarrow> (pull_loop items, w'))"

lemma base64EncodeAuth_empty: "base64EncodeAuth ''{}'' = ''e30K''"
  by code_simp

section \<open>What a call changes\<close>

text \<open>A docker operation keeps the files and only appends to the calls.\<close>

definition docker_step :: "World \<Rightarrow> World \<Rightarrow> bool" where
  "docker_step w w' \<longleftrightarrow> files w' = files w \<and> prefix (calls w) (calls w')"

interpretation docker: step_relation docker_step
  by unfold_locales (auto simp: docker_step_def reflp_def transp_def)

lemmas docker_step_refl = docker.refl_R and docker_step_trans = docker.trans_R

named_theorems docker_only \<open>operations that keep the files and only append to the calls\<close>

lemma keeps_api_call [docker_only]: "keeps docker_step (api_call d ctx call answer)"
  by (simp add: keeps_def docker_step_def api_call_def Let_def send_def split: option.split)

lemmas dd_defs = dd_ListContainers_def dd_InspectContainer_def dd_CreateContainer_def
  dd_StartContainer_def dd_RestartContainer_def dd_StopContainer_def dd_RemoveContainer_def
  inspectImageRaw_def dd_InspectImageByID_def dd_InspectImageByRef_def dd_RemoveImage_def
  dd_ServerVersion_def dd_Info_def dd_CreateExec_def dd_AttachExec_def dd_InspectExec_def
  dd_InspectNetwork_def dd_CreateNetwork_def dd_ConnectContainerToNetwork_def
  dd_DisconnectContainerFromNetwork_def dd_RemoveNetwork_def

lemma keeps_dd [docker_only]:
  "keeps docker_step (dd_ListContainers d options)" "keeps docker_step (dd_InspectContainer d i)"
  "keeps docker_step (dd_CreateContainer d opts)" "keeps docker_step (dd_StartContainer d i)"
  "keeps docker_step (dd_RestartContainer d i t)" "keeps docker_step (dd_StopContainer d i t)"
  "keeps docker_step (dd_RemoveContainer d i)" "keeps docker_step (inspectImageRaw d i)"
  "keeps docker_step (dd_InspectImageByID d i)" "keeps docker_step (dd_InspectImageByRef d i)"
  "keeps docker_step (dd_RemoveImage d i)" "keeps docker_step (dd_ServerVersion d)"
  "keeps docker_step (dd_Info d)" "keeps docker_step (dd_CreateExec d i cmd)"
  "keeps docker_step (dd_AttachExec d i)" "keeps docker_step (dd_InspectExec d i)"
  "keeps docker_step (dd_InspectNetwork d i)" "keeps docker_step (dd_CreateNetwork d i)"
  "keeps docker_step (dd_ConnectContainerToNetwork d i c)"
  "keeps docker_step (dd_DisconnectContainerFromNetwork d i c f)"
  "keeps docker_step (dd_RemoveNetwork d i)"
  by (simp_all add: dd_defs keeps_api_call)

lemma keeps_pull [docker_only]:
  "keeps docker_step (dd_PullImage d ref auth)"
  by (simp add: keeps_def docker_step_def dd_PullImage_def Let_def send_def split: sum.split)

lemma docker_step_keeps:
  "(\<And>x. keeps docker_step (k x)) \<Longrightarrow> keeps docker_step m \<Longrightarrow> keeps docker_step (bindE h m k)"
  "(\<And>r. keeps docker_step (k' r)) \<Longrightarrow> keeps docker_step m \<Longrightarrow> keeps docker_step (tryE m k')"
  "keeps docker_step (returnE y)" "keeps docker_step (failE e)" "keeps docker_step (liftE q)"
  by (auto intro: docker.kept)

lemma docker_onlyD:
  assumes "keeps docker_step m" and "m w = (r, w')"
  shows "files w' = files w" and "prefix (calls w) (calls w')"
  using keepsD [OF assms] by (simp_all add: docker_step_def)

text \<open>The request of a call is in the history from then on.\<close>

lemma api_call_calls:
  "api_call d ctx call answer w = (r, w') \<Longrightarrow> calls w' = calls w @ [\<lparr>rq_call = call, rq_context = ctx\<rparr>]"
  by (auto simp: api_call_def Let_def send_def split: option.splits)

text \<open>Every short call is sent under a deadline, and stopping never waits less than the client's own
  timeout nor less than the time the container was given.\<close>

lemma stop_deadline:
  "getCustomTimeoutContext d timeout = WithTimeout t \<Longrightarrow> sd_timeout d \<le> t \<and> timeout \<le> t"
  by (auto simp: getCustomTimeoutContext_def split: if_splits)

end
