(* ===== verification/SimDocker.thy ===== *)
theory SimDocker
  imports LibDocker
begin

text \<open>
  A small docker daemon, the instance of the parameter \<open>docker_api\<close> at which the witnesses
  evaluate the program: it keeps the containers it was asked to create, whether each runs, and
  answers every request about them. No theorem about the program assumes this daemon.
\<close>

record sim_container =
  sim_created :: ContainerCreateConfig
  sim_running :: bool

type_synonym sim = "sim_container gomap"

fun sim_step :: "docker_call \<Rightarrow> sim \<Rightarrow> sim" where
  "sim_step (ContainerCreate c) s =
     (if cr_Name c |\<in>| fmdom s then s else fmupd (cr_Name c) \<lparr>sim_created = c, sim_running = False\<rparr> s)"
| "sim_step (ContainerStart n) s =
     (case fmlookup s n of Some c \<Rightarrow> fmupd n (c\<lparr>sim_running := True\<rparr>) s | None \<Rightarrow> s)"
| "sim_step (ContainerStop n t) s =
     (case fmlookup s n of Some c \<Rightarrow> fmupd n (c\<lparr>sim_running := False\<rparr>) s | None \<Rightarrow> s)"
| "sim_step (ContainerRemove n) s =
     (case fmlookup s n of Some c \<Rightarrow> if sim_running c then s else fmdrop n s | None \<Rightarrow> s)"
| "sim_step _ s = s"

definition sim_run :: "sim \<Rightarrow> request list \<Rightarrow> sim" where
  "sim_run s reqs = fold (\<lambda>r. sim_step (rq_call r)) reqs s"

definition sim_json :: "string \<Rightarrow> sim_container \<Rightarrow> ContainerJSON" where
  "sim_json n c =
     \<lparr>cj_ID = n, cj_Status = (if sim_running c then ''running'' else ''created''),
      cj_Config = cr_Config (sim_created c),
      cj_Mounts = map (\<lambda>m. \<lparr>mp_Type = mt_Type m, mp_Source = mt_Source m, mp_Destination = mt_Target m\<rparr>)
        (case cr_HostConfig (sim_created c) of Some hc \<Rightarrow> hc_Mounts hc | None \<Rightarrow> []),
      cj_Networks = fmap_of_list (map (\<lambda>net. (net, ''172.18.0.2'')) (sorted_list_of_fset (cr_Networks (sim_created c))))\<rparr>"

definition no_such :: "string \<Rightarrow> error" where
  "no_such n = DockerError (''No such container: '' @ n)"

definition sim_answer :: "sim \<Rightarrow> (docker_call \<Rightarrow> sim \<Rightarrow> 'a result) \<Rightarrow> 'a answer" where
  "sim_answer s f hist = f (rq_call (last hist)) (sim_run s (butlast hist))"

fun sim_inspect :: "docker_call \<Rightarrow> sim \<Rightarrow> ContainerJSON result" where
  "sim_inspect (ContainerInspect n) s =
     (case fmlookup s n of Some c \<Rightarrow> Inr (sim_json n c) | None \<Rightarrow> Inl (no_such n))"
| "sim_inspect _ s = Inl (DockerError ''bad request'')"

fun sim_create :: "docker_call \<Rightarrow> sim \<Rightarrow> string result" where
  "sim_create (ContainerCreate c) s =
     (if cr_Name c |\<in>| fmdom s then Inl (DockerError ''Conflict'') else Inr (cr_Name c))"
| "sim_create _ s = Inr ''network''"

fun sim_unit :: "docker_call \<Rightarrow> sim \<Rightarrow> unit result" where
  "sim_unit (ContainerStart n) s = (if n |\<in>| fmdom s then Inr () else Inl (no_such n))"
| "sim_unit (ContainerStop n t) s = (if n |\<in>| fmdom s then Inr () else Inl (no_such n))"
| "sim_unit (ContainerRemove n) s =
     (case fmlookup s n of
        Some c \<Rightarrow> if sim_running c then Inl (DockerError ''running'') else Inr ()
      | None \<Rightarrow> Inl (no_such n))"
| "sim_unit _ s = Inr ()"

definition sim_summary :: "string \<times> sim_container \<Rightarrow> ContainerSummary" where
  "sim_summary = (\<lambda>(n, c). \<lparr>ct_ID = n, ct_Names = [''/'' @ n], ct_Labels = cc_Labels (cr_Config (sim_created c))\<rparr>)"

fun sim_list :: "docker_call \<Rightarrow> sim \<Rightarrow> ContainerSummary list result" where
  "sim_list (ContainerList opts) s = Inr
     (map sim_summary
       (filter (\<lambda>(n, c). list_all (\<lambda>l. l |\<in>| fmdom (cc_Labels (cr_Config (sim_created c)))) (lo_Labels opts))
         (sorted_list_of_fmap s)))"
| "sim_list _ s = Inl (DockerError ''bad request'')"

definition sim_network :: "docker_call \<Rightarrow> sim \<Rightarrow> string gomap result" where
  "sim_network _ s = Inr (fmap_of_list (map (\<lambda>(n, c). (''id-'' @ n, n)) (sorted_list_of_fmap s)))"

text \<open>The messages of a pull.\<close>

definition sim_messages :: "pull_item list" where
  "sim_messages =
     [PullOk \<lparr>pm_ID = ''latest'', pm_Status = ''Pulling from skupper'', pm_Progress = None, pm_Error = None\<rparr>,
      PullOk \<lparr>pm_ID = [], pm_Status = ''Status: Image is up to date'', pm_Progress = None, pm_Error = None\<rparr>]"

lemma sim_messages_good: "list_all good_item sim_messages" "pull_loop sim_messages = Inr ()"
  by (simp_all add: sim_messages_def good_item_def)

definition sim_api :: "sim \<Rightarrow> docker_api" where
  "sim_api s =
     \<lparr>api_context = (\<lambda>_. NoContextError), api_list = sim_answer s sim_list,
      api_inspect = sim_answer s sim_inspect, api_create = sim_answer s sim_create,
      api_unit = sim_answer s sim_unit, api_image = (\<lambda>_. Inr [''img@sha256:0123456789abcdef'']),
      api_not_found = (\<lambda>_. False), api_pull = (\<lambda>_. Inr sim_messages), api_os = (\<lambda>_. Inr ''linux''),
      api_info_name = (\<lambda>_. Inr ''host''), api_network = sim_answer s sim_network,
      api_exec_create = (\<lambda>_. Inr ''exec''), api_exec_attach = (\<lambda>_. Inr (''[]'', '''')),
      api_exec_inspect = (\<lambda>_. Inr 0), api_wait = (\<lambda>_. None), api_images = (\<lambda>_. Inr []),
      api_stream = (\<lambda>_. Inr \<lparr>rd_data = [], rd_end = Some None\<rparr>)\<rparr>"

definition sim_client :: "sim \<Rightarrow> skupDockerClient" where
  "sim_client s = newSkupDockerClient (sim_api s) 0 (10 * second)"

lemma sim_client_api [simp]: "sd_client (sim_client s) = sim_api s"
  by (simp add: sim_client_def newSkupDockerClient_def)

lemma sim_api_simps [simp]:
  "api_context (sim_api s) = (\<lambda>_. NoContextError)"
  "api_list (sim_api s) = sim_answer s sim_list"
  "api_inspect (sim_api s) = sim_answer s sim_inspect"
  "api_create (sim_api s) = sim_answer s sim_create"
  "api_unit (sim_api s) = sim_answer s sim_unit"
  "api_os (sim_api s) = (\<lambda>_. Inr ''linux'')"
  "api_network (sim_api s) = sim_answer s sim_network"
  by (simp_all add: sim_api_def)

lemma sim_answer_send [simp]:
  "sim_answer s f (hist @ [r]) = f (rq_call r) (sim_run s hist)"
  "sim_answer s f [r] = f (rq_call r) s"
  by (simp_all add: sim_answer_def sim_run_def)

lemma sim_run_simps [simp]:
  "sim_run s [] = s"
  "sim_run s (hist @ [r]) = sim_step (rq_call r) (sim_run s hist)"
  by (simp_all add: sim_run_def)

text \<open>A call to this daemon is answered at once.\<close>

lemma sim_call [simp]:
  "api_call (sim_client s) ctx call answer w = (answer (calls (send call ctx w)), send call ctx w)"
  by (simp add: api_call_def contextError_def Let_def)

lemma calls_send [simp]: "calls (send call ctx w) = calls w @ [\<lparr>rq_call = call, rq_context = ctx\<rparr>]"
  and files_send [simp]: "files (send call ctx w) = files w"
  by (simp_all add: send_def)

end
