(* ===== verification/SpecTypes.thy ===== *)
theory SpecTypes
  imports Types
begin

text \<open>
  The other data of \<open>api/types\<close>: what a router and its controller are created from
  (\<open>RouterSpec\<close>), the site configuration with its JSON codec, and the answers of the client's
  inspection operations. Fields that no operation sets or reads (a connector's cost in an answer, the
  users of a router, the warnings of a status, the data of a credential) are left out.
\<close>

record DeploymentSpec =
  ds_Image :: string
  ds_LivenessPort :: int32
  ds_Labels :: "string gomap"
  ds_EnvVar :: "string list"
  ds_Ports :: "string fset"
  ds_Volumes :: "string list"
  ds_Mounts :: "string gomap"

record CertAuthority =
  ca_Name :: string

record Credential =
  cd_CA :: string
  cd_Name :: string
  cd_Subject :: string
  cd_Hosts :: "string list"
  cd_ConnectJson :: bool
  cd_Post :: bool

record RouterSpec =
  rs_Name :: string
  rs_AuthMode :: string
  rs_Transport :: DeploymentSpec
  rs_Controller :: DeploymentSpec
  rs_RouterConfig :: string
  rs_CertAuthoritys :: "CertAuthority list"
  rs_Credentials :: "Credential list"

record SiteConfigSpec =
  sc_SkupperName :: string
  sc_SkupperNamespace :: string
  sc_IsEdge :: bool
  sc_EnableController :: bool
  sc_EnableServiceSync :: bool
  sc_EnableRouterConsole :: bool
  sc_EnableConsole :: bool
  sc_AuthMode :: string
  sc_User :: string
  sc_Password :: string
  sc_MapToHost :: bool
  sc_Replicas :: int32
  sc_TraceLog :: bool

record SiteConfig =
  sg_Spec :: SiteConfigSpec
  sg_UID :: string

record ConnectorCreateOptions =
  co_Name :: string
  co_Cost :: int32

record TypesConnector =
  tc_Name :: string
  tc_Role :: string
  tc_Host :: string
  tc_Port :: string

record ConnectorInspectResponse =
  ci_Connector :: TypesConnector
  ci_Connected :: bool

record TransportConnectedSites =
  ts_Direct :: nat
  ts_Indirect :: nat
  ts_Total :: nat

record RouterInspectResponse =
  ri_Mode :: string
  ri_State :: string
  ri_ConnectedSites :: TransportConnectedSites
  ri_TransportVersion :: string
  ri_ControllerVersion :: string
  ri_ExposedServices :: nat

definition zero_SiteConfigSpec :: SiteConfigSpec where
  "zero_SiteConfigSpec =
     \<lparr>sc_SkupperName = [], sc_SkupperNamespace = [], sc_IsEdge = False, sc_EnableController = False,
      sc_EnableServiceSync = False, sc_EnableRouterConsole = False, sc_EnableConsole = False,
      sc_AuthMode = [], sc_User = [], sc_Password = [], sc_MapToHost = False, sc_Replicas = 0,
      sc_TraceLog = False\<rparr>"

definition zero_SiteConfig :: SiteConfig where
  "zero_SiteConfig = \<lparr>sg_Spec = zero_SiteConfigSpec, sg_UID = []\<rparr>"

definition zero_ConnectedSites :: TransportConnectedSites where
  "zero_ConnectedSites = \<lparr>ts_Direct = 0, ts_Indirect = 0, ts_Total = 0\<rparr>"

section \<open>The site configuration as JSON\<close>

text \<open>The two structs have no field tags: every field is written, under its Go name.\<close>

definition spec_fields :: "SiteConfigSpec jfield list" where
  "spec_fields =
     [str_field ''SkupperName'' False sc_SkupperName sc_SkupperName_update,
      str_field ''SkupperNamespace'' False sc_SkupperNamespace sc_SkupperNamespace_update,
      bool_field ''IsEdge'' False sc_IsEdge sc_IsEdge_update,
      bool_field ''EnableController'' False sc_EnableController sc_EnableController_update,
      bool_field ''EnableServiceSync'' False sc_EnableServiceSync sc_EnableServiceSync_update,
      bool_field ''EnableRouterConsole'' False sc_EnableRouterConsole sc_EnableRouterConsole_update,
      bool_field ''EnableConsole'' False sc_EnableConsole sc_EnableConsole_update,
      str_field ''AuthMode'' False sc_AuthMode sc_AuthMode_update,
      str_field ''User'' False sc_User sc_User_update,
      str_field ''Password'' False sc_Password sc_Password_update,
      bool_field ''MapToHost'' False sc_MapToHost sc_MapToHost_update,
      int32_field ''Replicas'' False sc_Replicas sc_Replicas_update,
      bool_field ''TraceLog'' False sc_TraceLog sc_TraceLog_update]"

definition enc_spec :: "SiteConfigSpec \<Rightarrow> json" where
  "enc_spec = encode_struct spec_fields"

definition dec_spec :: "json \<Rightarrow> SiteConfigSpec \<Rightarrow> SiteConfigSpec result" where
  "dec_spec = decode_struct spec_fields"

interpretation site_spec: json_codec enc_spec dec_spec zero_SiteConfigSpec "\<lambda>_. True"
proof unfold_locales
  fix s :: SiteConfigSpec
  show "dec_spec (enc_spec s) zero_SiteConfigSpec = Inr s"
    unfolding enc_spec_def dec_spec_def
    by (cases s, intro decode_encode_struct)
      (simp_all add: spec_fields_def field_defs zero_SiteConfigSpec_def)
qed

definition site_fields :: "SiteConfig jfield list" where
  "site_fields =
     [field_of ''Spec'' False (\<lambda>_. False) enc_spec dec_spec sg_Spec sg_Spec_update,
      str_field ''UID'' False sg_UID sg_UID_update]"

definition enc_site :: "SiteConfig \<Rightarrow> json" where
  "enc_site = encode_struct site_fields"

definition dec_site :: "json \<Rightarrow> SiteConfig \<Rightarrow> SiteConfig result" where
  "dec_site = decode_struct site_fields"

interpretation site: json_codec enc_site dec_site zero_SiteConfig "\<lambda>_. True"
proof unfold_locales
  fix s :: SiteConfig
  show "dec_site (enc_site s) zero_SiteConfig = Inr s"
    unfolding enc_site_def dec_site_def
    by (cases s, intro decode_encode_struct)
      (simp_all add: site_fields_def field_defs zero_SiteConfig_def site_spec.dec_enc)
qed

end
