(* ===== verification/Containers.thy ===== *)
theory Containers
  imports SimDocker SpecTypes GoMaps
begin

text \<open>
  \<open>pkg/docker\<close>: the containers and networks of a site. The functions that build a container's
  creation request are pure; the others call the docker client of theory \<open>LibDocker\<close>.
\<close>

section \<open>Plain calls\<close>

definition CreateContainer :: "ContainerCreateConfig \<Rightarrow> skupDockerClient \<Rightarrow> (World, string) oper" where
  "CreateContainer opts dd = dd_CreateContainer dd opts"

definition InspectContainer :: "string \<Rightarrow> skupDockerClient \<Rightarrow> (World, ContainerJSON) oper" where
  "InspectContainer name dd = dd_InspectContainer dd name"

definition ListContainers :: "ListOptions \<Rightarrow> skupDockerClient \<Rightarrow> (World, ContainerSummary list) oper" where
  "ListContainers opts dd = dd_ListContainers dd opts"

definition ConnectContainerToNetwork :: "string \<Rightarrow> string \<Rightarrow> skupDockerClient \<Rightarrow> (World, unit) oper" where
  "ConnectContainerToNetwork network name dd = dd_ConnectContainerToNetwork dd network name"

definition RestartContainer :: "string \<Rightarrow> skupDockerClient \<Rightarrow> (World, unit) oper" where
  "RestartContainer name dd = dd_RestartContainer dd name (10 * second)"

definition RemoveContainer :: "string \<Rightarrow> skupDockerClient \<Rightarrow> (World, unit) oper" where
  "RemoveContainer name dd = dd_RemoveContainer dd name"

definition StopContainer :: "string \<Rightarrow> skupDockerClient \<Rightarrow> (World, unit) oper" where
  "StopContainer name dd = dd_StopContainer dd name (10 * second)"

definition StartContainer :: "string \<Rightarrow> skupDockerClient \<Rightarrow> (World, unit) oper" where
  "StartContainer name dd = dd_StartContainer dd name"

definition WaitContainer :: "string \<Rightarrow> skupDockerClient \<Rightarrow> World \<Rightarrow> unit result option \<times> World" where
  "WaitContainer name dd = dd_WaitContainer dd name (10 * second)"

lemmas container_calls = CreateContainer_def InspectContainer_def ListContainers_def
  ConnectContainerToNetwork_def RestartContainer_def RemoveContainer_def StopContainer_def
  StartContainer_def

lemma keeps_container_calls [docker_only]:
  "keeps docker_step (CreateContainer opts dd)" "keeps docker_step (InspectContainer n dd)"
  "keeps docker_step (ListContainers l dd)" "keeps docker_step (ConnectContainerToNetwork n c dd)"
  "keeps docker_step (RestartContainer n dd)" "keeps docker_step (RemoveContainer n dd)"
  "keeps docker_step (StopContainer n dd)" "keeps docker_step (StartContainer n dd)"
  by (simp_all add: container_calls docker_only)

lemma sim_InspectContainer [simp]:
  "InspectContainer n (sim_client s) w =
     (sim_inspect (ContainerInspect n) (sim_run s (calls w)),
      send (ContainerInspect n) (getTimeoutContext (sim_client s)) w)"
  by (simp add: InspectContainer_def dd_InspectContainer_def)

lemma sim_run_send [simp]: "sim_run s (calls (send call ctx w)) = sim_step call (sim_run s (calls w))"
  by simp

section \<open>Proxy containers\<close>

definition getLabels :: "ServiceInterface \<Rightarrow> bool \<Rightarrow> string gomap" where
  "getLabels service isLocal =
     fmap_of_list
       [(''skupper.io/application'', ''skupper-proxy''),
        (''skupper.io/address'', si_Address service),
        (''skupper.io/target'', ''''),
        (''skupper.io/targetType'', if isLocal then ''host'' else ''container''),
        (''skupper.io/component'', ''proxy''),
        (''internal.skupper.io/type'', ''proxy''),
        (''internal.skupper.io/service'', si_Address service),
        (''skupper.io/origin'', si_Origin service),
        (''skupper.io/last-applied'', marshal enc_service service)]"

definition transport_image :: "environment \<Rightarrow> string" where
  "transport_image env = (if env ''QDROUTERD_IMAGE'' \<noteq> [] then env ''QDROUTERD_IMAGE'' else DefaultTransportImage)"

definition proxy_env :: "environment \<Rightarrow> string \<Rightarrow> string list" where
  "proxy_env env qdrConfig =
     [env ''SKUPPER_TMPDIR'', ''QDROUTERD_CONF='' @ qdrConfig, ''QDROUTERD_CONF_TYPE=json'',
      ''NAMESPACE=skupper''] @
     (if env ''PN_TRACE_FRM'' \<noteq> [] then [''PN_TRACE_FRM=1''] else [])"

definition extra_host :: "string \<Rightarrow> string \<Rightarrow> ServiceInterfaceTarget \<Rightarrow> string list" where
  "extra_host osType host t =
     (if st_Selector t = ''internal.skupper.io/host-service'' then
        (case split_two (CHR '':'') (st_Name t) of
           [p0, p1] \<Rightarrow>
             [p0 @ '':'' @ (if osType = ''linux'' \<and> p1 = ''host-gateway'' then host else p1)]
         | _ \<Rightarrow> [])
      else [])"

definition service_port_key :: "ServiceInterface \<Rightarrow> string" where
  "service_port_key service = itoa (si_Port service) @ ''/'' @ si_Protocol service"

definition skupper_network_only :: "string fset" where
  "skupper_network_only = {|TransportNetworkName|}"

definition getProxyContainerCreateConfig ::
  "environment \<Rightarrow> ServiceInterface \<Rightarrow> string \<Rightarrow> bool \<Rightarrow> string \<Rightarrow> ContainerCreateConfig" where
  "getProxyContainerCreateConfig env service qdrConfig mapToHost osType =
     (let host = (if env ''SKUPPER_HOST'' \<noteq> [] then env ''SKUPPER_HOST'' else ''172.17.0.1'');
          containerCfg = zero_Config\<lparr>cc_Hostname := si_Address service,
            cc_Image := transport_image env, cc_Env := proxy_env env qdrConfig,
            cc_Labels := getLabels service True,
            cc_ExposedPorts := (if mapToHost then {|service_port_key service|} else {||})\<rparr>;
          hostCfg = zero_HostConfig\<lparr>
            hc_Mounts := [\<lparr>mt_Type = ''bind'',
              mt_Source = GetSkupperPath env CertsPath @ ''/'' @ ''skupper-internal'',
              mt_Target = ''/etc/qpid-dispatch-certs/skupper-internal/''\<rparr>],
            hc_NetworkMode := ''skupper-network'',
            hc_ExtraHosts := concat (map (extra_host osType host) (si_Targets service)),
            hc_Privileged := True,
            hc_PortBindings :=
              (if mapToHost then fmupd (service_port_key service) [itoa (si_Port service)] fmempty
               else fmempty)\<rparr>
      in \<lparr>cr_Name = si_Address service, cr_Config = containerCfg, cr_HostConfig = Some hostCfg,
          cr_Networks = skupper_network_only\<rparr>)"

definition NewProxyContainer ::
  "environment \<Rightarrow> ServiceInterface \<Rightarrow> string \<Rightarrow> bool \<Rightarrow> skupDockerClient \<Rightarrow> (World, ContainerCreateConfig) oper"
where
  "NewProxyContainer env svcDef qdrConfig mapToHost dd =
     bindE id (dd_ServerVersion dd) (\<lambda>osType.
       let opts = getProxyContainerCreateConfig env svcDef qdrConfig mapToHost osType
       in bindE id (dd_CreateContainer dd opts) (\<lambda>_. returnE (with_shm opts)))"

section \<open>Controller and transport containers\<close>

definition spec_mounts :: "range_order \<Rightarrow> string gomap \<Rightarrow> Mount list" where
  "spec_mounts rng m =
     map (\<lambda>(source, target). \<lparr>mt_Type = ''bind'', mt_Source = source, mt_Target = target\<rparr>) (range_of rng m)"

definition current_mounts :: "MountPoint list \<Rightarrow> Mount list" where
  "current_mounts ps =
     map (\<lambda>v. \<lparr>mt_Type = mp_Type v, mt_Source = mp_Source v, mt_Target = mp_Destination v\<rparr>) ps"

definition privileged_host :: "Mount list \<Rightarrow> HostConfig" where
  "privileged_host mounts = zero_HostConfig\<lparr>hc_Mounts := mounts, hc_Privileged := True\<rparr>"

definition router_healthcheck :: HealthConfig where
  "router_healthcheck =
     \<lparr>hk_Test = [''curl --fail -s http://localhost:9090/healthz || exit 1''], hk_StartPeriod = 60 * second\<rparr>"

definition getControllerContainerCreateConfig :: "range_order \<Rightarrow> RouterSpec \<Rightarrow> ContainerCreateConfig" where
  "getControllerContainerCreateConfig rng van =
     \<lparr>cr_Name = ControllerDeploymentName,
      cr_Config = zero_Config\<lparr>cc_Hostname := ControllerDeploymentName,
        cc_Image := ds_Image (rs_Controller van), cc_Cmd := [''/app/controller''],
        cc_Env := ds_EnvVar (rs_Controller van), cc_Labels := ds_Labels (rs_Controller van)\<rparr>,
      cr_HostConfig = Some (privileged_host (spec_mounts rng (ds_Mounts (rs_Controller van)))),
      cr_Networks = skupper_network_only\<rparr>"

definition NewControllerContainer ::
  "range_order \<Rightarrow> RouterSpec \<Rightarrow> skupDockerClient \<Rightarrow> (World, ContainerCreateConfig) oper" where
  "NewControllerContainer rng van dd =
     (let opts = getControllerContainerCreateConfig rng van
      in bindE id (dd_CreateContainer dd opts) (\<lambda>_. returnE (with_shm opts)))"

definition getTransportContainerCreateConfig :: "range_order \<Rightarrow> RouterSpec \<Rightarrow> ContainerCreateConfig" where
  "getTransportContainerCreateConfig rng van =
     \<lparr>cr_Name = TransportDeploymentName,
      cr_Config = zero_Config\<lparr>cc_Hostname := TransportDeploymentName,
        cc_Image := ds_Image (rs_Transport van), cc_Env := ds_EnvVar (rs_Transport van),
        cc_Healthcheck := Some router_healthcheck, cc_Labels := ds_Labels (rs_Transport van),
        cc_ExposedPorts := ds_Ports (rs_Transport van)\<rparr>,
      cr_HostConfig = Some (privileged_host (spec_mounts rng (ds_Mounts (rs_Transport van)))),
      cr_Networks = skupper_network_only\<rparr>"

definition NewTransportContainer ::
  "range_order \<Rightarrow> RouterSpec \<Rightarrow> skupDockerClient \<Rightarrow> (World, ContainerCreateConfig) oper" where
  "NewTransportContainer rng van dd =
     (let opts = getTransportContainerCreateConfig rng van
      in bindE id (dd_CreateContainer dd opts) (\<lambda>_. returnE (with_shm opts)))"

text \<open>A restart stops, removes, re-creates and starts the container; each of the four errors is
  logged and otherwise ignored (\<open>tryE\<close>).\<close>

definition recreate :: "string \<Rightarrow> ContainerCreateConfig \<Rightarrow> skupDockerClient \<Rightarrow> (World, unit) oper" where
  "recreate name opts dd =
     tryE (StopContainer name dd) (\<lambda>_.
     tryE (RemoveContainer name dd) (\<lambda>_.
     tryE (CreateContainer opts dd) (\<lambda>_.
     tryE (StartContainer name dd) (\<lambda>_. returnE ()))))"

definition restarted_controller :: "ContainerJSON \<Rightarrow> ContainerCreateConfig" where
  "restarted_controller current =
     \<lparr>cr_Name = ControllerDeploymentName,
      cr_Config = zero_Config\<lparr>cc_Hostname := cc_Hostname (cj_Config current),
        cc_Image := cc_Image (cj_Config current), cc_Cmd := cc_Cmd (cj_Config current),
        cc_Labels := cc_Labels (cj_Config current),
        cc_ExposedPorts := cc_ExposedPorts (cj_Config current),
        cc_Env := SetEnvVar (cc_Env (cj_Config current)) ''SKUPPER_PROXY_CONTROLLER_RESTART'' ''true''\<rparr>,
      cr_HostConfig = Some (privileged_host (current_mounts (cj_Mounts current))),
      cr_Networks = skupper_network_only\<rparr>"

definition RestartControllerContainer :: "skupDockerClient \<Rightarrow> (World, unit) oper" where
  "RestartControllerContainer dd =
     bindE id (InspectContainer ControllerDeploymentName dd) (\<lambda>current.
       recreate ControllerDeploymentName (restarted_controller current) dd)"

definition restarted_transport :: "ContainerJSON \<Rightarrow> ContainerCreateConfig" where
  "restarted_transport current =
     \<lparr>cr_Name = ''skupper-router'',
      cr_Config = zero_Config\<lparr>cc_Hostname := cc_Hostname (cj_Config current),
        cc_Image := cc_Image (cj_Config current), cc_Healthcheck := Some router_healthcheck,
        cc_Labels := cc_Labels (cj_Config current),
        cc_ExposedPorts := cc_ExposedPorts (cj_Config current), cc_Env := cc_Env (cj_Config current)\<rparr>,
      cr_HostConfig = Some (privileged_host (current_mounts (cj_Mounts current))),
      cr_Networks = skupper_network_only\<rparr>"

definition RestartTransportContainer :: "skupDockerClient \<Rightarrow> (World, unit) oper" where
  "RestartTransportContainer dd =
     bindE id (InspectContainer ''skupper-router'' dd) (\<lambda>current.
       recreate ''skupper-router'' (restarted_transport current) dd)"

section \<open>Image versions\<close>

definition GetImageVersion :: "string \<Rightarrow> skupDockerClient \<Rightarrow> (World, string) oper" where
  "GetImageVersion img dd =
     bindE id (dd_InspectImageByID dd img) (\<lambda>digests.
       case digests of
         [] \<Rightarrow> failE (Panic ''index out of range'')
       | digest # _ \<Rightarrow>
           (let parts = split_on (CHR ''@'') digest
            in if length parts > 1 \<and> length (parts ! 1) \<ge> 19
               then returnE (img @ '' ('' @ take 19 (parts ! 1) @ '')'')
               else returnE digest))"

section \<open>Networks\<close>

definition InspectNetworkOp :: "string \<Rightarrow> skupDockerClient \<Rightarrow> (World, string gomap) oper" where
  "InspectNetworkOp name dd = dd_InspectNetwork dd name"

definition RemoveNetwork :: "range_order \<Rightarrow> string \<Rightarrow> skupDockerClient \<Rightarrow> (World, unit) oper" where
  "RemoveNetwork rng name dd =
     bindE id (dd_InspectNetwork dd name) (\<lambda>containers.
     bindE id (forE (\<lambda>(_, cname). dd_DisconnectContainerFromNetwork dd name cname True)
                 (range_of rng containers)) (\<lambda>_.
     dd_RemoveNetwork dd name))"

definition NewTransportNetwork :: "string \<Rightarrow> skupDockerClient \<Rightarrow> (World, string) oper" where
  "NewTransportNetwork name dd =
     (if name \<noteq> [] then dd_CreateNetwork dd name else failE (Errorf ''Unable to create network''))"

section \<open>Restarting\<close>

lemma api_call_made:
  "\<exists>r. api_call d ctx call answer w = (r, send call ctx w)"
  by (simp add: api_call_def Let_def split: option.split)

lemma send_simps:
  "calls (send call ctx w) = calls w @ [\<lparr>rq_call = call, rq_context = ctx\<rparr>]"
  "files (send call ctx w) = files w"
  by (simp_all add: send_def)

lemma recreate_run:
  "recreate name opts dd w =
     (Inr (), send (ContainerStart name) (getTimeoutContext dd)
       (send (ContainerCreate (with_shm opts)) (getTimeoutContext dd)
         (send (ContainerRemove name) (getTimeoutContext dd)
           (send (ContainerStop name (10 * second)) (getCustomTimeoutContext dd (10 * second)) w))))"
  unfolding recreate_def container_calls dd_defs tryE_def
  by (simp add: api_call_def Let_def split: prod.split option.split)

lemma InspectContainer_send:
  "InspectContainer name dd w = (r, w') \<Longrightarrow> w' = send (ContainerInspect name) (getTimeoutContext dd) w"
  using api_call_made [of dd "getTimeoutContext dd" "ContainerInspect name" "api_inspect (sd_client dd)" w]
  by (auto simp: InspectContainer_def dd_InspectContainer_def)

lemma mount_id [simp]:
  "map (\<lambda>m. \<lparr>mt_Type = mt_Type m, mt_Source = mt_Source m, mt_Target = mt_Target m\<rparr>) ms = ms"
  by (induction ms) simp_all

text \<open>The daemon's answer depends on the requests alone, not on the files.\<close>

lemma InspectContainer_calls:
  "calls w = calls w' \<Longrightarrow> fst (InspectContainer n dd w) = fst (InspectContainer n dd w')"
  by (simp add: InspectContainer_def dd_InspectContainer_def api_call_def Let_def send_def split: option.split)

definition call_list :: "World \<Rightarrow> docker_call list" where
  "call_list w = map rq_call (calls w)"

lemma call_list_send [simp]: "call_list (send call ctx w) = call_list w @ [call]"
  by (simp add: call_list_def send_def)

lemma restarted_transport_same:
  assumes "cj_Config current = cr_Config (getTransportContainerCreateConfig rng van)"
    and "current_mounts (cj_Mounts current) = spec_mounts rng (ds_Mounts (rs_Transport van))"
  shows "restarted_transport current = getTransportContainerCreateConfig rng van"
  using assms
  by (simp add: restarted_transport_def getTransportContainerCreateConfig_def TransportDeploymentName_def zero_Config_def)

text \<open>
  C23 (functional). Restarting the router container stops it, removes it, creates it and starts it,
  in this order, and returns without an error whatever the daemon answers to these four requests.
  When the daemon reports the configuration and the mounts the router was created with, the
  container created is the same: image, environment, labels, ports, health check and mounts.
\<close>

theorem RestartTransportContainer_same:
  assumes "InspectContainer ''skupper-router'' dd w = (Inr current, w1)"
    and "cj_Config current = cr_Config (getTransportContainerCreateConfig rng van)"
    and "current_mounts (cj_Mounts current) = spec_mounts rng (ds_Mounts (rs_Transport van))"
  shows "\<exists>w2. RestartTransportContainer dd w = (Inr (), w2) \<and> files w2 = files w \<and>
    call_list w2 = call_list w @
      [ContainerInspect ''skupper-router'', ContainerStop ''skupper-router'' (10 * second),
       ContainerRemove ''skupper-router'',
       ContainerCreate (with_shm (getTransportContainerCreateConfig rng van)),
       ContainerStart ''skupper-router'']"
  using assms(1) InspectContainer_send [OF assms(1)] restarted_transport_same [OF assms(2,3)]
  by (simp add: RestartTransportContainer_def recreate_run send_simps)

definition sample_spec :: RouterSpec where
  "sample_spec =
     (let ds = \<lparr>ds_Image = ''router'', ds_LivenessPort = 9090, ds_Labels = fmempty, ds_EnvVar = [''A=1''],
        ds_Ports = {|''5671/tcp''|}, ds_Volumes = [], ds_Mounts = fmupd ''/certs'' ''/etc/certs'' fmempty\<rparr>
      in \<lparr>rs_Name = ''r'', rs_AuthMode = '''', rs_Transport = ds, rs_Controller = ds, rs_RouterConfig = '''',
          rs_CertAuthoritys = [], rs_Credentials = []\<rparr>)"

definition sample_router :: sim_container where
  "sample_router =
     \<lparr>sim_created = getTransportContainerCreateConfig rng_up sample_spec, sim_running = True\<rparr>"

definition sample_world :: World where
  "sample_world = \<lparr>files = fmempty, calls = []\<rparr>"

lemma RestartTransportContainer_same_witness:
  "\<exists>w2. RestartTransportContainer (sim_client (fmupd ''skupper-router'' sample_router fmempty)) sample_world = (Inr (), w2) \<and>
    last (call_list w2) = ContainerStart ''skupper-router'' \<and>
    ContainerCreate (with_shm (getTransportContainerCreateConfig rng_up sample_spec)) \<in> set (call_list w2)"
proof -
  let ?dd = "sim_client (fmupd ''skupper-router'' sample_router fmempty)"
  have inspect: "InspectContainer ''skupper-router'' ?dd sample_world =
      (Inr (sim_json ''skupper-router'' sample_router),
       send (ContainerInspect ''skupper-router'') (getTimeoutContext ?dd) sample_world)"
    by (simp add: InspectContainer_def dd_InspectContainer_def sample_world_def)
  have config: "cj_Config (sim_json ''skupper-router'' sample_router) =
      cr_Config (getTransportContainerCreateConfig rng_up sample_spec)"
    by (simp add: sim_json_def sample_router_def)
  have mounts: "current_mounts (cj_Mounts (sim_json ''skupper-router'' sample_router)) =
      spec_mounts rng_up (ds_Mounts (rs_Transport sample_spec))"
    by (simp add: sim_json_def sample_router_def getTransportContainerCreateConfig_def privileged_host_def
        current_mounts_def comp_def)
  from RestartTransportContainer_same [OF inspect config mounts] show ?thesis
    by (elim exE) (simp add: sample_world_def)
qed

section \<open>Removing a network\<close>

lemma disconnect_all:
  "forE (\<lambda>(k, n). dd_DisconnectContainerFromNetwork dd name n True) ps w = (r, w') \<Longrightarrow>
     files w' = files w \<and>
     (\<exists>qs. prefix qs ps \<and> (r = Inr () \<longrightarrow> qs = ps) \<and>
        call_list w' = call_list w @ map (\<lambda>(k, n). NetworkDisconnect name n True) qs)"
proof (induction ps arbitrary: w)
  case Nil
  then show ?case by simp
next
  case (Cons p ps)
  obtain k n where p: "p = (k, n)" by (cases p)
  let ?call = "NetworkDisconnect name n True"
  let ?w1 = "send ?call (getTimeoutContext dd) w"
  obtain r1 where r1: "dd_DisconnectContainerFromNetwork dd name n True w = (r1, ?w1)"
    using api_call_made unfolding dd_DisconnectContainerFromNetwork_def by blast
  show ?case
  proof (cases r1)
    case (Inl e)
    with r1 Cons.prems p have "r = Inl e" "w' = ?w1" by simp_all
    then show ?thesis using p by (intro conjI exI [of _ "[p]"]) (simp_all add: send_simps)
  next
    case (Inr u)
    with r1 Cons.prems p have
      "forE (\<lambda>(k, n). dd_DisconnectContainerFromNetwork dd name n True) ps ?w1 = (r, w')" by simp
    from Cons.IH [OF this] obtain qs where "files w' = files w" "prefix qs ps" "r = Inr () \<longrightarrow> qs = ps"
      "call_list w' = call_list w @ ?call # map (\<lambda>(k, n). NetworkDisconnect name n True) qs"
      by (auto simp: send_simps)
    then show ?thesis using p by (intro conjI exI [of _ "p # qs"]) simp_all
  qed
qed

text \<open>
  \<open>RemoveNetwork\<close> asks for the removal of the network only after every container the
  daemon reported on it has been disconnected: when it ends without an error, the requests are the
  inspection, one forced disconnection for each container, and the removal.
\<close>

theorem RemoveNetwork_disconnects:
  assumes "RemoveNetwork rng name dd w = (r, w')"
    and "call_list w' = call_list w @ made" and "NetworkRemove name \<in> set made"
  shows "\<exists>containers w1. dd_InspectNetwork dd name w = (Inr containers, w1) \<and>
    made = NetworkInspect name #
      map (\<lambda>(_, n). NetworkDisconnect name n True) (range_of rng containers) @ [NetworkRemove name]"
proof -
  let ?w1 = "send (NetworkInspect name) (getTimeoutContext dd) w"
  obtain r1 where r1: "dd_InspectNetwork dd name w = (r1, ?w1)"
    using api_call_made unfolding dd_InspectNetwork_def by blast
  have "\<exists>containers. r1 = Inr containers"
    using r1 assms by (cases r1) (auto simp: RemoveNetwork_def)
  then obtain containers where c: "r1 = Inr containers" by blast
  obtain r2 w2 where r2: "forE (\<lambda>(_, cname). dd_DisconnectContainerFromNetwork dd name cname True)
      (range_of rng containers) ?w1 = (r2, w2)" by fastforce
  from disconnect_all [OF r2] obtain qs where
    qs: "r2 = Inr () \<longrightarrow> qs = range_of rng containers"
      "call_list w2 = call_list w @ NetworkInspect name # map (\<lambda>(k, n). NetworkDisconnect name n True) qs"
    by auto
  obtain r3 where r3: "dd_RemoveNetwork dd name w2 = (r3, send (NetworkRemove name) (getTimeoutContext dd) w2)"
    using api_call_made unfolding dd_RemoveNetwork_def by blast
  show ?thesis
    using assms r1 c r2 qs r3 by (cases r2) (auto simp: RemoveNetwork_def)
qed

lemma RemoveNetwork_disconnects_witness:
  "\<exists>containers w1. dd_InspectNetwork (sim_client (fmupd ''a'' sample_router fmempty)) ''n'' sample_world =
      (Inr containers, w1) \<and>
    [NetworkInspect ''n'', NetworkDisconnect ''n'' ''a'' True, NetworkRemove ''n''] = NetworkInspect ''n'' #
      map (\<lambda>(_, n). NetworkDisconnect ''n'' n True) (range_of rng_up containers) @ [NetworkRemove ''n'']"
proof -
  let ?dd = "sim_client (fmupd ''a'' sample_router fmempty)"
  have lists: "sorted_list_of_fmap (fmupd ''a'' sample_router fmempty) = [(''a'', sample_router)]"
    by (simp add: sorted_list_of_fmap_def sorted_list_of_fset.rep_eq)
  have one: "range_of rng_up (fmupd ''id-a'' v fmempty) = [(''id-a'', v)]" for v :: string
    by (simp add: range_of_def rng_up_def sorted_list_of_fset.rep_eq)
  obtain w' where run: "RemoveNetwork rng_up ''n'' ?dd sample_world = (Inr (), w')"
    and made: "call_list w' = [NetworkInspect ''n'', NetworkDisconnect ''n'' ''a'' True, NetworkRemove ''n'']"
    by (simp add: RemoveNetwork_def dd_defs bindE_def sim_network_def lists one sample_world_def
        call_list_def)
  show ?thesis
    by (rule RemoveNetwork_disconnects [OF run]) (simp_all add: made [unfolded call_list_def] sample_world_def call_list_def)
qed

end
