(* ===== verification/ServiceStore.thy ===== *)
theory ServiceStore
  imports Containers
begin

text \<open>
  The file \<open>skupper-services\<close>: a JSON object from address to service definition, which the command
  line and the service controller both read and rewrite as a whole. The locale \<open>file_store\<close> is what
  their operations rely on; it is interpreted for the path each of them uses.
\<close>

section \<open>Reading and writing the file\<close>

definition load_defs :: "(error \<Rightarrow> error) \<Rightarrow> (error \<Rightarrow> error) \<Rightarrow> host \<Rightarrow> string \<Rightarrow> (World, service_defs) oper" where
  "load_defs on_read on_decode h fname =
     bindE on_read (os_ReadFile h fname) (\<lambda>text. bindE on_decode (liftE (unmarshal_defs text)) returnE)"

definition store_defs :: "(error \<Rightarrow> error) \<Rightarrow> host \<Rightarrow> string \<Rightarrow> service_defs \<Rightarrow> (World, unit) oper" where
  "store_defs on_write h fname m = bindE on_write (os_WriteFile h fname (marshal_defs m)) returnE"

text \<open>The pattern of every change: read, compute the new map or an error, write.\<close>

definition modify_defs ::
  "(World, 'v) oper \<Rightarrow> ('v \<Rightarrow> (World, unit) oper) \<Rightarrow> ('v \<Rightarrow> 'v result) \<Rightarrow> (World, unit) oper" where
  "modify_defs load store f = bindE id load (\<lambda>m. bindE id (liftE (f m)) store)"

text \<open>What a world holds, for a reader of the file: the abstraction the properties speak about.\<close>

definition services_at :: "host \<Rightarrow> string \<Rightarrow> World \<Rightarrow> service_defs option" where
  "services_at h fname w =
     (if fname = [] then None
      else case fs_ReadFile (files w) (resolve h fname) of
        Inl _ \<Rightarrow> None
      | Inr text \<Rightarrow> (case unmarshal_defs text of Inl _ \<Rightarrow> None | Inr m \<Rightarrow> Some m))"

section \<open>The contract\<close>

locale file_store =
  fixes load :: "(World, 'v) oper"
    and store :: "'v \<Rightarrow> (World, unit) oper"
    and view :: "World \<Rightarrow> 'v option"
    and ready :: "World \<Rightarrow> bool"
    and ok :: "'v \<Rightarrow> bool"
  assumes load_view: "view w = Some m \<Longrightarrow> load w = (Inr m, w)"
    and load_fails: "view w = None \<Longrightarrow> \<exists>e. load w = (Inl e, w)"
    and view_ok: "view w = Some m \<Longrightarrow> ok m"
    and store_view: "ready w \<Longrightarrow> view w = Some m0 \<Longrightarrow> ok m \<Longrightarrow>
      \<exists>w'. store m w = (Inr (), w') \<and> view w' = Some m \<and> ready w' \<and> calls w' = calls w"
begin

lemma modify_done:
  assumes "ready w" and "view w = Some m" and "f m = Inr m'" and "ok m \<Longrightarrow> ok m'"
  shows "\<exists>w'. modify_defs load store f w = (Inr (), w') \<and> view w' = Some m' \<and> ready w' \<and> calls w' = calls w"
  using store_view [OF assms(1,2) assms(4) [OF view_ok [OF assms(2)]]] load_view [OF assms(2)] assms(3)
  by (simp add: modify_defs_def)

lemma modify_refused:
  "view w = Some m \<Longrightarrow> f m = Inl e \<Longrightarrow> modify_defs load store f w = (Inl e, w)"
  using load_view [of w m] by (simp add: modify_defs_def)

lemma modify_unreadable:
  "view w = None \<Longrightarrow> \<exists>e. modify_defs load store f w = (Inl e, w)"
  using load_fails [of w] by (auto simp: modify_defs_def)

text \<open>Every change is either done or leaves the world as it was.\<close>

lemma modify_cases:
  assumes "ready w" and "modify_defs load store f w = (r, w')"
    and "\<And>m m'. f m = Inr m' \<Longrightarrow> ok m \<Longrightarrow> ok m'"
  shows "(r = Inr () \<and> (\<exists>m m'. view w = Some m \<and> f m = Inr m' \<and> view w' = Some m' \<and> ready w')) \<or>
    ((\<exists>e. r = Inl e) \<and> w' = w)"
proof (cases "view w")
  case None
  with modify_unreadable [of w f] assms(2) show ?thesis by auto
next
  case (Some m)
  show ?thesis
  proof (cases "f m")
    case (Inl e)
    with modify_refused [OF Some] assms(2) show ?thesis by auto
  next
    case (Inr m')
    from modify_done [of w m f m', OF assms(1) Some Inr assms(3) [OF Inr]] assms(2) Some Inr
    show ?thesis by auto
  qed
qed

end

lemma load_defs_view:
  "services_at h fname w = Some m \<Longrightarrow> load_defs on_read on_decode h fname w = (Inr m, w)"
  "services_at h fname w = None \<Longrightarrow> \<exists>e. load_defs on_read on_decode h fname w = (Inl e, w)"
  by (auto simp: services_at_def load_defs_def os_ReadFile_def bindE_def split: if_splits sum.splits)

lemma services_at_ok: "services_at h fname w = Some m \<Longrightarrow> defs_ok m"
  by (auto simp: services_at_def split: if_splits sum.splits intro: unmarshal_defs_ok)

lemma store_defs_done:
  assumes "wf_fs (files w)" and "services_at h fname w = Some m0" and "defs_ok m"
  shows "store_defs on_write h fname m w =
      (Inr (), w\<lparr>files := fmupd (resolve h fname) (File (marshal_defs m)) (files w)\<rparr>)"
    and "services_at h fname (w\<lparr>files := fmupd (resolve h fname) (File (marshal_defs m)) (files w)\<rparr>) = Some m"
proof -
  from assms(2) obtain content where content: "fname \<noteq> []" "fs_ReadFile (files w) (resolve h fname) = Inr content"
    by (auto simp: services_at_def split: if_splits sum.splits)
  have "resolve h fname \<noteq> []" using fs_ReadFile_not_root [OF content(2)] by simp
  then show "services_at h fname (w\<lparr>files := fmupd (resolve h fname) (File (marshal_defs m)) (files w)\<rparr>) = Some m"
    using content(1) assms(3) by (simp add: services_at_def)
  show "store_defs on_write h fname m w =
      (Inr (), w\<lparr>files := fmupd (resolve h fname) (File (marshal_defs m)) (files w)\<rparr>)"
    using content fs_WriteFile_existing [OF assms(1) content(2)] by (simp add: store_defs_def os_WriteFile_def)
qed

lemma wf_fs_store:
  assumes "wf_fs (files w)" and "services_at h fname w = Some m0"
  shows "wf_fs (fmupd (resolve h fname) (File c) (files w))"
proof -
  from assms(2) obtain content where "fs_ReadFile (files w) (resolve h fname) = Inr content"
    by (auto simp: services_at_def split: if_splits sum.splits)
  then show ?thesis
    using wf_fs_WriteFile [OF assms(1), of "resolve h fname" c] fs_WriteFile_existing [OF assms(1)] by simp
qed

interpretation skupper_services: file_store "load_defs on_read on_decode h fname" "store_defs on_write h fname"
    "services_at h fname" "\<lambda>w. wf_fs (files w)" defs_ok
  for on_read on_decode on_write h fname
proof unfold_locales
  fix w :: World and m m0
  show "services_at h fname w = Some m \<Longrightarrow> load_defs on_read on_decode h fname w = (Inr m, w)"
    by (rule load_defs_view)
  show "services_at h fname w = None \<Longrightarrow> \<exists>e. load_defs on_read on_decode h fname w = (Inl e, w)"
    by (rule load_defs_view)
  show "services_at h fname w = Some m \<Longrightarrow> defs_ok m"
    by (rule services_at_ok)
  assume "wf_fs (files w)" "services_at h fname w = Some m0" "defs_ok m"
  then show "\<exists>w'. store_defs on_write h fname m w = (Inr (), w') \<and> services_at h fname w' = Some m \<and>
      wf_fs (files w') \<and> calls w' = calls w"
    by (simp add: store_defs_done wf_fs_store)
qed

text \<open>A docker operation does not touch the file.\<close>

lemma services_at_docker: "docker_step w w' \<Longrightarrow> services_at h fname w' = services_at h fname w"
  by (simp add: docker_step_def services_at_def)

lemma services_at_files: "files w' = files w \<Longrightarrow> services_at h fname w' = services_at h fname w"
  by (simp add: services_at_def)

end
