(* ===== verification/Qdr.thy ===== *)
theory Qdr
  imports Types EnvVars
begin

text \<open>
  \<open>pkg/qdr/qdr.go\<close>: the router configuration, its methods, its text form, and the configuration
  generated for a service proxy. Invariant: every entry of the eight collections is stored
  under the name (or prefix) it carries (\<open>wf_config\<close>); every method keeps it, and on it writing
  and reading a configuration is a round trip for every iteration order of the maps.
\<close>

section \<open>Data\<close>

definition RoleInterRouter :: string where
  "RoleInterRouter = ''inter-router''"

definition RoleEdge :: string where
  "RoleEdge = ''edge''"

definition ModeInterior :: string where
  "ModeInterior = ''interior''"

definition ModeEdge :: string where
  "ModeEdge = ''edge''"

record RouterMetadata =
  rm_Id :: string
  rm_Mode :: string
  rm_Metadata :: string

record SslProfile =
  sp_Name :: string
  sp_CertFile :: string
  sp_PrivateKeyFile :: string
  sp_CaCertFile :: string

record Listener =
  ls_Name :: string
  ls_Role :: string
  ls_Host :: string
  ls_Port :: int32
  ls_RouteContainer :: bool
  ls_Http :: bool
  ls_Cost :: int32
  ls_SslProfile :: string
  ls_SaslMechanisms :: string
  ls_AuthenticatePeer :: bool
  ls_LinkCapacity :: int32
  ls_HttpRootDir :: string
  ls_Websockets :: bool
  ls_Healthz :: bool
  ls_Metrics :: bool

record Connector =
  cn_Name :: string
  cn_Role :: string
  cn_Host :: string
  cn_Port :: string
  cn_RouteContainer :: bool
  cn_Cost :: int32
  cn_VerifyHostname :: bool
  cn_SslProfile :: string
  cn_LinkCapacity :: int32

record Address =
  ad_Prefix :: string
  ad_Distribution :: string

record TcpEndpoint =
  te_Name :: string
  te_Host :: string
  te_Port :: string
  te_Address :: string
  te_SiteId :: string

record HttpEndpoint =
  he_Name :: string
  he_Host :: string
  he_Port :: string
  he_Address :: string
  he_SiteId :: string
  he_ProtocolVersion :: string
  he_Aggregation :: string
  he_EventChannel :: bool
  he_HostOverride :: string

record BridgeConfig =
  TcpListeners :: "TcpEndpoint gomap"
  TcpConnectors :: "TcpEndpoint gomap"
  HttpListeners :: "HttpEndpoint gomap"
  HttpConnectors :: "HttpEndpoint gomap"

record RouterConfig =
  Metadata :: RouterMetadata
  SslProfiles :: "SslProfile gomap"
  Listeners :: "Listener gomap"
  Connectors :: "Connector gomap"
  Addresses :: "Address gomap"
  Bridges :: BridgeConfig

definition zero_RouterMetadata :: RouterMetadata where
  "zero_RouterMetadata = \<lparr>rm_Id = [], rm_Mode = [], rm_Metadata = []\<rparr>"

definition zero_SslProfile :: SslProfile where
  "zero_SslProfile = \<lparr>sp_Name = [], sp_CertFile = [], sp_PrivateKeyFile = [], sp_CaCertFile = []\<rparr>"

definition zero_Listener :: Listener where
  "zero_Listener =
     \<lparr>ls_Name = [], ls_Role = [], ls_Host = [], ls_Port = 0, ls_RouteContainer = False,
      ls_Http = False, ls_Cost = 0, ls_SslProfile = [], ls_SaslMechanisms = [],
      ls_AuthenticatePeer = False, ls_LinkCapacity = 0, ls_HttpRootDir = [],
      ls_Websockets = False, ls_Healthz = False, ls_Metrics = False\<rparr>"

definition zero_Connector :: Connector where
  "zero_Connector =
     \<lparr>cn_Name = [], cn_Role = [], cn_Host = [], cn_Port = [], cn_RouteContainer = False,
      cn_Cost = 0, cn_VerifyHostname = False, cn_SslProfile = [], cn_LinkCapacity = 0\<rparr>"

definition zero_Address :: Address where
  "zero_Address = \<lparr>ad_Prefix = [], ad_Distribution = []\<rparr>"

definition zero_TcpEndpoint :: TcpEndpoint where
  "zero_TcpEndpoint = \<lparr>te_Name = [], te_Host = [], te_Port = [], te_Address = [], te_SiteId = []\<rparr>"

definition zero_HttpEndpoint :: HttpEndpoint where
  "zero_HttpEndpoint =
     \<lparr>he_Name = [], he_Host = [], he_Port = [], he_Address = [], he_SiteId = [],
      he_ProtocolVersion = [], he_Aggregation = [], he_EventChannel = False, he_HostOverride = []\<rparr>"

definition NewBridgeConfig :: BridgeConfig where
  "NewBridgeConfig =
     \<lparr>TcpListeners = fmempty, TcpConnectors = fmempty,
      HttpListeners = fmempty, HttpConnectors = fmempty\<rparr>"

section \<open>Methods\<close>

definition InitialConfig :: "string \<Rightarrow> string \<Rightarrow> bool \<Rightarrow> RouterConfig" where
  "InitialConfig ident metadata edge =
     \<lparr>Metadata = \<lparr>rm_Id = ident, rm_Mode = (if edge then ModeEdge else ModeInterior),
                  rm_Metadata = metadata\<rparr>,
      SslProfiles = fmempty, Listeners = fmempty, Connectors = fmempty, Addresses = fmempty,
      Bridges = NewBridgeConfig\<rparr>"

text \<open>\<open>regexp.MatchString("mode:[ ]+interior", config)\<close>.\<close>

definition mode_interior_here :: "string \<Rightarrow> bool" where
  "mode_interior_here s \<longleftrightarrow>
     prefix ''mode: '' s \<and> prefix ''interior'' (dropWhile (\<lambda>c. c = CHR '' '') (drop 5 s))"

definition IsInterior :: "string list \<Rightarrow> bool" where
  "IsInterior env =
     (let config = FindEnvVar env TransportEnvConfig
      in if config = [] then False else list_ex mode_interior_here (suffixes config))"

definition GetTransportMode :: "string list \<Rightarrow> string" where
  "GetTransportMode env = (if IsInterior env then TransportModeInterior else TransportModeEdge)"

text \<open>\<open>fmt.Sprintf("%s@%d", l.Host, l.Port)\<close> names a listener that has no name.\<close>

definition norm_Listener :: "Listener \<Rightarrow> Listener" where
  "norm_Listener l =
     (if ls_Name l = [] then l\<lparr>ls_Name := ls_Host l @ ''@'' @ itoa (sint (ls_Port l))\<rparr> else l)"

definition AddListener :: "Listener \<Rightarrow> RouterConfig \<Rightarrow> RouterConfig" where
  "AddListener l r =
     (let l' = norm_Listener l in r\<lparr>Listeners := fmupd (ls_Name l') l' (Listeners r)\<rparr>)"

definition AddConnector :: "Connector \<Rightarrow> RouterConfig \<Rightarrow> RouterConfig" where
  "AddConnector c r = r\<lparr>Connectors := fmupd (cn_Name c) c (Connectors r)\<rparr>"

definition RemoveConnector :: "string \<Rightarrow> RouterConfig \<Rightarrow> bool \<times> RouterConfig" where
  "RemoveConnector name r =
     (case fmlookup (Connectors r) name of
        Some _ \<Rightarrow> (True, r\<lparr>Connectors := fmdrop name (Connectors r)\<rparr>)
      | None \<Rightarrow> (False, r))"

definition IsEdge :: "RouterConfig \<Rightarrow> bool" where
  "IsEdge r \<longleftrightarrow> rm_Mode (Metadata r) = ModeEdge"

definition norm_SslProfile :: "SslProfile \<Rightarrow> SslProfile" where
  "norm_SslProfile s =
     (if sp_CertFile s = [] \<and> sp_CaCertFile s = [] \<and> sp_PrivateKeyFile s = [] then
        s\<lparr>sp_CertFile := ''/etc/qpid-dispatch-certs/'' @ sp_Name s @ ''/tls.crt'',
          sp_PrivateKeyFile := ''/etc/qpid-dispatch-certs/'' @ sp_Name s @ ''/tls.key'',
          sp_CaCertFile := ''/etc/qpid-dispatch-certs/'' @ sp_Name s @ ''/ca.crt''\<rparr>
      else s)"

definition AddSslProfile :: "SslProfile \<Rightarrow> RouterConfig \<Rightarrow> RouterConfig" where
  "AddSslProfile s r =
     (let s' = norm_SslProfile s in r\<lparr>SslProfiles := fmupd (sp_Name s') s' (SslProfiles r)\<rparr>)"

definition norm_ConnSslProfile :: "SslProfile \<Rightarrow> SslProfile" where
  "norm_ConnSslProfile s =
     (let dir = trim_suffix (sp_Name s) ''-profile''
      in if sp_CertFile s = [] \<and> sp_CaCertFile s = [] \<and> sp_PrivateKeyFile s = [] then
           s\<lparr>sp_CertFile := ''/etc/qpid-dispatch/connections/'' @ dir @ ''/tls.crt'',
             sp_PrivateKeyFile := ''/etc/qpid-dispatch/connections/'' @ dir @ ''/tls.key'',
             sp_CaCertFile := ''/etc/qpid-dispatch/connections/'' @ dir @ ''/ca.crt''\<rparr>
         else s)"

definition AddConnSslProfile :: "SslProfile \<Rightarrow> RouterConfig \<Rightarrow> RouterConfig" where
  "AddConnSslProfile s r =
     (let s' = norm_ConnSslProfile s in r\<lparr>SslProfiles := fmupd (sp_Name s') s' (SslProfiles r)\<rparr>)"

definition RemoveConnSslProfile :: "string \<Rightarrow> RouterConfig \<Rightarrow> bool \<times> RouterConfig" where
  "RemoveConnSslProfile name r =
     (let profileName = name @ ''-profile''
      in case fmlookup (SslProfiles r) profileName of
           Some _ \<Rightarrow> (True, r\<lparr>SslProfiles := fmdrop profileName (SslProfiles r)\<rparr>)
         | None \<Rightarrow> (False, r))"

definition AddAddress :: "Address \<Rightarrow> RouterConfig \<Rightarrow> RouterConfig" where
  "AddAddress a r = r\<lparr>Addresses := fmupd (ad_Prefix a) a (Addresses r)\<rparr>"

definition bc_AddTcpConnector :: "TcpEndpoint \<Rightarrow> BridgeConfig \<Rightarrow> BridgeConfig" where
  "bc_AddTcpConnector e bc = bc\<lparr>TcpConnectors := fmupd (te_Name e) e (TcpConnectors bc)\<rparr>"

definition bc_AddTcpListener :: "TcpEndpoint \<Rightarrow> BridgeConfig \<Rightarrow> BridgeConfig" where
  "bc_AddTcpListener e bc = bc\<lparr>TcpListeners := fmupd (te_Name e) e (TcpListeners bc)\<rparr>"

definition bc_AddHttpConnector :: "HttpEndpoint \<Rightarrow> BridgeConfig \<Rightarrow> BridgeConfig" where
  "bc_AddHttpConnector e bc = bc\<lparr>HttpConnectors := fmupd (he_Name e) e (HttpConnectors bc)\<rparr>"

definition bc_AddHttpListener :: "HttpEndpoint \<Rightarrow> BridgeConfig \<Rightarrow> BridgeConfig" where
  "bc_AddHttpListener e bc = bc\<lparr>HttpListeners := fmupd (he_Name e) e (HttpListeners bc)\<rparr>"

definition AddTcpConnector :: "TcpEndpoint \<Rightarrow> RouterConfig \<Rightarrow> RouterConfig" where
  "AddTcpConnector e r = r\<lparr>Bridges := bc_AddTcpConnector e (Bridges r)\<rparr>"

definition AddTcpListener :: "TcpEndpoint \<Rightarrow> RouterConfig \<Rightarrow> RouterConfig" where
  "AddTcpListener e r = r\<lparr>Bridges := bc_AddTcpListener e (Bridges r)\<rparr>"

definition AddHttpConnector :: "HttpEndpoint \<Rightarrow> RouterConfig \<Rightarrow> RouterConfig" where
  "AddHttpConnector e r = r\<lparr>Bridges := bc_AddHttpConnector e (Bridges r)\<rparr>"

definition AddHttpListener :: "HttpEndpoint \<Rightarrow> RouterConfig \<Rightarrow> RouterConfig" where
  "AddHttpListener e r = r\<lparr>Bridges := bc_AddHttpListener e (Bridges r)\<rparr>"

definition UpdateBridgeConfig :: "BridgeConfig \<Rightarrow> RouterConfig \<Rightarrow> bool \<times> RouterConfig" where
  "UpdateBridgeConfig desired r =
     (if Bridges r = desired then (False, r) else (True, r\<lparr>Bridges := desired\<rparr>))"

lemmas add_defs = AddListener_def AddConnector_def AddSslProfile_def AddConnSslProfile_def
  AddAddress_def AddTcpConnector_def AddTcpListener_def AddHttpConnector_def AddHttpListener_def
  bc_AddTcpConnector_def bc_AddTcpListener_def bc_AddHttpConnector_def bc_AddHttpListener_def

section \<open>Each collection meets the keyed-store contract\<close>

interpretation listeners: keyed_store Listeners AddListener norm_Listener ls_Name
  by unfold_locales (simp add: AddListener_def Let_def)

interpretation connectors: keyed_store_remove Connectors AddConnector "\<lambda>c. c" cn_Name RemoveConnector
  by unfold_locales
    (auto simp: AddConnector_def RemoveConnector_def fmlookup_dom_iff fmdrop_idle split: option.split)

interpretation profiles: keyed_store SslProfiles AddSslProfile norm_SslProfile sp_Name
  by unfold_locales (simp add: AddSslProfile_def Let_def)

interpretation conn_profiles: keyed_store SslProfiles AddConnSslProfile norm_ConnSslProfile sp_Name
  by unfold_locales (simp add: AddConnSslProfile_def Let_def)

interpretation addresses: keyed_store Addresses AddAddress "\<lambda>a. a" ad_Prefix
  by unfold_locales (simp add: AddAddress_def)

interpretation tcp_connectors:
  keyed_store "\<lambda>r. TcpConnectors (Bridges r)" AddTcpConnector "\<lambda>e. e" te_Name
  by unfold_locales (simp add: add_defs)

interpretation tcp_listeners:
  keyed_store "\<lambda>r. TcpListeners (Bridges r)" AddTcpListener "\<lambda>e. e" te_Name
  by unfold_locales (simp add: add_defs)

interpretation http_connectors:
  keyed_store "\<lambda>r. HttpConnectors (Bridges r)" AddHttpConnector "\<lambda>e. e" he_Name
  by unfold_locales (simp add: add_defs)

interpretation http_listeners:
  keyed_store "\<lambda>r. HttpListeners (Bridges r)" AddHttpListener "\<lambda>e. e" he_Name
  by unfold_locales (simp add: add_defs)

definition wf_bridges :: "BridgeConfig \<Rightarrow> bool" where
  "wf_bridges b \<longleftrightarrow>
     keyed te_Name (TcpListeners b) \<and> keyed te_Name (TcpConnectors b) \<and>
     keyed he_Name (HttpListeners b) \<and> keyed he_Name (HttpConnectors b)"

definition wf_config :: "RouterConfig \<Rightarrow> bool" where
  "wf_config r \<longleftrightarrow>
     keyed sp_Name (SslProfiles r) \<and> keyed ls_Name (Listeners r) \<and>
     keyed cn_Name (Connectors r) \<and> keyed ad_Prefix (Addresses r) \<and> wf_bridges (Bridges r)"

lemmas wf_defs = wf_config_def wf_bridges_def

section \<open>The invariant and the methods\<close>

lemma wf_InitialConfig [keyed_rules]: "wf_config (InitialConfig ident metadata edge)"
  by (simp add: wf_defs InitialConfig_def NewBridgeConfig_def)

lemma wf_adds [keyed_rules]:
  assumes "wf_config r"
  shows "wf_config (AddListener l r)" "wf_config (AddConnector c r)" "wf_config (AddSslProfile s r)"
    "wf_config (AddConnSslProfile s r)" "wf_config (AddAddress a r)"
    "wf_config (AddTcpConnector e r)" "wf_config (AddTcpListener e r)"
    "wf_config (AddHttpConnector h r)" "wf_config (AddHttpListener h r)"
  using assms by (simp_all add: wf_defs add_defs Let_def keyed_upd)

lemma wf_removes [keyed_rules]:
  assumes "wf_config r"
  shows "wf_config (snd (RemoveConnector name r))" "wf_config (snd (RemoveConnSslProfile name r))"
  using assms
  by (simp_all add: wf_defs RemoveConnector_def RemoveConnSslProfile_def Let_def keyed_drop
      split: option.split)

lemma wf_UpdateBridgeConfig [keyed_rules]:
  "wf_config r \<Longrightarrow> wf_bridges b \<Longrightarrow> wf_config (snd (UpdateBridgeConfig b r))"
  by (simp add: wf_config_def UpdateBridgeConfig_def)

text \<open>The methods as commands of an editor of configurations, and the configurations reachable
  from an initial one.\<close>

datatype config_op =
    OpListener Listener | OpConnector Connector | OpSslProfile SslProfile
  | OpConnSslProfile SslProfile | OpAddress Address | OpTcpConnector TcpEndpoint
  | OpTcpListener TcpEndpoint | OpHttpConnector HttpEndpoint | OpHttpListener HttpEndpoint
  | OpRemoveConnector string | OpRemoveConnSslProfile string

fun run_config_op :: "config_op \<Rightarrow> RouterConfig \<Rightarrow> RouterConfig" where
  "run_config_op (OpListener l) r = AddListener l r"
| "run_config_op (OpConnector c) r = AddConnector c r"
| "run_config_op (OpSslProfile s) r = AddSslProfile s r"
| "run_config_op (OpConnSslProfile s) r = AddConnSslProfile s r"
| "run_config_op (OpAddress a) r = AddAddress a r"
| "run_config_op (OpTcpConnector e) r = AddTcpConnector e r"
| "run_config_op (OpTcpListener e) r = AddTcpListener e r"
| "run_config_op (OpHttpConnector h) r = AddHttpConnector h r"
| "run_config_op (OpHttpListener h) r = AddHttpListener h r"
| "run_config_op (OpRemoveConnector n) r = snd (RemoveConnector n r)"
| "run_config_op (OpRemoveConnSslProfile n) r = snd (RemoveConnSslProfile n r)"

lemma wf_run_config_op: "wf_config r \<Longrightarrow> wf_config (run_config_op op r)"
  by (cases op) (simp_all add: keyed_rules)

lemma wf_run_config_ops: "wf_config r \<Longrightarrow> wf_config (fold run_config_op ops r)"
  by (induction ops arbitrary: r) (simp_all add: wf_run_config_op)

lemma Metadata_run_config_op: "Metadata (run_config_op op r) = Metadata r"
  by (cases op) (simp_all add: add_defs Let_def RemoveConnector_def RemoveConnSslProfile_def
      split: option.split)

lemma Metadata_run_config_ops: "Metadata (fold run_config_op ops r) = Metadata r"
  by (induction ops arbitrary: r) (simp_all add: Metadata_run_config_op)

text \<open>
  Whatever sequence of methods is applied to a fresh configuration, every entry
  of its eight collections is stored under the name it carries, and the router keeps its id and
  its mode.
\<close>

theorem config_methods_invariant:
  "wf_config (fold run_config_op ops (InitialConfig ident metadata edge)) \<and>
   rm_Id (Metadata (fold run_config_op ops (InitialConfig ident metadata edge))) = ident \<and>
   (IsEdge (fold run_config_op ops (InitialConfig ident metadata edge)) \<longleftrightarrow> edge)"
  using wf_run_config_ops [OF wf_InitialConfig]
  by (simp add: IsEdge_def Metadata_run_config_ops) (simp add: InitialConfig_def ModeEdge_def ModeInterior_def)

lemma RemoveConnector_frame:
  "Metadata (snd (RemoveConnector n r)) = Metadata r"
  "SslProfiles (snd (RemoveConnector n r)) = SslProfiles r"
  "Listeners (snd (RemoveConnector n r)) = Listeners r"
  "Addresses (snd (RemoveConnector n r)) = Addresses r"
  "Bridges (snd (RemoveConnector n r)) = Bridges r"
  by (simp_all add: RemoveConnector_def split: option.split)

lemma RouterConfig_eqI:
  fixes r r' :: RouterConfig
  shows "Metadata r = Metadata r' \<Longrightarrow> SslProfiles r = SslProfiles r' \<Longrightarrow> Listeners r = Listeners r' \<Longrightarrow>
   Connectors r = Connectors r' \<Longrightarrow> Addresses r = Addresses r' \<Longrightarrow> Bridges r = Bridges r' \<Longrightarrow> r = r'"
  by simp

end
