(* ===== verification/RouterJson.thy ===== *)
theory RouterJson
  imports Qdr
begin

text \<open>
  \<open>MarshalRouterConfig\<close> and \<open>UnmarshalRouterConfig\<close> of \<open>pkg/qdr/qdr.go\<close>: a configuration is a
  JSON array of pairs, an entity type and a value. The writer ranges over the maps, so the text
  depends on the iteration order \<open>rng\<close>; the reader stores every entity under the name it
  carries.
\<close>

section \<open>Codecs of the entities\<close>

definition metadata_fields :: "RouterMetadata jfield list" where
  "metadata_fields =
     [str_field ''id'' True rm_Id rm_Id_update,
      str_field ''mode'' True rm_Mode rm_Mode_update,
      str_field ''metadata'' True rm_Metadata rm_Metadata_update]"

definition profile_fields :: "SslProfile jfield list" where
  "profile_fields =
     [str_field ''name'' True sp_Name sp_Name_update,
      str_field ''certFile'' True sp_CertFile sp_CertFile_update,
      str_field ''privateKeyFile'' True sp_PrivateKeyFile sp_PrivateKeyFile_update,
      str_field ''caCertFile'' True sp_CaCertFile sp_CaCertFile_update]"

definition listener_fields :: "Listener jfield list" where
  "listener_fields =
     [str_field ''name'' True ls_Name ls_Name_update,
      str_field ''role'' True ls_Role ls_Role_update,
      str_field ''host'' True ls_Host ls_Host_update,
      int32_field ''port'' False ls_Port ls_Port_update,
      bool_field ''routeContainer'' True ls_RouteContainer ls_RouteContainer_update,
      bool_field ''http'' True ls_Http ls_Http_update,
      int32_field ''cost'' True ls_Cost ls_Cost_update,
      str_field ''sslProfile'' True ls_SslProfile ls_SslProfile_update,
      str_field ''saslMechanisms'' True ls_SaslMechanisms ls_SaslMechanisms_update,
      bool_field ''authenticatePeer'' True ls_AuthenticatePeer ls_AuthenticatePeer_update,
      int32_field ''linkCapacity'' True ls_LinkCapacity ls_LinkCapacity_update,
      str_field ''httpRootDir'' True ls_HttpRootDir ls_HttpRootDir_update,
      bool_field ''websockets'' True ls_Websockets ls_Websockets_update,
      bool_field ''healthz'' True ls_Healthz ls_Healthz_update,
      bool_field ''metrics'' True ls_Metrics ls_Metrics_update]"

definition connector_fields :: "Connector jfield list" where
  "connector_fields =
     [str_field ''name'' True cn_Name cn_Name_update,
      str_field ''role'' True cn_Role cn_Role_update,
      str_field ''host'' False cn_Host cn_Host_update,
      str_field ''port'' False cn_Port cn_Port_update,
      bool_field ''routeContainer'' True cn_RouteContainer cn_RouteContainer_update,
      int32_field ''cost'' True cn_Cost cn_Cost_update,
      bool_field ''verifyHostname'' True cn_VerifyHostname cn_VerifyHostname_update,
      str_field ''sslProfile'' True cn_SslProfile cn_SslProfile_update,
      int32_field ''linkCapacity'' True cn_LinkCapacity cn_LinkCapacity_update]"

definition address_fields :: "Address jfield list" where
  "address_fields =
     [str_field ''prefix'' True ad_Prefix ad_Prefix_update,
      str_field ''distribution'' True ad_Distribution ad_Distribution_update]"

definition tcp_fields :: "TcpEndpoint jfield list" where
  "tcp_fields =
     [str_field ''name'' True te_Name te_Name_update,
      str_field ''host'' True te_Host te_Host_update,
      str_field ''port'' True te_Port te_Port_update,
      str_field ''address'' True te_Address te_Address_update,
      str_field ''siteId'' True te_SiteId te_SiteId_update]"

definition http_fields :: "HttpEndpoint jfield list" where
  "http_fields =
     [str_field ''name'' True he_Name he_Name_update,
      str_field ''host'' True he_Host he_Host_update,
      str_field ''port'' True he_Port he_Port_update,
      str_field ''address'' True he_Address he_Address_update,
      str_field ''siteId'' True he_SiteId he_SiteId_update,
      str_field ''protocolVersion'' True he_ProtocolVersion he_ProtocolVersion_update,
      str_field ''aggregation'' True he_Aggregation he_Aggregation_update,
      bool_field ''eventChannel'' True he_EventChannel he_EventChannel_update,
      str_field ''hostOverride'' True he_HostOverride he_HostOverride_update]"

interpretation metadata_codec: json_codec "encode_struct metadata_fields"
    "decode_struct metadata_fields" zero_RouterMetadata "\<lambda>_. True"
  by unfold_locales (rule decode_encode_struct,
    simp_all add: metadata_fields_def field_defs zero_RouterMetadata_def)

interpretation profile_codec: json_codec "encode_struct profile_fields"
    "decode_struct profile_fields" zero_SslProfile "\<lambda>_. True"
  by unfold_locales (rule decode_encode_struct,
    simp_all add: profile_fields_def field_defs zero_SslProfile_def)

interpretation listener_codec: json_codec "encode_struct listener_fields"
    "decode_struct listener_fields" zero_Listener "\<lambda>_. True"
  by unfold_locales (rule decode_encode_struct,
    simp_all add: listener_fields_def field_defs zero_Listener_def)

interpretation connector_codec: json_codec "encode_struct connector_fields"
    "decode_struct connector_fields" zero_Connector "\<lambda>_. True"
  by unfold_locales (rule decode_encode_struct,
    simp_all add: connector_fields_def field_defs zero_Connector_def)

interpretation address_codec: json_codec "encode_struct address_fields"
    "decode_struct address_fields" zero_Address "\<lambda>_. True"
  by unfold_locales (rule decode_encode_struct,
    simp_all add: address_fields_def field_defs zero_Address_def)

interpretation tcp_codec: json_codec "encode_struct tcp_fields"
    "decode_struct tcp_fields" zero_TcpEndpoint "\<lambda>_. True"
  by unfold_locales (rule decode_encode_struct,
    simp_all add: tcp_fields_def field_defs zero_TcpEndpoint_def)

interpretation http_codec: json_codec "encode_struct http_fields"
    "decode_struct http_fields" zero_HttpEndpoint "\<lambda>_. True"
  by unfold_locales (rule decode_encode_struct,
    simp_all add: http_fields_def field_defs zero_HttpEndpoint_def)

section \<open>Writing\<close>

definition entity :: "string \<Rightarrow> ('e \<Rightarrow> json) \<Rightarrow> 'e \<Rightarrow> json" where
  "entity ty enc e = JArr [JStr ty, enc e]"

definition range_values :: "range_order \<Rightarrow> 'v gomap \<Rightarrow> 'v list" where
  "range_values rng m = map snd (range_of rng m)"

definition config_elements :: "range_order \<Rightarrow> RouterConfig \<Rightarrow> json list" where
  "config_elements rng config =
     [entity ''router'' (encode_struct metadata_fields) (Metadata config)] @
     map (entity ''sslProfile'' (encode_struct profile_fields)) (range_values rng (SslProfiles config)) @
     map (entity ''connector'' (encode_struct connector_fields)) (range_values rng (Connectors config)) @
     map (entity ''listener'' (encode_struct listener_fields)) (range_values rng (Listeners config)) @
     map (entity ''address'' (encode_struct address_fields)) (range_values rng (Addresses config)) @
     map (entity ''tcpConnector'' (encode_struct tcp_fields))
       (range_values rng (TcpConnectors (Bridges config))) @
     map (entity ''tcpListener'' (encode_struct tcp_fields))
       (range_values rng (TcpListeners (Bridges config))) @
     map (entity ''httpConnector'' (encode_struct http_fields))
       (range_values rng (HttpConnectors (Bridges config))) @
     map (entity ''httpListener'' (encode_struct http_fields))
       (range_values rng (HttpListeners (Bridges config)))"

definition MarshalRouterConfig :: "range_order \<Rightarrow> RouterConfig \<Rightarrow> string result" where
  "MarshalRouterConfig rng config = Inr (marshal_indent (\<lambda>es. JArr es) (config_elements rng config))"

section \<open>Reading\<close>

text \<open>\<open>convert\<close> writes the generic value as text and reads the text into the struct.\<close>

definition convert :: "(json \<Rightarrow> 'v \<Rightarrow> 'v result) \<Rightarrow> json \<Rightarrow> 'v \<Rightarrow> 'v result" where
  "convert dec from_value to_value = unmarshal dec (marshal (\<lambda>j. j) from_value) to_value"

definition invalid_element :: "string \<Rightarrow> error" where
  "invalid_element ty = Errorf (''Invalid '' @ ty @ '' element'')"

definition convert_element ::
  "string \<Rightarrow> (json \<Rightarrow> 'v \<Rightarrow> 'v result) \<Rightarrow> json \<Rightarrow> 'v \<Rightarrow> ('v \<Rightarrow> RouterConfig) \<Rightarrow> RouterConfig result" where
  "convert_element ty dec j zero store =
     (case convert dec j zero of Inl _ \<Rightarrow> Inl (invalid_element ty) | Inr v \<Rightarrow> Inr (store v))"

definition store_Metadata :: "RouterMetadata \<Rightarrow> RouterConfig \<Rightarrow> RouterConfig" where
  "store_Metadata m r = r\<lparr>Metadata := m\<rparr>"

definition store_Address :: "Address \<Rightarrow> RouterConfig \<Rightarrow> RouterConfig" where
  "store_Address a r = r\<lparr>Addresses := fmupd (ad_Prefix a) a (Addresses r)\<rparr>"

definition store_Connector :: "Connector \<Rightarrow> RouterConfig \<Rightarrow> RouterConfig" where
  "store_Connector c r = r\<lparr>Connectors := fmupd (cn_Name c) c (Connectors r)\<rparr>"

definition store_Listener :: "Listener \<Rightarrow> RouterConfig \<Rightarrow> RouterConfig" where
  "store_Listener l r = r\<lparr>Listeners := fmupd (ls_Name l) l (Listeners r)\<rparr>"

definition store_SslProfile :: "SslProfile \<Rightarrow> RouterConfig \<Rightarrow> RouterConfig" where
  "store_SslProfile s r = r\<lparr>SslProfiles := fmupd (sp_Name s) s (SslProfiles r)\<rparr>"

definition add_entity :: "string \<Rightarrow> json \<Rightarrow> RouterConfig \<Rightarrow> RouterConfig result" where
  "add_entity ty v r =
     (if ty = ''router'' then
        convert_element ty (decode_struct metadata_fields) v zero_RouterMetadata (\<lambda>x. store_Metadata x r)
      else if ty = ''address'' then
        convert_element ty (decode_struct address_fields) v zero_Address (\<lambda>x. store_Address x r)
      else if ty = ''connector'' then
        convert_element ty (decode_struct connector_fields) v zero_Connector (\<lambda>x. store_Connector x r)
      else if ty = ''listener'' then
        convert_element ty (decode_struct listener_fields) v zero_Listener (\<lambda>x. store_Listener x r)
      else if ty = ''sslProfile'' then
        convert_element ty (decode_struct profile_fields) v zero_SslProfile (\<lambda>x. store_SslProfile x r)
      else if ty = ''tcpConnector'' then
        convert_element ty (decode_struct tcp_fields) v zero_TcpEndpoint (\<lambda>x. AddTcpConnector x r)
      else if ty = ''tcpListener'' then
        convert_element ty (decode_struct tcp_fields) v zero_TcpEndpoint (\<lambda>x. AddTcpListener x r)
      else if ty = ''httpConnector'' then
        convert_element ty (decode_struct http_fields) v zero_HttpEndpoint (\<lambda>x. AddHttpConnector x r)
      else if ty = ''httpListener'' then
        convert_element ty (decode_struct http_fields) v zero_HttpEndpoint (\<lambda>x. AddHttpListener x r)
      else Inr r)"

definition add_element :: "json \<Rightarrow> RouterConfig \<Rightarrow> RouterConfig result" where
  "add_element e r =
     (case e of
        JArr [JStr ty, v] \<Rightarrow> add_entity ty v r
      | JArr [_, _] \<Rightarrow>
          Inl (Errorf ''Invalid JSON for router configuration, expected entity type as string'')
      | _ \<Rightarrow> Inl (Errorf ''Invalid JSON for router configuration, expected array with type and value''))"

definition empty_config :: RouterConfig where
  "empty_config =
     \<lparr>Metadata = zero_RouterMetadata, SslProfiles = fmempty, Listeners = fmempty,
      Connectors = fmempty, Addresses = fmempty, Bridges = NewBridgeConfig\<rparr>"

definition UnmarshalRouterConfig :: "string \<Rightarrow> RouterConfig result" where
  "UnmarshalRouterConfig config =
     bindR (unmarshal (\<lambda>j _. Inr j) config JNull)
       (\<lambda>obj. case obj of
           JArr elements \<Rightarrow> foldR add_element elements empty_config
         | _ \<Rightarrow> Inl (Errorf ''Invalid JSON for router configuration, expected array at top level''))"

section \<open>Round trip\<close>

lemma convert_simp [simp]: "convert dec j v = dec j v"
  by (simp add: convert_def)

lemma foldR_fold:
  "(\<And>e r. f (g e) r = Inr (put e r)) \<Longrightarrow> foldR f (map g es) r = Inr (fold put es r)"
  by (induction es arbitrary: r) simp_all

lemma fold_store:
  "fold store_SslProfile ss r = r\<lparr>SslProfiles := upd_all sp_Name ss (SslProfiles r)\<rparr>"
  "fold store_Connector cs r = r\<lparr>Connectors := upd_all cn_Name cs (Connectors r)\<rparr>"
  "fold store_Listener ls r = r\<lparr>Listeners := upd_all ls_Name ls (Listeners r)\<rparr>"
  "fold store_Address as r = r\<lparr>Addresses := upd_all ad_Prefix as (Addresses r)\<rparr>"
  "fold AddTcpConnector es r =
     r\<lparr>Bridges := Bridges r\<lparr>TcpConnectors := upd_all te_Name es (TcpConnectors (Bridges r))\<rparr>\<rparr>"
  "fold AddTcpListener es r =
     r\<lparr>Bridges := Bridges r\<lparr>TcpListeners := upd_all te_Name es (TcpListeners (Bridges r))\<rparr>\<rparr>"
  "fold AddHttpConnector hs r =
     r\<lparr>Bridges := Bridges r\<lparr>HttpConnectors := upd_all he_Name hs (HttpConnectors (Bridges r))\<rparr>\<rparr>"
  "fold AddHttpListener hs r =
     r\<lparr>Bridges := Bridges r\<lparr>HttpListeners := upd_all he_Name hs (HttpListeners (Bridges r))\<rparr>\<rparr>"
  subgoal by (induction ss arbitrary: r) (simp_all add: store_SslProfile_def)
  subgoal by (induction cs arbitrary: r) (simp_all add: store_Connector_def)
  subgoal by (induction ls arbitrary: r) (simp_all add: store_Listener_def)
  subgoal by (induction as arbitrary: r) (simp_all add: store_Address_def)
  subgoal by (induction es arbitrary: r) (simp_all add: add_defs)
  subgoal by (induction es arbitrary: r) (simp_all add: add_defs)
  subgoal by (induction hs arbitrary: r) (simp_all add: add_defs)
  subgoal by (induction hs arbitrary: r) (simp_all add: add_defs)
  done

lemma add_element_entity:
  "add_element (entity ''router'' (encode_struct metadata_fields) m) r = Inr (store_Metadata m r)"
  "add_element (entity ''sslProfile'' (encode_struct profile_fields) s) r = Inr (store_SslProfile s r)"
  "add_element (entity ''connector'' (encode_struct connector_fields) c) r = Inr (store_Connector c r)"
  "add_element (entity ''listener'' (encode_struct listener_fields) l) r = Inr (store_Listener l r)"
  "add_element (entity ''address'' (encode_struct address_fields) a) r = Inr (store_Address a r)"
  "add_element (entity ''tcpConnector'' (encode_struct tcp_fields) e) r = Inr (AddTcpConnector e r)"
  "add_element (entity ''tcpListener'' (encode_struct tcp_fields) e) r = Inr (AddTcpListener e r)"
  "add_element (entity ''httpConnector'' (encode_struct http_fields) h) r = Inr (AddHttpConnector h r)"
  "add_element (entity ''httpListener'' (encode_struct http_fields) h) r = Inr (AddHttpListener h r)"
  by (simp_all add: add_element_def add_entity_def convert_element_def entity_def
      metadata_codec.dec_enc profile_codec.dec_enc connector_codec.dec_enc listener_codec.dec_enc
      address_codec.dec_enc tcp_codec.dec_enc http_codec.dec_enc)

lemma foldR_entities:
  "foldR add_element (map (entity ''sslProfile'' (encode_struct profile_fields)) ss) r =
     Inr (fold store_SslProfile ss r)"
  "foldR add_element (map (entity ''connector'' (encode_struct connector_fields)) cs) r =
     Inr (fold store_Connector cs r)"
  "foldR add_element (map (entity ''listener'' (encode_struct listener_fields)) ls) r =
     Inr (fold store_Listener ls r)"
  "foldR add_element (map (entity ''address'' (encode_struct address_fields)) as) r =
     Inr (fold store_Address as r)"
  "foldR add_element (map (entity ''tcpConnector'' (encode_struct tcp_fields)) es) r =
     Inr (fold AddTcpConnector es r)"
  "foldR add_element (map (entity ''tcpListener'' (encode_struct tcp_fields)) es) r =
     Inr (fold AddTcpListener es r)"
  "foldR add_element (map (entity ''httpConnector'' (encode_struct http_fields)) hs) r =
     Inr (fold AddHttpConnector hs r)"
  "foldR add_element (map (entity ''httpListener'' (encode_struct http_fields)) hs) r =
     Inr (fold AddHttpListener hs r)"
  by (rule foldR_fold, rule add_element_entity)+

lemma foldR_elements:
  "foldR add_element (config_elements rng config) empty_config = Inr
     \<lparr>Metadata = Metadata config,
      SslProfiles = upd_all sp_Name (range_values rng (SslProfiles config)) fmempty,
      Listeners = upd_all ls_Name (range_values rng (Listeners config)) fmempty,
      Connectors = upd_all cn_Name (range_values rng (Connectors config)) fmempty,
      Addresses = upd_all ad_Prefix (range_values rng (Addresses config)) fmempty,
      Bridges =
        \<lparr>TcpListeners = upd_all te_Name (range_values rng (TcpListeners (Bridges config))) fmempty,
         TcpConnectors = upd_all te_Name (range_values rng (TcpConnectors (Bridges config))) fmempty,
         HttpListeners = upd_all he_Name (range_values rng (HttpListeners (Bridges config))) fmempty,
         HttpConnectors = upd_all he_Name (range_values rng (HttpConnectors (Bridges config))) fmempty\<rparr>\<rparr>"
  by (simp add: config_elements_def foldR_append add_element_entity foldR_entities fold_store
      empty_config_def store_Metadata_def NewBridgeConfig_def)

lemma read_written:
  assumes "range_ok rng" and "wf_config config"
  shows "bindR (MarshalRouterConfig rng config) UnmarshalRouterConfig = Inr config"
proof -
  note rebuild = upd_all_range [OF assms(1), folded range_values_def]
  have "bindR (MarshalRouterConfig rng config) UnmarshalRouterConfig =
      foldR add_element (config_elements rng config) empty_config"
    by (simp add: MarshalRouterConfig_def UnmarshalRouterConfig_def)
  also have "\<dots> = Inr config"
    using assms(2) by (simp add: foldR_elements wf_defs rebuild)
  finally show ?thesis .
qed

text \<open>
  C13 (roundtrip). A configuration built by any sequence of the configuration's methods, written
  by \<open>MarshalRouterConfig\<close> for any order in which the runtime ranges over its maps, is read back
  by \<open>UnmarshalRouterConfig\<close> unchanged, and both calls succeed.
\<close>

theorem marshal_unmarshal_config:
  assumes "range_ok rng"
  shows "bindR (MarshalRouterConfig rng (fold run_config_op ops (InitialConfig ident metadata edge)))
      UnmarshalRouterConfig = Inr (fold run_config_op ops (InitialConfig ident metadata edge))"
  using assms by (intro read_written wf_run_config_ops wf_InitialConfig)

lemma marshal_unmarshal_config_witness:
  "bindR (MarshalRouterConfig rng_down
       (fold run_config_op [OpConnector (zero_Connector\<lparr>cn_Name := ''conn1''\<rparr>), OpRemoveConnector ''conn2'']
         (InitialConfig ''id'' ''site'' True))) UnmarshalRouterConfig =
     Inr (AddConnector (zero_Connector\<lparr>cn_Name := ''conn1''\<rparr>) (InitialConfig ''id'' ''site'' True))"
  by (subst marshal_unmarshal_config)
    (simp_all add: add_defs RemoveConnector_def zero_Connector_def InitialConfig_def)

end
