(* ===== verification/ProxyConfig.thy ===== *)
theory ProxyConfig
  imports RouterJson
begin

text \<open>
  \<open>GetRouterConfigForProxy\<close> of \<open>pkg/qdr/qdr.go\<close>: the configuration of the router that stands in
  for a service. \<open>proxy_config\<close> is the configuration before it is written as text.
\<close>

section \<open>The configuration\<close>

definition container_selector :: string where
  "container_selector = ''internal.skupper.io/container''"

definition host_selector :: string where
  "host_selector = ''internal.skupper.io/host-service''"

lemma selector_neq [simp]: "host_selector \<noteq> container_selector" "container_selector \<noteq> host_selector"
  by (simp_all add: host_selector_def container_selector_def)

definition proxy_base :: "string \<Rightarrow> RouterConfig" where
  "proxy_base siteId =
     AddListener (zero_Listener\<lparr>ls_Name := ''amqp'', ls_Host := ''localhost'', ls_Port := 5672\<rparr>)
       (AddConnector
          (zero_Connector\<lparr>cn_Name := ''uplink'', cn_SslProfile := InterRouterProfile,
            cn_Host := ''skupper-router'', cn_Port := itoa (sint EdgeListenerPort), cn_Role := RoleEdge\<rparr>)
          (AddSslProfile (zero_SslProfile\<lparr>sp_Name := InterRouterProfile\<rparr>)
             (InitialConfig ''$HOSTNAME'' siteId True)))"

definition tcp_ingress :: "ServiceInterface \<Rightarrow> string \<Rightarrow> string \<Rightarrow> TcpEndpoint" where
  "tcp_ingress d siteId host =
     \<lparr>te_Name = ''ingress'', te_Host = host, te_Port = itoa (si_Port d),
      te_Address = si_Address d, te_SiteId = siteId\<rparr>"

definition http_ingress :: "string \<Rightarrow> ServiceInterface \<Rightarrow> string \<Rightarrow> string \<Rightarrow> HttpEndpoint" where
  "http_ingress version d siteId host =
     zero_HttpEndpoint\<lparr>he_Name := ''ingress'', he_Host := host, he_Port := itoa (si_Port d),
       he_Address := si_Address d, he_ProtocolVersion := version, he_SiteId := siteId\<rparr>"

definition egress_port :: "ServiceInterface \<Rightarrow> ServiceInterfaceTarget \<Rightarrow> int" where
  "egress_port d t = (if st_TargetPort t \<noteq> 0 then st_TargetPort t else si_Port d)"

definition tcp_egress :: "ServiceInterface \<Rightarrow> string \<Rightarrow> ServiceInterfaceTarget \<Rightarrow> string \<Rightarrow> TcpEndpoint" where
  "tcp_egress d siteId t host =
     \<lparr>te_Name = ''egress-'' @ host, te_Host = host, te_Port = itoa (egress_port d t),
      te_Address = si_Address d, te_SiteId = siteId\<rparr>"

definition http_egress ::
  "string \<Rightarrow> ServiceInterface \<Rightarrow> string \<Rightarrow> ServiceInterfaceTarget \<Rightarrow> string \<Rightarrow> HttpEndpoint" where
  "http_egress version d siteId t host =
     zero_HttpEndpoint\<lparr>he_Name := ''egress-'' @ host, he_Host := host,
       he_Port := itoa (egress_port d t), he_Address := si_Address d,
       he_ProtocolVersion := version, he_SiteId := siteId\<rparr>"

definition add_tcp_target ::
  "ServiceInterface \<Rightarrow> string \<Rightarrow> ServiceInterfaceTarget \<Rightarrow> RouterConfig \<Rightarrow> RouterConfig" where
  "add_tcp_target d siteId t r =
     (if st_Selector t = container_selector then
        AddTcpConnector (tcp_egress d siteId t (st_Name t)) r
      else if st_Selector t = host_selector then
        AddTcpConnector (tcp_egress d siteId t (hd (split_on (CHR '':'') (st_Name t)))) r
      else r)"

definition add_http_target ::
  "string \<Rightarrow> ServiceInterface \<Rightarrow> string \<Rightarrow> ServiceInterfaceTarget \<Rightarrow> RouterConfig \<Rightarrow> RouterConfig" where
  "add_http_target version d siteId t r =
     (if st_Selector t = container_selector then
        AddHttpConnector (http_egress version d siteId t (st_Name t)) r
      else if st_Selector t = host_selector then
        AddHttpConnector (http_egress version d siteId t (hd (split_on (CHR '':'') (st_Name t)))) r
      else r)"

text \<open>The two branches of the source: a service defined at this site (\<open>Origin\<close> empty) gets its
  ingress and an egress for each target, one learnt from another site only the ingress.\<close>

definition proxy_local :: "ServiceInterface \<Rightarrow> string \<Rightarrow> RouterConfig \<Rightarrow> RouterConfig" where
  "proxy_local d siteId r =
     (let host = si_Address d
      in if si_Protocol d = ''tcp'' then
           fold (add_tcp_target d siteId) (si_Targets d)
             (AddTcpListener (tcp_ingress d siteId ''0.0.0.0'') r)
         else if si_Protocol d = ''http'' then
           fold (add_http_target '''' d siteId) (si_Targets d)
             (AddHttpListener (http_ingress '''' d siteId host) r)
         else if si_Protocol d = ''http2'' then
           fold (add_http_target ''HTTP/2.0'' d siteId) (si_Targets d)
             (AddHttpListener (http_ingress ''HTTP/2.0'' d siteId host) r)
         else r)"

definition proxy_remote :: "ServiceInterface \<Rightarrow> string \<Rightarrow> RouterConfig \<Rightarrow> RouterConfig" where
  "proxy_remote d siteId r =
     (let host = ''0.0.0.0''
      in if si_Protocol d = ''tcp'' then AddTcpListener (tcp_ingress d siteId host) r
         else if si_Protocol d = ''http'' then AddHttpListener (http_ingress '''' d siteId host) r
         else if si_Protocol d = ''http2'' then
           AddHttpListener (http_ingress ''HTTP/2.0'' d siteId host) r
         else r)"

definition proxy_config :: "ServiceInterface \<Rightarrow> string \<Rightarrow> RouterConfig" where
  "proxy_config d siteId =
     (if si_Origin d = [] then proxy_local d siteId (proxy_base siteId)
      else proxy_remote d siteId (proxy_base siteId))"

definition GetRouterConfigForProxy ::
  "range_order \<Rightarrow> ServiceInterface \<Rightarrow> string \<Rightarrow> string result" where
  "GetRouterConfigForProxy rng definition siteId =
     MarshalRouterConfig rng (proxy_config definition siteId)"

section \<open>What the configuration holds\<close>

text \<open>The reference: the host each target is reached at, and the last target for a host wins,
  because its connector is stored under the host's name.\<close>

definition target_host :: "ServiceInterfaceTarget \<Rightarrow> string option" where
  "target_host t =
     (if st_Selector t = container_selector then Some (st_Name t)
      else if st_Selector t = host_selector then Some (takeWhile (\<lambda>c. c \<noteq> CHR '':'') (st_Name t))
      else None)"

definition last_target :: "string \<Rightarrow> ServiceInterfaceTarget list \<Rightarrow> ServiceInterfaceTarget option" where
  "last_target host ts = List.find (\<lambda>t. target_host t = Some host) (rev ts)"

lemma last_target_append:
  "last_target h (ts @ [t]) = (if target_host t = Some h then Some t else last_target h ts)"
  by (simp add: last_target_def)

lemma add_target_host:
  "add_tcp_target d siteId t r =
     (case target_host t of None \<Rightarrow> r | Some h \<Rightarrow> AddTcpConnector (tcp_egress d siteId t h) r)"
  "add_http_target v d siteId t r =
     (case target_host t of None \<Rightarrow> r | Some h \<Rightarrow> AddHttpConnector (http_egress v d siteId t h) r)"
  by (simp_all add: add_tcp_target_def add_http_target_def target_host_def hd_split_on)

lemma wf_add_targets:
  "wf_config r \<Longrightarrow> wf_config (fold (add_tcp_target d siteId) ts r)"
  "wf_config r \<Longrightarrow> wf_config (fold (add_http_target v d siteId) ts r)"
  by (induction ts arbitrary: r)
    (simp_all add: add_target_host keyed_rules split: option.split)

lemma tcp_targets_lookup:
  "fmlookup (TcpConnectors (Bridges (fold (add_tcp_target d siteId) ts r))) (''egress-'' @ h) =
     (case last_target h ts of
        Some t \<Rightarrow> Some (tcp_egress d siteId t h)
      | None \<Rightarrow> fmlookup (TcpConnectors (Bridges r)) (''egress-'' @ h))"
  by (induction ts rule: rev_induct)
    (auto simp: last_target_append add_target_host add_defs tcp_egress_def last_target_def
      split: option.split)

lemma http_targets_lookup:
  "fmlookup (HttpConnectors (Bridges (fold (add_http_target v d siteId) ts r))) (''egress-'' @ h) =
     (case last_target h ts of
        Some t \<Rightarrow> Some (http_egress v d siteId t h)
      | None \<Rightarrow> fmlookup (HttpConnectors (Bridges r)) (''egress-'' @ h))"
  by (induction ts rule: rev_induct)
    (auto simp: last_target_append add_target_host add_defs http_egress_def last_target_def
      split: option.split)

lemma targets_frame:
  "TcpListeners (Bridges (fold (add_tcp_target d siteId) ts r)) = TcpListeners (Bridges r)"
  "HttpListeners (Bridges (fold (add_tcp_target d siteId) ts r)) = HttpListeners (Bridges r)"
  "HttpConnectors (Bridges (fold (add_tcp_target d siteId) ts r)) = HttpConnectors (Bridges r)"
  "TcpListeners (Bridges (fold (add_http_target v d siteId) ts r)) = TcpListeners (Bridges r)"
  "HttpListeners (Bridges (fold (add_http_target v d siteId) ts r)) = HttpListeners (Bridges r)"
  "TcpConnectors (Bridges (fold (add_http_target v d siteId) ts r)) = TcpConnectors (Bridges r)"
  by (induction ts arbitrary: r) (simp_all add: add_target_host add_defs split: option.split)

lemma tcp_targets_names:
  "fset (fmdom (TcpConnectors (Bridges r))) \<subseteq> range (\<lambda>h. ''egress-'' @ h) \<Longrightarrow>
     fset (fmdom (TcpConnectors (Bridges (fold (add_tcp_target d siteId) ts r)))) \<subseteq> range (\<lambda>h. ''egress-'' @ h)"
  by (induction ts rule: rev_induct)
    (simp_all add: add_target_host add_defs tcp_egress_def split: option.splits)

lemma http_targets_names:
  "fset (fmdom (HttpConnectors (Bridges r))) \<subseteq> range (\<lambda>h. ''egress-'' @ h) \<Longrightarrow>
     fset (fmdom (HttpConnectors (Bridges (fold (add_http_target v d siteId) ts r)))) \<subseteq> range (\<lambda>h. ''egress-'' @ h)"
  by (induction ts rule: rev_induct)
    (simp_all add: add_target_host add_defs http_egress_def split: option.splits)

lemma Bridges_proxy_base [simp]: "Bridges (proxy_base siteId) = NewBridgeConfig"
  by (simp add: proxy_base_def add_defs InitialConfig_def Let_def)

lemma wf_proxy_config [keyed_rules]: "wf_config (proxy_config d siteId)"
  by (simp add: proxy_config_def proxy_local_def proxy_remote_def proxy_base_def Let_def
      wf_add_targets keyed_rules)

lemma tcp_proxy_config:
  assumes "si_Protocol d = ''tcp''"
  shows "TcpListeners (Bridges (proxy_config d siteId)) = fmupd ''ingress'' (tcp_ingress d siteId ''0.0.0.0'') fmempty"
    and "HttpListeners (Bridges (proxy_config d siteId)) = fmempty"
    and "HttpConnectors (Bridges (proxy_config d siteId)) = fmempty"
    and "fmlookup (TcpConnectors (Bridges (proxy_config d siteId))) (''egress-'' @ h) =
      (if si_Origin d = [] then map_option (\<lambda>t. tcp_egress d siteId t h) (last_target h (si_Targets d)) else None)"
    and "fset (fmdom (TcpConnectors (Bridges (proxy_config d siteId)))) \<subseteq> range (\<lambda>h. ''egress-'' @ h)"
  subgoal using assms by (simp add: proxy_config_def proxy_local_def proxy_remote_def Let_def
      targets_frame add_defs NewBridgeConfig_def tcp_ingress_def)
  subgoal using assms by (simp add: proxy_config_def proxy_local_def proxy_remote_def Let_def
      targets_frame add_defs NewBridgeConfig_def)
  subgoal using assms by (simp add: proxy_config_def proxy_local_def proxy_remote_def Let_def
      targets_frame add_defs NewBridgeConfig_def)
  subgoal using assms by (simp add: proxy_config_def proxy_local_def proxy_remote_def Let_def
      tcp_targets_lookup [simplified] add_defs NewBridgeConfig_def split: option.split)
  subgoal
    using assms tcp_targets_names [of "AddTcpListener (tcp_ingress d siteId ''0.0.0.0'') (proxy_base siteId)"
        d siteId "si_Targets d"]
    by (simp add: proxy_config_def proxy_local_def proxy_remote_def Let_def add_defs NewBridgeConfig_def)
  done

definition http_version :: "string \<Rightarrow> string" where
  "http_version protocol = (if protocol = ''http2'' then ''HTTP/2.0'' else '''')"

lemma http_proxy_config:
  assumes "si_Protocol d = ''http'' \<or> si_Protocol d = ''http2''"
  shows "HttpListeners (Bridges (proxy_config d siteId)) =
      fmupd ''ingress'' (http_ingress (http_version (si_Protocol d)) d siteId
        (if si_Origin d = [] then si_Address d else ''0.0.0.0'')) fmempty"
    and "TcpListeners (Bridges (proxy_config d siteId)) = fmempty"
    and "TcpConnectors (Bridges (proxy_config d siteId)) = fmempty"
    and "fmlookup (HttpConnectors (Bridges (proxy_config d siteId))) (''egress-'' @ h) =
      (if si_Origin d = [] then map_option (\<lambda>t. http_egress (http_version (si_Protocol d)) d siteId t h)
         (last_target h (si_Targets d)) else None)"
    and "fset (fmdom (HttpConnectors (Bridges (proxy_config d siteId)))) \<subseteq> range (\<lambda>h. ''egress-'' @ h)"
  subgoal using assms by (auto simp: proxy_config_def proxy_local_def proxy_remote_def Let_def
      targets_frame add_defs NewBridgeConfig_def http_ingress_def http_version_def)
  subgoal using assms by (auto simp: proxy_config_def proxy_local_def proxy_remote_def Let_def
      targets_frame add_defs NewBridgeConfig_def)
  subgoal using assms by (auto simp: proxy_config_def proxy_local_def proxy_remote_def Let_def
      targets_frame add_defs NewBridgeConfig_def)
  subgoal using assms by (auto simp: proxy_config_def proxy_local_def proxy_remote_def Let_def
      http_targets_lookup [simplified] add_defs NewBridgeConfig_def http_version_def split: option.split)
  subgoal
    using assms http_targets_names [of "AddHttpListener
          (http_ingress (http_version (si_Protocol d)) d siteId (si_Address d)) (proxy_base siteId)"
        "http_version (si_Protocol d)" d siteId "si_Targets d"]
    by (elim disjE) (simp_all add: proxy_config_def proxy_local_def proxy_remote_def Let_def add_defs
        NewBridgeConfig_def http_version_def)
  done

lemma remote_proxy_config:
  assumes "si_Origin d \<noteq> []"
  shows "TcpConnectors (Bridges (proxy_config d siteId)) = fmempty"
    and "HttpConnectors (Bridges (proxy_config d siteId)) = fmempty"
  using assms by (simp_all add: proxy_config_def proxy_remote_def Let_def add_defs NewBridgeConfig_def)

lemma proxy_text_read:
  "range_ok rng \<Longrightarrow>
     bindR (GetRouterConfigForProxy rng d siteId) UnmarshalRouterConfig = Inr (proxy_config d siteId)"
  unfolding GetRouterConfigForProxy_def by (rule read_written) (simp_all add: keyed_rules)

text \<open>
  C12 (functional). The text generated for the proxy of a tcp service reads back as a
  configuration with one listener, on the port of the service, and, when the service is defined
  at this site, one connector for each host a target names, going to the port of the last such
  target (the port of the service when the target gives none). A service learnt from another
  site gets no connector.
\<close>

theorem tcp_proxy_bridges:
  assumes "range_ok rng" and "si_Protocol d = ''tcp''"
  shows "\<exists>r. bindR (GetRouterConfigForProxy rng d siteId) UnmarshalRouterConfig = Inr r \<and>
    TcpListeners (Bridges r) = fmupd ''ingress'' (tcp_ingress d siteId ''0.0.0.0'') fmempty \<and>
    HttpListeners (Bridges r) = fmempty \<and> HttpConnectors (Bridges r) = fmempty \<and>
    (\<forall>h. fmlookup (TcpConnectors (Bridges r)) (''egress-'' @ h) =
       (if si_Origin d = [] then map_option (\<lambda>t. tcp_egress d siteId t h) (last_target h (si_Targets d))
        else None)) \<and>
    fset (fmdom (TcpConnectors (Bridges r))) \<subseteq> range (\<lambda>h. ''egress-'' @ h)"
  by (intro exI [of _ "proxy_config d siteId"] conjI allI proxy_text_read [OF assms(1)]
      tcp_proxy_config [OF assms(2)])

text \<open>
  The same for http and http2, with the protocol version of the latter, except
  that the listener of a service defined at this site binds the address of the service.
\<close>

theorem http_proxy_bridges:
  assumes "range_ok rng" and "si_Protocol d \<in> {''http'', ''http2''}"
  shows "\<exists>r. bindR (GetRouterConfigForProxy rng d siteId) UnmarshalRouterConfig = Inr r \<and>
    HttpListeners (Bridges r) =
      fmupd ''ingress'' (http_ingress (http_version (si_Protocol d)) d siteId
        (if si_Origin d = [] then si_Address d else ''0.0.0.0'')) fmempty \<and>
    TcpListeners (Bridges r) = fmempty \<and> TcpConnectors (Bridges r) = fmempty \<and>
    (\<forall>h. fmlookup (HttpConnectors (Bridges r)) (''egress-'' @ h) =
       (if si_Origin d = [] then map_option (\<lambda>t. http_egress (http_version (si_Protocol d)) d siteId t h)
          (last_target h (si_Targets d))
        else None)) \<and>
    fset (fmdom (HttpConnectors (Bridges r))) \<subseteq> range (\<lambda>h. ''egress-'' @ h)"
proof -
  from assms(2) have "si_Protocol d = ''http'' \<or> si_Protocol d = ''http2''" by simp
  then show ?thesis
    by (intro exI [of _ "proxy_config d siteId"] conjI allI proxy_text_read [OF assms(1)]
        http_proxy_config)
qed

definition sample_service :: ServiceInterface where
  "sample_service =
     zero_ServiceInterface\<lparr>si_Address := ''db'', si_Protocol := ''tcp'', si_Port := 5432,
       si_Targets :=
         [zero_ServiceInterfaceTarget\<lparr>st_Name := ''pg1'', st_Selector := container_selector\<rparr>,
          zero_ServiceInterfaceTarget\<lparr>st_Name := ''pg2'', st_Selector := container_selector,
            st_TargetPort := 6432\<rparr>]\<rparr>"

lemma tcp_proxy_bridges_witness:
  "\<exists>r. bindR (GetRouterConfigForProxy rng_down sample_service ''site'') UnmarshalRouterConfig = Inr r \<and>
    map_option te_Port (fmlookup (TcpConnectors (Bridges r)) ''egress-pg1'') = Some (itoa 5432) \<and>
    map_option te_Port (fmlookup (TcpConnectors (Bridges r)) ''egress-pg2'') = Some (itoa 6432)"
proof -
  from tcp_proxy_bridges [of rng_down sample_service "''site''"]
  obtain r where r: "bindR (GetRouterConfigForProxy rng_down sample_service ''site'') UnmarshalRouterConfig = Inr r"
    and look: "\<forall>h. fmlookup (TcpConnectors (Bridges r)) (''egress-'' @ h) =
      map_option (\<lambda>t. tcp_egress sample_service ''site'' t h) (last_target h (si_Targets sample_service))"
    by (auto simp: sample_service_def zero_ServiceInterface_def simp del: append_Cons)
  show ?thesis
    using r look [THEN spec, of "''pg1''"] look [THEN spec, of "''pg2''"]
    by (auto simp: sample_service_def last_target_def target_host_def tcp_egress_def egress_port_def
        zero_ServiceInterfaceTarget_def)
qed

lemma http_proxy_bridges_witness:
  "\<exists>r. bindR (GetRouterConfigForProxy rng_up (sample_service\<lparr>si_Protocol := ''http2''\<rparr>) ''site'')
      UnmarshalRouterConfig = Inr r \<and>
    map_option he_ProtocolVersion (fmlookup (HttpConnectors (Bridges r)) ''egress-pg2'') = Some ''HTTP/2.0''"
proof -
  let ?d = "sample_service\<lparr>si_Protocol := ''http2''\<rparr>"
  from http_proxy_bridges [of rng_up ?d "''site''"]
  obtain r where r: "bindR (GetRouterConfigForProxy rng_up ?d ''site'') UnmarshalRouterConfig = Inr r"
    and look: "\<forall>h. fmlookup (HttpConnectors (Bridges r)) (''egress-'' @ h) =
      map_option (\<lambda>t. http_egress ''HTTP/2.0'' ?d ''site'' t h) (last_target h (si_Targets ?d))"
    by (auto simp: sample_service_def zero_ServiceInterface_def http_version_def simp del: append_Cons)
  show ?thesis
    using r look [THEN spec, of "''pg2''"]
    by (auto simp: sample_service_def last_target_def target_host_def http_egress_def)
qed

end
