(* ===== verification/Samples.thy ===== *)
theory Samples
  imports ServiceStore ProxyConfig
begin

text \<open>
  A concrete machine, the definition of a local service and the services file of a site, at which
  the properties of the client and of the controller are evaluated.
\<close>

text \<open>A token file: the text of a JSON object under the file's own name.\<close>

definition secret_text :: "string gomap \<Rightarrow> string" where
  "secret_text = marshal (enc_map enc_str)"

definition sample_get :: "filesystem \<Rightarrow> string \<Rightarrow> string gomap result" where
  "sample_get fs f =
     (case fmlookup fs [f] of
        Some (File content) \<Rightarrow> unmarshal (dec_map dec_str []) content fmempty
      | _ \<Rightarrow> Inl (PackageError ''cannot read token''))"

definition sample_put :: "string \<Rightarrow> string \<Rightarrow> string gomap \<Rightarrow> string gomap \<Rightarrow> filesystem \<Rightarrow> filesystem" where
  "sample_put subject f certData annotations fs = fmupd [f] (File (secret_text (certData ++\<^sub>f annotations))) fs"

interpretation text_value: json_codec enc_str dec_str "[]" "\<lambda>_. True"
  by unfold_locales simp

lemma sample_get_put: "fmlookup fs [f] = Some (File (secret_text s)) \<Longrightarrow> sample_get fs f = Inr s"
  using text_value.map_text_round_trip [of s] by (simp add: sample_get_def secret_text_def fmpred_iff)

definition sample_host :: host where
  "sample_host =
     \<lparr>h_env = (\<lambda>v. if v = ''SKUPPER_TMPDIR'' then ''/t'' else ''''), h_cwd = [], h_goos = ''linux'', h_uuid = ''uuid'',
      h_random_bytes = (\<lambda>n. replicate n 0),
      h_ifaces = (\<lambda>_. [\<lparr>ia_Loopback = False, ia_IPv4 = True, ia_Text = ''172.18.0.1''\<rparr>]),
      h_rng = rng_up, h_loops = (\<lambda>n. if even n then rng_up else rng_down), h_ca_cert = (\<lambda>_ _. fmempty), h_gen_cert = (\<lambda>_ _ _ _. fmempty),
      h_get_secret = sample_get, h_put_secret = sample_put\<rparr>"

definition sample_defs :: service_defs where
  "sample_defs = fmupd ''db'' sample_service fmempty"

lemma wf_fs_chain:
  "wf_fs (fmupd [a, b, c, d] (File x) (fmupd [a, b, c] Dir (fmupd [a, b] Dir (fmupd [a] Dir fmempty))))"
  by (intro wf_fs_upd_File wf_fs_upd_Dir wf_fs_empty) (simp_all add: is_dir_def)

lemma service_ok_sample [simp]: "service_ok sample_service"
  by (simp add: service_ok_def sample_service_def target_ok_def int64_range_def zero_ServiceInterface_def
      zero_ServiceInterfaceTarget_def)

lemma defs_ok_sample: "defs_ok sample_defs"
  by (simp add: sample_defs_def keyed_rules)

definition file_world :: "string \<Rightarrow> string \<Rightarrow> string \<Rightarrow> string \<Rightarrow> string \<Rightarrow> World" where
  "file_world a b c d content =
     \<lparr>files = fmupd [a, b, c, d] (File content) (fmupd [a, b, c] Dir (fmupd [a, b] Dir (fmupd [a] Dir fmempty))),
      calls = []\<rparr>"

lemma wf_file_world: "wf_fs (files (file_world a b c d content))"
  by (simp add: file_world_def wf_fs_chain)

end
