(* ===== verification/Bridges.thy ===== *)
theory Bridges
  imports ProxyConfig
begin

text \<open>
  \<open>cmd/service-controller/bridges.go\<close>: the controller's working copy of a service, its bindings,
  updated from each new definition and turned back into a definition to configure the proxy.
\<close>

section \<open>Data\<close>

record EgressBindings =
  eb_name :: string
  eb_selector :: string
  eb_service :: string
  eb_egressPort :: int

record ServiceBindings =
  sb_origin :: string
  sb_protocol :: string
  sb_address :: string
  sb_publicPort :: int
  sb_ingressPort :: int
  sb_aggregation :: string
  sb_eventChannel :: bool
  sb_headless :: "Headless option"
  sb_targets :: "EgressBindings gomap"

section \<open>Functions\<close>

definition getBridgeName :: "string \<Rightarrow> string \<Rightarrow> string" where
  "getBridgeName address host = (if host = [] then address else address @ ''@'' @ host)"

definition binding_target :: "EgressBindings \<Rightarrow> ServiceInterfaceTarget" where
  "binding_target eb =
     \<lparr>st_Name = eb_name eb, st_Selector = eb_selector eb, st_TargetPort = eb_egressPort eb, st_Service = eb_service eb\<rparr>"

definition asServiceInterface :: "range_order \<Rightarrow> ServiceBindings \<Rightarrow> ServiceInterface" where
  "asServiceInterface rng bindings =
     \<lparr>si_Address = sb_address bindings, si_Protocol = sb_protocol bindings, si_Port = sb_publicPort bindings,
      si_EventChannel = sb_eventChannel bindings, si_Aggregate = sb_aggregation bindings,
      si_Headless = sb_headless bindings,
      si_Targets = map (binding_target \<circ> snd) (range_of rng (sb_targets bindings)),
      si_Origin = sb_origin bindings, si_Alias = []\<rparr>"

definition getTargetPort :: "ServiceInterface \<Rightarrow> ServiceInterfaceTarget \<Rightarrow> int" where
  "getTargetPort service target =
     (let targetPort = st_TargetPort target in if targetPort = 0 then si_Port service else targetPort)"

definition target_key :: "string \<Rightarrow> string \<Rightarrow> string" where
  "target_key address name = address @ ''@'' @ name"

definition hasTargetForName :: "ServiceInterface \<Rightarrow> string \<Rightarrow> bool" where
  "hasTargetForName si name \<longleftrightarrow> list_ex (\<lambda>t. target_key (si_Address si) (st_Name t) = name) (si_Targets si)"

definition hasTargetForSelector :: "ServiceInterface \<Rightarrow> string \<Rightarrow> bool" where
  "hasTargetForSelector si selector \<longleftrightarrow> list_ex (\<lambda>t. st_Selector t = selector) (si_Targets si)"

definition hasTargetForService :: "ServiceInterface \<Rightarrow> string \<Rightarrow> bool" where
  "hasTargetForService si service \<longleftrightarrow> list_ex (\<lambda>t. st_Service t = service) (si_Targets si)"

definition newServiceBindings ::
  "string \<Rightarrow> string \<Rightarrow> string \<Rightarrow> int \<Rightarrow> Headless option \<Rightarrow> int \<Rightarrow> string \<Rightarrow> bool \<Rightarrow> ServiceBindings" where
  "newServiceBindings origin protocol address publicPort headless ingressPort aggregation eventChannel =
     \<lparr>sb_origin = origin, sb_protocol = protocol, sb_address = address, sb_publicPort = publicPort,
      sb_ingressPort = ingressPort, sb_aggregation = aggregation, sb_eventChannel = eventChannel,
      sb_headless = headless, sb_targets = fmempty\<rparr>"

definition addTarget :: "string \<Rightarrow> string \<Rightarrow> string \<Rightarrow> int \<Rightarrow> ServiceBindings \<Rightarrow> ServiceBindings" where
  "addTarget address name selector port sb =
     sb\<lparr>sb_targets := fmupd (target_key address name)
       \<lparr>eb_name = name, eb_selector = selector, eb_service = [], eb_egressPort = port\<rparr> (sb_targets sb)\<rparr>"

definition addSelectorTarget :: "string \<Rightarrow> string \<Rightarrow> int \<Rightarrow> ServiceBindings \<Rightarrow> ServiceBindings" where
  "addSelectorTarget name selector port sb =
     sb\<lparr>sb_targets := fmupd selector
       \<lparr>eb_name = name, eb_selector = selector, eb_service = [], eb_egressPort = port\<rparr> (sb_targets sb)\<rparr>"

definition removeSelectorTarget :: "string \<Rightarrow> ServiceBindings \<Rightarrow> ServiceBindings" where
  "removeSelectorTarget selector sb = sb\<lparr>sb_targets := fmdrop selector (sb_targets sb)\<rparr>"

definition addServiceTarget :: "string \<Rightarrow> string \<Rightarrow> int \<Rightarrow> ServiceBindings \<Rightarrow> ServiceBindings" where
  "addServiceTarget name service port sb =
     sb\<lparr>sb_targets := fmupd service
       \<lparr>eb_name = name, eb_selector = [], eb_service = service, eb_egressPort = port\<rparr> (sb_targets sb)\<rparr>"

definition removeServiceTarget :: "string \<Rightarrow> ServiceBindings \<Rightarrow> ServiceBindings" where
  "removeServiceTarget service sb = sb\<lparr>sb_targets := fmdrop service (sb_targets sb)\<rparr>"

text \<open>The branch for an address without bindings: the target port is taken as it is, 0 included.\<close>

definition new_target_entry :: "ServiceInterface \<Rightarrow> ServiceInterfaceTarget \<Rightarrow> EgressBindings gomap \<Rightarrow> EgressBindings gomap"
where
  "new_target_entry required t =
     fmupd (target_key (si_Address required) (st_Name t))
       \<lparr>eb_name = st_Name t, eb_selector = st_Selector t, eb_service = st_Service t,
        eb_egressPort = st_TargetPort t\<rparr>"

definition new_bindings :: "ServiceInterface \<Rightarrow> ServiceBindings" where
  "new_bindings required =
     (let sb = newServiceBindings (si_Origin required) (si_Protocol required) (si_Address required)
                 (si_Port required) (si_Headless required) (si_Port required) (si_Aggregate required)
                 (si_EventChannel required)
      in sb\<lparr>sb_targets := fold (new_target_entry required) (si_Targets required) (sb_targets sb)\<rparr>)"

text \<open>The branch for an address with bindings.\<close>

definition update_target :: "ServiceInterface \<Rightarrow> ServiceInterfaceTarget \<Rightarrow> ServiceBindings \<Rightarrow> ServiceBindings" where
  "update_target required t bindings =
     (let targetPort = getTargetPort required t;
          key = target_key (si_Address required) (st_Name t)
      in case fmlookup (sb_targets bindings) key of
           None \<Rightarrow> addTarget (si_Address required) (st_Name t) (st_Selector t) targetPort bindings
         | Some target \<Rightarrow>
             if eb_egressPort target \<noteq> targetPort
             then bindings\<lparr>sb_targets := fmupd key (target\<lparr>eb_egressPort := targetPort\<rparr>) (sb_targets bindings)\<rparr>
             else bindings)"

definition update_fields :: "ServiceInterface \<Rightarrow> ServiceBindings \<Rightarrow> ServiceBindings" where
  "update_fields required bindings =
     bindings\<lparr>sb_protocol := si_Protocol required, sb_publicPort := si_Port required,
       sb_aggregation := si_Aggregate required, sb_eventChannel := si_EventChannel required,
       sb_origin := si_Origin required\<rparr>"

definition update_bindings :: "ServiceInterface \<Rightarrow> ServiceBindings \<Rightarrow> ServiceBindings" where
  "update_bindings required bindings =
     (let b = fold (update_target required) (si_Targets required) (update_fields required bindings)
      in b\<lparr>sb_targets := fmfilter (hasTargetForName required) (sb_targets b)\<rparr>)"

definition updateServiceBindings :: "ServiceInterface \<Rightarrow> ServiceBindings gomap \<Rightarrow> ServiceBindings gomap" where
  "updateServiceBindings required all =
     (case fmlookup all (si_Address required) of
        None \<Rightarrow> fmupd (si_Address required) (new_bindings required) all
      | Some bindings \<Rightarrow> fmupd (si_Address required) (update_bindings required bindings) all)"

section \<open>Lemmas\<close>

lemma target_key_inj [simp]: "target_key a n = target_key a n' \<longleftrightarrow> n = n'"
  by (simp add: target_key_def)

definition last_named :: "string \<Rightarrow> ServiceInterfaceTarget list \<Rightarrow> ServiceInterfaceTarget option" where
  "last_named n ts = List.find (\<lambda>t. st_Name t = n) (rev ts)"

lemma last_named_append: "last_named n (ts @ [t]) = (if st_Name t = n then Some t else last_named n ts)"
  by (simp add: last_named_def)

lemma last_named_Nil [simp]: "last_named n [] = None"
  by (simp add: last_named_def)

lemma last_named_None: "last_named n ts = None \<longleftrightarrow> n \<notin> st_Name ` set ts"
  by (auto simp: last_named_def find_None_iff)

lemma last_named_Some: "last_named n ts = Some t \<Longrightarrow> t \<in> set ts \<and> st_Name t = n"
  by (auto simp: last_named_def find_Some_iff) (metis in_set_conv_nth length_rev set_rev)

lemma new_targets_lookup:
  "fmlookup (fold (new_target_entry r) ts m) (target_key (si_Address r) n) =
     (case last_named n ts of
        Some t \<Rightarrow> Some \<lparr>eb_name = st_Name t, eb_selector = st_Selector t, eb_service = st_Service t,
                        eb_egressPort = st_TargetPort t\<rparr>
      | None \<Rightarrow> fmlookup m (target_key (si_Address r) n))"
  by (induction ts rule: rev_induct) (auto simp: last_named_append new_target_entry_def split: option.split)

lemma new_targets_dom:
  "fset (fmdom (fold (new_target_entry r) ts m)) =
     (target_key (si_Address r) \<circ> st_Name) ` set ts \<union> fset (fmdom m)"
  by (induction ts arbitrary: m) (auto simp: new_target_entry_def)

lemma update_targets_frame:
  "sb_protocol (fold (update_target r) ts b) = sb_protocol b"
  "sb_address (fold (update_target r) ts b) = sb_address b"
  "sb_publicPort (fold (update_target r) ts b) = sb_publicPort b"
  "sb_aggregation (fold (update_target r) ts b) = sb_aggregation b"
  "sb_eventChannel (fold (update_target r) ts b) = sb_eventChannel b"
  "sb_origin (fold (update_target r) ts b) = sb_origin b"
  "sb_headless (fold (update_target r) ts b) = sb_headless b"
  "sb_ingressPort (fold (update_target r) ts b) = sb_ingressPort b"
  by (induction ts arbitrary: b) (auto simp: update_target_def addTarget_def Let_def split: option.split)

lemma update_targets_port:
  "map_option eb_egressPort (fmlookup (sb_targets (fold (update_target r) ts b)) (target_key (si_Address r) n)) =
     (case last_named n ts of
        Some t \<Rightarrow> Some (getTargetPort r t)
      | None \<Rightarrow> map_option eb_egressPort (fmlookup (sb_targets b) (target_key (si_Address r) n)))"
  by (induction ts rule: rev_induct)
    (auto simp: last_named_append update_target_def addTarget_def Let_def split: option.split)

lemma update_targets_dom:
  "fset (fmdom (sb_targets (fold (update_target r) ts b))) =
     (target_key (si_Address r) \<circ> st_Name) ` set ts \<union> fset (fmdom (sb_targets b))"
  by (induction ts arbitrary: b)
    (auto simp: update_target_def addTarget_def Let_def fmlookup_dom_iff split: option.splits)

text \<open>The port a binding sends its traffic to once it is turned into a proxy configuration.\<close>

definition effective_port :: "ServiceBindings \<Rightarrow> EgressBindings \<Rightarrow> int" where
  "effective_port sb eb = (if eb_egressPort eb = 0 then sb_publicPort sb else eb_egressPort eb)"

lemma bindings_dom:
  "fset (fmdom (sb_targets (new_bindings r))) = (target_key (si_Address r) \<circ> st_Name) ` set (si_Targets r)"
  "fset (fmdom (sb_targets (update_bindings r b))) = (target_key (si_Address r) \<circ> st_Name) ` set (si_Targets r)"
  by (auto simp: new_bindings_def newServiceBindings_def Let_def new_targets_dom update_bindings_def
      hasTargetForName_def list_ex_iff fmdom_filter update_targets_dom)

lemma bindings_port:
  assumes "last_named n (si_Targets r) = Some t"
  shows "\<exists>eb. fmlookup (sb_targets (new_bindings r)) (target_key (si_Address r) n) = Some eb \<and>
      effective_port (new_bindings r) eb = getTargetPort r t"
    and "\<exists>eb. fmlookup (sb_targets (update_bindings r b)) (target_key (si_Address r) n) = Some eb \<and>
      effective_port (update_bindings r b) eb = getTargetPort r t"
proof -
  show "\<exists>eb. fmlookup (sb_targets (new_bindings r)) (target_key (si_Address r) n) = Some eb \<and>
      effective_port (new_bindings r) eb = getTargetPort r t"
    using assms by (simp add: new_bindings_def newServiceBindings_def Let_def new_targets_lookup
        effective_port_def getTargetPort_def)
  have has: "hasTargetForName r (target_key (si_Address r) n)"
    using last_named_Some [OF assms] by (auto simp: hasTargetForName_def list_ex_iff)
  have "map_option eb_egressPort (fmlookup (sb_targets (fold (update_target r) (si_Targets r) (update_fields r b)))
      (target_key (si_Address r) n)) = Some (getTargetPort r t)"
    using assms by (simp add: update_targets_port)
  then obtain eb where "fmlookup (sb_targets (fold (update_target r) (si_Targets r) (update_fields r b)))
      (target_key (si_Address r) n) = Some eb" "eb_egressPort eb = getTargetPort r t" by auto
  then show "\<exists>eb. fmlookup (sb_targets (update_bindings r b)) (target_key (si_Address r) n) = Some eb \<and>
      effective_port (update_bindings r b) eb = getTargetPort r t"
    using has by (auto simp: update_bindings_def Let_def effective_port_def getTargetPort_def
        update_targets_frame update_fields_def)
qed

text \<open>What it means for bindings to follow a definition.\<close>

definition bindings_follow :: "ServiceInterface \<Rightarrow> ServiceBindings \<Rightarrow> bool" where
  "bindings_follow r sb \<longleftrightarrow>
     sb_protocol sb = si_Protocol r \<and> sb_publicPort sb = si_Port r \<and> sb_aggregation sb = si_Aggregate r \<and>
     sb_eventChannel sb = si_EventChannel r \<and> sb_origin sb = si_Origin r \<and>
     fset (fmdom (sb_targets sb)) = (target_key (si_Address r) \<circ> st_Name) ` set (si_Targets r) \<and>
     (\<forall>n. map_option (effective_port sb) (fmlookup (sb_targets sb) (target_key (si_Address r) n)) =
        map_option (getTargetPort r) (last_named n (si_Targets r)))"

lemma update_follows:
  "\<exists>sb. fmlookup (updateServiceBindings r all) (si_Address r) = Some sb \<and> bindings_follow r sb \<and>
     fmdrop (si_Address r) (updateServiceBindings r all) = fmdrop (si_Address r) all"
proof -
  have port: "map_option (effective_port sb) (fmlookup (sb_targets sb) (target_key (si_Address r) n)) =
      map_option (getTargetPort r) (last_named n (si_Targets r))"
    if sb: "sb = new_bindings r \<or> sb = update_bindings r b" for sb b n
  proof (cases "last_named n (si_Targets r)")
    case None
    have "target_key (si_Address r) n |\<notin>| fmdom (sb_targets sb)"
      using sb None by (auto simp: bindings_dom last_named_None)
    with None show ?thesis by (simp add: fmdom_notD)
  next
    case (Some t)
    from sb bindings_port(1) [OF Some] bindings_port(2) [OF Some, of b] Some show ?thesis by auto
  qed
  have fields: "sb_protocol sb = si_Protocol r" "sb_publicPort sb = si_Port r"
      "sb_aggregation sb = si_Aggregate r" "sb_eventChannel sb = si_EventChannel r" "sb_origin sb = si_Origin r"
      "fset (fmdom (sb_targets sb)) = (target_key (si_Address r) \<circ> st_Name) ` set (si_Targets r)"
    if sb: "sb = new_bindings r \<or> sb = update_bindings r b" for sb b
    using sb bindings_dom
    by (auto simp: new_bindings_def newServiceBindings_def update_bindings_def Let_def update_targets_frame update_fields_def)
  show ?thesis
  proof (cases "fmlookup all (si_Address r)")
    case None
    let ?sb = "new_bindings r"
    have "?sb = new_bindings r \<or> ?sb = update_bindings r b" for b by simp
    from port [OF this] fields [OF this] None show ?thesis
      by (intro exI [of _ ?sb]) (simp add: updateServiceBindings_def bindings_follow_def comp_def fmdrop_fmupd_same)
  next
    case (Some b)
    let ?sb = "update_bindings r b"
    have "?sb = new_bindings r \<or> ?sb = update_bindings r b" by simp
    from port [OF this] fields [OF this] Some show ?thesis
      by (intro exI [of _ ?sb]) (simp add: updateServiceBindings_def bindings_follow_def comp_def fmdrop_fmupd_same)
  qed
qed

text \<open>
  After \<open>updateServiceBindings\<close> the address of the definition has bindings that
  follow it, whether there were bindings before or not: protocol, port, aggregation, event channel
  and origin are those of the definition; the targets are exactly those it names; and the traffic
  for each name goes to the port of the last target of that name, or to the port of the service.
  The bindings of other addresses are left alone.
\<close>

theorem updateServiceBindings_follows:
  "\<exists>sb. fmlookup (updateServiceBindings r all) (si_Address r) = Some sb \<and>
     sb_protocol sb = si_Protocol r \<and> sb_publicPort sb = si_Port r \<and> sb_aggregation sb = si_Aggregate r \<and>
     sb_eventChannel sb = si_EventChannel r \<and> sb_origin sb = si_Origin r \<and>
     fset (fmdom (sb_targets sb)) = (target_key (si_Address r) \<circ> st_Name) ` set (si_Targets r) \<and>
     (\<forall>n. map_option (effective_port sb) (fmlookup (sb_targets sb) (target_key (si_Address r) n)) =
        map_option (getTargetPort r) (last_named n (si_Targets r))) \<and>
     fmdrop (si_Address r) (updateServiceBindings r all) = fmdrop (si_Address r) all"
  using update_follows [of r all] unfolding bindings_follow_def by blast

text \<open>The second update with the same definition writes the defaulted ports that the first one left
  at 0, and the selector, service and headless part of an existing binding are never updated.\<close>

lemma new_bindings_not_idempotent:
  "updateServiceBindings sample_service (updateServiceBindings sample_service fmempty) \<noteq>
     updateServiceBindings sample_service fmempty"
proof
  assume "updateServiceBindings sample_service (updateServiceBindings sample_service fmempty) =
      updateServiceBindings sample_service fmempty"
  then have same: "update_bindings sample_service (new_bindings sample_service) = new_bindings sample_service"
    by (simp add: updateServiceBindings_def) (metis fmupd_lookup option.inject)
  have first: "last_named ''pg1'' (si_Targets sample_service) =
      Some (zero_ServiceInterfaceTarget\<lparr>st_Name := ''pg1'', st_Selector := container_selector\<rparr>)"
    by (simp add: sample_service_def last_named_def)
  have port: "si_Port sample_service = 5432" by (simp add: sample_service_def)
  have "fmlookup (sb_targets (new_bindings sample_service)) (target_key (si_Address sample_service) ''pg1'') =
      Some \<lparr>eb_name = ''pg1'', eb_selector = container_selector, eb_service = [], eb_egressPort = 0\<rparr>"
    using first by (simp add: new_bindings_def newServiceBindings_def Let_def new_targets_lookup zero_ServiceInterfaceTarget_def)
  moreover have "map_option eb_egressPort
      (fmlookup (sb_targets (fold (update_target sample_service) (si_Targets sample_service)
        (update_fields sample_service (new_bindings sample_service)))) (target_key (si_Address sample_service) ''pg1'')) = Some 5432"
    using first port by (simp add: update_targets_port getTargetPort_def zero_ServiceInterfaceTarget_def)
  moreover have "hasTargetForName sample_service (target_key (si_Address sample_service) ''pg1'')"
    by (simp add: hasTargetForName_def sample_service_def)
  ultimately have "map_option eb_egressPort (fmlookup (sb_targets (update_bindings sample_service (new_bindings sample_service)))
      (target_key (si_Address sample_service) ''pg1'')) = Some 5432"
    by (simp add: update_bindings_def Let_def)
  with same first show False
    by (simp add: new_bindings_def newServiceBindings_def Let_def new_targets_lookup zero_ServiceInterfaceTarget_def)
qed

end
