(* ===== verification/ServiceSync.thy ===== *)
theory ServiceSync
  imports Samples Bridges
begin

text \<open>
  \<open>cmd/service-controller/service_sync.go\<close> and the part of \<open>controller.go\<close> that keeps the services
  file: sites tell each other the services they define, and each keeps the definitions it hears of
  in its own services file, under the origin they came from. The handlers of the controller
  (a message, a tick, a change of the file) are state-passing functions of the controller and the
  world, run one at a time: the source runs them in three goroutines without a lock.
\<close>

section \<open>The controller's state\<close>

record Controller =
  ct_origin :: string
  ct_bindings :: "ServiceBindings gomap"
  ct_byOrigin :: "ServiceInterface gomap gomap"
  ct_localServices :: "ServiceInterface gomap"
  ct_byName :: "ServiceInterface gomap"
  ct_heardFrom :: "int gomap"

definition NewController :: "string \<Rightarrow> Controller" where
  "NewController origin =
     \<lparr>ct_origin = origin, ct_bindings = fmempty, ct_byOrigin = fmempty, ct_localServices = fmempty,
      ct_byName = fmempty, ct_heardFrom = fmempty\<rparr>"

type_synonym site = "Controller \<times> World"

section \<open>The services file, as the controller sees it\<close>

definition controller_file :: string where
  "controller_file = ''/etc/messaging/services/skupper-services''"

definition controller_load :: "host \<Rightarrow> (World, service_defs) oper" where
  "controller_load h =
     load_defs (Wrapf ''Failed to retrieve skupper service definitions'')
       (Wrapf ''Failed to decode json for service definitions'') h controller_file"

definition controller_store :: "host \<Rightarrow> service_defs \<Rightarrow> (World, unit) oper" where
  "controller_store h = store_defs (Wrapf ''Failed to write service file'') h controller_file"

definition controller_view :: "host \<Rightarrow> World \<Rightarrow> service_defs option" where
  "controller_view h = services_at h controller_file"

interpretation controller_services: file_store "controller_load h" "controller_store h" "controller_view h"
    "\<lambda>w. wf_fs (files w)" defs_ok for h
  unfolding controller_load_def controller_store_def controller_view_def
  by (rule skupper_services.file_store_axioms)

definition apply_changes :: "ServiceInterface list \<Rightarrow> string list \<Rightarrow> service_defs \<Rightarrow> service_defs" where
  "apply_changes changed deleted current = del_all deleted (upd_all si_Address changed current)"

definition updateSkupperServices ::
  "host \<Rightarrow> ServiceInterface list \<Rightarrow> string list \<Rightarrow> string \<Rightarrow> (World, unit) oper" where
  "updateSkupperServices h changed deleted origin =
     (if changed = [] \<and> deleted = [] then returnE ()
      else modify_defs (controller_load h) (controller_store h)
             (\<lambda>current. Inr (apply_changes changed deleted current)))"

definition getServiceDefinitions :: "host \<Rightarrow> (World, service_defs) oper" where
  "getServiceDefinitions h = controller_load h"

section \<open>A change of the definitions\<close>

definition is_remote :: "string \<Rightarrow> bool" where
  "is_remote origin \<longleftrightarrow> origin \<noteq> [] \<and> origin \<noteq> ''annotation''"

definition sync_view :: "ServiceInterface \<Rightarrow> ServiceInterface" where
  "sync_view original =
     zero_ServiceInterface\<lparr>si_Address := si_Address original, si_Protocol := si_Protocol original,
       si_Port := si_Port original, si_Origin := si_Origin original, si_Headless := si_Headless original,
       si_Targets := []\<rparr>"

definition pareByOrigin ::
  "range_order \<Rightarrow> string \<Rightarrow> ServiceInterface gomap gomap \<Rightarrow> ServiceInterface gomap gomap" where
  "pareByOrigin rng service byOrigin =
     (case List.find (\<lambda>(_, services). service |\<in>| fmdom services) (range_of rng byOrigin) of
        None \<Rightarrow> byOrigin
      | Some (origin, services) \<Rightarrow> fmupd origin (fmdrop service services) byOrigin)"

definition known_in :: "ServiceInterface gomap gomap \<Rightarrow> string \<Rightarrow> ServiceInterface gomap" where
  "known_in byOrigin origin = (case fmlookup byOrigin origin of None \<Rightarrow> fmempty | Some m \<Rightarrow> m)"

type_synonym sync_maps = "ServiceInterface gomap \<times> ServiceInterface gomap \<times> ServiceInterface gomap gomap"

definition sync_definition :: "range_order \<Rightarrow> string \<times> ServiceInterface \<Rightarrow> sync_maps \<Rightarrow> sync_maps" where
  "sync_definition rng entry maps =
     (case (entry, maps) of
        ((name, original), (latest, byName, byOrigin)) \<Rightarrow>
          (let service = sync_view original
           in if is_remote (si_Origin service) then
                (latest, fmupd (si_Address service) service byName,
                 fmupd (si_Origin service) (fmupd name service (known_in byOrigin (si_Origin service))) byOrigin)
              else
                (fmupd (si_Address service) service latest, fmupd (si_Address service) service byName,
                 pareByOrigin rng (si_Address service) byOrigin)))"

definition serviceSyncDefinitionsUpdated :: "range_order \<Rightarrow> service_defs \<Rightarrow> Controller \<Rightarrow> Controller" where
  "serviceSyncDefinitionsUpdated rng definitions c =
     (case fold (sync_definition rng) (range_of rng definitions) (fmempty, fmempty, ct_byOrigin c) of
        (latest, byName, byOrigin) \<Rightarrow>
          c\<lparr>ct_byOrigin := byOrigin, ct_localServices := latest, ct_byName := byName\<rparr>)"

section \<open>An update from another site\<close>

definition equivalentServiceDefinition :: "ServiceInterface \<Rightarrow> ServiceInterface \<Rightarrow> bool" where
  "equivalentServiceDefinition a b =
     (if si_Protocol a \<noteq> si_Protocol b \<or> si_Port a \<noteq> si_Port b \<or> si_EventChannel a \<noteq> si_EventChannel b \<or>
         si_Aggregate a \<noteq> si_Aggregate b then False
      else (case (si_Headless a, si_Headless b) of
              (None, None) \<Rightarrow> True
            | (Some x, Some y) \<Rightarrow>
                \<not> (hl_Name x \<noteq> hl_Name y \<or> hl_Size x \<noteq> hl_Size y \<or> hl_TargetPort x \<noteq> hl_TargetPort y)
            | _ \<Rightarrow> False))"

definition needs_change :: "Controller \<Rightarrow> string \<Rightarrow> ServiceInterface \<Rightarrow> bool" where
  "needs_change c origin def \<longleftrightarrow>
     (case fmlookup (ct_byName c) (si_Address def) of
        None \<Rightarrow> True
      | Some existing \<Rightarrow> si_Origin existing = origin \<and> \<not> equivalentServiceDefinition def existing)"

definition changed_defs :: "range_order \<Rightarrow> Controller \<Rightarrow> string \<Rightarrow> service_defs \<Rightarrow> ServiceInterface list" where
  "changed_defs rng c origin defs = filter (needs_change c origin) (map snd (range_of rng defs))"

definition deleted_names :: "range_order \<Rightarrow> Controller \<Rightarrow> string \<Rightarrow> service_defs \<Rightarrow> string list" where
  "deleted_names rng c origin defs =
     (case fmlookup (ct_byOrigin c) origin of
        None \<Rightarrow> []
      | Some current \<Rightarrow> filter (\<lambda>name. name |\<notin>| fmdom defs) (rng (fmdom current)))"

definition ensureServiceInterfaceDefinitions ::
  "host \<Rightarrow> int \<Rightarrow> string \<Rightarrow> service_defs \<Rightarrow> site \<Rightarrow> site" where
  "ensureServiceInterfaceDefinitions h now origin defs site =
     (case site of (c, w) \<Rightarrow>
        (let c1 = c\<lparr>ct_heardFrom := fmupd origin now (ct_heardFrom c)\<rparr>;
             changed = changed_defs (h_rng h) c1 origin defs;
             deleted = deleted_names (h_rng h) c1 origin defs;
             c2 = c1\<lparr>ct_byOrigin := fmupd origin (known_in (ct_byOrigin c1) origin) (ct_byOrigin c1)\<rparr>
         in if changed = [] \<and> deleted = [] then (c2, w)
            else (c2\<lparr>ct_byOrigin := fmupd origin (del_all deleted (known_in (ct_byOrigin c2) origin)) (ct_byOrigin c2)\<rparr>,
                  snd (updateSkupperServices h changed deleted origin w))))"

text \<open>A message as the handler looks at it: the subject (\<open>None\<close> when it has no properties, which
  the source dereferences), the application property \<open>origin\<close> and the body when they are strings.\<close>

record SyncMessage =
  sm_Subject :: "string option"
  sm_Origin :: "string option"
  sm_Value :: "string option"

definition index_defs :: "string \<Rightarrow> ServiceInterface list \<Rightarrow> service_defs" where
  "index_defs origin defs = upd_all si_Address (map (\<lambda>d. d\<lparr>si_Origin := origin\<rparr>) defs) fmempty"

definition handle_update :: "host \<Rightarrow> int \<Rightarrow> string \<Rightarrow> string \<Rightarrow> site \<Rightarrow> site" where
  "handle_update h now origin updates site =
     (case unmarshal (dec_list dec_service zero_ServiceInterface) updates [] of
        Inl _ \<Rightarrow> site
      | Inr defs \<Rightarrow> ensureServiceInterfaceDefinitions h now origin (index_defs origin defs) site)"

definition handle_message :: "host \<Rightarrow> int \<Rightarrow> SyncMessage \<Rightarrow> (site, unit) oper" where
  "handle_message h now msg site =
     (case sm_Subject msg of
        None \<Rightarrow> (Inl (Panic ''nil pointer dereference''), site)
      | Some subject \<Rightarrow>
          if subject = ''service-sync-request'' then (Inr (), site)
          else if subject = ''service-sync-update'' then
            (case sm_Origin msg of
               None \<Rightarrow> (Inr (), site)
             | Some origin \<Rightarrow>
                 if origin \<noteq> ct_origin (fst site) then
                   (case sm_Value msg of
                      None \<Rightarrow> (Inr (), site)
                    | Some updates \<Rightarrow> (Inr (), handle_update h now origin updates site))
                 else (Inr (), site))
          else (Inr (), site))"

section \<open>The two tickers of the sender\<close>

definition local_update :: "range_order \<Rightarrow> Controller \<Rightarrow> SyncMessage" where
  "local_update rng c =
     \<lparr>sm_Subject = Some ''service-sync-update'', sm_Origin = Some (ct_origin c),
      sm_Value = Some (marshal (enc_list enc_service) (map snd (range_of rng (ct_localServices c))))\<rparr>"

definition age_limit :: int where
  "age_limit = 60 * second"

text \<open>\<open>age_loop\<close> returns the origins that aged. Time is in nanoseconds. An error of the update ends
  the goroutine before any origin is forgotten.\<close>

fun age_loop ::
  "host \<Rightarrow> int \<Rightarrow> Controller \<Rightarrow> (string \<times> ServiceInterface gomap) list \<Rightarrow> string list \<Rightarrow> (World, string list) oper"
where
  "age_loop h now c [] aged = returnE aged"
| "age_loop h now c ((origin, definitions) # rest) aged =
     (case fmlookup (ct_heardFrom c) origin of
        None \<Rightarrow> age_loop h now c rest aged
      | Some lastHeard \<Rightarrow>
          if now - lastHeard \<ge> age_limit then
            (let deleted = h_rng h (fmdom definitions)
             in if deleted \<noteq> [] then
                  bindE id (updateSkupperServices h [] deleted origin) (\<lambda>_. age_loop h now c rest (aged @ [origin]))
                else age_loop h now c rest (aged @ [origin]))
          else age_loop h now c rest aged)"

definition forget :: "string list \<Rightarrow> Controller \<Rightarrow> Controller" where
  "forget origins c =
     c\<lparr>ct_heardFrom := del_all origins (ct_heardFrom c), ct_byOrigin := del_all origins (ct_byOrigin c)\<rparr>"

definition age_tick :: "host \<Rightarrow> int \<Rightarrow> (site, unit) oper" where
  "age_tick h now site =
     (case site of (c, w) \<Rightarrow>
        (case age_loop h now c (range_of (h_rng h) (ct_byOrigin c)) [] w of
           (Inl e, w') \<Rightarrow> (Inl e, (c, w'))
         | (Inr aged, w') \<Rightarrow> (Inr (), (forget aged c, w'))))"

section \<open>What an update does to the file\<close>

lemma second_pos [simp]: "second > 0"
  by (simp add: second_def)

lemma upd_all_filter_range:
  assumes "range_ok r" and "keyed si_Address defs"
  shows "fmlookup (upd_all si_Address (filter P (map snd (range_of r defs))) m) a =
    (case fmlookup defs a of
       Some d \<Rightarrow> if P d then Some d else fmlookup m a
     | None \<Rightarrow> fmlookup m a)"
proof -
  let ?vs = "filter P (map snd (range_of r defs))"
  have key: "\<And>p. p \<in> set (range_of r defs) \<Longrightarrow> si_Address (snd p) = fst p"
    using assms by (auto simp: range_of_iff dest: keyedD)
  have "map si_Address (map snd (range_of r defs)) = map fst (range_of r defs)"
    using key by (simp add: comp_def)
  then have "distinct (map si_Address (map snd (range_of r defs)))"
    using assms(1) by (metis range_of_distinct)
  then have dist: "distinct (map si_Address ?vs)" by (rule distinct_map_filter)
  have mem: "d \<in> set ?vs \<longleftrightarrow> P d \<and> fmlookup defs (si_Address d) = Some d" for d
    using assms by (auto simp: range_of_values simp del: set_map dest: keyedD)
  show ?thesis
  proof (cases "\<exists>d. fmlookup defs a = Some d \<and> P d")
    case True
    then obtain d where d: "fmlookup defs a = Some d" "P d" by blast
    have "si_Address d = a" using keyedD [OF assms(2) d(1)] .
    with d mem [of d] fmlookup_upd_all [OF dist, of d m] show ?thesis by simp
  next
    case False
    then have "\<And>d. d \<in> set ?vs \<Longrightarrow> si_Address d \<noteq> a" using mem by auto
    then have "fmlookup (upd_all si_Address ?vs m) a = fmlookup m a" by (rule fmlookup_upd_all_other)
    with False show ?thesis by (auto split: option.split)
  qed
qed

lemma deleted_names_set:
  assumes "range_ok rng"
  shows "set (deleted_names rng c origin defs) =
    {a. a |\<in>| fmdom (known_in (ct_byOrigin c) origin) \<and> a |\<notin>| fmdom defs}"
  using range_ok_set [OF assms] by (auto simp: deleted_names_def known_in_def split: option.splits)

lemma apply_changes_lookup:
  assumes "range_ok rng" and "keyed si_Address defs"
  shows "fmlookup (apply_changes (changed_defs rng c origin defs) (deleted_names rng c origin defs) m) a =
    (if a |\<in>| fmdom (known_in (ct_byOrigin c) origin) \<and> a |\<notin>| fmdom defs then None
     else case fmlookup defs a of
       Some d \<Rightarrow> if needs_change c origin d then Some d else fmlookup m a
     | None \<Rightarrow> fmlookup m a)"
  by (simp add: apply_changes_def changed_defs_def upd_all_filter_range [OF assms] deleted_names_set [OF assms(1)])

lemma apply_changes_ok:
  assumes "defs_ok m" and "\<And>d. d \<in> set changed \<Longrightarrow> service_ok d"
  shows "defs_ok (apply_changes changed deleted m)"
proof -
  have "fmlookup (apply_changes changed deleted m) a = Some s \<Longrightarrow> service_ok s" for a s
    using assms by (auto simp: apply_changes_def dest!: fmlookup_upd_all_cases intro: defs_okD split: if_splits)
  then show ?thesis by (auto simp: defs_ok_def)
qed

lemma changed_defs_ok:
  "range_ok rng \<Longrightarrow> defs_ok defs \<Longrightarrow> d \<in> set (changed_defs rng c origin defs) \<Longrightarrow> service_ok d"
  by (auto simp: changed_defs_def range_of_iff intro: defs_okD)

lemma needs_change_heard [simp]:
  "needs_change (c\<lparr>ct_heardFrom := x\<rparr>) origin d = needs_change c origin d"
  "changed_defs rng (c\<lparr>ct_heardFrom := x\<rparr>) origin defs = changed_defs rng c origin defs"
  "deleted_names rng (c\<lparr>ct_heardFrom := x\<rparr>) origin defs = deleted_names rng c origin defs"
  by (simp_all add: needs_change_def changed_defs_def deleted_names_def fun_eq_iff [THEN iffD2] cong: filter_cong)

lemma known_in_upd [simp]: "known_in (fmupd o' m b) origin = (if origin = o' then m else known_in b origin)"
  by (simp add: known_in_def)

lemma update_run:
  assumes "wf_fs (files w)" and "controller_view h w = Some m"
    and "defs_ok (apply_changes changed deleted m)"
  shows "\<exists>w'. updateSkupperServices h changed deleted origin w = (Inr (), w') \<and> wf_fs (files w') \<and>
    controller_view h w' = Some (apply_changes changed deleted m) \<and> calls w' = calls w"
proof (cases "changed = [] \<and> deleted = []")
  case True
  then show ?thesis using assms by (simp add: updateSkupperServices_def apply_changes_def del_all_def)
next
  case False
  then have "updateSkupperServices h changed deleted origin =
      modify_defs (controller_load h) (controller_store h) (\<lambda>current. Inr (apply_changes changed deleted current))"
    by (auto simp: updateSkupperServices_def)
  with controller_services.modify_done [OF assms(1,2), of _ "apply_changes changed deleted m"] assms(3)
  show ?thesis by fastforce
qed

lemma ensure_run:
  assumes "range_ok (h_rng h)" and "wf_fs (files w)" and "controller_view h w = Some m" and "defs_ok defs"
  shows "\<exists>c' w'. ensureServiceInterfaceDefinitions h now origin defs (c, w) = (c', w') \<and> wf_fs (files w') \<and>
    calls w' = calls w \<and>
    controller_view h w' =
      Some (apply_changes (changed_defs (h_rng h) c origin defs) (deleted_names (h_rng h) c origin defs) m) \<and>
    ct_heardFrom c' = fmupd origin now (ct_heardFrom c) \<and> ct_byName c' = ct_byName c \<and>
    ct_localServices c' = ct_localServices c \<and> ct_bindings c' = ct_bindings c \<and> ct_origin c' = ct_origin c \<and>
    ct_byOrigin c' = fmupd origin
      (del_all (deleted_names (h_rng h) c origin defs) (known_in (ct_byOrigin c) origin)) (ct_byOrigin c)"
proof -
  let ?changed = "changed_defs (h_rng h) c origin defs"
  let ?deleted = "deleted_names (h_rng h) c origin defs"
  have ok: "defs_ok (apply_changes ?changed ?deleted m)"
    using changed_defs_ok [OF assms(1,4)] controller_services.view_ok [OF assms(3)] by (rule apply_changes_ok [rotated])
  from update_run [OF assms(2,3) ok] obtain w' where
    w': "updateSkupperServices h ?changed ?deleted origin w = (Inr (), w')" "wf_fs (files w')"
      "controller_view h w' = Some (apply_changes ?changed ?deleted m)" "calls w' = calls w" by blast
  show ?thesis
  proof (cases "?changed = [] \<and> ?deleted = []")
    case True
    then show ?thesis using assms(2,3)
      by (simp add: ensureServiceInterfaceDefinitions_def Let_def apply_changes_def del_all_def)
  next
    case False
    then show ?thesis using w'
      by (auto simp: ensureServiceInterfaceDefinitions_def Let_def)
  qed
qed

section \<open>The controller's picture of the file\<close>

definition names_of :: "service_defs \<Rightarrow> string \<Rightarrow> string set" where
  "names_of m origin = {a. is_remote origin \<and> (\<exists>s. fmlookup m a = Some s \<and> si_Origin s = origin)}"

definition local_services :: "service_defs \<Rightarrow> service_defs" where
  "local_services m = fmmap sync_view (fmfilter (\<lambda>a. \<not> is_remote (si_Origin (the (fmlookup m a)))) m)"

definition synced :: "Controller \<Rightarrow> service_defs \<Rightarrow> bool" where
  "synced c m \<longleftrightarrow> keyed si_Address m \<and> ct_byName c = fmmap sync_view m \<and>
     ct_localServices c = local_services m \<and>
     (\<forall>origin. fset (fmdom (known_in (ct_byOrigin c) origin)) = names_of m origin)"

lemma sync_view_simps [simp]:
  "si_Address (sync_view s) = si_Address s" "si_Origin (sync_view s) = si_Origin s"
  "si_Protocol (sync_view s) = si_Protocol s" "si_Port (sync_view s) = si_Port s"
  "si_Headless (sync_view s) = si_Headless s" "si_Targets (sync_view s) = []"
  "si_EventChannel (sync_view s) = False" "si_Aggregate (sync_view s) = []"
  by (simp_all add: sync_view_def zero_ServiceInterface_def)

lemma sync_view_ok: "service_ok s \<Longrightarrow> service_ok (sync_view s)"
  by (simp add: service_ok_def sync_view_def zero_ServiceInterface_def)

lemma keyed_views: "keyed si_Address m \<Longrightarrow> keyed si_Address (fmmap sync_view m)"
  by (auto simp: keyed_def fmpred_iff)

lemma fmlookup_local_services:
  "fmlookup (local_services m) a =
     (case fmlookup m a of
        Some s \<Rightarrow> if is_remote (si_Origin s) then None else Some (sync_view s)
      | None \<Rightarrow> None)"
  by (simp add: local_services_def split: option.split)

lemma range_of_fmmap: "map snd (range_of r (fmmap f m)) = map (f \<circ> snd) (range_of r m)" if "range_ok r"
  using range_ok_set [OF that, of "fmdom m"] by (auto simp: range_of_def fmlookup_dom_iff)

lemma sync_fold_latest:
  "fst (fold (sync_definition r) ps (l, b, k)) =
     upd_all si_Address (filter (\<lambda>s. \<not> is_remote (si_Origin s)) (map (sync_view \<circ> snd) ps)) l"
  by (induction ps arbitrary: l b k) (auto simp: sync_definition_def Let_def split: prod.split)

lemma sync_fold_byName:
  "fst (snd (fold (sync_definition r) ps (l, b, k))) = upd_all si_Address (map (sync_view \<circ> snd) ps) b"
  by (induction ps arbitrary: l b k) (auto simp: sync_definition_def Let_def split: prod.split)

lemma known_in_dom:
  "fmlookup k origin = Some services \<Longrightarrow> known_in k origin = services"
  by (simp add: known_in_def)

lemma pare_absent:
  assumes "range_ok r" and "\<And>origin. service |\<notin>| fmdom (known_in k origin)"
  shows "pareByOrigin r service k = k"
proof -
  have "List.find (\<lambda>(_, services). service |\<in>| fmdom services) (range_of r k) = None"
    using assms(2) by (auto simp: find_None_iff range_of_iff [OF assms(1)] dest!: known_in_dom)
  then show ?thesis by (simp add: pareByOrigin_def)
qed

lemma sync_fold_byOrigin:
  assumes "range_ok r" and "keyed si_Address m" and "\<And>n s. (n, s) \<in> set ps \<Longrightarrow> fmlookup m n = Some s"
    and "\<And>origin. fset (fmdom (known_in k origin)) \<subseteq> names_of m origin"
  shows "fset (fmdom (known_in (snd (snd (fold (sync_definition r) ps (l, b, k)))) origin)) =
    fset (fmdom (known_in k origin)) \<union> {n. is_remote origin \<and> (\<exists>s. (n, s) \<in> set ps \<and> si_Origin s = origin)}"
  using assms(3,4)
proof (induction ps arbitrary: l b k)
  case (Cons p ps)
  obtain n s where p: "p = (n, s)" by (cases p)
  from Cons.prems(1) [of n s] p have ns: "fmlookup m n = Some s" by simp
  have addr: "si_Address s = n" by (rule keyedD [OF assms(2) ns])
  show ?case
  proof (cases "is_remote (si_Origin s)")
    case True
    let ?k = "fmupd (si_Origin s) (fmupd n (sync_view s) (known_in k (si_Origin s))) k"
    have "fset (fmdom (known_in ?k o')) \<subseteq> names_of m o'" for o'
      using Cons.prems(2) [of o'] Cons.prems(2) [of "si_Origin s"] True ns by (auto simp: names_of_def)
    from Cons.IH [OF Cons.prems(1) this] True show ?thesis
      by (auto simp: p sync_definition_def Let_def)
  next
    case False
    have "n |\<notin>| fmdom (known_in k o')" for o'
      using Cons.prems(2) [of o'] False ns by (auto simp: names_of_def)
    then have pare: "pareByOrigin r n k = k" by (rule pare_absent [OF assms(1)])
    from Cons.IH [OF Cons.prems] False show ?thesis
      by (auto simp: p sync_definition_def Let_def addr pare)
  qed
qed simp

lemma refresh_synced:
  assumes "range_ok r" and "keyed si_Address m"
    and "\<And>origin. fset (fmdom (known_in (ct_byOrigin c) origin)) \<subseteq> names_of m origin"
  shows "synced (serviceSyncDefinitionsUpdated r m c) m"
proof -
  obtain l b k where f: "fold (sync_definition r) (range_of r m) (fmempty, fmempty, ct_byOrigin c) = (l, b, k)"
    by (metis prod_cases3)
  have l: "l = local_services m"
  proof (rule fmap_ext)
    fix a
    have "l = upd_all si_Address (filter (\<lambda>s. \<not> is_remote (si_Origin s)) (map snd (range_of r (fmmap sync_view m)))) fmempty"
      using sync_fold_latest [of r "range_of r m" fmempty fmempty "ct_byOrigin c"] f
      by (simp add: range_of_fmmap [OF assms(1)] comp_def del: map_map)
    then show "fmlookup l a = fmlookup (local_services m) a"
      by (simp add: upd_all_filter_range [OF assms(1) keyed_views [OF assms(2)]] fmlookup_local_services split: option.split)
  qed
  have b: "b = fmmap sync_view m"
    using sync_fold_byName [of r "range_of r m" fmempty fmempty "ct_byOrigin c"] f
      upd_all_range [OF assms(1) keyed_views [OF assms(2)]]
    by (simp add: range_of_fmmap [OF assms(1)])
  have k: "fset (fmdom (known_in k origin)) = names_of m origin" for origin
    using sync_fold_byOrigin [OF assms(1,2) _ assms(3), of "range_of r m" "fmempty" "fmempty" origin] f assms(3) [of origin]
    by (auto simp: range_of_iff [OF assms(1)] names_of_def)
  show ?thesis using l b k assms(2) by (simp add: synced_def serviceSyncDefinitionsUpdated_def f)
qed

text \<open>The reference for an update from \<open>origin\<close>: what the address \<open>a\<close> stands for afterwards.\<close>

definition merged :: "string \<Rightarrow> service_defs \<Rightarrow> service_defs \<Rightarrow> string \<Rightarrow> ServiceInterface option" where
  "merged origin defs m a =
     (case fmlookup m a of
        None \<Rightarrow> fmlookup defs a
      | Some s \<Rightarrow>
          if si_Origin s \<noteq> origin then Some s
          else (case fmlookup defs a of
                  None \<Rightarrow> None
                | Some d \<Rightarrow> if equivalentServiceDefinition d (sync_view s) then Some s else Some d))"

lemma synced_byName: "synced c m \<Longrightarrow> fmlookup (ct_byName c) a = map_option sync_view (fmlookup m a)"
  by (simp add: synced_def)

lemma synced_known:
  "synced c m \<Longrightarrow> a |\<in>| fmdom (known_in (ct_byOrigin c) origin) \<longleftrightarrow> a \<in> names_of m origin"
  unfolding synced_def by metis

lemma apply_changes_merged:
  assumes "range_ok r" and "keyed si_Address defs" and "synced c m" and "is_remote origin"
  shows "fmlookup (apply_changes (changed_defs r c origin defs) (deleted_names r c origin defs) m) a =
    merged origin defs m a"
proof (cases "fmlookup defs a")
  case None
  then show ?thesis
    using synced_known [OF assms(3), of a origin] assms(4)
    by (auto simp: apply_changes_lookup [OF assms(1,2)] merged_def names_of_def fmdom_notI fmlookup_dom_iff split: option.split)
next
  case (Some d)
  have "si_Address d = a" by (rule keyedD [OF assms(2) Some])
  with Some show ?thesis
    by (auto simp: apply_changes_lookup [OF assms(1,2)] merged_def needs_change_def synced_byName [OF assms(3)]
        fmlookup_dom_iff split: option.split)
qed

definition from_origin :: "string \<Rightarrow> service_defs \<Rightarrow> bool" where
  "from_origin origin defs \<longleftrightarrow> keyed si_Address defs \<and> (\<forall>a d. fmlookup defs a = Some d \<longrightarrow> si_Origin d = origin)"

lemma from_origin_index: "from_origin origin (index_defs origin ds)"
proof -
  have "si_Origin d = origin" if "fmlookup (index_defs origin ds) a = Some d" for a d
    using fmlookup_upd_all_cases [OF that [unfolded index_defs_def]] by auto
  then show ?thesis
    by (auto simp: from_origin_def index_defs_def intro: keyed_upd_all)
qed

lemma from_origin_known:
  assumes "from_origin origin defs"
  shows "keyed si_Address defs" and "fmlookup defs a = Some d \<Longrightarrow> si_Origin d = origin \<and> si_Address d = a"
  using assms keyedD [of si_Address defs a d] by (simp_all add: from_origin_def)

lemma index_defs_ok: "list_all service_ok ds \<Longrightarrow> defs_ok (index_defs origin ds)"
proof -
  assume ok: "list_all service_ok ds"
  have "service_ok s" if "fmlookup (index_defs origin ds) a = Some s" for a s
    using fmlookup_upd_all_cases [OF that [unfolded index_defs_def]] ok
    by (auto simp: list_all_iff service_ok_def)
  then show ?thesis by (auto simp: defs_ok_def)
qed

lemma unmarshal_list_ok:
  "unmarshal (dec_list dec_service zero_ServiceInterface) t [] = Inr ds \<Longrightarrow> list_all service_ok ds"
  by (auto simp: unmarshal_def dec_list_def split: option.splits json.splits
      intro: mapR_all dec_service_ok [OF _ zero_ok(3)])

lemma merged_origin:
  assumes "from_origin origin defs" and "\<And>a. fmlookup m' a = merged origin defs m a" and "is_remote origin"
    and "keyed si_Address m"
  shows "keyed si_Address m'"
    and "names_of m' o' = (if o' = origin then {a. a |\<in>| fmdom defs \<and> (a |\<in>| fmdom m \<longrightarrow> a \<in> names_of m origin)}
      else names_of m o')"
proof -
  have defs: "\<forall>d. fmlookup defs a = Some d \<longrightarrow> si_Origin d = origin \<and> si_Address d = a" for a
    using from_origin_known(2) [OF assms(1)] by blast
  have old: "\<forall>s. fmlookup m a = Some s \<longrightarrow> si_Address s = a" for a
    using keyedD [OF assms(4)] by blast
  have "si_Address s = a" if "fmlookup m' a = Some s" for a s
    using that defs [of a] old [of a]
    unfolding assms(2) merged_def by (auto split: option.splits if_splits)
  then show "keyed si_Address m'" by (simp add: keyed_def fmpred_iff)
  have origin_of: "map_option si_Origin (merged origin defs m a) =
      (case map_option si_Origin (fmlookup m a) of
         None \<Rightarrow> if a |\<in>| fmdom defs then Some origin else None
       | Some o1 \<Rightarrow> if o1 \<noteq> origin \<or> a |\<in>| fmdom defs then Some o1 else None)" for a
    using defs [of a]
    by (cases "fmlookup m a"; cases "fmlookup defs a") (simp_all add: merged_def fmlookup_dom_iff)
  have in_names: "a \<in> names_of n o2 \<longleftrightarrow> is_remote o2 \<and> map_option si_Origin (fmlookup n a) = Some o2" for a n o2
    by (auto simp: names_of_def)
  have "a \<in> names_of m' o' \<longleftrightarrow> (if o' = origin then a |\<in>| fmdom defs \<and> (a |\<in>| fmdom m \<longrightarrow> a \<in> names_of m origin)
      else a \<in> names_of m o')" for a
    unfolding in_names assms(2) origin_of
    by (cases "fmlookup m a"; cases "a |\<in>| fmdom defs"; cases "o' = origin") (simp_all add: assms(3) fmlookup_dom_iff [of a m])
  then show "names_of m' o' = (if o' = origin then {a. a |\<in>| fmdom defs \<and> (a |\<in>| fmdom m \<longrightarrow> a \<in> names_of m origin)}
      else names_of m o')"
    by (simp add: set_eq_iff)
qed

definition update_message :: "string \<Rightarrow> string \<Rightarrow> SyncMessage" where
  "update_message origin updates =
     \<lparr>sm_Subject = Some ''service-sync-update'', sm_Origin = Some origin, sm_Value = Some updates\<rparr>"

lemma merged_synced:
  assumes "range_ok (h_rng h)" and "wf_fs (files w)" and "controller_view h w = Some m" and "synced c m"
    and "is_remote origin" and "origin \<noteq> ct_origin c"
    and "unmarshal (dec_list dec_service zero_ServiceInterface) updates [] = Inr ds"
  obtains c' w' m' where "handle_message h now (update_message origin updates) (c, w) = (Inr (), (c', w'))"
    and "controller_view h w' = Some m'" and "\<And>a. fmlookup m' a = merged origin (index_defs origin ds) m a"
    and "synced (serviceSyncDefinitionsUpdated (h_rng h) m' c') m'" and "wf_fs (files w')"
    and "calls w' = calls w" and "ct_heardFrom c' = fmupd origin now (ct_heardFrom c)"
    and "ct_bindings c' = ct_bindings c" and "ct_origin c' = ct_origin c"
proof -
  let ?defs = "index_defs origin ds"
  let ?m = "apply_changes (changed_defs (h_rng h) c origin ?defs) (deleted_names (h_rng h) c origin ?defs) m"
  have from_o: "from_origin origin ?defs" by (rule from_origin_index)
  have ok: "defs_ok ?defs" by (rule index_defs_ok [OF unmarshal_list_ok [OF assms(7)]])
  from ensure_run [OF assms(1-3) ok, of now origin c] obtain c' w' where
    run: "ensureServiceInterfaceDefinitions h now origin ?defs (c, w) = (c', w')" and
    w': "wf_fs (files w')" "calls w' = calls w" "controller_view h w' = Some ?m" and
    c': "ct_heardFrom c' = fmupd origin now (ct_heardFrom c)"
      "ct_byOrigin c' = fmupd origin (del_all (deleted_names (h_rng h) c origin ?defs) (known_in (ct_byOrigin c) origin)) (ct_byOrigin c)"
      "ct_bindings c' = ct_bindings c" "ct_origin c' = ct_origin c"
    by blast
  have m': "fmlookup ?m a = merged origin ?defs m a" for a
    by (rule apply_changes_merged [OF assms(1) from_origin_known(1) [OF from_o] assms(4,5)])
  have keyed_m: "keyed si_Address m" using assms(4) by (simp add: synced_def)
  note names = merged_origin [OF from_o m' assms(5) keyed_m]
  have "fset (fmdom (known_in (ct_byOrigin c') o')) \<subseteq> names_of ?m o'" for o'
  proof (cases "o' = origin")
    case True
    have "a |\<in>| fmdom ?defs \<and> a \<in> names_of m origin"
      if "a \<in> fset (fmdom (known_in (ct_byOrigin c') o'))" for a
      using that True synced_known [OF assms(4), of a origin]
      by (auto simp: c' fmlookup_dom_iff deleted_names_set [OF assms(1)] split: if_splits)
    then show ?thesis using True by (auto simp: names(2))
  next
    case False
    then show ?thesis using assms(4) by (simp add: c' names(2) synced_def)
  qed
  from refresh_synced [OF assms(1) names(1) this]
  have synced': "synced (serviceSyncDefinitionsUpdated (h_rng h) ?m c') ?m" .
  have "handle_message h now (update_message origin updates) (c, w) = (Inr (), (c', w'))"
    using assms(6,7) run by (simp add: handle_message_def update_message_def handle_update_def)
  from that [OF this w'(3) m' synced' w'(1,2) c'(1,3,4)] show thesis .
qed

section \<open>Ageing\<close>

definition expired :: "Controller \<Rightarrow> int \<Rightarrow> string \<Rightarrow> bool" where
  "expired c now origin \<longleftrightarrow>
     (case fmlookup (ct_heardFrom c) origin of None \<Rightarrow> False | Some lastHeard \<Rightarrow> now - lastHeard \<ge> age_limit)"

lemma apply_deleted: "apply_changes [] deleted m = del_all deleted m"
  by (simp add: apply_changes_def)

lemma age_loop_run:
  assumes "range_ok (h_rng h)" and "wf_fs (files w)" and "controller_view h w = Some m"
  shows "\<exists>w' m'. age_loop h now c ps aged w = (Inr (aged @ filter (expired c now) (map fst ps)), w') \<and>
    wf_fs (files w') \<and> calls w' = calls w \<and> controller_view h w' = Some m' \<and>
    (\<forall>a. fmlookup m' a =
       (if \<exists>origin defs. (origin, defs) \<in> set ps \<and> expired c now origin \<and> a |\<in>| fmdom defs then None else fmlookup m a))"
  using assms(2,3)
proof (induction ps arbitrary: aged w m)
  case (Cons p ps)
  obtain origin defs where p: "p = (origin, defs)" by (cases p)
  show ?case
  proof (cases "expired c now origin")
    case False
    then have step: "age_loop h now c (p # ps) aged = age_loop h now c ps aged"
      by (auto simp: p expired_def split: option.splits)
    have same: "(\<exists>o1 d. (o1, d) \<in> set (p # ps) \<and> expired c now o1 \<and> a |\<in>| fmdom d) \<longleftrightarrow>
        (\<exists>o1 d. (o1, d) \<in> set ps \<and> expired c now o1 \<and> a |\<in>| fmdom d)" for a
      using False by (auto simp: p)
    show ?thesis unfolding step same using Cons.IH [OF Cons.prems, of aged] False by (simp add: p)
  next
    case True
    let ?del = "h_rng h (fmdom defs)"
    have set_del: "set ?del = fset (fmdom defs)" by (rule range_ok_set [OF assms(1)])
    have "defs_ok (apply_changes [] ?del m)"
      by (rule apply_changes_ok [OF controller_services.view_ok [OF Cons.prems(2)]]) simp
    from update_run [OF Cons.prems this] obtain w1 where
      w1: "updateSkupperServices h [] ?del origin w = (Inr (), w1)" "wf_fs (files w1)"
        "controller_view h w1 = Some (del_all ?del m)" "calls w1 = calls w" by (auto simp: apply_deleted)
    have step: "age_loop h now c (p # ps) aged w = age_loop h now c ps (aged @ [origin]) w1"
      using True w1(1) by (auto simp: p expired_def Let_def updateSkupperServices_def split: option.splits if_splits)
    from Cons.IH [OF w1(2,3), of "aged @ [origin]"] obtain w' m' where
      w': "age_loop h now c ps (aged @ [origin]) w1 =
          (Inr ((aged @ [origin]) @ filter (expired c now) (map fst ps)), w')"
        "wf_fs (files w')" "calls w' = calls w1" "controller_view h w' = Some m'"
      and m': "\<forall>a. fmlookup m' a = (if \<exists>origin defs. (origin, defs) \<in> set ps \<and> expired c now origin \<and> a |\<in>| fmdom defs
          then None else fmlookup (del_all ?del m) a)" by blast
    have "fmlookup m' a = (if \<exists>origin defs. (origin, defs) \<in> set (p # ps) \<and> expired c now origin \<and> a |\<in>| fmdom defs
        then None else fmlookup m a)" for a
      using m' True set_del by (auto simp: p)
    with w' w1(4) True step show ?thesis by (intro exI [of _ w'] exI [of _ m']) (simp add: p)
  qed
qed simp

lemma known_in_forget:
  "known_in (ct_byOrigin (forget origins c)) o' = (if o' \<in> set origins then fmempty else known_in (ct_byOrigin c) o')"
  by (simp add: forget_def known_in_def)

lemma known_in_None: "fmlookup k o' = None \<Longrightarrow> known_in k o' = fmempty"
  by (simp add: known_in_def)

section \<open>A concrete controller\<close>

definition remote_service :: ServiceInterface where
  "remote_service =
     zero_ServiceInterface\<lparr>si_Address := ''web'', si_Protocol := ''http'', si_Port := 8080, si_Origin := ''east''\<rparr>"

definition stored_defs :: service_defs where
  "stored_defs = fmupd ''web'' remote_service sample_defs"

definition controller_world :: World where
  "controller_world = file_world ''etc'' ''messaging'' ''services'' ''skupper-services'' (marshal_defs stored_defs)"

definition sample_controller :: Controller where
  "sample_controller =
     serviceSyncDefinitionsUpdated rng_up stored_defs ((NewController ''west'')\<lparr>ct_heardFrom := fmupd ''east'' 0 fmempty\<rparr>)"

lemma sample_host_rng [simp]: "h_rng sample_host = rng_up"
  by (simp add: sample_host_def)

lemma stored_lookup [simp]:
  "fmlookup stored_defs a = (if a = ''web'' then Some remote_service else if a = ''db'' then Some sample_service else None)"
  by (simp add: stored_defs_def sample_defs_def)

lemma sample_fields [simp]:
  "si_Address sample_service = ''db''" "si_Origin sample_service = ''''"
  "si_Address remote_service = ''web''" "si_Origin remote_service = ''east''"
  by (simp_all add: sample_service_def remote_service_def zero_ServiceInterface_def)

lemma is_remote_east [simp]: "is_remote ''east''" "\<not> is_remote ''''"
  by (simp_all add: is_remote_def)

lemma keyed_stored: "keyed si_Address stored_defs"
  unfolding stored_defs_def sample_defs_def by (intro keyed_rules) simp_all

lemma service_ok_remote: "service_ok remote_service"
  by (simp add: service_ok_def remote_service_def zero_ServiceInterface_def int64_range_def)

lemma controller_world_view: "controller_view sample_host controller_world = Some stored_defs"
proof -
  have "resolve sample_host ''/etc/messaging/services/skupper-services'' =
      [''etc'', ''messaging'', ''services'', ''skupper-services'']"
    by (simp add: resolve_def)
  moreover have "defs_ok stored_defs"
    by (simp add: stored_defs_def keyed_rules defs_ok_sample service_ok_remote)
  ultimately show ?thesis
    by (simp add: controller_view_def services_at_def controller_file_def controller_world_def file_world_def)
qed

lemma wf_controller_world: "wf_fs (files controller_world)"
  by (simp add: controller_world_def wf_file_world)

lemma known_in_new [simp]: "known_in fmempty origin = fmempty"
  by (simp add: known_in_def)

lemma sample_controller_synced: "synced sample_controller stored_defs"
  unfolding sample_controller_def
  by (rule refresh_synced [OF _ keyed_stored]) (simp_all add: NewController_def)

lemma sample_controller_fields [simp]:
  "ct_origin sample_controller = ''west''" "ct_heardFrom sample_controller = fmupd ''east'' 0 fmempty"
  by (simp_all add: sample_controller_def serviceSyncDefinitionsUpdated_def NewController_def split: prod.split)

section \<open>What the handlers do to a controller in step with its file\<close>

text \<open>
  C3 (functional). An update from another site. When the controller's picture matches its services file,
  an update from a remote origin changes the file to exactly the merge of the two: a definition of
  another origin, or defined here, stays as it is, whatever the update says of its address; a definition
  of the same origin that the update leaves out is deleted, and one it lists is replaced when it differs;
  an address not in use is added. Reading the file back leaves the controller's picture in step with it, and the
  site counts as heard from.
\<close>

theorem sync_update_merges:
  assumes "range_ok (h_rng h)" and "wf_fs (files w)" and "controller_view h w = Some m" and "synced c m"
    and "is_remote origin" and "origin \<noteq> ct_origin c"
    and "unmarshal (dec_list dec_service zero_ServiceInterface) updates [] = Inr ds"
  shows "\<exists>c' w' m'. handle_message h now (update_message origin updates) (c, w) = (Inr (), (c', w')) \<and>
    controller_view h w' = Some m' \<and> (\<forall>a. fmlookup m' a = merged origin (index_defs origin ds) m a) \<and>
    synced (serviceSyncDefinitionsUpdated (h_rng h) m' c') m' \<and>
    ct_heardFrom c' = fmupd origin now (ct_heardFrom c)"
  by (rule merged_synced [OF assms, of now]) blast

lemma sync_update_merges_witness:
  "\<exists>c' w' m'. handle_message sample_host 5
      (update_message ''east'' (marshal (enc_list enc_service) [remote_service\<lparr>si_Address := ''db''\<rparr>]))
      (sample_controller, controller_world) = (Inr (), (c', w')) \<and>
    controller_view sample_host w' = Some m' \<and> fmlookup m' ''web'' = None \<and> fmlookup m' ''db'' = Some sample_service"
proof -
  let ?ds = "[remote_service\<lparr>si_Address := ''db''\<rparr>]"
  have ok: "list_all service_ok ?ds" using service_ok_remote by (simp add: service_ok_def)
  have "merged ''east'' (index_defs ''east'' ?ds) stored_defs ''web'' = None"
    "merged ''east'' (index_defs ''east'' ?ds) stored_defs ''db'' = Some sample_service"
    by (simp_all add: merged_def index_defs_def)
  note facts = this
  have "is_remote ''east''" "''east'' \<noteq> ct_origin sample_controller" "range_ok (h_rng sample_host)" by simp_all
  from sync_update_merges [OF this(3) wf_controller_world controller_world_view sample_controller_synced this(1,2)
      service.list_text_round_trip [OF ok], of 5] facts
  show ?thesis by metis
qed

lemma expired_names:
  assumes "synced c m"
  shows "(\<exists>origin defs. fmlookup (ct_byOrigin c) origin = Some defs \<and> expired c now origin \<and> a |\<in>| fmdom defs) \<longleftrightarrow>
    (\<exists>s. fmlookup m a = Some s \<and> is_remote (si_Origin s) \<and> expired c now (si_Origin s))"
proof -
  have "(\<exists>defs. fmlookup (ct_byOrigin c) origin = Some defs \<and> a |\<in>| fmdom defs) \<longleftrightarrow> a \<in> names_of m origin" for origin
    unfolding synced_known [OF assms, symmetric] by (simp add: known_in_def split: option.split)
  then have "(\<exists>origin defs. fmlookup (ct_byOrigin c) origin = Some defs \<and> expired c now origin \<and> a |\<in>| fmdom defs) \<longleftrightarrow>
      (\<exists>origin. a \<in> names_of m origin \<and> expired c now origin)" by blast
  then show ?thesis by (auto simp: names_of_def)
qed

text \<open>
  C21 (functional). The ageing tick. From a controller in step with its file it deletes exactly the
  definitions of the remote origins last heard from a minute ago or longer, and forgets those
  origins, the time they were heard from and the names of their definitions; the definitions of this site and of every
  other origin stay, so does what is known of them, and reading the file back leaves the controller in step with it.
\<close>

theorem age_tick_expires:
  assumes "range_ok (h_rng h)" and "wf_fs (files w)" and "controller_view h w = Some m" and "synced c m"
  shows "\<exists>c' w' m'. age_tick h now (c, w) = (Inr (), (c', w')) \<and> controller_view h w' = Some m' \<and>
    (\<forall>a. fmlookup m' a =
       (case fmlookup m a of
          Some s \<Rightarrow> if is_remote (si_Origin s) \<and> expired c now (si_Origin s) then None else Some s
        | None \<Rightarrow> None)) \<and>
    (\<forall>origin. fmlookup (ct_byOrigin c') origin =
       (if expired c now origin then None else fmlookup (ct_byOrigin c) origin)) \<and>
    (\<forall>origin. fmlookup (ct_heardFrom c') origin =
       (if expired c now origin \<and> origin |\<in>| fmdom (ct_byOrigin c) then None else fmlookup (ct_heardFrom c) origin)) \<and>
    synced (serviceSyncDefinitionsUpdated (h_rng h) m' c') m'"
proof -
  let ?ps = "range_of (h_rng h) (ct_byOrigin c)"
  let ?aged = "filter (expired c now) (map fst ?ps)"
  let ?c = "forget ?aged c"
  from age_loop_run [OF assms(1-3), of now c ?ps "[]"] obtain w' m' where
    run: "age_loop h now c ?ps [] w = (Inr ?aged, w')" "controller_view h w' = Some m'" and
    m'0: "\<forall>a. fmlookup m' a = (if \<exists>origin defs. (origin, defs) \<in> set ?ps \<and> expired c now origin \<and> a |\<in>| fmdom defs
      then None else fmlookup m a)" by auto
  have m': "fmlookup m' a = (case fmlookup m a of
      Some s \<Rightarrow> if is_remote (si_Origin s) \<and> expired c now (si_Origin s) then None else Some s
    | None \<Rightarrow> None)" for a
    using m'0 by (auto simp: range_of_iff [OF assms(1)] expired_names [OF assms(4)] split: option.split)
  have "keyed si_Address m'"
    using assms(4) by (auto simp: synced_def keyed_def fmpred_iff m' split: option.splits if_splits)
  moreover have "fset (fmdom (known_in (ct_byOrigin ?c) o')) \<subseteq> names_of m' o'" for o'
  proof
    fix a
    assume a: "a \<in> fset (fmdom (known_in (ct_byOrigin ?c) o'))"
    then have kept: "o' \<notin> set ?aged" and known: "a |\<in>| fmdom (known_in (ct_byOrigin c) o')"
      unfolding known_in_forget by (simp_all only: fmdom_empty split: if_splits) simp_all
    from known have "o' \<in> set (map fst ?ps)"
      using range_ok_set [OF assms(1)] by (auto simp: range_of_keys known_in_def fmlookup_dom_iff split: option.splits)
    with kept have "\<not> expired c now o'" by simp
    then show "a \<in> names_of m' o'" using known by (auto simp: synced_known [OF assms(4)] names_of_def m')
  qed
  ultimately have "synced (serviceSyncDefinitionsUpdated (h_rng h) m' ?c) m'" by (rule refresh_synced [OF assms(1)])
  moreover have aged: "origin \<in> set ?aged \<longleftrightarrow> expired c now origin \<and> origin |\<in>| fmdom (ct_byOrigin c)" for origin
    using range_ok_set [OF assms(1), of "fmdom (ct_byOrigin c)"] by (auto simp: range_of_keys)
  have "fmlookup (ct_byOrigin ?c) origin = (if expired c now origin then None else fmlookup (ct_byOrigin c) origin)"
    "fmlookup (ct_heardFrom ?c) origin =
      (if expired c now origin \<and> origin |\<in>| fmdom (ct_byOrigin c) then None else fmlookup (ct_heardFrom c) origin)" for origin
    using aged by (auto simp: forget_def fmdom_notD simp del: set_filter)
  ultimately show ?thesis using run m' by (intro exI [of _ ?c] exI [of _ w'] exI [of _ m']) (simp add: age_tick_def)
qed

lemma age_tick_expires_witness:
  "\<exists>c' w' m'. age_tick sample_host (61 * second) (sample_controller, controller_world) = (Inr (), (c', w')) \<and>
    controller_view sample_host w' = Some m' \<and> fmlookup m' ''web'' = None \<and> fmlookup m' ''db'' = Some sample_service \<and>
    fmlookup (ct_heardFrom c') ''east'' = None"
proof -
  have rng: "range_ok (h_rng sample_host)" by simp
  have late: "expired sample_controller (61 * second) ''east''"
    using second_pos by (simp add: expired_def age_limit_def)
  have "''web'' \<in> names_of stored_defs ''east''" by (simp add: names_of_def is_remote_def)
  then have "''web'' |\<in>| fmdom (known_in (ct_byOrigin sample_controller) ''east'')"
    unfolding synced_known [OF sample_controller_synced] .
  then have known: "''east'' |\<in>| fmdom (ct_byOrigin sample_controller)"
    by (auto simp: known_in_def fmlookup_dom_iff split: option.splits)
  from age_tick_expires [OF rng wf_controller_world controller_world_view sample_controller_synced, of "61 * second"]
  obtain c' w' m' where run: "age_tick sample_host (61 * second) (sample_controller, controller_world) = (Inr (), (c', w'))"
    "controller_view sample_host w' = Some m'" and
    m': "\<forall>a. fmlookup m' a = (case fmlookup stored_defs a of
      Some s \<Rightarrow> if is_remote (si_Origin s) \<and> expired sample_controller (61 * second) (si_Origin s) then None else Some s
    | None \<Rightarrow> None)" and
    heard: "\<forall>origin. fmlookup (ct_heardFrom c') origin =
      (if expired sample_controller (61 * second) origin \<and> origin |\<in>| fmdom (ct_byOrigin sample_controller) then None
       else fmlookup (ct_heardFrom sample_controller) origin)" by blast
  have "fmlookup m' ''web'' = None" "fmlookup m' ''db'' = Some sample_service"
    using second_pos by (simp_all add: m' expired_def age_limit_def)
  moreover have "fmlookup (ct_heardFrom c') ''east'' = None" using heard [rule_format, of "''east''"] late known by simp
  ultimately show ?thesis using run by blast
qed

section \<open>Two sites\<close>

lemma index_of_advert:
  assumes "range_ok r" and "keyed si_Address m"
  shows "index_defs origin (map snd (range_of r m)) = fmmap (\<lambda>d. d\<lparr>si_Origin := origin\<rparr>) m"
proof -
  have "keyed si_Address (fmmap (\<lambda>d. d\<lparr>si_Origin := origin\<rparr>) m)"
    using assms(2) by (auto simp: keyed_def fmpred_iff)
  from upd_all_range [OF assms(1) this] show ?thesis
    by (simp add: index_defs_def range_of_fmmap [OF assms(1)] comp_def)
qed

lemma keyed_local_services: "keyed si_Address m \<Longrightarrow> keyed si_Address (local_services m)"
  unfolding keyed_def fmpred_iff by (auto simp: fmlookup_local_services split: option.splits if_splits)

lemma local_services_ok: "defs_ok m \<Longrightarrow> defs_ok (local_services m)"
  unfolding defs_ok_def fmpred_iff
  by (auto simp: fmlookup_local_services sync_view_ok split: option.splits if_splits)

lemma advert_received:
  assumes "range_ok r" and "synced c m" and "defs_ok m"
  shows "local_update r c = update_message (ct_origin c)
      (marshal (enc_list enc_service) (map snd (range_of r (local_services m))))"
    and "unmarshal (dec_list dec_service zero_ServiceInterface)
      (marshal (enc_list enc_service) (map snd (range_of r (local_services m)))) [] =
        Inr (map snd (range_of r (local_services m)))"
proof -
  have "service_ok d" if "d \<in> set (map snd (range_of r (local_services m)))" for d
    using that defs_okD [OF local_services_ok [OF assms(3)]]
    by (auto simp: range_of_values [OF assms(1)] simp del: set_map)
  then have "list_all service_ok (map snd (range_of r (local_services m)))"
    by (simp only: list_all_iff) blast
  then show "unmarshal (dec_list dec_service zero_ServiceInterface)
      (marshal (enc_list enc_service) (map snd (range_of r (local_services m)))) [] =
        Inr (map snd (range_of r (local_services m)))"
    by (rule service.list_text_round_trip)
  show "local_update r c = update_message (ct_origin c)
      (marshal (enc_list enc_service) (map snd (range_of r (local_services m))))"
    using assms(2) by (simp add: local_update_def update_message_def synced_def)
qed

lemma equivalent_headless [simp]:
  "equivalentServiceDefinition (d\<lparr>si_Origin := x\<rparr>) s = equivalentServiceDefinition d s"
  by (simp add: equivalentServiceDefinition_def)

lemma equivalent_view:
  "\<not> si_EventChannel d \<Longrightarrow> si_Aggregate d = [] \<Longrightarrow> equivalentServiceDefinition d (sync_view d)"
  by (simp add: equivalentServiceDefinition_def split: option.split)

text \<open>
  C10 (functional). What one site advertises, another ends up holding: when \<open>A\<close> sends its periodic
  update and \<open>B\<close> handles it, the addresses \<open>B\<close> then keeps for \<open>A\<close> are exactly those of the services
  \<open>A\<close> defines itself, less those \<open>B\<close> already holds for somebody else, and each definition kept is
  equivalent to \<open>A\<close>'s.
\<close>

theorem sites_agree:
  assumes "range_ok r" and "synced cA mA" and "defs_ok mA"
    and "range_ok (h_rng h)" and "wf_fs (files w)" and "controller_view h w = Some mB" and "synced cB mB"
    and "is_remote (ct_origin cA)" and "ct_origin cA \<noteq> ct_origin cB"
  shows "\<exists>c' w' m'. handle_message h now (local_update r cA) (cB, w) = (Inr (), (c', w')) \<and>
    controller_view h w' = Some m' \<and>
    names_of m' (ct_origin cA) =
      {a. a |\<in>| fmdom (local_services mA) \<and> (a |\<in>| fmdom mB \<longrightarrow> a \<in> names_of mB (ct_origin cA))} \<and>
    (\<forall>a \<in> names_of m' (ct_origin cA). \<exists>d s. fmlookup (local_services mA) a = Some d \<and> fmlookup m' a = Some s \<and>
       equivalentServiceDefinition d (sync_view s))"
proof -
  let ?o = "ct_origin cA" and ?l = "local_services mA"
  have keyedA: "keyed si_Address ?l" using assms(2) keyed_local_services by (simp add: synced_def)
  have keyedB: "keyed si_Address mB" using assms(7) by (simp add: synced_def)
  note advert = advert_received [OF assms(1-3)]
  let ?defs = "fmmap (\<lambda>d. d\<lparr>si_Origin := ?o\<rparr>) ?l"
  have idx: "index_defs ?o (map snd (range_of r ?l)) = ?defs" by (rule index_of_advert [OF assms(1) keyedA])
  from merged_synced [OF assms(4-9) advert(2), of now] obtain c' w' m' where
    run: "handle_message h now (local_update r cA) (cB, w) = (Inr (), (c', w'))"
      "controller_view h w' = Some m'" and m': "\<And>a. fmlookup m' a = merged ?o ?defs mB a"
    unfolding advert(1) idx by metis
  have from_o: "from_origin ?o ?defs" using from_origin_index [of ?o "map snd (range_of r ?l)"] unfolding idx .
  have names: "names_of m' ?o = {a. a |\<in>| fmdom ?l \<and> (a |\<in>| fmdom mB \<longrightarrow> a \<in> names_of mB ?o)}"
    using merged_origin(2) [OF from_o m' assms(8) keyedB, of ?o] by simp
  have "\<exists>d s. fmlookup ?l a = Some d \<and> fmlookup m' a = Some s \<and> equivalentServiceDefinition d (sync_view s)"
    if a: "a \<in> names_of m' ?o" for a
  proof -
    from a names obtain d where d: "fmlookup ?l a = Some d" by (auto simp: fmlookup_dom_iff)
    from a obtain s where s: "fmlookup m' a = Some s" "si_Origin s = ?o" by (auto simp: names_of_def)
    have plain: "\<not> si_EventChannel d" "si_Aggregate d = []"
      using d by (auto simp: fmlookup_local_services split: option.splits if_splits)
    have "equivalentServiceDefinition d (sync_view s)"
    proof (cases "equivalentServiceDefinition d (sync_view s)")
      case False
      with s d have "s = d\<lparr>si_Origin := ?o\<rparr>"
        by (auto simp: m' merged_def split: option.splits if_splits)
      with equivalent_view [of s] plain show ?thesis by simp
    qed
    with d s show ?thesis by blast
  qed
  with run names show ?thesis by blast
qed

text \<open>The site \<open>east\<close> of the witness defines \<open>api\<close> and \<open>db\<close>, an address \<open>west\<close> has a service of its own at.\<close>

definition api_service :: ServiceInterface where
  "api_service = zero_ServiceInterface\<lparr>si_Address := ''api'', si_Protocol := ''tcp'', si_Port := 90\<rparr>"

definition east_defs :: service_defs where
  "east_defs = fmupd ''api'' api_service sample_defs"

definition east_controller :: Controller where
  "east_controller = serviceSyncDefinitionsUpdated rng_down east_defs (NewController ''east'')"

lemma api_fields [simp]: "si_Address api_service = ''api''" "si_Origin api_service = ''''"
  by (simp_all add: api_service_def zero_ServiceInterface_def)

lemma east_lookup [simp]:
  "fmlookup east_defs a = (if a = ''api'' then Some api_service else if a = ''db'' then Some sample_service else None)"
  by (simp add: east_defs_def sample_defs_def)

lemma east_synced: "synced east_controller east_defs"
proof -
  have "keyed si_Address east_defs" unfolding east_defs_def sample_defs_def by (intro keyed_rules) simp_all
  then show ?thesis unfolding east_controller_def by (rule refresh_synced [rotated]) (simp_all add: NewController_def)
qed

lemma east_defs_ok: "defs_ok east_defs"
  by (simp add: east_defs_def keyed_rules defs_ok_sample service_ok_def api_service_def zero_ServiceInterface_def
      int64_range_def)

lemma east_origin [simp]: "ct_origin east_controller = ''east''"
  by (simp add: east_controller_def serviceSyncDefinitionsUpdated_def NewController_def split: prod.split)

lemma sites_agree_witness:
  "\<exists>c' w' m'. handle_message sample_host 5 (local_update rng_down east_controller) (sample_controller, controller_world) =
      (Inr (), (c', w')) \<and>
    controller_view sample_host w' = Some m' \<and> names_of m' ''east'' = {''api''}"
proof -
  have "range_ok (h_rng sample_host)" "is_remote (ct_origin east_controller)"
    "ct_origin east_controller \<noteq> ct_origin sample_controller" by simp_all
  from sites_agree [OF range_ok_down east_synced east_defs_ok this(1) wf_controller_world controller_world_view
      sample_controller_synced this(2,3), of 5]
  obtain c' w' m' where
    "handle_message sample_host 5 (local_update rng_down east_controller) (sample_controller, controller_world) =
      (Inr (), (c', w'))" "controller_view sample_host w' = Some m'" and
    names: "names_of m' ''east'' = {a. a |\<in>| fmdom (local_services east_defs) \<and>
      (a |\<in>| fmdom stored_defs \<longrightarrow> a \<in> names_of stored_defs ''east'')}" unfolding east_origin by blast
  moreover have "names_of m' ''east'' = {''api''}"
    unfolding names by (auto simp: fmlookup_dom_iff fmlookup_local_services names_of_def split: if_splits)
  ultimately show ?thesis by blast
qed

text \<open>
  A site never passes on what it learnt: whatever the definitions read from the file and
  whatever the controller held before, the services it will advertise are ones defined at this site,
  stripped of their targets.
\<close>

theorem advertises_own_services:
  "fmpred (\<lambda>address d. si_Address d = address \<and> \<not> is_remote (si_Origin d) \<and> si_Targets d = [])
     (ct_localServices (serviceSyncDefinitionsUpdated r definitions c))"
proof -
  obtain l b k where f: "fold (sync_definition r) (range_of r definitions) (fmempty, fmempty, ct_byOrigin c) = (l, b, k)"
    by (metis prod_cases3)
  have l: "l = upd_all si_Address
      (filter (\<lambda>s. \<not> is_remote (si_Origin s)) (map (sync_view \<circ> snd) (range_of r definitions))) fmempty"
    using sync_fold_latest [of r "range_of r definitions" fmempty fmempty "ct_byOrigin c"] f by simp
  have "si_Address d = a \<and> \<not> is_remote (si_Origin d) \<and> si_Targets d = []" if "fmlookup l a = Some d" for a d
    using fmlookup_upd_all_cases [OF that [unfolded l]] by auto
  then show ?thesis by (simp add: serviceSyncDefinitionsUpdated_def f fmpred_iff)
qed

text \<open>
  The same update again changes nothing: the merge of an update into the definitions it
  already went into is the identity, as long as the update uses neither an event channel nor an
  aggregation, which the controller's picture of the file does not keep.
\<close>

theorem merge_settles:
  assumes "\<And>b. fmlookup m' b = merged origin (index_defs origin ds) m b"
    and "\<forall>d \<in> set ds. \<not> si_EventChannel d \<and> si_Aggregate d = []"
  shows "merged origin (index_defs origin ds) m' a = fmlookup m' a"
proof -
  let ?defs = "index_defs origin ds"
  have plain: "\<not> si_EventChannel d \<and> si_Aggregate d = []" if "fmlookup ?defs a = Some d" for d
    using fmlookup_upd_all_cases [OF that [unfolded index_defs_def]] assms(2) by auto
  have same: "equivalentServiceDefinition d (sync_view d)" if "fmlookup ?defs a = Some d" for d
    using plain [OF that] by (simp add: equivalent_view)
  have origin: "si_Origin d = origin" if "fmlookup ?defs a = Some d" for d
    using from_origin_known(2) [OF from_origin_index that] by simp
  show ?thesis
  proof (cases "fmlookup ?defs a")
    case None
    then show ?thesis by (cases "fmlookup m a") (simp_all add: merged_def assms(1))
  next
    case (Some d)
    with same [OF Some] origin [OF Some] show ?thesis
      by (cases "fmlookup m a") (simp_all add: merged_def assms(1))
  qed
qed

lemma merge_settles_witness:
  "merged ''east'' (index_defs ''east'' [api_service]) (fmupd ''api'' (api_service\<lparr>si_Origin := ''east''\<rparr>) fmempty) ''api'' =
     Some (api_service\<lparr>si_Origin := ''east''\<rparr>)"
  using merge_settles [of "fmupd ''api'' (api_service\<lparr>si_Origin := ''east''\<rparr>) fmempty" "''east''" "[api_service]"
      fmempty "''api''"]
  by (simp add: merged_def index_defs_def api_service_def zero_ServiceInterface_def)

text \<open>
  An update that does use an event channel or an aggregation never settles: the controller
  compares it with its picture of the file, in which both are blank, so the definition counts as
  changed, and the file is rewritten, at every update.
\<close>

theorem event_channel_never_settles:
  assumes "synced c m" and "fmlookup m (si_Address d) = Some s" and "si_Origin s = origin"
    and "si_EventChannel d \<or> si_Aggregate d \<noteq> []"
  shows "needs_change c origin d"
  using assms by (auto simp: needs_change_def synced_byName equivalentServiceDefinition_def)

lemma event_channel_never_settles_witness:
  "needs_change sample_controller ''east'' (remote_service\<lparr>si_EventChannel := True\<rparr>)"
  by (rule event_channel_never_settles [OF sample_controller_synced, of _ remote_service]) simp_all

text \<open>
  C27 (safety). The index of an origin is what its updates may delete: an address the index holds and the
  update leaves out is deleted from the file whoever it belongs to there. The index is never told of
  an address that changed hands in the file, so an origin can delete a definition of another one.
\<close>

theorem stale_index_deletes:
  assumes "range_ok (h_rng h)" and "wf_fs (files w)" and "controller_view h w = Some m"
    and "origin \<noteq> ct_origin c" and "a |\<in>| fmdom (known_in (ct_byOrigin c) origin)"
    and "unmarshal (dec_list dec_service zero_ServiceInterface) updates [] = Inr ds"
    and "a |\<notin>| fmdom (index_defs origin ds)"
  shows "\<exists>c' w' m'. handle_message h now (update_message origin updates) (c, w) = (Inr (), (c', w')) \<and>
    controller_view h w' = Some m' \<and> fmlookup m' a = None"
proof -
  let ?defs = "index_defs origin ds"
  let ?m = "apply_changes (changed_defs (h_rng h) c origin ?defs) (deleted_names (h_rng h) c origin ?defs) m"
  have ok: "defs_ok ?defs" by (rule index_defs_ok [OF unmarshal_list_ok [OF assms(6)]])
  from ensure_run [OF assms(1-3) ok, of now origin c] obtain c' w' where
    run: "ensureServiceInterfaceDefinitions h now origin ?defs (c, w) = (c', w')"
      "controller_view h w' = Some ?m" by blast
  have "fmlookup ?m a = None"
    using assms(5,7) apply_changes_lookup [OF assms(1) from_origin_known(1) [OF from_origin_index], of c origin origin ds m a]
    by simp
  with run assms(4,6) show ?thesis
    by (intro exI [of _ c'] exI [of _ w'] exI [of _ ?m])
      (simp add: handle_message_def update_message_def handle_update_def)
qed

lemma index_keeps:
  assumes "range_ok r" and "keyed si_Address m" and "fmlookup m a = Some s" and "is_remote (si_Origin s)"
    and "a |\<in>| fmdom (known_in (ct_byOrigin c) origin)"
  shows "a |\<in>| fmdom (known_in (ct_byOrigin (serviceSyncDefinitionsUpdated r m c)) origin)"
proof -
  have "a |\<in>| fmdom (known_in (snd (snd (fold (sync_definition r) ps (l, b, k)))) origin)"
    if "\<And>n d. (n, d) \<in> set ps \<Longrightarrow> fmlookup m n = Some d" and "a |\<in>| fmdom (known_in k origin)" for ps l b k
    using that
  proof (induction ps arbitrary: l b k)
    case (Cons p ps)
    obtain n d where p: "p = (n, d)" by (cases p)
    from Cons.prems(1) [of n d] p have nd: "fmlookup m n = Some d" by simp
    have addr: "si_Address d = n" by (rule keyedD [OF assms(2) nd])
    show ?case
    proof (cases "is_remote (si_Origin d)")
      case True
      have "a |\<in>| fmdom (known_in (fmupd (si_Origin d) (fmupd n (sync_view d) (known_in k (si_Origin d))) k) origin)"
        using Cons.prems(2) by auto
      from Cons.IH [OF Cons.prems(1) this] True show ?thesis by (simp add: p sync_definition_def Let_def)
    next
      case False
      then have "n \<noteq> a" using nd assms(3,4) by auto
      then have "a |\<in>| fmdom (known_in (pareByOrigin r n k) origin)"
        using Cons.prems(2)
        by (auto simp: pareByOrigin_def find_Some_iff split: option.split)
          (metis assms(1) known_in_dom nth_mem range_of_iff)
      from Cons.IH [OF Cons.prems(1) this] False show ?thesis by (simp add: p sync_definition_def Let_def addr)
    qed
  qed simp
  from this [of "range_of r m" "ct_byOrigin c" fmempty fmempty] assms(5) show ?thesis
    by (simp add: serviceSyncDefinitionsUpdated_def range_of_iff [OF assms(1)] split: prod.split) (metis snd_conv)
qed

text \<open>In the witness the service \<open>web\<close> of \<open>east\<close> was replaced in the file by one of \<open>north\<close>.\<close>

definition moved_defs :: service_defs where
  "moved_defs = fmupd ''web'' (remote_service\<lparr>si_Origin := ''north''\<rparr>) sample_defs"

definition moved_world :: World where
  "moved_world = file_world ''etc'' ''messaging'' ''services'' ''skupper-services'' (marshal_defs moved_defs)"

lemma moved_world_view: "controller_view sample_host moved_world = Some moved_defs"
proof -
  have "resolve sample_host ''/etc/messaging/services/skupper-services'' =
      [''etc'', ''messaging'', ''services'', ''skupper-services'']"
    by (simp add: resolve_def)
  moreover have "defs_ok moved_defs"
    using service_ok_remote by (simp add: moved_defs_def keyed_rules defs_ok_sample service_ok_def)
  ultimately show ?thesis
    by (simp add: controller_view_def services_at_def controller_file_def moved_world_def file_world_def)
qed

lemma stale_index_deletes_witness:
  "fmlookup moved_defs ''web'' = Some (remote_service\<lparr>si_Origin := ''north''\<rparr>) \<and>
   (\<exists>c' w' m'. handle_message sample_host 5 (update_message ''east'' (marshal (enc_list enc_service) []))
        (serviceSyncDefinitionsUpdated rng_up moved_defs sample_controller, moved_world) = (Inr (), (c', w')) \<and>
      controller_view sample_host w' = Some m' \<and> fmlookup m' ''web'' = None)"
proof -
  let ?c = "serviceSyncDefinitionsUpdated rng_up moved_defs sample_controller"
  have rng: "range_ok (h_rng sample_host)" by simp
  have wf: "wf_fs (files moved_world)" by (simp add: moved_world_def wf_file_world)
  have other: "''east'' \<noteq> ct_origin ?c"
    by (simp add: serviceSyncDefinitionsUpdated_def split: prod.split)
  have keyed: "keyed si_Address moved_defs"
    unfolding moved_defs_def sample_defs_def by (intro keyed_rules) simp_all
  have "''web'' |\<in>| fmdom (known_in (ct_byOrigin sample_controller) ''east'')"
    by (simp add: synced_known [OF sample_controller_synced] names_of_def)
  then have stale: "''web'' |\<in>| fmdom (known_in (ct_byOrigin ?c) ''east'')"
    using index_keeps [OF range_ok_up keyed, of "''web''" "remote_service\<lparr>si_Origin := ''north''\<rparr>" sample_controller "''east''"]
    by (simp add: moved_defs_def is_remote_def)
  have empty: "unmarshal (dec_list dec_service zero_ServiceInterface) (marshal (enc_list enc_service) []) [] = Inr []"
    by (rule service.list_text_round_trip) simp
  have "''web'' |\<notin>| fmdom (index_defs ''east'' [])" by (simp add: index_defs_def)
  from stale_index_deletes [OF rng wf moved_world_view other stale empty this, of 5]
  show ?thesis by (simp add: moved_defs_def)
qed

end
