(* ===== verification/ServiceInterfaces.thy ===== *)
theory ServiceInterfaces
  imports Samples
begin

text \<open>
  The service operations of the client, \<open>client/serviceinterface_*.go\<close>. Each asks the daemon for
  the router container, then reads, changes and rewrites the services file; the change itself is
  a pure function on the map of definitions (\<open>put_service\<close>, \<open>remove_target\<close>, \<open>remove_service\<close>).
\<close>

section \<open>The client\<close>

record VanClient =
  DockerInterface :: skupDockerClient
  Host :: host

definition services_file :: "VanClient \<Rightarrow> string" where
  "services_file cli = GetSkupperPath (h_env (Host cli)) ServicesPath @ ''/skupper-services''"

definition services :: "VanClient \<Rightarrow> World \<Rightarrow> service_defs option" where
  "services cli = services_at (Host cli) (services_file cli)"

definition no_router :: "error \<Rightarrow> error" where
  "no_router = Wrapf ''Failed to retrieve transport container (need init?)''"

definition need_router :: "VanClient \<Rightarrow> (World, 'a) oper \<Rightarrow> (World, 'a) oper" where
  "need_router cli m =
     bindE no_router (InspectContainer ''skupper-router'' (DockerInterface cli)) (\<lambda>_. m)"

definition retrieve_failed :: "error \<Rightarrow> error" where
  "retrieve_failed = Wrapf ''Failed to retrieve skupper service interace definitions''"

definition decode_failed :: "error \<Rightarrow> error" where
  "decode_failed = Wrapf ''Failed to decode json for service interface definitions''"

definition write_failed :: "error \<Rightarrow> error" where
  "write_failed = Wrapf ''Failed to write service interface file''"

definition client_load :: "(error \<Rightarrow> error) \<Rightarrow> VanClient \<Rightarrow> (World, service_defs) oper" where
  "client_load on_read cli = load_defs on_read decode_failed (Host cli) (services_file cli)"

definition client_store :: "VanClient \<Rightarrow> service_defs \<Rightarrow> (World, unit) oper" where
  "client_store cli = store_defs write_failed (Host cli) (services_file cli)"

interpretation client_services: file_store "client_load on_read cli" "client_store cli" "services cli"
    "\<lambda>w. wf_fs (files w)" defs_ok for on_read cli
  unfolding client_load_def client_store_def services_def
  by (rule skupper_services.file_store_axioms)

section \<open>Pure parts\<close>

definition addTargetToServiceInterface ::
  "ServiceInterface \<Rightarrow> ServiceInterfaceTarget \<Rightarrow> ServiceInterface" where
  "addTargetToServiceInterface service target =
     (let targets = map (\<lambda>t. if st_Name t = st_Name target then target else t) (si_Targets service);
          modified = list_ex (\<lambda>t. st_Name t = st_Name target) (si_Targets service)
      in service\<lparr>si_Targets := (if modified then targets else targets @ [target])\<rparr>)"

definition port_ok :: "int \<Rightarrow> bool" where
  "port_ok p \<longleftrightarrow> \<not> (p < 0 \<or> 65535 < p)"

definition validateServiceInterface :: "ServiceInterface \<Rightarrow> unit result" where
  "validateServiceInterface service =
     (case List.find (\<lambda>t. \<not> port_ok (st_TargetPort t)) (si_Targets service) of
        Some t \<Rightarrow> Inl (Errorf (''Bad target port number. Target: '' @ st_Name t @ ''  Port: '' @ itoa (st_TargetPort t)))
      | None \<Rightarrow>
          if \<not> port_ok (si_Port service) then
            Inl (Errorf (''Port '' @ itoa (si_Port service) @ '' is outside valid range.''))
          else if si_Aggregate service \<noteq> [] \<and> si_EventChannel service then
            Inl (Errorf ''Only one of aggregate and event-channel can be specified for a given service.'')
          else if si_Aggregate service \<noteq> [] \<and> si_Aggregate service \<noteq> ''json'' \<and> si_Aggregate service \<noteq> ''multipart'' then
            Inl (Errorf (si_Aggregate service @ '' is not a valid aggregation strategy. Choose 'json' or 'multipart'.''))
          else if si_Protocol service \<noteq> [] \<and> si_Protocol service \<noteq> ''tcp'' \<and> si_Protocol service \<noteq> ''http'' \<and>
                  si_Protocol service \<noteq> ''http2'' then
            Inl (Errorf (si_Protocol service @ '' is not a valid mapping. Choose 'tcp', 'http' or 'http2'.''))
          else if si_Aggregate service \<noteq> [] \<and> si_Protocol service \<noteq> ''http'' then
            Inl (Errorf ''The aggregate option is currently only valid for http'')
          else if si_EventChannel service \<and> si_Protocol service \<noteq> ''http'' then
            Inl (Errorf ''The event-channel option is currently only valid for http'')
          else Inr ())"

definition put_service :: "ServiceInterface \<Rightarrow> bool \<Rightarrow> service_defs \<Rightarrow> service_defs" where
  "put_service service overwriteIfExists current =
     (if overwriteIfExists \<or> si_Address service |\<notin>| fmdom current
      then fmupd (si_Address service) (service\<lparr>si_Origin := []\<rparr>) current
      else current)"

definition updateServiceInterface :: "ServiceInterface \<Rightarrow> bool \<Rightarrow> VanClient \<Rightarrow> (World, unit) oper" where
  "updateServiceInterface service overwriteIfExists cli =
     modify_defs (client_load retrieve_failed cli) (client_store cli)
       (\<lambda>current. Inr (put_service service overwriteIfExists current))"

definition docker_host :: "VanClient \<Rightarrow> string" where
  "docker_host cli =
     (let host = GetInternalIP (Host cli) ''docker0'' in if host = [] then ''172.17.0.1'' else host)"

text \<open>The name a host-service target is known by: the address of the docker bridge is added when the
  name gives none.\<close>

definition host_target_name :: "VanClient \<Rightarrow> string \<Rightarrow> string" where
  "host_target_name cli targetName =
     (if length (split_two (CHR '':'') targetName) = 1 then targetName @ '':'' @ docker_host cli
      else targetName)"

definition getServiceInterfaceTarget ::
  "string \<Rightarrow> string \<Rightarrow> bool \<Rightarrow> VanClient \<Rightarrow> (World, ServiceInterfaceTarget) oper" where
  "getServiceInterfaceTarget targetType targetName deducePort cli =
     (if targetType = ''container'' then
        bindE (\<lambda>_. Errorf (''Could not read container '' @ targetName))
          (InspectContainer targetName (DockerInterface cli)) (\<lambda>containerJSON.
          let target = zero_ServiceInterfaceTarget\<lparr>st_Name := targetName, st_Selector := container_selector\<rparr>
          in returnE (if deducePort \<and> fcard (cc_ExposedPorts (cj_Config containerJSON)) > 0
                      then target\<lparr>st_TargetPort := 9090\<rparr> else target))
      else if targetType = ''host-service'' then
        returnE (zero_ServiceInterfaceTarget\<lparr>st_Name := host_target_name cli targetName, st_Selector := host_selector\<rparr>)
      else failE (Errorf ''VAN service interface unsupported target type''))"

text \<open>The ports of a binding: a port deduced from the container becomes the port of the service, a
  port asked for is the port of the service if it has none and of the target otherwise, and http
  falls back to 80.\<close>

definition bind_ports ::
  "string \<Rightarrow> int \<Rightarrow> ServiceInterface \<Rightarrow> ServiceInterfaceTarget \<Rightarrow>
     (ServiceInterface \<times> ServiceInterfaceTarget) result" where
  "bind_ports protocol targetPort service target =
     (let (s, t) =
        (if st_TargetPort target \<noteq> 0 then
           (service\<lparr>si_Port := st_TargetPort target\<rparr>, target\<lparr>st_TargetPort := 0\<rparr>)
         else if targetPort \<noteq> 0 then
           (if si_Port service = 0 then (service\<lparr>si_Port := targetPort\<rparr>, target)
            else (service, target\<lparr>st_TargetPort := targetPort\<rparr>))
         else (service, target))
      in if si_Port s = 0 then
           (if protocol = ''http'' then Inr (s\<lparr>si_Port := 80\<rparr>, t)
            else Inl (Errorf ''Service port required and cannot be deduced.''))
         else Inr (s, t))"

section \<open>The operations\<close>

definition ServiceInterfaceCreate :: "VanClient \<Rightarrow> ServiceInterface \<Rightarrow> (World, unit) oper" where
  "ServiceInterfaceCreate cli service =
     need_router cli
       (bindE id (liftE (validateServiceInterface service)) (\<lambda>_.
          updateServiceInterface service False cli))"

definition ServiceInterfaceInspect :: "VanClient \<Rightarrow> string \<Rightarrow> (World, ServiceInterface option) oper" where
  "ServiceInterfaceInspect cli address =
     need_router cli
       (bindE id (client_load id cli) (\<lambda>svcDefs. returnE (fmlookup svcDefs address)))"

fun list_services ::
  "VanClient \<Rightarrow> ServiceInterface list \<Rightarrow> (World, ServiceInterface list) oper" where
  "list_services cli [] = returnE []"
| "list_services cli (v # vs) =
     tryE (InspectContainer (si_Address v) (DockerInterface cli)) (\<lambda>r.
       case r of
         Inl _ \<Rightarrow> bindE id (list_services cli vs) (\<lambda>rest. returnE (v # rest))
       | Inr current \<Rightarrow>
           (case fmlookup (cj_Networks current) ''skupper-network'' of
              None \<Rightarrow> failE (Panic ''nil pointer dereference'')
            | Some ip \<Rightarrow> bindE id (list_services cli vs) (\<lambda>rest. returnE (v\<lparr>si_Alias := ip\<rparr> # rest))))"

definition ServiceInterfaceList :: "VanClient \<Rightarrow> (World, ServiceInterface list) oper" where
  "ServiceInterfaceList cli =
     need_router cli
       (bindE id (client_load id cli) (\<lambda>svcDefs.
          list_services cli (map snd (range_of (h_rng (Host cli)) svcDefs))))"

definition remove_service :: "string \<Rightarrow> service_defs \<Rightarrow> service_defs result" where
  "remove_service address svcDefs =
     (case fmlookup svcDefs address of
        None \<Rightarrow> Inl (Errorf ''Unexpose service interface definition not found'')
      | Some _ \<Rightarrow> Inr (fmdrop address svcDefs))"

definition ServiceInterfaceRemove :: "VanClient \<Rightarrow> string \<Rightarrow> (World, unit) oper" where
  "ServiceInterfaceRemove cli address =
     need_router cli
       (modify_defs (client_load retrieve_failed cli) (client_store cli) (remove_service address))"

definition ServiceInterfaceUpdate :: "VanClient \<Rightarrow> ServiceInterface \<Rightarrow> (World, unit) oper" where
  "ServiceInterfaceUpdate cli service =
     need_router cli
       (bindE (Wrapf ''Service not found'') (ServiceInterfaceInspect cli (si_Address service)) (\<lambda>_.
          bindE id (liftE (validateServiceInterface service)) (\<lambda>_.
            updateServiceInterface service True cli)))"

definition ServiceInterfaceBind ::
  "VanClient \<Rightarrow> ServiceInterface \<Rightarrow> string \<Rightarrow> string \<Rightarrow> string \<Rightarrow> int \<Rightarrow> (World, unit) oper" where
  "ServiceInterfaceBind cli service targetType targetName protocol targetPort =
     need_router cli
       (bindE id (liftE (validateServiceInterface service)) (\<lambda>_.
          if protocol \<noteq> [] \<and> si_Protocol service \<noteq> protocol then
            failE (Errorf (''Invalid protocol '' @ protocol @ '' for service with mapping '' @ si_Protocol service))
          else
            bindE id (getServiceInterfaceTarget targetType targetName
                        (si_Port service = 0 \<and> targetPort = 0) cli) (\<lambda>target.
            bindE id (liftE (bind_ports protocol targetPort service target)) (\<lambda>(service', target').
              updateServiceInterface (addTargetToServiceInterface service' target') True cli))))"

definition target_matches :: "VanClient \<Rightarrow> string \<Rightarrow> string \<Rightarrow> ServiceInterfaceTarget \<Rightarrow> bool" where
  "target_matches cli serviceName targetName t \<longleftrightarrow>
     (let name = (if st_Selector t = host_selector then host_target_name cli targetName else targetName)
      in st_Name t = name \<or> (st_Name t = [] \<and> targetName = serviceName))"

definition remove_target ::
  "VanClient \<Rightarrow> string \<Rightarrow> string \<Rightarrow> bool \<Rightarrow> service_defs \<Rightarrow> service_defs result" where
  "remove_target cli serviceName targetName deleteIfNoTargets current =
     (case fmlookup current serviceName of
        None \<Rightarrow> Inl (Errorf (''Could not find entry for service interface '' @ serviceName))
      | Some service \<Rightarrow>
          (let targets = filter (\<lambda>t. \<not> target_matches cli serviceName targetName t) (si_Targets service);
               modified = list_ex (target_matches cli serviceName targetName) (si_Targets service)
           in if \<not> modified then
                Inl (Errorf (''Could not find target '' @ targetName @ '' for service interface '' @ serviceName))
              else if targets = [] \<and> deleteIfNoTargets then Inr (fmdrop serviceName current)
              else Inr (fmupd serviceName (service\<lparr>si_Targets := targets\<rparr>) current)))"

definition removeServiceInterfaceTarget ::
  "string \<Rightarrow> string \<Rightarrow> bool \<Rightarrow> VanClient \<Rightarrow> (World, unit) oper" where
  "removeServiceInterfaceTarget serviceName targetName deleteIfNoTargets cli =
     need_router cli
       (modify_defs (client_load retrieve_failed cli) (client_store cli)
          (remove_target cli serviceName targetName deleteIfNoTargets))"

definition ServiceInterfaceUnbind ::
  "VanClient \<Rightarrow> string \<Rightarrow> string \<Rightarrow> string \<Rightarrow> bool \<Rightarrow> (World, unit) oper" where
  "ServiceInterfaceUnbind cli targetType targetName address deleteIfNoTargets =
     need_router cli
       (if targetType = ''container'' \<or> targetType = ''host-service'' then
          removeServiceInterfaceTarget address targetName deleteIfNoTargets cli
        else failE (Errorf (''Unsupported target type for service interface '' @ targetType)))"

section \<open>The router container\<close>

definition router_up :: "VanClient \<Rightarrow> World \<Rightarrow> bool" where
  "router_up cli w \<longleftrightarrow> (\<exists>j. fst (InspectContainer ''skupper-router'' (DockerInterface cli) w) = Inr j)"

lemma router_up_calls: "calls w = calls w' \<Longrightarrow> router_up cli w = router_up cli w'"
  using InspectContainer_calls [of w w' "''skupper-router''" "DockerInterface cli"] by (simp add: router_up_def)

lemma need_router_cases:
  "(router_up cli w \<and> need_router cli m w =
      m (send (ContainerInspect ''skupper-router'') (getTimeoutContext (DockerInterface cli)) w)) \<or>
   (\<not> router_up cli w \<and> (\<exists>e. need_router cli m w =
      (Inl e, send (ContainerInspect ''skupper-router'') (getTimeoutContext (DockerInterface cli)) w)))"
proof -
  obtain r w1 where r: "InspectContainer ''skupper-router'' (DockerInterface cli) w = (r, w1)" by fastforce
  note w1 = InspectContainer_send [OF r]
  show ?thesis using r w1 by (cases r) (auto simp: need_router_def router_up_def)
qed

lemma need_router_up:
  "router_up cli w \<Longrightarrow>
     need_router cli m w = m (send (ContainerInspect ''skupper-router'') (getTimeoutContext (DockerInterface cli)) w)"
  using need_router_cases [of cli w m] by blast

lemma need_router_Inr: "need_router cli m w = (Inr x, w') \<Longrightarrow> router_up cli w"
  using need_router_cases [of cli w m] by auto

lemma services_send [simp]: "services cli (send call ctx w) = services cli w"
  by (simp add: services_def services_at_def send_simps)

text \<open>Asking for the router again and again does not make it disappear.\<close>

definition router_request :: "VanClient \<Rightarrow> request" where
  "router_request cli =
     \<lparr>rq_call = ContainerInspect ''skupper-router'', rq_context = getTimeoutContext (DockerInterface cli)\<rparr>"

definition router_stays_up :: "VanClient \<Rightarrow> World \<Rightarrow> bool" where
  "router_stays_up cli w \<longleftrightarrow> (\<forall>n. router_up cli (w\<lparr>calls := calls w @ replicate n (router_request cli)\<rparr>))"

lemma router_stays_up_now: "router_stays_up cli w \<Longrightarrow> router_up cli w"
  by (erule router_stays_up_def [THEN iffD1, THEN spec [of _ 0], simplified])

lemma router_stays_up_send:
  assumes "router_stays_up cli w"
  shows "router_stays_up cli
    (send (ContainerInspect ''skupper-router'') (getTimeoutContext (DockerInterface cli)) w)"
  using assms unfolding router_stays_up_def
  by (simp add: send_def router_request_def [symmetric] del: replicate_Suc)
    (metis append_Cons append_Nil replicate_Suc)

section \<open>All the changing operations together\<close>

datatype service_cmd =
    CmdCreate ServiceInterface
  | CmdUpdate ServiceInterface
  | CmdBind ServiceInterface string string string int
  | CmdUnbind string string string bool
  | CmdRemove string

fun run_service_cmd :: "VanClient \<Rightarrow> service_cmd \<Rightarrow> (World, unit) oper" where
  "run_service_cmd cli (CmdCreate s) = ServiceInterfaceCreate cli s"
| "run_service_cmd cli (CmdUpdate s) = ServiceInterfaceUpdate cli s"
| "run_service_cmd cli (CmdBind s targetType targetName protocol port) =
     ServiceInterfaceBind cli s targetType targetName protocol port"
| "run_service_cmd cli (CmdUnbind targetType targetName address del) =
     ServiceInterfaceUnbind cli targetType targetName address del"
| "run_service_cmd cli (CmdRemove address) = ServiceInterfaceRemove cli address"

fun cmd_address :: "service_cmd \<Rightarrow> string" where
  "cmd_address (CmdCreate s) = si_Address s"
| "cmd_address (CmdUpdate s) = si_Address s"
| "cmd_address (CmdBind s _ _ _ _) = si_Address s"
| "cmd_address (CmdUnbind _ _ address _) = address"
| "cmd_address (CmdRemove address) = address"

text \<open>\<open>atomic_at cli a w r w'\<close>: the change was made, and only at address \<open>a\<close>, or an error was returned
  and no file was written.\<close>

definition atomic_at :: "VanClient \<Rightarrow> string \<Rightarrow> World \<Rightarrow> unit result \<Rightarrow> World \<Rightarrow> bool" where
  "atomic_at cli a w r w' \<longleftrightarrow>
     (r = Inr () \<and> wf_fs (files w') \<and> (\<exists>m m'. services cli w = Some m \<and> services cli w' = Some m' \<and>
        (\<forall>b. b \<noteq> a \<longrightarrow> fmlookup m' b = fmlookup m b))) \<or>
     ((\<exists>e. r = Inl e) \<and> files w' = files w)"

lemma atomic_at_error: "files w' = files w \<Longrightarrow> atomic_at cli a w (Inl e) w'"
  by (simp add: atomic_at_def)

lemma atomic_at_start: "files w1 = files w \<Longrightarrow> atomic_at cli a w1 r w' = atomic_at cli a w r w'"
  by (simp add: atomic_at_def services_def services_at_def)

lemma atomic_at_modify:
  assumes "wf_fs (files w)"
    and "modify_defs (client_load on_read cli) (client_store cli) f w = (r, w')"
    and "\<And>m m'. f m = Inr m' \<Longrightarrow> defs_ok m \<Longrightarrow> defs_ok m'"
    and "\<And>m m' b. f m = Inr m' \<Longrightarrow> b \<noteq> a \<Longrightarrow> fmlookup m' b = fmlookup m b"
  shows "atomic_at cli a w r w'"
proof -
  have "(r = Inr () \<and> (\<exists>m m'. services cli w = Some m \<and> f m = Inr m' \<and> services cli w' = Some m' \<and> wf_fs (files w'))) \<or>
    ((\<exists>e. r = Inl e) \<and> w' = w)"
    by (rule client_services.modify_cases [OF assms(1,2)]) (rule assms(3))
  then show ?thesis unfolding atomic_at_def using assms(4) by blast
qed

lemma put_service_ok: "service_ok s \<Longrightarrow> defs_ok m \<Longrightarrow> defs_ok (put_service s b m)"
  by (simp add: put_service_def defs_ok_intros service_ok_def)

lemma put_service_frame: "a \<noteq> si_Address s \<Longrightarrow> fmlookup (put_service s b m) a = fmlookup m a"
  by (simp add: put_service_def)

lemma atomic_at_update:
  assumes "wf_fs (files w)" and "updateServiceInterface s b cli w = (r, w')" and "service_ok s"
  shows "atomic_at cli (si_Address s) w r w'"
  using assms(1) assms(2) [unfolded updateServiceInterface_def]
  by (rule atomic_at_modify) (auto simp: put_service_ok [OF assms(3)] put_service_frame)

lemma atomic_at_need_router:
  assumes "need_router cli m w = (r, w')"
    and "\<And>w1 r w'. files w1 = files w \<Longrightarrow> m w1 = (r, w') \<Longrightarrow> atomic_at cli a w1 r w'"
  shows "atomic_at cli a w r w'"
proof (cases "router_up cli w")
  case True
  let ?w1 = "send (ContainerInspect ''skupper-router'') (getTimeoutContext (DockerInterface cli)) w"
  have "atomic_at cli a ?w1 r w'"
    using assms(1) need_router_up [OF True, of m] by (intro assms(2)) (simp_all add: send_simps)
  then show ?thesis using atomic_at_start [of ?w1 w] by (simp add: send_simps)
next
  case False
  with need_router_cases [of cli w m] assms(1) show ?thesis
    by (auto intro: atomic_at_error simp: send_simps)
qed

lemma atomic_at_check:
  assumes "bindE id (liftE chk) (\<lambda>_. m) w = (r, w')" and "m w = (r, w') \<Longrightarrow> atomic_at cli a w r w'"
  shows "atomic_at cli a w r w'"
  using assms by (cases chk) (auto simp: atomic_at_error)

lemma remove_service_ok: "remove_service a m = Inr m' \<Longrightarrow> defs_ok m \<Longrightarrow> defs_ok m'"
  and remove_service_frame: "remove_service a m = Inr m' \<Longrightarrow> b \<noteq> a \<Longrightarrow> fmlookup m' b = fmlookup m b"
  by (auto simp: remove_service_def defs_ok_intros split: option.splits)

lemma remove_target_ok: "remove_target cli a t d m = Inr m' \<Longrightarrow> defs_ok m \<Longrightarrow> defs_ok m'"
  by (auto simp: remove_target_def Let_def service_ok_def list_all_iff dest: defs_okD
      intro!: defs_ok_intros split: option.splits if_splits)

lemma remove_target_frame: "remove_target cli a t d m = Inr m' \<Longrightarrow> b \<noteq> a \<Longrightarrow> fmlookup m' b = fmlookup m b"
  by (auto simp: remove_target_def Let_def split: option.splits if_splits)

text \<open>The integers of a command are Go integers.\<close>

fun cmd_ok :: "service_cmd \<Rightarrow> bool" where
  "cmd_ok (CmdCreate s) = service_ok s"
| "cmd_ok (CmdUpdate s) = service_ok s"
| "cmd_ok (CmdBind s _ _ _ port) = (service_ok s \<and> int64_range port)"
| "cmd_ok _ = True"

lemma bind_ports_cases:
  "bind_ports protocol p s t = Inr (s', t') \<longleftrightarrow>
     (if st_TargetPort t \<noteq> 0 then s' = s\<lparr>si_Port := st_TargetPort t\<rparr> \<and> t' = t\<lparr>st_TargetPort := 0\<rparr>
      else if p \<noteq> 0 then
        (if si_Port s = 0 then s' = s\<lparr>si_Port := p\<rparr> \<and> t' = t else s' = s \<and> t' = t\<lparr>st_TargetPort := p\<rparr>)
      else t' = t \<and> (if si_Port s = 0 then protocol = ''http'' \<and> s' = s\<lparr>si_Port := 80\<rparr> else s' = s))"
  by (auto simp: bind_ports_def Let_def split: if_splits)

lemma addTarget_ok: "service_ok s \<Longrightarrow> target_ok t \<Longrightarrow> service_ok (addTargetToServiceInterface s t)"
  by (auto simp: addTargetToServiceInterface_def Let_def service_ok_def list_all_iff)

lemma addTarget_address [simp]: "si_Address (addTargetToServiceInterface s t) = si_Address s"
  by (simp add: addTargetToServiceInterface_def Let_def)

lemma bind_ports_ok:
  assumes "bind_ports protocol p s t = Inr (s', t')" and "service_ok s" and "int64_range p"
    and "st_TargetPort t \<in> {0, 9090}"
  shows "service_ok s'" and "target_ok t'" and "si_Address s' = si_Address s"
  using assms
  by (auto simp: bind_ports_cases service_ok_def target_ok_def int64_range_def split: if_splits)

lemma getTarget_result:
  assumes "getServiceInterfaceTarget ty name deduce cli w = (r, w1)"
  shows "files w1 = files w"
    and "r = Inr t \<Longrightarrow> st_TargetPort t \<in> {0, 9090} \<and> (\<not> deduce \<longrightarrow> st_TargetPort t = 0) \<and>
      (ty = ''container'' \<and> st_Name t = name \<and> st_Selector t = container_selector \<or>
       ty = ''host-service'' \<and> st_Name t = host_target_name cli name \<and> st_Selector t = host_selector)"
proof -
  obtain ri wi where i: "InspectContainer name (DockerInterface cli) w = (ri, wi)" by fastforce
  have "files wi = files w" using InspectContainer_send [OF i] by (simp add: send_simps)
  then show "files w1 = files w"
    using assms i by (cases ri) (auto simp: getServiceInterfaceTarget_def Let_def split: if_splits)
  assume "r = Inr t"
  then show "st_TargetPort t \<in> {0, 9090} \<and> (\<not> deduce \<longrightarrow> st_TargetPort t = 0) \<and>
      (ty = ''container'' \<and> st_Name t = name \<and> st_Selector t = container_selector \<or>
       ty = ''host-service'' \<and> st_Name t = host_target_name cli name \<and> st_Selector t = host_selector)"
    using assms i
    by (cases ri) (auto simp: getServiceInterfaceTarget_def Let_def zero_ServiceInterfaceTarget_def split: if_splits)
qed

text \<open>What a binding writes, once the router is there and the service is valid.\<close>

lemma bind_body:
  assumes "bindE id (getServiceInterfaceTarget ty name deduce cli) (\<lambda>target.
      bindE id (liftE (bind_ports protocol p s target)) (\<lambda>(s', t').
        updateServiceInterface (addTargetToServiceInterface s' t') True cli)) w = (r, w')"
  obtains e where "r = Inl e" "files w' = files w"
  | w1 target s' t' where "getServiceInterfaceTarget ty name deduce cli w = (Inr target, w1)"
      "bind_ports protocol p s target = Inr (s', t')"
      "updateServiceInterface (addTargetToServiceInterface s' t') True cli w1 = (r, w')"
proof -
  obtain rt w1 where t: "getServiceInterfaceTarget ty name deduce cli w = (rt, w1)" by fastforce
  note same = getTarget_result(1) [OF t]
  show thesis
  proof (cases rt)
    case (Inl e)
    with assms t same show thesis by (auto intro: that(1))
  next
    case (Inr target)
    show thesis
    proof (cases "bind_ports protocol p s target")
      case (Inl e)
      with assms t Inr same show thesis by (auto intro: that(1))
    next
      case (Inr st)
      obtain s' t' where "st = (s', t')" by (cases st)
      with assms t \<open>rt = Inr target\<close> Inr show thesis by (auto intro: that(2))
    qed
  qed
qed

lemma atomic_bind:
  assumes "service_ok s" and "int64_range p" and "wf_fs (files w)"
    and "ServiceInterfaceBind cli s ty name protocol p w = (r, w')"
  shows "atomic_at cli (si_Address s) w r w'"
  using assms(4) unfolding ServiceInterfaceBind_def
proof (rule atomic_at_need_router)
  fix w1 r w'
  assume w1: "files w1 = files w"
    and run: "bindE id (liftE (validateServiceInterface s)) (\<lambda>_.
          if protocol \<noteq> [] \<and> si_Protocol s \<noteq> protocol then
            failE (Errorf (''Invalid protocol '' @ protocol @ '' for service with mapping '' @ si_Protocol s))
          else
            bindE id (getServiceInterfaceTarget ty name (si_Port s = 0 \<and> p = 0) cli) (\<lambda>target.
            bindE id (liftE (bind_ports protocol p s target)) (\<lambda>(service', target').
              updateServiceInterface (addTargetToServiceInterface service' target') True cli))) w1 = (r, w')"
  from run show "atomic_at cli (si_Address s) w1 r w'"
  proof (rule atomic_at_check)
    assume run: "(if protocol \<noteq> [] \<and> si_Protocol s \<noteq> protocol then
            failE (Errorf (''Invalid protocol '' @ protocol @ '' for service with mapping '' @ si_Protocol s))
          else
            bindE id (getServiceInterfaceTarget ty name (si_Port s = 0 \<and> p = 0) cli) (\<lambda>target.
            bindE id (liftE (bind_ports protocol p s target)) (\<lambda>(service', target').
              updateServiceInterface (addTargetToServiceInterface service' target') True cli))) w1 = (r, w')"
    show ?thesis
    proof (cases "protocol \<noteq> [] \<and> si_Protocol s \<noteq> protocol")
      case True
      with run show ?thesis by (auto intro: atomic_at_error)
    next
      case False
      with run have "bindE id (getServiceInterfaceTarget ty name (si_Port s = 0 \<and> p = 0) cli) (\<lambda>target.
            bindE id (liftE (bind_ports protocol p s target)) (\<lambda>(service', target').
              updateServiceInterface (addTargetToServiceInterface service' target') True cli)) w1 = (r, w')"
        by auto
      then show ?thesis
      proof (cases rule: bind_body)
        case (1 e)
        then show ?thesis by (simp add: atomic_at_error)
      next
        case (2 w2 target s' t')
        note target = getTarget_result [OF 2(1)]
        have "st_TargetPort target \<in> {0, 9090}" using target(2) by blast
        note ok = bind_ports_ok [OF 2(2) assms(1,2) this]
        have "wf_fs (files w2)" using target(1) w1 assms(3) by simp
        from atomic_at_update [OF this 2(3) addTarget_ok [OF ok(1,2)]] ok(3)
        show ?thesis using target(1) atomic_at_start [of w2 w1] by simp
      qed
    qed
  qed
qed

lemma atomic_create:
  assumes "service_ok s" and "wf_fs (files w)" and "ServiceInterfaceCreate cli s w = (r, w')"
  shows "atomic_at cli (si_Address s) w r w'"
  using assms(3) unfolding ServiceInterfaceCreate_def
proof (rule atomic_at_need_router)
  fix w1 r w'
  assume w1: "files w1 = files w"
    and run: "bindE id (liftE (validateServiceInterface s)) (\<lambda>_. updateServiceInterface s False cli) w1 = (r, w')"
  from run show "atomic_at cli (si_Address s) w1 r w'"
    by (rule atomic_at_check) (use assms(1,2) w1 in \<open>simp add: atomic_at_update\<close>)
qed

lemma Inspect_files: "ServiceInterfaceInspect cli a w = (r, w') \<Longrightarrow> files w' = files w"
proof -
  assume run: "ServiceInterfaceInspect cli a w = (r, w')"
  let ?w1 = "send (ContainerInspect ''skupper-router'') (getTimeoutContext (DockerInterface cli)) w"
  show ?thesis
  proof (cases "router_up cli w")
    case True
    have "\<exists>q. client_load id cli ?w1 = (q, ?w1)"
      using client_services.load_view [of cli ?w1] client_services.load_fails [of cli ?w1]
      by (cases "services cli ?w1") auto
    then obtain q where "client_load id cli ?w1 = (q, ?w1)" ..
    with run show ?thesis
      by (cases q) (auto simp: ServiceInterfaceInspect_def need_router_up [OF True] send_simps)
  next
    case False
    with need_router_cases [of cli w "bindE id (client_load id cli) (\<lambda>svcDefs. returnE (fmlookup svcDefs a))"] run
    show ?thesis by (auto simp: ServiceInterfaceInspect_def send_simps)
  qed
qed

lemma atomic_update:
  assumes "service_ok s" and "wf_fs (files w)" and "ServiceInterfaceUpdate cli s w = (r, w')"
  shows "atomic_at cli (si_Address s) w r w'"
  using assms(3) unfolding ServiceInterfaceUpdate_def
proof (rule atomic_at_need_router)
  fix w1 r w'
  assume w1: "files w1 = files w"
    and run: "bindE (Wrapf ''Service not found'') (ServiceInterfaceInspect cli (si_Address s)) (\<lambda>_.
      bindE id (liftE (validateServiceInterface s)) (\<lambda>_. updateServiceInterface s True cli)) w1 = (r, w')"
  obtain ri w2 where i: "ServiceInterfaceInspect cli (si_Address s) w1 = (ri, w2)" by fastforce
  note w2 = Inspect_files [OF i]
  show "atomic_at cli (si_Address s) w1 r w'"
  proof (cases ri)
    case (Inl e)
    with run i w2 show ?thesis by (auto intro: atomic_at_error)
  next
    case (Inr so)
    with run i have "bindE id (liftE (validateServiceInterface s)) (\<lambda>_. updateServiceInterface s True cli) w2 = (r, w')"
      by simp
    then have "atomic_at cli (si_Address s) w2 r w'"
      by (rule atomic_at_check) (use assms(1,2) w1 w2 in \<open>simp add: atomic_at_update\<close>)
    then show ?thesis using atomic_at_start [OF w2] by simp
  qed
qed

lemma atomic_remove:
  assumes "wf_fs (files w)" and "ServiceInterfaceRemove cli a w = (r, w')"
  shows "atomic_at cli a w r w'"
  using assms(2) unfolding ServiceInterfaceRemove_def
  by (rule atomic_at_need_router)
    (rule atomic_at_modify, use assms(1) in \<open>auto simp: remove_service_ok remove_service_frame\<close>)

lemma atomic_unbind:
  assumes "wf_fs (files w)" and "ServiceInterfaceUnbind cli ty name a del w = (r, w')"
  shows "atomic_at cli a w r w'"
  using assms(2) unfolding ServiceInterfaceUnbind_def
proof (rule atomic_at_need_router)
  fix w1 r w'
  assume w1: "files w1 = files w"
    and run: "(if ty = ''container'' \<or> ty = ''host-service'' then removeServiceInterfaceTarget a name del cli
        else failE (Errorf (''Unsupported target type for service interface '' @ ty))) w1 = (r, w')"
  show "atomic_at cli a w1 r w'"
  proof (cases "ty = ''container'' \<or> ty = ''host-service''")
    case True
    with run have "need_router cli (modify_defs (client_load retrieve_failed cli) (client_store cli)
        (remove_target cli a name del)) w1 = (r, w')" by (simp add: removeServiceInterfaceTarget_def)
    then show ?thesis
    proof (rule atomic_at_need_router)
      fix w2 r w'
      assume "files w2 = files w1"
        and "modify_defs (client_load retrieve_failed cli) (client_store cli) (remove_target cli a name del) w2 = (r, w')"
      then show "atomic_at cli a w2 r w'"
        using assms(1) w1 by (intro atomic_at_modify) (auto simp: remove_target_ok remove_target_frame)
    qed
  next
    case False
    with run show ?thesis by (auto intro: atomic_at_error)
  qed
qed

text \<open>
  C8 (safety). Each command that changes services either succeeds, and then the definitions of all
  other addresses are as they were, or returns an error, and then no file has been written. No
  assumption is made on the daemon or on the content of the services file.
\<close>

theorem service_commands_atomic:
  assumes "wf_fs (files w)" and "cmd_ok c" and "run_service_cmd cli c w = (r, w')"
  shows "(r = Inr () \<and> wf_fs (files w') \<and> (\<exists>m m'. services cli w = Some m \<and> services cli w' = Some m' \<and>
       (\<forall>b. b \<noteq> cmd_address c \<longrightarrow> fmlookup m' b = fmlookup m b))) \<or>
     ((\<exists>e. r = Inl e) \<and> files w' = files w)"
proof -
  have "atomic_at cli (cmd_address c) w r w'"
    using assms by (cases c) (auto intro: atomic_create atomic_update atomic_bind atomic_remove atomic_unbind)
  then show ?thesis by (simp add: atomic_at_def)
qed

section \<open>What each operation does\<close>

lemma modify_run:
  assumes "router_up cli w" and "wf_fs (files w)" and "services cli w = Some m"
    and "f m = Inr m'" and "defs_ok m \<Longrightarrow> defs_ok m'"
  shows "\<exists>w'. need_router cli (modify_defs (client_load on_read cli) (client_store cli) f) w = (Inr (), w') \<and>
    services cli w' = Some m' \<and> wf_fs (files w') \<and> calls w' = calls w @ [router_request cli]"
  using client_services.modify_done
      [of "send (ContainerInspect ''skupper-router'') (getTimeoutContext (DockerInterface cli)) w"
        cli m f m' on_read] assms
  by (simp add: need_router_up [OF assms(1)] send_simps router_request_def)

lemma remove_run:
  assumes "router_up cli w" and "wf_fs (files w)" and "services cli w = Some m" and "a |\<in>| fmdom m"
  shows "\<exists>w'. ServiceInterfaceRemove cli a w = (Inr (), w') \<and> services cli w' = Some (fmdrop a m)"
  using modify_run [OF assms(1-3), of "remove_service a" "fmdrop a m" retrieve_failed] assms(4)
  by (auto simp: ServiceInterfaceRemove_def remove_service_def defs_ok_intros fmlookup_dom_iff)

lemma inspect_run:
  assumes "router_up cli w" and "services cli w = Some m"
  shows "\<exists>w'. ServiceInterfaceInspect cli a w = (Inr (fmlookup m a), w') \<and> files w' = files w \<and>
    calls w' = calls w @ [router_request cli]"
  using assms client_services.load_view
      [of cli "send (ContainerInspect ''skupper-router'') (getTimeoutContext (DockerInterface cli)) w" m id]
  by (simp add: ServiceInterfaceInspect_def need_router_up send_simps router_request_def)

lemma create_run:
  assumes "router_up cli w" and "wf_fs (files w)" and "services cli w = Some m"
    and "validateServiceInterface s = Inr ()" and "service_ok s"
  shows "\<exists>w'. ServiceInterfaceCreate cli s w = (Inr (), w') \<and> services cli w' = Some (put_service s False m) \<and>
    wf_fs (files w') \<and> calls w' = calls w @ [router_request cli]"
  using modify_run [OF assms(1-3), of "\<lambda>c. Inr (put_service s False c)" "put_service s False m" retrieve_failed]
    assms(4,5)
  by (simp add: ServiceInterfaceCreate_def updateServiceInterface_def need_router_up [OF assms(1)] put_service_ok)

text \<open>
  C25 (functional). Creating a valid service and inspecting it: when the address is free the new
  definition is stored, with no origin, and inspection returns it; when the address is taken the
  call still succeeds, and inspection returns the definition that was there before.
\<close>

theorem create_then_inspect:
  assumes "router_stays_up cli w" and "wf_fs (files w)" and "services cli w = Some m"
    and "validateServiceInterface s = Inr ()" and "service_ok s"
  shows "\<exists>w1 w2. ServiceInterfaceCreate cli s w = (Inr (), w1) \<and>
    ServiceInterfaceInspect cli (si_Address s) w1 =
      (Inr (Some (case fmlookup m (si_Address s) of None \<Rightarrow> s\<lparr>si_Origin := []\<rparr> | Some old \<Rightarrow> old)), w2)"
proof -
  from create_run [OF router_stays_up_now [OF assms(1)] assms(2-5)] obtain w1 where
    w1: "ServiceInterfaceCreate cli s w = (Inr (), w1)" "services cli w1 = Some (put_service s False m)"
      "calls w1 = calls w @ [router_request cli]" by blast
  have "router_up cli w1"
    using assms(1) [unfolded router_stays_up_def, THEN spec, of 1] w1(3)
      router_up_calls [of w1 "w\<lparr>calls := calls w @ [router_request cli]\<rparr>"]
    by simp
  from inspect_run [OF this w1(2), of "si_Address s"] w1(1) show ?thesis
    by (auto simp: put_service_def fmlookup_dom_iff split: option.split)
qed

lemma bind_success:
  assumes "wf_fs (files w)" and "service_ok s" and "int64_range p"
    and "ServiceInterfaceBind cli s ty name protocol p w = (Inr (), w')"
  obtains m target s' t' where "services cli w = Some m" "validateServiceInterface s = Inr ()"
    "st_TargetPort target \<in> {0, 9090}" "si_Port s = 0 \<and> p = 0 \<or> st_TargetPort target = 0"
    "ty = ''container'' \<and> st_Name target = name \<and> st_Selector target = container_selector \<or>
     ty = ''host-service'' \<and> st_Name target = host_target_name cli name \<and> st_Selector target = host_selector"
    "bind_ports protocol p s target = Inr (s', t')"
    "services cli w' = Some (put_service (addTargetToServiceInterface s' t') True m)" "wf_fs (files w')"
proof -
  have up: "router_up cli w"
    using assms(4) unfolding ServiceInterfaceBind_def by (rule need_router_Inr)
  let ?w1 = "send (ContainerInspect ''skupper-router'') (getTimeoutContext (DockerInterface cli)) w"
  have valid: "validateServiceInterface s = Inr ()"
    using assms(4) by (cases "validateServiceInterface s") (simp_all add: ServiceInterfaceBind_def need_router_up [OF up])
  have same: "\<not> (protocol \<noteq> [] \<and> si_Protocol s \<noteq> protocol)"
    using assms(4) valid
    by (intro notI) (simp add: ServiceInterfaceBind_def need_router_up [OF up])
  have run: "bindE id (getServiceInterfaceTarget ty name (si_Port s = 0 \<and> p = 0) cli) (\<lambda>target.
      bindE id (liftE (bind_ports protocol p s target)) (\<lambda>(service', target').
        updateServiceInterface (addTargetToServiceInterface service' target') True cli)) ?w1 = (Inr (), w')"
    using assms(4) valid same by (auto simp: ServiceInterfaceBind_def need_router_up [OF up])
  from run show thesis
  proof (cases rule: bind_body)
    case (1 e)
    then show thesis by simp
  next
    case (2 w2 target s' t')
    note target = getTarget_result [OF 2(1)]
    have port: "st_TargetPort target \<in> {0, 9090}" using target(2) by blast
    note ok = bind_ports_ok [OF 2(2) assms(2,3) port]
    have w2: "wf_fs (files w2)" using target(1) assms(1) by (simp add: send_simps)
    have "\<exists>m. services cli w2 = Some m \<and> services cli w' = Some (put_service (addTargetToServiceInterface s' t') True m) \<and>
        wf_fs (files w')"
      using client_services.modify_cases [OF w2 2(3) [unfolded updateServiceInterface_def]]
        put_service_ok [OF addTarget_ok [OF ok(1,2)]] by blast
    moreover have "services cli w2 = services cli w"
      using target(1) by (simp add: services_def services_at_def send_simps)
    ultimately obtain m where "services cli w = Some m"
      "services cli w' = Some (put_service (addTargetToServiceInterface s' t') True m)" "wf_fs (files w')" by auto
    then show thesis using that valid port target(2) [OF refl] 2(2) by auto
  qed
qed

definition bound_name :: "VanClient \<Rightarrow> string \<Rightarrow> string \<Rightarrow> string" where
  "bound_name cli ty name = (if ty = ''container'' then name else host_target_name cli name)"

lemma addTarget_targets:
  "t \<in> set (si_Targets (addTargetToServiceInterface s t))"
  "u \<in> set (si_Targets (addTargetToServiceInterface s t)) \<Longrightarrow> st_Name u = st_Name t \<Longrightarrow> u = t"
  "filter (\<lambda>u. st_Name u \<noteq> st_Name t) (si_Targets (addTargetToServiceInterface s t)) =
     filter (\<lambda>u. st_Name u \<noteq> st_Name t) (si_Targets s)"
proof -
  show "t \<in> set (si_Targets (addTargetToServiceInterface s t))"
    by (auto simp: addTargetToServiceInterface_def Let_def list_ex_iff)
  show "u \<in> set (si_Targets (addTargetToServiceInterface s t)) \<Longrightarrow> st_Name u = st_Name t \<Longrightarrow> u = t"
    by (auto simp: addTargetToServiceInterface_def Let_def list_ex_iff split: if_splits)
  have "filter (\<lambda>u. st_Name u \<noteq> st_Name t) (map (\<lambda>v. if st_Name v = st_Name t then t else v) ts) =
      filter (\<lambda>u. st_Name u \<noteq> st_Name t) ts" for ts
    by (induction ts) auto
  then show "filter (\<lambda>u. st_Name u \<noteq> st_Name t) (si_Targets (addTargetToServiceInterface s t)) =
      filter (\<lambda>u. st_Name u \<noteq> st_Name t) (si_Targets s)"
    by (simp add: addTargetToServiceInterface_def Let_def)
qed

lemma addTarget_sel [simp]:
  "si_Port (addTargetToServiceInterface s t) = si_Port s"
  "si_Protocol (addTargetToServiceInterface s t) = si_Protocol s"
  "si_Aggregate (addTargetToServiceInterface s t) = si_Aggregate s"
  "si_EventChannel (addTargetToServiceInterface s t) = si_EventChannel s"
  by (simp_all add: addTargetToServiceInterface_def Let_def)

text \<open>
  C22 (functional). After a successful binding the address has one definition \<open>d\<close> owned by this
  site and with a port; exactly one of its targets has the target's name, its traffic goes to the
  port asked for, or to the port of the service when none was asked for; all targets of other
  names are those of the service given, and so is the port of the service when it had one.
\<close>

theorem bind_result:
  assumes "wf_fs (files w)" and "service_ok s" and "int64_range p"
    and "ServiceInterfaceBind cli s ty name protocol p w = (Inr (), w')"
  shows "\<exists>m d t. services cli w = Some m \<and> services cli w' = Some (fmupd (si_Address s) d m) \<and>
    si_Origin d = [] \<and> si_Port d \<noteq> 0 \<and> (si_Port s \<noteq> 0 \<longrightarrow> si_Port d = si_Port s) \<and>
    st_Name t = bound_name cli ty name \<and> t \<in> set (si_Targets d) \<and>
    (\<forall>u \<in> set (si_Targets d). st_Name u = bound_name cli ty name \<longrightarrow> u = t) \<and>
    egress_port d t = (if p \<noteq> 0 then p else si_Port d) \<and>
    filter (\<lambda>u. st_Name u \<noteq> bound_name cli ty name) (si_Targets d) =
      filter (\<lambda>u. st_Name u \<noteq> bound_name cli ty name) (si_Targets s)"
proof -
  from bind_success [OF assms] obtain m target s' t' where
    m: "services cli w = Some m" "services cli w' = Some (put_service (addTargetToServiceInterface s' t') True m)"
    and target: "si_Port s = 0 \<and> p = 0 \<or> st_TargetPort target = 0" "st_TargetPort target \<in> {0, 9090}"
      "ty = ''container'' \<and> st_Name target = name \<and> st_Selector target = container_selector \<or>
       ty = ''host-service'' \<and> st_Name target = host_target_name cli name \<and> st_Selector target = host_selector"
    and ports: "bind_ports protocol p s target = Inr (s', t')" by metis
  let ?d = "(addTargetToServiceInterface s' t')\<lparr>si_Origin := []\<rparr>"
  have name: "st_Name t' = bound_name cli ty name"
    using ports target(3) by (auto simp: bind_ports_cases bound_name_def split: if_splits)
  have s': "si_Address s' = si_Address s" "si_Targets s' = si_Targets s" "si_Port s' \<noteq> 0"
      "si_Port s \<noteq> 0 \<longrightarrow> si_Port s' = si_Port s" "egress_port s' t' = (if p \<noteq> 0 then p else si_Port s')"
    using ports target(1,2) by (auto simp: bind_ports_cases egress_port_def split: if_splits)
  have "\<forall>u \<in> set (si_Targets ?d). st_Name u = bound_name cli ty name \<longrightarrow> u = t'"
    using addTarget_targets(2) [of _ s' t'] name by auto
  then show ?thesis
    using m s' name addTarget_targets(1,3) [of t' s']
    by (intro exI [of _ m] exI [of _ ?d] exI [of _ t']) (auto simp: put_service_def egress_port_def)
qed

definition mapping_ok :: "ServiceInterface \<Rightarrow> bool" where
  "mapping_ok s \<longleftrightarrow>
     \<not> (si_Aggregate s \<noteq> [] \<and> si_EventChannel s) \<and> si_Aggregate s \<in> {'''', ''json'', ''multipart''} \<and>
     si_Protocol s \<in> {'''', ''tcp'', ''http'', ''http2''} \<and>
     (si_Aggregate s \<noteq> [] \<or> si_EventChannel s \<longrightarrow> si_Protocol s = ''http'')"

lemma validate_iff:
  "validateServiceInterface s = Inr () \<longleftrightarrow>
     (\<forall>t \<in> set (si_Targets s). port_ok (st_TargetPort t)) \<and> port_ok (si_Port s) \<and> mapping_ok s"
proof (cases "List.find (\<lambda>t. \<not> port_ok (st_TargetPort t)) (si_Targets s)")
  case None
  then have "\<forall>t \<in> set (si_Targets s). port_ok (st_TargetPort t)" by (auto simp: find_None_iff)
  with None show ?thesis by (simp add: validateServiceInterface_def mapping_ok_def)
next
  case (Some t)
  then have "t \<in> set (si_Targets s)" "\<not> port_ok (st_TargetPort t)" by (auto simp: find_Some_iff)
  with Some show ?thesis by (auto simp: validateServiceInterface_def)
qed

text \<open>
  C26 (bounds). A successful binding stores a definition that is valid again, so that the operations
  that start with the validation accept it, exactly when the port asked for is between 0 and
  65535. The binding validates the service it is given but not the port it is asked for, so a
  larger port is stored, and rejected only the next time the definition is used.
\<close>

theorem bind_validity:
  assumes "wf_fs (files w)" and "service_ok s" and "int64_range p"
    and "ServiceInterfaceBind cli s ty name protocol p w = (Inr (), w')"
  shows "\<exists>m d. services cli w' = Some (fmupd (si_Address s) d m) \<and>
    (validateServiceInterface d = Inr () \<longleftrightarrow> port_ok p)"
proof -
  from bind_success [OF assms] obtain m target s' t' where
    m: "services cli w = Some m" "services cli w' = Some (put_service (addTargetToServiceInterface s' t') True m)"
    and valid: "validateServiceInterface s = Inr ()"
    and target: "si_Port s = 0 \<and> p = 0 \<or> st_TargetPort target = 0" "st_TargetPort target \<in> {0, 9090}"
    and ports: "bind_ports protocol p s target = Inr (s', t')" by metis
  let ?d = "(addTargetToServiceInterface s' t')\<lparr>si_Origin := []\<rparr>"
  have map_ok: "mapping_ok ?d"
    using valid ports by (auto simp: validate_iff mapping_ok_def bind_ports_cases split: if_splits)
  have addr: "si_Address s' = si_Address s" "si_Targets s' = si_Targets s"
    using ports by (auto simp: bind_ports_cases split: if_splits)
  have "validateServiceInterface ?d = Inr () \<longleftrightarrow> port_ok p"
  proof (cases "port_ok p")
    case True
    have "port_ok (si_Port s')" "port_ok (st_TargetPort t')"
      using True ports valid target by (auto simp: validate_iff port_ok_def bind_ports_cases split: if_splits)
    moreover have "u = t' \<or> u \<in> set (si_Targets s)" if "u \<in> set (si_Targets ?d)" for u
      using that addr by (auto simp: addTargetToServiceInterface_def Let_def split: if_splits)
    ultimately show ?thesis using valid map_ok True by (auto simp: validate_iff)
  next
    case False
    then have "p \<noteq> 0" by (auto simp: port_ok_def)
    then have "si_Port s' = p \<or> st_TargetPort t' = p"
      using ports target by (auto simp: bind_ports_cases split: if_splits)
    then show ?thesis using False addTarget_targets(1) [of t' s'] by (auto simp: validate_iff)
  qed
  then show ?thesis using m addr
    by (intro exI [of _ m] exI [of _ ?d]) (auto simp: put_service_def)
qed

text \<open>A target is new to a service when it neither matches what an unbinding of its name would
  remove nor has the name the binding would give it.\<close>

definition new_target :: "VanClient \<Rightarrow> ServiceInterface \<Rightarrow> string \<Rightarrow> string \<Rightarrow> bool" where
  "new_target cli s ty name \<longleftrightarrow>
     (\<forall>t \<in> set (si_Targets s). \<not> target_matches cli (si_Address s) name t \<and> st_Name t \<noteq> bound_name cli ty name)"

text \<open>
  C24 (roundtrip). Binding a new target to a service and unbinding it again leaves a definition with
  the targets the service had; only its port may have been filled in.
\<close>

theorem bind_unbind:
  assumes "wf_fs (files w)" and "service_ok s" and "int64_range p" and "new_target cli s ty name"
    and "ServiceInterfaceBind cli s ty name protocol p w = (Inr (), w1)" and "router_stays_up cli w1"
  shows "\<exists>m d w2. services cli w = Some m \<and>
    ServiceInterfaceUnbind cli ty name (si_Address s) False w1 = (Inr (), w2) \<and>
    services cli w2 = Some (fmupd (si_Address s) d m) \<and> si_Targets d = si_Targets s \<and>
    (si_Port s \<noteq> 0 \<longrightarrow> d = s\<lparr>si_Origin := []\<rparr>)"
proof -
  from bind_success [OF assms(1,2,3,5)] obtain m target s' t' where
    m: "services cli w = Some m" "services cli w1 = Some (put_service (addTargetToServiceInterface s' t') True m)"
      "wf_fs (files w1)"
    and target: "st_TargetPort target \<in> {0, 9090}" "si_Port s = 0 \<and> p = 0 \<or> st_TargetPort target = 0"
      "ty = ''container'' \<and> st_Name target = name \<and> st_Selector target = container_selector \<or>
       ty = ''host-service'' \<and> st_Name target = host_target_name cli name \<and> st_Selector target = host_selector"
    and ports: "bind_ports protocol p s target = Inr (s', t')" by metis
  have s': "si_Address s' = si_Address s" "si_Targets s' = si_Targets s"
      "si_Port s \<noteq> 0 \<Longrightarrow> s' = s" "st_Name t' = st_Name target" "st_Selector t' = st_Selector target"
    using ports target(1,2) by (auto simp: bind_ports_cases split: if_splits)
  have name: "st_Name t' = bound_name cli ty name"
    using target(3) s' by (auto simp: bound_name_def)
  have matches: "target_matches cli (si_Address s) name t'"
    using target(3) s' by (auto simp: target_matches_def Let_def)
  have targets: "si_Targets (addTargetToServiceInterface s' t') = si_Targets s @ [t']"
    using assms(4) name s' by (auto simp: addTargetToServiceInterface_def Let_def new_target_def list_ex_iff intro!: map_idI)
  have old: "filter (\<lambda>t. \<not> target_matches cli (si_Address s) name t) (si_Targets s) = si_Targets s"
    using assms(4) by (simp add: new_target_def)
  let ?d = "(addTargetToServiceInterface s' t')\<lparr>si_Origin := [], si_Targets := si_Targets s\<rparr>"
  have d_same: "?d = s'\<lparr>si_Origin := []\<rparr>"
    using s'(2) by (simp add: addTargetToServiceInterface_def Let_def)
  have removed: "remove_target cli (si_Address s) name False (put_service (addTargetToServiceInterface s' t') True m) =
      Inr (fmupd (si_Address s) ?d m)"
    using targets old matches s'(1) by (simp add: remove_target_def put_service_def Let_def fmupd_idem)
  let ?w2 = "send (ContainerInspect ''skupper-router'') (getTimeoutContext (DockerInterface cli)) w1"
  have "router_up cli ?w2"
    using router_stays_up_now [OF router_stays_up_send [OF assms(6)]] .
  from modify_run [OF this, of "put_service (addTargetToServiceInterface s' t') True m"
      "remove_target cli (si_Address s) name False" _ retrieve_failed, OF _ _ removed] m
  obtain w2 where w2: "removeServiceInterfaceTarget (si_Address s) name False cli ?w2 = (Inr (), w2)"
    "services cli w2 = Some (fmupd (si_Address s) ?d m)"
    using remove_target_ok [OF removed] by (auto simp: removeServiceInterfaceTarget_def send_simps)
  have "ServiceInterfaceUnbind cli ty name (si_Address s) False w1 = (Inr (), w2)"
    using target(3) w2(1)
    by (auto simp: ServiceInterfaceUnbind_def need_router_up [OF router_stays_up_now [OF assms(6)]])
  then show ?thesis using m(1) w2(2) d_same s'(2,3)
    by (intro exI [of _ m] exI [of _ ?d] exI [of _ w2]) auto
qed

text \<open>
  Removing a service that is defined succeeds and removes its definition and no
  other; removing one that is not defined is an error and changes nothing.
\<close>

theorem remove_result:
  assumes "router_up cli w" and "wf_fs (files w)" and "services cli w = Some m"
  shows "\<exists>r w'. ServiceInterfaceRemove cli a w = (r, w') \<and> services cli w' = Some (fmdrop a m) \<and>
    (r = Inr () \<longleftrightarrow> a |\<in>| fmdom m)"
proof (cases "a |\<in>| fmdom m")
  case True
  with remove_run [OF assms True] show ?thesis by auto
next
  case False
  let ?w1 = "send (ContainerInspect ''skupper-router'') (getTimeoutContext (DockerInterface cli)) w"
  have refused: "remove_service a m = Inl (Errorf ''Unexpose service interface definition not found'')"
    using False by (simp add: remove_service_def fmlookup_dom_iff split: option.split)
  have "ServiceInterfaceRemove cli a w = (Inl (Errorf ''Unexpose service interface definition not found''), ?w1)"
    using client_services.modify_refused [of cli ?w1 m "remove_service a", OF _ refused] assms(3)
    by (simp add: ServiceInterfaceRemove_def need_router_up [OF assms(1)])
  moreover have "fmdrop a m = m" using False by (simp add: fmdrop_idle)
  ultimately show ?thesis using assms(3) False by simp
qed

section \<open>At a concrete site\<close>

definition sample_cli :: VanClient where
  "sample_cli =
     \<lparr>DockerInterface = sim_client (fmupd ''skupper-router'' sample_router (fmupd ''pg3'' sample_router fmempty)),
      Host = sample_host\<rparr>"

definition services_path :: path where
  "services_path = [''t'', ''skupper'', ''services'', ''skupper-services'']"

definition sample_site :: World where
  "sample_site =
     \<lparr>files = fmupd services_path (File (marshal_defs sample_defs))
        (fmupd [''t'', ''skupper'', ''services''] Dir (fmupd [''t'', ''skupper''] Dir (fmupd [''t''] Dir fmempty))),
      calls = []\<rparr>"

lemma sample_services_file: "services_file sample_cli = ''/t/skupper/services/skupper-services''"
  by (simp add: services_file_def sample_cli_def sample_host_def GetSkupperPath_def path_join_def path_clean_def)

lemma sample_resolve: "resolve sample_host ''/t/skupper/services/skupper-services'' = services_path"
  by (simp add: resolve_def services_path_def)

lemma wf_sample_site: "wf_fs (files sample_site)"
  by (simp add: sample_site_def services_path_def wf_fs_chain)

lemma services_sample_site: "services sample_cli sample_site = Some sample_defs"
proof -
  have "Host sample_cli = sample_host" by (simp add: sample_cli_def)
  then show ?thesis
    by (simp add: services_def sample_services_file services_at_def sample_resolve)
      (simp add: sample_site_def services_path_def defs_ok_sample)
qed

lemma sim_run_inspects: "sim_run s (replicate n \<lparr>rq_call = ContainerInspect c, rq_context = ctx\<rparr>) = s"
  by (induction n) (simp_all add: sim_run_def)

lemma router_stays_up_sim:
  assumes "DockerInterface cli = sim_client s" and "''skupper-router'' |\<in>| fmdom (sim_run s (calls w))"
  shows "router_stays_up cli w"
proof -
  have same: "sim_run s (calls w @ replicate n (router_request cli)) = sim_run s (calls w)" for n
    using sim_run_inspects [of "sim_run s (calls w)" n "''skupper-router''"]
    by (simp add: sim_run_def router_request_def)
  show ?thesis
    using assms by (auto simp: router_stays_up_def router_up_def same fmlookup_dom_iff)
qed

lemma sample_site_up: "router_stays_up sample_cli sample_site"
  by (rule router_stays_up_sim [where s = "fmupd ''skupper-router'' sample_router (fmupd ''pg3'' sample_router fmempty)"])
    (simp_all add: sample_cli_def sample_site_def)

lemma sample_inspect_pg3:
  "calls w = [router_request sample_cli] \<Longrightarrow>
   InspectContainer ''pg3'' (DockerInterface sample_cli) w =
     (Inr (sim_json ''pg3'' sample_router),
      send (ContainerInspect ''pg3'') (getTimeoutContext (DockerInterface sample_cli)) w)"
  by (simp add: sample_cli_def router_request_def sim_run_def)

lemma sample_valid: "validateServiceInterface sample_service = Inr ()"
  by (simp add: validateServiceInterface_def sample_service_def port_ok_def zero_ServiceInterface_def
      zero_ServiceInterfaceTarget_def)

text \<open>At this site a binding to a given port of a container that exists succeeds.\<close>

lemma sample_bind_run:
  assumes "int64_range p"
  shows "\<exists>w'. ServiceInterfaceBind sample_cli sample_service ''container'' ''pg3'' ''tcp'' p sample_site = (Inr (), w') \<and>
    calls w' = [router_request sample_cli,
      \<lparr>rq_call = ContainerInspect ''pg3'', rq_context = getTimeoutContext (DockerInterface sample_cli)\<rparr>]"
proof -
  let ?w1 = "send (ContainerInspect ''skupper-router'') (getTimeoutContext (DockerInterface sample_cli)) sample_site"
  let ?w2 = "send (ContainerInspect ''pg3'') (getTimeoutContext (DockerInterface sample_cli)) ?w1"
  let ?target = "zero_ServiceInterfaceTarget\<lparr>st_Name := ''pg3'', st_Selector := container_selector\<rparr>"
  have w2: "wf_fs (files ?w2)" "services sample_cli ?w2 = Some sample_defs"
    by (simp_all only: send_simps wf_sample_site services_sample_site services_send)
  have update: "\<exists>w'. updateServiceInterface s True sample_cli ?w2 = (Inr (), w') \<and> calls w' = calls ?w2" if "service_ok s" for s
    using client_services.modify_done [where on_read = retrieve_failed, OF w2,
        of "\<lambda>c. Inr (put_service s True c)" "put_service s True sample_defs"] put_service_ok [OF that]
    unfolding updateServiceInterface_def by blast
  have port: "si_Port sample_service = 5432" "si_Protocol sample_service = ''tcp''"
    by (simp_all add: sample_service_def)
  have w1: "calls ?w1 = [router_request sample_cli]"
    by (simp add: sample_site_def router_request_def)
  have target: "getServiceInterfaceTarget ''container'' ''pg3'' False sample_cli ?w1 = (Inr ?target, ?w2)"
    by (simp add: getServiceInterfaceTarget_def sample_inspect_pg3 [OF w1])
  obtain t' where ports: "bind_ports ''tcp'' p sample_service ?target = Inr (sample_service, t')"
    "st_TargetPort t' = p"
    by (cases "p = 0") (simp_all add: bind_ports_def port zero_ServiceInterfaceTarget_def)
  have "service_ok (addTargetToServiceInterface sample_service t')"
    by (rule addTarget_ok) (simp_all add: target_ok_def ports(2) assms)
  from update [OF this] obtain w' where
    "updateServiceInterface (addTargetToServiceInterface sample_service t') True sample_cli ?w2 = (Inr (), w')"
    "calls w' = calls ?w2" by blast
  then show ?thesis
    using target ports(1) w1
    by (simp add: ServiceInterfaceBind_def sample_valid port need_router_up [OF router_stays_up_now [OF sample_site_up]])
qed

lemma sample_address [simp]: "si_Address sample_service = ''db''"
  and sample_ports [simp]: "si_Port sample_service = 5432"
  by (simp_all add: sample_service_def)

lemma service_commands_atomic_witness:
  "\<exists>w' m'. run_service_cmd sample_cli (CmdBind sample_service ''container'' ''pg3'' ''tcp'' 6000) sample_site = (Inr (), w') \<and>
    services sample_cli w' = Some m' \<and> (\<forall>b. b \<noteq> ''db'' \<longrightarrow> fmlookup m' b = fmlookup sample_defs b)"
proof -
  obtain w' where run: "run_service_cmd sample_cli (CmdBind sample_service ''container'' ''pg3'' ''tcp'' 6000) sample_site = (Inr (), w')"
    using sample_bind_run [of 6000] by (auto simp: int64_range_def)
  have "cmd_ok (CmdBind sample_service ''container'' ''pg3'' ''tcp'' 6000)" by (simp add: int64_range_def)
  from service_commands_atomic [OF wf_sample_site this run] run services_sample_site show ?thesis by auto
qed

lemma create_then_inspect_witness:
  "\<exists>w1 w2. ServiceInterfaceCreate sample_cli (sample_service\<lparr>si_Address := ''web''\<rparr>) sample_site = (Inr (), w1) \<and>
    ServiceInterfaceInspect sample_cli ''web'' w1 = (Inr (Some (sample_service\<lparr>si_Address := ''web'', si_Origin := []\<rparr>)), w2)"
proof -
  let ?s = "sample_service\<lparr>si_Address := ''web''\<rparr>"
  have valid: "validateServiceInterface ?s = Inr ()"
    using sample_valid by (simp add: validate_iff mapping_ok_def)
  have ok: "service_ok ?s"
    using service_ok_sample by (simp add: service_ok_def)
  have new: "fmlookup sample_defs ''web'' = None" by (simp add: sample_defs_def)
  show ?thesis
    using create_then_inspect [OF sample_site_up wf_sample_site services_sample_site valid ok] new by simp
qed

lemma bind_result_witness:
  "\<exists>w' d t. ServiceInterfaceBind sample_cli sample_service ''container'' ''pg3'' ''tcp'' 6000 sample_site = (Inr (), w') \<and>
    services sample_cli w' = Some (fmupd ''db'' d sample_defs) \<and> t \<in> set (si_Targets d) \<and>
    st_Name t = ''pg3'' \<and> egress_port d t = 6000"
proof -
  have p: "int64_range 6000" by (simp add: int64_range_def)
  from sample_bind_run [OF p] obtain w' where
    run: "ServiceInterfaceBind sample_cli sample_service ''container'' ''pg3'' ''tcp'' 6000 sample_site = (Inr (), w')"
    by blast
  from bind_result [OF wf_sample_site service_ok_sample p run] run services_sample_site
  show ?thesis by (auto simp: bound_name_def)
qed

lemma bind_validity_witness:
  "\<exists>w' m d. ServiceInterfaceBind sample_cli sample_service ''container'' ''pg3'' ''tcp'' 70000 sample_site = (Inr (), w') \<and>
    services sample_cli w' = Some (fmupd ''db'' d m) \<and> validateServiceInterface d \<noteq> Inr ()"
proof -
  have p: "int64_range 70000" by (simp add: int64_range_def)
  from sample_bind_run [OF p] obtain w' where
    run: "ServiceInterfaceBind sample_cli sample_service ''container'' ''pg3'' ''tcp'' 70000 sample_site = (Inr (), w')"
    by blast
  from bind_validity [OF wf_sample_site service_ok_sample p run] run
  show ?thesis by (auto simp: port_ok_def)
qed

lemma bind_unbind_witness:
  "\<exists>w1 w2. ServiceInterfaceBind sample_cli sample_service ''container'' ''pg3'' ''tcp'' 6000 sample_site = (Inr (), w1) \<and>
    ServiceInterfaceUnbind sample_cli ''container'' ''pg3'' ''db'' False w1 = (Inr (), w2) \<and>
    services sample_cli w2 = Some (fmupd ''db'' (sample_service\<lparr>si_Origin := []\<rparr>) sample_defs)"
proof -
  have p: "int64_range 6000" by (simp add: int64_range_def)
  from sample_bind_run [OF p] obtain w' where
    run: "ServiceInterfaceBind sample_cli sample_service ''container'' ''pg3'' ''tcp'' 6000 sample_site = (Inr (), w')"
    and made: "calls w' = [router_request sample_cli,
      \<lparr>rq_call = ContainerInspect ''pg3'', rq_context = getTimeoutContext (DockerInterface sample_cli)\<rparr>]"
    by blast
  have new: "new_target sample_cli sample_service ''container'' ''pg3''"
    by (simp add: new_target_def sample_service_def target_matches_def bound_name_def)
  have up: "router_stays_up sample_cli w'"
    by (rule router_stays_up_sim [where s = "fmupd ''skupper-router'' sample_router (fmupd ''pg3'' sample_router fmempty)"])
      (simp_all add: made sample_cli_def router_request_def sim_run_def)
  from bind_unbind [OF wf_sample_site service_ok_sample p new run up] run services_sample_site
  show ?thesis by auto
qed

lemma remove_result_witness:
  "\<exists>w'. ServiceInterfaceRemove sample_cli ''db'' sample_site = (Inr (), w') \<and> services sample_cli w' = Some fmempty"
proof -
  have "fmdrop ''db'' sample_defs = fmempty" "''db'' |\<in>| fmdom sample_defs"
    by (simp_all add: sample_defs_def fmdrop_fmupd_same)
  then show ?thesis
    using remove_result [OF router_stays_up_now [OF sample_site_up] wf_sample_site services_sample_site, of "''db''"]
    by auto
qed

end
