(* ===== verification/Controller.thy ===== *)
theory Controller
  imports ServiceSync ServiceInterfaces
begin

text \<open>
  The reconciliation half of \<open>cmd/service-controller/controller.go\<close>: when the services file changes
  the controller rebuilds its bindings, deploys or re-creates the proxy container of each of them
  and deletes the proxies without bindings. \<open>VanClient\<close> gives the docker client and the host.
\<close>

section \<open>Proxies\<close>

text \<open>The order of the loop that runs next: every request to the daemon may be followed by another.\<close>

definition in_order :: "VanClient \<Rightarrow> (range_order \<Rightarrow> (World, 'a) oper) \<Rightarrow> (World, 'a) oper" where
  "in_order cli m w = m (h_loops (Host cli) (length (calls w))) w"

definition equivalentProxyConfig :: "ServiceInterface \<Rightarrow> string list \<Rightarrow> bool" where
  "equivalentProxyConfig desired env =
     (let envVar = FindEnvVar env ''SKUPPER_PROXY_CONFIG''; encodedDesired = marshal enc_service desired
      in encodedDesired = envVar)"

definition proxy_list_options :: ListOptions where
  "proxy_list_options = \<lparr>lo_All = True, lo_Labels = [''skupper.io/application'']\<rparr>"

text \<open>\<open>strings.TrimPrefix(container.Names[0], "/")\<close>.\<close>

definition container_name :: "ContainerSummary \<Rightarrow> string result" where
  "container_name c =
     (case ct_Names c of
        [] \<Rightarrow> Inl (Panic ''index out of range'')
      | n # _ \<Rightarrow> Inr (trim_prefix n ''/''))"

definition index_proxies :: "ContainerSummary list \<Rightarrow> ContainerSummary gomap result" where
  "index_proxies containers =
     foldR (\<lambda>c m. bindR (container_name c) (\<lambda>proxyName. Inr (fmupd proxyName c m))) containers fmempty"

definition getProxies :: "skupDockerClient \<Rightarrow> (World, ContainerSummary gomap) oper" where
  "getProxies dd =
     tryE (ListContainers proxy_list_options dd) (\<lambda>r.
       case r of
         Inl _ \<Rightarrow> returnE fmempty
       | Inr containers \<Rightarrow> liftE (index_proxies containers))"

definition deleteProxy :: "string \<Rightarrow> skupDockerClient \<Rightarrow> (World, unit) oper" where
  "deleteProxy name dd = bindE id (StopContainer name dd) (\<lambda>_. RemoveContainer name dd)"

text \<open>Targets of a service of this site that are containers are put on the skupper network.\<close>

definition attach_target ::
  "string fset \<Rightarrow> skupDockerClient \<Rightarrow> EgressBindings \<Rightarrow> (World, unit) oper" where
  "attach_target attached dd t =
     (if eb_selector t = ''internal.skupper.io/container'' \<and> eb_name t |\<notin>| attached then
        logged (ConnectContainerToNetwork TransportNetworkName (eb_name t) dd)
      else returnE ())"

definition attach_targets :: "VanClient \<Rightarrow> ServiceBindings \<Rightarrow> (World, unit) oper" where
  "attach_targets cli bindings =
     (if sb_origin bindings = [] then
        bindE (Wrapf ''Unable to retrieve skupper-network'')
          (InspectNetworkOp TransportNetworkName (DockerInterface cli)) (\<lambda>containers.
          in_order cli (\<lambda>rng.
            forE (attach_target (fmran containers) (DockerInterface cli))
              (map snd (range_of rng (sb_targets bindings)))))
      else returnE ())"

definition config_text :: "range_order \<Rightarrow> ServiceInterface \<Rightarrow> string \<Rightarrow> string" where
  "config_text rng si origin =
     (case GetRouterConfigForProxy rng si origin of Inl _ \<Rightarrow> '''' | Inr config \<Rightarrow> config)"

definition deploy_proxy :: "string \<Rightarrow> VanClient \<Rightarrow> ServiceInterface \<Rightarrow> string \<Rightarrow> (World, unit) oper" where
  "deploy_proxy on_create cli si config =
     (let mapToHost = (h_env (Host cli) ''SKUPPER_MAP_TO_HOST'' \<noteq> [])
      in bindE (Wrapf on_create)
           (NewProxyContainer (h_env (Host cli)) si config mapToHost (DockerInterface cli)) (\<lambda>proxyContainer.
         bindE (Wrapf ''Failed to start proxy container'')
           (StartContainer (cr_Name proxyContainer) (DockerInterface cli)) returnE))"

definition redeploy_proxy :: "VanClient \<Rightarrow> ServiceInterface \<Rightarrow> string \<Rightarrow> (World, unit) oper" where
  "redeploy_proxy cli si config =
     bindE (Wrapf ''Failed to retrieve current proxy container'')
       (InspectContainer (si_Address si) (DockerInterface cli)) (\<lambda>proxyContainer.
       let actualConfig = FindEnvVar (cc_Env (cj_Config proxyContainer)) ''QDROUTERD_CONF''
       in if actualConfig = [] \<or> actualConfig \<noteq> config then
            bindE (Wrapf ''Failed to delete proxy container'')
              (deleteProxy (si_Address si) (DockerInterface cli)) (\<lambda>_.
              deploy_proxy ''Failed to re-create proxy container'' cli si config)
          else returnE ())"

definition ensureProxyFor :: "VanClient \<Rightarrow> string \<Rightarrow> ServiceBindings \<Rightarrow> (World, unit) oper" where
  "ensureProxyFor cli origin bindings =
     bindE id (getProxies (DockerInterface cli)) (\<lambda>proxies. in_order cli (\<lambda>rng.
       let serviceInterface = asServiceInterface rng bindings
       in bindE id (attach_targets cli bindings) (\<lambda>_. in_order cli (\<lambda>rng'.
            let config = config_text rng' serviceInterface origin
            in if sb_address bindings |\<notin>| fmdom proxies then
                 deploy_proxy ''Failed to create proxy container'' cli serviceInterface config
               else redeploy_proxy cli serviceInterface config))))"

definition prune_proxy :: "VanClient \<Rightarrow> string fset \<Rightarrow> ContainerSummary \<Rightarrow> (World, unit) oper" where
  "prune_proxy cli bound v =
     bindE id (liftE (container_name v)) (\<lambda>proxyContainerName.
       if proxyContainerName |\<notin>| bound
       then logged (deleteProxy proxyContainerName (DockerInterface cli)) else returnE ())"

definition updateProxies :: "VanClient \<Rightarrow> string \<Rightarrow> ServiceBindings gomap \<Rightarrow> (World, unit) oper" where
  "updateProxies cli origin bindings =
     bindE id (in_order cli (\<lambda>rng.
       forE (\<lambda>v. logged (ensureProxyFor cli origin v)) (map snd (range_of rng bindings)))) (\<lambda>_.
     bindE id (getProxies (DockerInterface cli)) (\<lambda>proxies. in_order cli (\<lambda>rng.
       forE (prune_proxy cli (fmdom bindings)) (map snd (range_of rng proxies)))))"

section \<open>A change of the services file\<close>

definition update_all_bindings ::
  "range_order \<Rightarrow> service_defs \<Rightarrow> ServiceBindings gomap \<Rightarrow> ServiceBindings gomap" where
  "update_all_bindings rng svcDefs bindings =
     (if fcard (fmdom svcDefs) > 0 then
        (let updated = fold updateServiceBindings (map snd (range_of rng svcDefs)) bindings
         in del_all (filter (\<lambda>k. k |\<notin>| fmdom svcDefs) (rng (fmdom updated))) updated)
      else if fcard (fmdom bindings) > 0 then del_all (rng (fmdom bindings)) bindings
      else bindings)"

definition processServiceDefs :: "VanClient \<Rightarrow> (site, unit) oper" where
  "processServiceDefs cli site =
     (case site of (c, w) \<Rightarrow>
        (case getServiceDefinitions (Host cli) w of
           (Inl _, w1) \<Rightarrow> (Inr (), (c, w1))
         | (Inr svcDefs, w1) \<Rightarrow>
             (let c1 = serviceSyncDefinitionsUpdated (h_rng (Host cli)) svcDefs c;
                  c2 = c1\<lparr>ct_bindings := update_all_bindings (h_rng (Host cli)) svcDefs (ct_bindings c1)\<rparr>
              in case updateProxies cli (ct_origin c2) (ct_bindings c2) w1 of (r, w2) \<Rightarrow> (r, (c2, w2)))))"

text \<open>The start of the watcher: the file is processed once, and every other origin found in it counts as
  heard from now on.\<close>

definition hear_known :: "range_order \<Rightarrow> int \<Rightarrow> Controller \<Rightarrow> Controller" where
  "hear_known rng now c =
     c\<lparr>ct_heardFrom := fold (\<lambda>origin. if origin \<noteq> ct_origin c then fmupd origin now else id)
         (rng (fmdom (ct_byOrigin c))) (ct_heardFrom c)\<rparr>"

definition runServiceDefsWatcher :: "VanClient \<Rightarrow> int \<Rightarrow> (site, unit) oper" where
  "runServiceDefsWatcher cli now =
     bindE id (processServiceDefs cli) (\<lambda>_ site.
       (Inr (), (hear_known (h_rng (Host cli)) now (fst site), snd site)))"

definition Run :: "VanClient \<Rightarrow> (World, unit) oper" where
  "Run cli = dd_PullImage (DockerInterface cli) (transport_image (h_env (Host cli))) ''{}''"

section \<open>The bindings follow the definitions\<close>

lemma update_lookup:
  "\<exists>sb. fmlookup (updateServiceBindings r all) (si_Address r) = Some sb \<and> bindings_follow r sb"
  "a \<noteq> si_Address r \<Longrightarrow> fmlookup (updateServiceBindings r all) a = fmlookup all a"
  using update_follows [of r all] by (blast, simp add: updateServiceBindings_def split: option.split)

lemma update_all_other:
  "a \<notin> si_Address ` set rs \<Longrightarrow> fmlookup (fold updateServiceBindings rs b) a = fmlookup b a"
  by (induction rs arbitrary: b) (simp_all add: update_lookup(2))

lemma update_all_lookup:
  "distinct (map si_Address rs) \<Longrightarrow> r \<in> set rs \<Longrightarrow>
     \<exists>sb. fmlookup (fold updateServiceBindings rs b) (si_Address r) = Some sb \<and> bindings_follow r sb"
proof (induction rs arbitrary: b)
  case (Cons r' rs)
  show ?case
  proof (cases "r = r'")
    case True
    with Cons.prems(1) update_lookup(1) [of r' b] show ?thesis by (simp add: update_all_other)
  next
    case False
    with Cons show ?thesis by simp
  qed
qed simp

lemma distinct_addresses:
  assumes "range_ok r" and "keyed si_Address m"
  shows "distinct (map si_Address (map snd (range_of r m)))"
proof -
  have "map si_Address (map snd (range_of r m)) = map fst (range_of r m)"
    using keyedD [OF assms(2)] by (auto simp: range_of_iff [OF assms(1)])
  then show ?thesis using range_of_distinct [OF assms(1)] by metis
qed

lemma update_all_bindings_eq:
  assumes "range_ok rng"
  shows "update_all_bindings rng m b =
    fmfilter (\<lambda>k. k |\<in>| fmdom m) (fold updateServiceBindings (map snd (range_of rng m)) b)"
proof (cases "fmdom m = {||}")
  case True
  then have m: "m = fmempty" by (intro fmap_ext) (simp add: fmdom_notD)
  have "fmlookup (update_all_bindings rng m b) a = None" for a
    using range_ok_set [OF assms, of "fmdom b"]
    by (auto simp: update_all_bindings_def m fmdom_notD fcard_fempty)
  then show ?thesis by (intro fmap_ext) (simp add: m)
next
  case False
  then have "fcard (fmdom m) > 0" by (auto simp: fcard.rep_eq card_gt_0_iff)
  then show ?thesis
    using range_ok_set [OF assms, of "fmdom (fold updateServiceBindings (map snd (range_of rng m)) b)"]
    by (intro fmap_ext) (simp add: update_all_bindings_def Let_def fmdom_notD)
qed

lemma update_all_bindings_follow:
  assumes "range_ok rng" and "keyed si_Address m"
  shows "case fmlookup m a of
    None \<Rightarrow> fmlookup (update_all_bindings rng m b) a = None
  | Some r \<Rightarrow> \<exists>sb. fmlookup (update_all_bindings rng m b) a = Some sb \<and> bindings_follow r sb"
proof (cases "fmlookup m a")
  case None
  then show ?thesis by (simp add: update_all_bindings_eq [OF assms(1)] fmdom_notI)
next
  case (Some r)
  have "r \<in> set (map snd (range_of rng m))"
    using Some by (simp add: range_of_values [OF assms(1)] del: set_map) blast
  from update_all_lookup(1) [OF distinct_addresses [OF assms] this, of b] keyedD [OF assms(2) Some] Some
  show ?thesis by (simp add: update_all_bindings_eq [OF assms(1)] fmdomI)
qed


section \<open>What the controller may touch\<close>

lemma keeps_Names [docker_only]: "keeps docker_step (liftE (index_proxies cs))" "keeps docker_step (liftE (container_name c))"
  by (rule docker_step_keeps)+

lemma InspectNetworkOp_docker [docker_only]: "keeps docker_step (InspectNetworkOp n dd)"
  unfolding InspectNetworkOp_def by (rule docker_only)

lemma keeps_in_order: "(\<And>rng. keeps R (m rng)) \<Longrightarrow> keeps R (in_order cli m)"
  by (simp add: keeps_def in_order_def)

lemma keeps_docker_logged: "keeps docker_step m \<Longrightarrow> keeps docker_step (logged m)"
  by (rule keeps_logged [OF _ docker_step_refl docker_step_trans])

lemma keeps_docker_forE:
  "(\<And>x. keeps docker_step (f x)) \<Longrightarrow> keeps docker_step (forE f xs)"
  by (rule keeps_forE [OF _ docker_step_refl docker_step_trans])

lemmas docker_steps = docker_step_keeps keeps_docker_logged keeps_docker_forE keeps_in_order

lemma keeps_getProxies [docker_only]: "keeps docker_step (getProxies dd)"
  unfolding getProxies_def
  by (intro docker_steps docker_only) (auto split: sum.split intro: docker_steps)

lemma keeps_deleteProxy [docker_only]: "keeps docker_step (deleteProxy n dd)"
  unfolding deleteProxy_def by (intro docker_steps docker_only)

lemma keeps_attach [docker_only]: "keeps docker_step (attach_targets cli sb)"
  unfolding attach_targets_def attach_target_def
  by (auto intro!: docker_steps docker_only split: if_splits)

lemma keeps_deploy [docker_only]: "keeps docker_step (deploy_proxy e cli si config)"
  unfolding deploy_proxy_def NewProxyContainer_def Let_def by (intro docker_steps docker_only)

lemma keeps_redeploy [docker_only]: "keeps docker_step (redeploy_proxy cli si config)"
  unfolding redeploy_proxy_def Let_def by (auto intro!: docker_steps docker_only)

lemma keeps_ensureProxyFor [docker_only]: "keeps docker_step (ensureProxyFor cli origin sb)"
  unfolding ensureProxyFor_def Let_def by (auto intro!: docker_steps docker_only)

lemma keeps_updateProxies [docker_only]: "keeps docker_step (updateProxies cli origin b)"
  unfolding updateProxies_def prune_proxy_def by (auto intro!: docker_steps docker_only)

text \<open>
  C20 (functional). When the services file can be read, processing it leaves one set of bindings per
  definition, each following its definition, and none for any other address, whatever the
  bindings were before and whatever the daemon answers; the files are untouched.
\<close>

theorem process_bindings_follow:
  assumes "range_ok (h_rng (Host cli))" and "controller_view (Host cli) w = Some m" and "keyed si_Address m"
    and "processServiceDefs cli (c, w) = (r, (c', w'))"
  shows "(case fmlookup m a of
      None \<Rightarrow> fmlookup (ct_bindings c') a = None
    | Some d \<Rightarrow> \<exists>sb. fmlookup (ct_bindings c') a = Some sb \<and> bindings_follow d sb) \<and>
    files w' = files w \<and> ct_heardFrom c' = ct_heardFrom c"
proof -
  let ?c1 = "serviceSyncDefinitionsUpdated (h_rng (Host cli)) m c"
  let ?b = "update_all_bindings (h_rng (Host cli)) m (ct_bindings ?c1)"
  have load: "getServiceDefinitions (Host cli) w = (Inr m, w)"
    using controller_services.load_view [OF assms(2)] by (simp add: getServiceDefinitions_def)
  obtain r2 w2 where up: "updateProxies cli (ct_origin ?c1) ?b w = (r2, w2)" by fastforce
  have c': "c' = ?c1\<lparr>ct_bindings := ?b\<rparr>" and "w' = w2"
    using assms(4) load up by (simp_all add: processServiceDefs_def Let_def)
  moreover have "files w2 = files w" by (rule docker_onlyD(1) [OF keeps_updateProxies up])
  moreover have "ct_heardFrom ?c1 = ct_heardFrom c"
    by (simp add: serviceSyncDefinitionsUpdated_def split: prod.split)
  ultimately show ?thesis
    using update_all_bindings_follow [OF assms(1,3), where a = a and b = "ct_bindings ?c1"]
    by (cases "fmlookup m a") simp_all
qed

lemma process_bindings_follow_witness:
  "\<exists>r c' w' sb. processServiceDefs sample_cli (sample_controller, controller_world) = (r, (c', w')) \<and>
    fmlookup (ct_bindings c') ''db'' = Some sb \<and> sb_publicPort sb = 5432 \<and> fmlookup (ct_bindings c') ''other'' = None"
proof -
  obtain r c' w' where run: "processServiceDefs sample_cli (sample_controller, controller_world) = (r, (c', w'))"
    by (metis prod_cases3)
  have host: "Host sample_cli = sample_host" by (simp add: sample_cli_def)
  then have rng: "range_ok (h_rng (Host sample_cli))" by simp
  have view: "controller_view (Host sample_cli) controller_world = Some stored_defs"
    by (simp add: host controller_world_view)
  from process_bindings_follow [OF rng view keyed_stored run, of "''db''"]
    process_bindings_follow [OF rng view keyed_stored run, of "''other''"]
  have "\<exists>sb. fmlookup (ct_bindings c') ''db'' = Some sb \<and> bindings_follow sample_service sb"
    "fmlookup (ct_bindings c') ''other'' = None" by simp_all
  then show ?thesis using run by (auto simp: bindings_follow_def sample_service_def)
qed

end
