(* ===== verification/ProxyTexts.thy ===== *)
theory ProxyTexts
  imports Controller "HOL-Library.Multiset"
begin

text \<open>
  The texts \<open>ensureProxyFor\<close> can generate for one set of bindings: \<open>asServiceInterface\<close> and \<open>MarshalRouterConfig\<close> range
  over maps, each pass in an order of its own. A service with at most one target, or learnt from another site, has
  one text; with two targets the text depends on the order, although every text is read back as the same configuration.
\<close>

section \<open>One text\<close>

definition proxy_text :: "string \<Rightarrow> ServiceBindings \<Rightarrow> string \<Rightarrow> bool" where
  "proxy_text origin sb t \<longleftrightarrow>
     (\<exists>r r'. range_ok r \<and> range_ok r' \<and> t = config_text r' (asServiceInterface r sb) origin)"

lemma range_small:
  assumes "range_ok r" and "range_ok r'" and "fcard S \<le> 1"
  shows "r S = r' S"
proof -
  have len: "length (q S) = fcard S" if "range_ok q" for q
    using distinct_card [of "q S"] range_ok_set [OF that, of S] by (simp add: fcard.rep_eq)
  have sets: "set (r S) = set (r' S)" using range_ok_set [OF assms(1)] range_ok_set [OF assms(2)] by simp
  have same: "length (r S) = length (r' S)" "length (r S) \<le> 1"
    using len [OF assms(1)] len [OF assms(2)] assms(3) by simp_all
  show ?thesis
  proof (cases "r S")
    case Nil
    then show ?thesis using same by simp
  next
    case (Cons x xs)
    then obtain y where "r' S = [y]" "xs = []" using same by (cases "r' S") auto
    then show ?thesis using Cons sets by simp
  qed
qed

lemma range_of_small: "range_ok r \<Longrightarrow> range_ok r' \<Longrightarrow> fcard (fmdom m) \<le> 1 \<Longrightarrow> range_of r m = range_of r' m"
  by (simp add: range_of_def range_small [of r r'])

definition small_config :: "RouterConfig \<Rightarrow> bool" where
  "small_config c \<longleftrightarrow>
     fcard (fmdom (SslProfiles c)) \<le> 1 \<and> fcard (fmdom (Connectors c)) \<le> 1 \<and> fcard (fmdom (Listeners c)) \<le> 1 \<and>
     fcard (fmdom (Addresses c)) \<le> 1 \<and> fcard (fmdom (TcpConnectors (Bridges c))) \<le> 1 \<and>
     fcard (fmdom (TcpListeners (Bridges c))) \<le> 1 \<and> fcard (fmdom (HttpConnectors (Bridges c))) \<le> 1 \<and>
     fcard (fmdom (HttpListeners (Bridges c))) \<le> 1"

lemma small_elements:
  assumes "range_ok r" and "range_ok r'" and "small_config c"
  shows "config_elements r c = config_elements r' c"
  using assms(3)
  by (simp add: config_elements_def small_config_def range_values_def range_of_small [OF assms(1,2)])

lemma fcard_one [simp]: "fcard {|x|} = 1"
  by (simp add: fcard.rep_eq)

lemma small_proxy:
  assumes "si_Origin d \<noteq> [] \<or> length (si_Targets d) \<le> 1"
  shows "small_config (proxy_config d siteId)"
proof -
  consider "si_Origin d \<noteq> []" | "si_Origin d = []" "si_Targets d = []" | t where "si_Origin d = []" "si_Targets d = [t]"
    using assms by (cases "si_Targets d") auto
  then show ?thesis
    by cases (simp_all add: small_config_def proxy_config_def proxy_local_def proxy_remote_def Let_def proxy_base_def
      InitialConfig_def NewBridgeConfig_def add_defs add_target_host fcard_fempty split: option.split)
qed

text \<open>Only the targets depend on the order.\<close>

lemma asServiceInterface_targets:
  "asServiceInterface r' sb = (asServiceInterface r sb)\<lparr>si_Targets := si_Targets (asServiceInterface r' sb)\<rparr>"
  by (simp add: asServiceInterface_def)

lemma remote_targets: "si_Origin d \<noteq> [] \<Longrightarrow> proxy_config (d\<lparr>si_Targets := ts\<rparr>) siteId = proxy_config d siteId"
  by (simp add: proxy_config_def proxy_remote_def tcp_ingress_def http_ingress_def Let_def)

definition settled :: "ServiceBindings \<Rightarrow> bool" where
  "settled sb \<longleftrightarrow> sb_origin sb \<noteq> [] \<or> fcard (fmdom (sb_targets sb)) \<le> 1"

lemma settled_config:
  assumes "settled sb" and "range_ok r" and "range_ok r'"
  shows "proxy_config (asServiceInterface r sb) siteId = proxy_config (asServiceInterface r' sb) siteId"
    and "small_config (proxy_config (asServiceInterface r sb) siteId)"
proof -
  have one: "asServiceInterface r sb = asServiceInterface r' sb" "length (si_Targets (asServiceInterface r sb)) \<le> 1"
    if "fcard (fmdom (sb_targets sb)) \<le> 1"
    using that range_of_small [OF assms(2,3) that] range_of_length [OF assms(2), of "sb_targets sb"]
    by (simp_all add: asServiceInterface_def)
  show "proxy_config (asServiceInterface r sb) siteId = proxy_config (asServiceInterface r' sb) siteId"
  proof (cases "sb_origin sb = []")
    case True
    with assms(1) one(1) show ?thesis by (simp add: settled_def)
  next
    case False
    then have "si_Origin (asServiceInterface r sb) \<noteq> []" by (simp add: asServiceInterface_def)
    from remote_targets [OF this, of "si_Targets (asServiceInterface r' sb)" siteId]
    show ?thesis unfolding asServiceInterface_targets [of r' sb r, symmetric] by simp
  qed
  have "si_Origin (asServiceInterface r sb) \<noteq> [] \<or> length (si_Targets (asServiceInterface r sb)) \<le> 1"
    using assms(1) one(2) by (auto simp: settled_def asServiceInterface_def)
  then show "small_config (proxy_config (asServiceInterface r sb) siteId)" by (rule small_proxy)
qed

lemma config_text_eq: "config_text rng d siteId = marshal_indent (\<lambda>es. JArr es) (config_elements rng (proxy_config d siteId))"
  by (simp add: config_text_def GetRouterConfigForProxy_def MarshalRouterConfig_def)

lemma config_text_read: "range_ok rng \<Longrightarrow> UnmarshalRouterConfig (config_text rng d siteId) = Inr (proxy_config d siteId)"
  using proxy_text_read [of rng d siteId]
  by (simp add: config_text_def bindR_Inr_iff GetRouterConfigForProxy_def MarshalRouterConfig_def)

lemma settled_text:
  assumes "settled sb" and "proxy_text origin sb t" and "proxy_text origin sb t'"
  shows "t = t'"
proof -
  obtain r1 r2 r3 r4 where
    r: "range_ok r1" "range_ok r2" "t = config_text r2 (asServiceInterface r1 sb) origin"
      "range_ok r3" "range_ok r4" "t' = config_text r4 (asServiceInterface r3 sb) origin"
    using assms(2,3) by (auto simp: proxy_text_def)
  show ?thesis
    unfolding r(3,6) config_text_eq settled_config(1) [OF assms(1) r(1,4)]
    using small_elements [OF r(2,5) settled_config(2) [OF assms(1) r(4,1)]] by simp
qed

section \<open>Several texts\<close>

lemma marshal_indent_inj: "marshal_indent (\<lambda>es. JArr es) xs = marshal_indent (\<lambda>es. JArr es) ys \<Longrightarrow> xs = ys"
  using parse_json_print [of indent4 0 "JArr xs"] parse_json_print [of indent4 0 "JArr ys"]
  by (simp add: marshal_indent_def)

definition is_tcp_connector :: "json \<Rightarrow> bool" where
  "is_tcp_connector j \<longleftrightarrow> (\<exists>x. j = JArr [JStr ''tcpConnector'', x])"

lemma tcp_elements:
  "filter is_tcp_connector (config_elements rng config) =
     map (entity ''tcpConnector'' (encode_struct tcp_fields)) (range_values rng (TcpConnectors (Bridges config)))"
  by (simp add: config_elements_def filter_map comp_def is_tcp_connector_def entity_def)

lemma tcp_entity_inj: "inj (entity ''tcpConnector'' (encode_struct tcp_fields))"
proof (rule injI)
  fix x y :: TcpEndpoint
  assume "entity ''tcpConnector'' (encode_struct tcp_fields) x = entity ''tcpConnector'' (encode_struct tcp_fields) y"
  then have "encode_struct tcp_fields x = encode_struct tcp_fields y" by (simp add: entity_def)
  then have "decode_struct tcp_fields (encode_struct tcp_fields x) zero_TcpEndpoint =
      decode_struct tcp_fields (encode_struct tcp_fields y) zero_TcpEndpoint" by simp
  then show "x = y" by (simp add: tcp_codec.dec_enc)
qed

lemma rev_distinct_neq:
  assumes "distinct xs" and "a \<in> set xs" and "b \<in> set xs" and "a \<noteq> b"
  shows "xs \<noteq> rev xs"
proof
  assume eq: "xs = rev xs"
  from assms(2-4) obtain x y zs where xs: "xs = x # y # zs"
    by (cases xs; cases "tl xs") auto
  have "last xs = x" using arg_cong [OF eq, of last] by (simp add: xs)
  then have "last (y # zs) = x" by (simp add: xs)
  then have "x \<in> set (y # zs)" using last_in_set [of "y # zs"] by simp
  with assms(1) xs show False by simp
qed

lemma config_text_depends_on_order:
  assumes "si_Protocol d = ''tcp''" and "si_Origin d = []"
    and "last_target h1 (si_Targets d) \<noteq> None" and "last_target h2 (si_Targets d) \<noteq> None" and "h1 \<noteq> h2"
  shows "config_text rng_up d origin \<noteq> config_text rng_down d origin \<and>
    bindR (GetRouterConfigForProxy rng_up d origin) UnmarshalRouterConfig =
      bindR (GetRouterConfigForProxy rng_down d origin) UnmarshalRouterConfig"
proof
  let ?m = "TcpConnectors (Bridges (proxy_config d origin))"
  have mem: "''egress-'' @ h1 |\<in>| fmdom ?m" "''egress-'' @ h2 |\<in>| fmdom ?m"
    using tcp_proxy_config(4) [OF assms(1), of origin] assms(2-4) by (auto simp: fmlookup_dom_iff)
  show "config_text rng_up d origin \<noteq> config_text rng_down d origin"
  proof
    assume "config_text rng_up d origin = config_text rng_down d origin"
    then have "config_elements rng_up (proxy_config d origin) = config_elements rng_down (proxy_config d origin)"
      by (intro marshal_indent_inj) (simp add: config_text_def GetRouterConfigForProxy_def MarshalRouterConfig_def)
    then have "map (entity ''tcpConnector'' (encode_struct tcp_fields)) (range_values rng_up ?m) =
        map (entity ''tcpConnector'' (encode_struct tcp_fields)) (range_values rng_down ?m)"
      using tcp_elements by metis
    then have same: "range_values rng_up ?m = range_values rng_down ?m"
      by (simp only: inj_map_eq_map [OF tcp_entity_inj])
    have "range_values rng_down ?m = rev (range_values rng_up ?m)"
      by (simp add: range_values_def range_of_def rng_up_def rng_down_def rev_map)
    moreover have "map te_Name (range_values r ?m) = r (fmdom ?m)" if "range_ok r" for r
    proof -
      have "te_Name v = k" if "fmlookup ?m k = Some v" for k v
      proof -
        have "wf_config (proxy_config d origin)" by (rule wf_proxy_config)
        then show ?thesis using that by (auto simp: wf_config_def wf_bridges_def dest: keyedD)
      qed
      then have "map te_Name (range_values r ?m) = map fst (range_of r ?m)"
        by (auto simp: range_values_def range_of_iff [OF \<open>range_ok r\<close>])
      then show ?thesis by (simp add: range_of_keys)
    qed
    ultimately have "rng_up (fmdom ?m) = rev (rng_up (fmdom ?m))"
      using same by (metis range_ok_up rev_map)
    moreover have "distinct (rng_up (fmdom ?m))" "set (rng_up (fmdom ?m)) = fset (fmdom ?m)"
      using range_ok_set [OF range_ok_up] by simp_all
    ultimately show False
      using rev_distinct_neq [of "rng_up (fmdom ?m)" "''egress-'' @ h1" "''egress-'' @ h2"] mem assms(5) by simp
  qed
  show "bindR (GetRouterConfigForProxy rng_up d origin) UnmarshalRouterConfig =
      bindR (GetRouterConfigForProxy rng_down d origin) UnmarshalRouterConfig"
    by (simp add: proxy_text_read)
qed

text \<open>Targets that name different hosts: the order they are added in does not show in the configuration.\<close>

definition distinct_hosts :: "ServiceBindings \<Rightarrow> bool" where
  "distinct_hosts sb \<longleftrightarrow>
     (\<forall>k k' t t'. fmlookup (sb_targets sb) k = Some t \<and> fmlookup (sb_targets sb) k' = Some t' \<and>
        target_host (binding_target t) = target_host (binding_target t') \<and> target_host (binding_target t) \<noteq> None \<longrightarrow> k = k')"

lemma targets_mset:
  assumes "range_ok r" and "range_ok r'"
  shows "mset (si_Targets (asServiceInterface r sb)) = mset (si_Targets (asServiceInterface r' sb))"
proof -
  have "distinct (range_of q (sb_targets sb))" if "range_ok q" for q
    using range_of_distinct [OF that, of "sb_targets sb"] by (simp add: distinct_map)
  moreover have "set (range_of r (sb_targets sb)) = set (range_of r' (sb_targets sb))"
    by (auto simp: range_of_iff [OF assms(1)] range_of_iff [OF assms(2)])
  ultimately have "mset (range_of r (sb_targets sb)) = mset (range_of r' (sb_targets sb))"
    using set_eq_iff_mset_eq_distinct assms by blast
  then show ?thesis by (simp add: asServiceInterface_def)
qed

lemma AddTcpConnector_swap:
  "te_Name a \<noteq> te_Name b \<Longrightarrow> AddTcpConnector a (AddTcpConnector b r) = AddTcpConnector b (AddTcpConnector a r)"
  by (simp add: add_defs fmupd_reorder_neq [of "te_Name a" "te_Name b"])

lemma add_tcp_commute:
  assumes "target_host t \<noteq> target_host t' \<or> target_host t = None \<or> t = t'"
  shows "add_tcp_target d siteId t \<circ> add_tcp_target d siteId t' = add_tcp_target d siteId t' \<circ> add_tcp_target d siteId t"
proof (cases "\<exists>h h'. target_host t = Some h \<and> target_host t' = Some h' \<and> t \<noteq> t'")
  case True
  then obtain h h' where h: "target_host t = Some h" "target_host t' = Some h'" "h \<noteq> h'" using assms by auto
  then have "te_Name (tcp_egress d siteId t h) \<noteq> te_Name (tcp_egress d siteId t' h')" by (simp add: tcp_egress_def)
  from AddTcpConnector_swap [OF this] show ?thesis by (simp add: fun_eq_iff add_target_host h)
next
  case False
  then show ?thesis by (cases "target_host t"; cases "target_host t'"; cases "t = t'") (simp_all add: fun_eq_iff add_target_host)
qed

lemma add_tcp_same: "add_tcp_target (d\<lparr>si_Targets := ts\<rparr>) siteId = add_tcp_target d siteId"
  by (simp add: fun_eq_iff add_tcp_target_def tcp_egress_def egress_port_def)

lemma same_tcp_config:
  assumes "range_ok r" and "range_ok r'" and "sb_protocol sb = ''tcp''" and "sb_origin sb = []" and "distinct_hosts sb"
  shows "proxy_config (asServiceInterface r sb) siteId = proxy_config (asServiceInterface r' sb) siteId"
proof -
  let ?d = "asServiceInterface r sb" and ?d' = "asServiceInterface r' sb"
  have commute: "add_tcp_target ?d siteId t \<circ> add_tcp_target ?d siteId t' = add_tcp_target ?d siteId t' \<circ> add_tcp_target ?d siteId t"
    if t: "t \<in> set (si_Targets ?d)" "t' \<in> set (si_Targets ?d)" for t t'
  proof -
    from t obtain k e k' e' where "t = binding_target e" "fmlookup (sb_targets sb) k = Some e"
      "t' = binding_target e'" "fmlookup (sb_targets sb) k' = Some e'"
      by (auto simp: asServiceInterface_def range_of_iff [OF assms(1)])
    with assms(5) show ?thesis unfolding distinct_hosts_def by (intro add_tcp_commute) (metis option.inject)
  qed
  have "fold (add_tcp_target ?d' siteId) (si_Targets ?d') = fold (add_tcp_target ?d siteId) (si_Targets ?d)"
    using fold_multiset_equiv [OF commute targets_mset [OF assms(1,2)]]
      add_tcp_same [of "si_Targets ?d'" ?d siteId, folded asServiceInterface_targets [of r' sb r]] by simp
  moreover have "tcp_ingress ?d' = tcp_ingress ?d" by (simp add: fun_eq_iff tcp_ingress_def asServiceInterface_def)
  moreover have "si_Origin ?d = []" "si_Origin ?d' = []" "si_Protocol ?d = ''tcp''" "si_Protocol ?d' = ''tcp''"
    using assms(3,4) by (simp_all add: asServiceInterface_def)
  ultimately show ?thesis by (simp add: proxy_config_def proxy_local_def)
qed

lemma two_targets_two_texts:
  assumes "sb_protocol sb = ''tcp''" and "sb_origin sb = []" and "distinct_hosts sb"
    and "fmlookup (sb_targets sb) k1 = Some t1" and "fmlookup (sb_targets sb) k2 = Some t2" and "k1 \<noteq> k2"
    and "target_host (binding_target t1) = Some h1" and "target_host (binding_target t2) = Some h2"
  shows "config_text rng_up (asServiceInterface rng_up sb) origin \<noteq> config_text rng_down (asServiceInterface rng_down sb) origin"
    and "\<exists>config. UnmarshalRouterConfig (config_text rng_up (asServiceInterface rng_up sb) origin) = Inr config \<and>
      UnmarshalRouterConfig (config_text rng_down (asServiceInterface rng_down sb) origin) = Inr config"
proof -
  let ?d = "asServiceInterface rng_up sb" and ?d' = "asServiceInterface rng_down sb"
  have same: "proxy_config ?d' origin = proxy_config ?d origin" by (rule same_tcp_config) (simp_all add: assms)
  have found: "last_target h (si_Targets ?d) \<noteq> None"
    if "fmlookup (sb_targets sb) k = Some t" "target_host (binding_target t) = Some h" for k t h
  proof -
    have "binding_target t \<in> set (si_Targets ?d)"
      using range_of_iff [OF range_ok_up, of k t "sb_targets sb"] that(1) by (force simp: asServiceInterface_def)
    then show ?thesis using that(2) by (auto simp: last_target_def find_None_iff)
  qed
  have d: "si_Protocol ?d = ''tcp''" "si_Origin ?d = []" using assms(1,2) by (simp_all add: asServiceInterface_def)
  have "h1 \<noteq> h2" using assms(3-8) unfolding distinct_hosts_def by (metis option.distinct(1))
  from config_text_depends_on_order [OF d found [OF assms(4,7)] found [OF assms(5,8)] this, of origin]
  show "config_text rng_up ?d origin \<noteq> config_text rng_down ?d' origin" by (simp only: config_text_eq same) simp
  show "\<exists>config. UnmarshalRouterConfig (config_text rng_up ?d origin) = Inr config \<and>
      UnmarshalRouterConfig (config_text rng_down ?d' origin) = Inr config"
    by (simp add: config_text_read same)
qed

end
