(* ===== verification/Reconcile.thy ===== *)
theory Reconcile
  imports ProxyTexts
begin

text \<open>
  Reconciliation against a daemon that keeps its promises. \<open>container_daemon api st\<close> states what the docker
  documentation says of the calls the controller makes about containers, for any daemon whose
  containers after a list of requests are \<open>st\<close> of that list; under it, one round of \<open>updateProxies\<close> brings
  the containers in line with the bindings.
\<close>

section \<open>The daemon's promises\<close>

record container_state =
  cs_env :: "string list"
  cs_labels :: "string fset"
  cs_running :: bool

type_synonym daemon_state = "request list \<Rightarrow> container_state gomap"

fun changes_containers :: "docker_call \<Rightarrow> bool" where
  "changes_containers (ContainerCreate c) = True"
| "changes_containers (ContainerStart n) = True"
| "changes_containers (ContainerStop n t) = True"
| "changes_containers (ContainerRestart n t) = True"
| "changes_containers (ContainerRemove n) = True"
| "changes_containers _ = False"

text \<open>A container that is created gets the environment asked for, followed by what its image adds, and the
  labels asked for.\<close>

definition created_as :: "ContainerCreateConfig \<Rightarrow> container_state \<Rightarrow> bool" where
  "created_as c s \<longleftrightarrow> prefix (cc_Env (cr_Config c)) (cs_env s) \<and> fmdom (cc_Labels (cr_Config c)) |\<subseteq>| cs_labels s \<and>
     \<not> cs_running s"

definition create_promise :: "docker_api \<Rightarrow> daemon_state \<Rightarrow> bool" where
  "create_promise api st \<longleftrightarrow>
     (\<forall>hist c ctx. cr_Name c |\<notin>| fmdom (st hist) \<longrightarrow>
        (\<exists>i s. api_create api (hist @ [\<lparr>rq_call = ContainerCreate c, rq_context = ctx\<rparr>]) = Inr i \<and> created_as c s \<and>
           st (hist @ [\<lparr>rq_call = ContainerCreate c, rq_context = ctx\<rparr>]) = fmupd (cr_Name c) s (st hist)))"

definition unit_promise ::
  "docker_api \<Rightarrow> daemon_state \<Rightarrow> (string \<Rightarrow> docker_call) \<Rightarrow> (container_state \<Rightarrow> bool) \<Rightarrow>
     (string \<Rightarrow> container_state \<Rightarrow> container_state gomap \<Rightarrow> container_state gomap) \<Rightarrow> bool" where
  "unit_promise api st call ready change \<longleftrightarrow>
     (\<forall>hist n s ctx. fmlookup (st hist) n = Some s \<and> ready s \<longrightarrow>
        api_unit api (hist @ [\<lparr>rq_call = call n, rq_context = ctx\<rparr>]) = Inr () \<and>
        st (hist @ [\<lparr>rq_call = call n, rq_context = ctx\<rparr>]) = change n s (st hist))"

definition list_promise :: "docker_api \<Rightarrow> daemon_state \<Rightarrow> bool" where
  "list_promise api st \<longleftrightarrow>
     (\<forall>hist labels ctx. \<exists>cs.
        api_list api (hist @ [\<lparr>rq_call = ContainerList \<lparr>lo_All = True, lo_Labels = labels\<rparr>, rq_context = ctx\<rparr>]) = Inr cs \<and>
        (\<forall>c \<in> set cs. \<exists>n ns. ct_Names c = (''/'' @ n) # ns) \<and>
        {n. \<exists>c \<in> set cs. hd (ct_Names c) = ''/'' @ n} =
          {n. \<exists>s. fmlookup (st hist) n = Some s \<and> set labels \<subseteq> fset (cs_labels s)})"

definition inspect_promise :: "docker_api \<Rightarrow> daemon_state \<Rightarrow> bool" where
  "inspect_promise api st \<longleftrightarrow>
     (\<forall>hist n s ctx. fmlookup (st hist) n = Some s \<longrightarrow>
        (\<exists>j. api_inspect api (hist @ [\<lparr>rq_call = ContainerInspect n, rq_context = ctx\<rparr>]) = Inr j \<and>
           cc_Env (cj_Config j) = cs_env s))"

definition container_daemon :: "docker_api \<Rightarrow> daemon_state \<Rightarrow> bool" where
  "container_daemon api st \<longleftrightarrow>
     (\<forall>hist. api_context api hist = NoContextError \<and> (\<exists>os. api_os api hist = Inr os) \<and>
        (\<exists>cs. api_network api hist = Inr cs) \<and> (\<forall>p. api_unit api hist \<noteq> Inl (Panic p))) \<and>
     (\<forall>hist rq. \<not> changes_containers (rq_call rq) \<longrightarrow> st (hist @ [rq]) = st hist) \<and>
     create_promise api st \<and> list_promise api st \<and> inspect_promise api st \<and>
     unit_promise api st ContainerStart (\<lambda>_. True) (\<lambda>n s. fmupd n (s\<lparr>cs_running := True\<rparr>)) \<and>
     (\<forall>t. unit_promise api st (\<lambda>n. ContainerStop n t) (\<lambda>_. True) (\<lambda>n s. fmupd n (s\<lparr>cs_running := False\<rparr>))) \<and>
     unit_promise api st ContainerRemove (\<lambda>s. \<not> cs_running s) (\<lambda>n s. fmdrop n)"

section \<open>The calls under these promises\<close>

lemma daemon_context:
  "container_daemon (sd_client dd) st \<Longrightarrow>
     api_call dd ctx call answer w = (answer (calls w @ [\<lparr>rq_call = call, rq_context = ctx\<rparr>]), send call ctx w)"
  by (simp add: container_daemon_def api_call_def contextError_def Let_def send_def)

lemma daemon_quiet:
  "container_daemon api st \<Longrightarrow> \<not> changes_containers call \<Longrightarrow>
     st (hist @ [\<lparr>rq_call = call, rq_context = ctx\<rparr>]) = st hist"
  by (simp add: container_daemon_def)

lemma daemon_answers:
  assumes "container_daemon api st"
  shows "\<exists>os. api_os api hist = Inr os" and "\<exists>cs. api_network api hist = Inr cs" and "api_unit api hist \<noteq> Inl (Panic p)"
  using assms unfolding container_daemon_def by blast+

lemma with_shm_same [simp]: "cr_Config (with_shm opts) = cr_Config opts" "cr_Name (with_shm opts) = cr_Name opts"
  by (simp_all add: with_shm_def split: option.split)

lemma daemon_inspect:
  assumes "container_daemon (sd_client dd) st" and "fmlookup (st (calls w)) n = Some s"
  shows "\<exists>j w'. InspectContainer n dd w = (Inr j, w') \<and> st (calls w') = st (calls w) \<and> cc_Env (cj_Config j) = cs_env s"
proof -
  have "inspect_promise (sd_client dd) st" using assms(1) by (simp add: container_daemon_def)
  from this [unfolded inspect_promise_def, rule_format, OF assms(2), of "getTimeoutContext dd"]
  show ?thesis
    by (auto simp: InspectContainer_def dd_InspectContainer_def daemon_context [OF assms(1)] daemon_quiet [OF assms(1)])
qed

lemma daemon_unit:
  assumes "unit_promise (sd_client dd) st call ready change" and "container_daemon (sd_client dd) st"
    and "fmlookup (st (calls w)) n = Some s" and "ready s"
  shows "api_call dd ctx (call n) (api_unit (sd_client dd)) w = (Inr (), send (call n) ctx w)"
    and "st (calls (send (call n) ctx w)) = change n s (st (calls w))"
  using assms(1) [unfolded unit_promise_def, rule_format, of "calls w" n s ctx] assms(3,4)
  by (simp_all add: daemon_context [OF assms(2)] send_def)

lemma daemon_delete:
  assumes "container_daemon (sd_client dd) st" and "n |\<in>| fmdom (st (calls w))"
  shows "\<exists>w' stop. deleteProxy n dd w = (Inr (), w') \<and> st (calls w') = fmdrop n (st (calls w)) \<and>
    calls w' = calls w @ [stop, \<lparr>rq_call = ContainerRemove n, rq_context = getTimeoutContext dd\<rparr>]"
proof -
  from assms(2) obtain s where s: "fmlookup (st (calls w)) n = Some s" by (auto simp: fmlookup_dom_iff)
  let ?ctx = "getCustomTimeoutContext dd (10 * second)"
  let ?w1 = "send (ContainerStop n (10 * second)) ?ctx w"
  have stop: "unit_promise (sd_client dd) st (\<lambda>n. ContainerStop n (10 * second)) (\<lambda>_. True)
      (\<lambda>n s. fmupd n (s\<lparr>cs_running := False\<rparr>))"
    and remove: "unit_promise (sd_client dd) st ContainerRemove (\<lambda>s. \<not> cs_running s) (\<lambda>n s. fmdrop n)"
    using assms(1) by (simp_all add: container_daemon_def)
  note s1 = daemon_unit [OF stop assms(1) s, of ?ctx, simplified]
  have "fmlookup (st (calls ?w1)) n = Some (s\<lparr>cs_running := False\<rparr>)" by (simp add: s1(2))
  note s2 = daemon_unit [OF remove assms(1) this, of "getTimeoutContext dd", simplified]
  show ?thesis
    by (intro exI [of _ "send (ContainerRemove n) (getTimeoutContext dd) ?w1"]
        exI [of _ "\<lparr>rq_call = ContainerStop n (10 * second), rq_context = ?ctx\<rparr>"] conjI)
      (simp_all add: deleteProxy_def StopContainer_def dd_StopContainer_def RemoveContainer_def
        dd_RemoveContainer_def s1 s2 fmdrop_fmupd_same)
qed


text \<open>The containers a proxy listing finds.\<close>

definition is_proxy :: "container_state \<Rightarrow> bool" where
  "is_proxy s \<longleftrightarrow> ''skupper.io/application'' |\<in>| cs_labels s"

lemma index_proxies_run:
  assumes "\<forall>c \<in> set cs. \<exists>n ns. ct_Names c = (''/'' @ n) # ns"
  shows "\<exists>P. foldR (\<lambda>c m. bindR (container_name c) (\<lambda>proxyName. Inr (fmupd proxyName c m))) cs m = Inr P \<and>
    fset (fmdom P) = fset (fmdom m) \<union> {n. \<exists>c \<in> set cs. hd (ct_Names c) = ''/'' @ n} \<and>
    (\<forall>n v. fmlookup P n = Some v \<longrightarrow> fmlookup m n = Some v \<or> container_name v = Inr n)"
  using assms
proof (induction cs arbitrary: m)
  case (Cons c cs)
  then obtain n ns where names: "ct_Names c = (''/'' @ n) # ns" by auto
  then have name: "container_name c = Inr n"
    using trim_prefix_append [of "''/''" n] by (simp add: container_name_def)
  from Cons.IH [of "fmupd n c m"] Cons.prems obtain P where
    P: "foldR (\<lambda>c m. bindR (container_name c) (\<lambda>proxyName. Inr (fmupd proxyName c m))) cs (fmupd n c m) = Inr P"
      "fset (fmdom P) = fset (fmdom (fmupd n c m)) \<union> {n. \<exists>c \<in> set cs. hd (ct_Names c) = ''/'' @ n}"
      "\<forall>k v. fmlookup P k = Some v \<longrightarrow> fmlookup (fmupd n c m) k = Some v \<or> container_name v = Inr k" by auto
  have "fmlookup P k = Some v \<Longrightarrow> fmlookup m k = Some v \<or> container_name v = Inr k" for k v
    using P(3) name by (auto split: if_splits)
  moreover have "fset (fmdom P) = fset (fmdom m) \<union> {k. \<exists>c \<in> set (c # cs). hd (ct_Names c) = ''/'' @ k}"
    using P(2) names by auto
  ultimately show ?case using P(1) name by simp
qed simp

lemma daemon_proxies:
  assumes "container_daemon (sd_client dd) st"
  shows "\<exists>P w'. getProxies dd w = (Inr P, w') \<and> st (calls w') = st (calls w) \<and>
    (\<forall>n. n |\<in>| fmdom P \<longleftrightarrow> (\<exists>s. fmlookup (st (calls w)) n = Some s \<and> is_proxy s)) \<and>
    (\<forall>n v. fmlookup P n = Some v \<longrightarrow> container_name v = Inr n)"
proof -
  have "list_promise (sd_client dd) st" using assms by (simp add: container_daemon_def)
  from this [unfolded list_promise_def, rule_format, of "calls w" "[''skupper.io/application'']" "getTimeoutContext dd"]
  obtain cs where
    cs: "api_list (sd_client dd) (calls w @ [\<lparr>rq_call = ContainerList proxy_list_options, rq_context = getTimeoutContext dd\<rparr>]) = Inr cs"
      "\<forall>c \<in> set cs. \<exists>n ns. ct_Names c = (''/'' @ n) # ns"
      "{n. \<exists>c \<in> set cs. hd (ct_Names c) = ''/'' @ n} = {n. \<exists>s. fmlookup (st (calls w)) n = Some s \<and> is_proxy s}"
    unfolding proxy_list_options_def is_proxy_def by auto
  from index_proxies_run [OF cs(2), of fmempty] obtain P where
    P: "index_proxies cs = Inr P" "fset (fmdom P) = {n. \<exists>s. fmlookup (st (calls w)) n = Some s \<and> is_proxy s}"
      "\<forall>n v. fmlookup P n = Some v \<longrightarrow> container_name v = Inr n"
    unfolding index_proxies_def cs(3) by auto
  show ?thesis
    using cs(1) P
    by (intro exI [of _ P] exI [of _ "send (ContainerList proxy_list_options) (getTimeoutContext dd) w"])
      (simp add: getProxies_def ListContainers_def dd_ListContainers_def daemon_context [OF assms] tryE_def daemon_quiet [OF assms])
qed

lemma daemon_attach:
  assumes "container_daemon (sd_client (DockerInterface cli)) st"
  shows "\<exists>w'. attach_targets cli sb w = (Inr (), w') \<and> st (calls w') = st (calls w)"
proof -
  let ?dd = "DockerInterface cli"
  have one: "\<exists>w'. attach_target attached ?dd t w = (Inr (), w') \<and> st (calls w') = st (calls w)" for attached t w
  proof -
    obtain r w1 where r: "ConnectContainerToNetwork TransportNetworkName (eb_name t) ?dd w = (r, w1)" by fastforce
    then have w1: "w1 = send (NetworkConnect TransportNetworkName (eb_name t)) (getTimeoutContext ?dd) w"
      by (simp add: ConnectContainerToNetwork_def dd_ConnectContainerToNetwork_def daemon_context [OF assms])
    have "r \<noteq> Inl (Panic p)" for p
      using r daemon_answers(3) [OF assms]
      by (auto simp: ConnectContainerToNetwork_def dd_ConnectContainerToNetwork_def daemon_context [OF assms])
    then have "logged (ConnectContainerToNetwork TransportNetworkName (eb_name t) ?dd) w = (Inr (), w1)"
      using r by (auto simp: logged_def tryE_def split: sum.split error.split)
    then show ?thesis using w1 by (auto simp: attach_target_def daemon_quiet [OF assms])
  qed
  have all: "\<exists>w'. forE (attach_target attached ?dd) ts w = (Inr (), w') \<and> st (calls w') = st (calls w)" for attached ts w
  proof (induction ts arbitrary: w)
    case (Cons t ts)
    from one [of attached t w] obtain w1 where "attach_target attached ?dd t w = (Inr (), w1)" "st (calls w1) = st (calls w)" by blast
    with Cons [of w1] show ?case by auto
  qed simp
  obtain cs where "InspectNetworkOp TransportNetworkName ?dd w =
      (Inr cs, send (NetworkInspect TransportNetworkName) (getTimeoutContext ?dd) w)"
    using daemon_answers(2) [OF assms]
    by (auto simp: InspectNetworkOp_def dd_InspectNetwork_def daemon_context [OF assms] simp del: calls_send)
  moreover define w1 where "w1 = send (NetworkInspect TransportNetworkName) (getTimeoutContext ?dd) w"
  moreover have "st (calls w1) = st (calls w)" by (simp add: w1_def daemon_quiet [OF assms])
  moreover from all [of "fmran cs" "map snd (range_of (h_loops (Host cli) (length (calls w1))) (sb_targets sb))" w1]
  obtain w2 where "forE (attach_target (fmran cs) ?dd)
      (map snd (range_of (h_loops (Host cli) (length (calls w1))) (sb_targets sb))) w1 = (Inr (), w2)" "st (calls w2) = st (calls w1)" by blast
  ultimately show ?thesis by (cases "sb_origin sb = []") (auto simp: attach_targets_def in_order_def)
qed

text \<open>A proxy with the configuration asked for; whether it runs is \<open>cs_running\<close>.\<close>

definition has_config :: "string \<Rightarrow> container_state \<Rightarrow> bool" where
  "has_config config s \<longleftrightarrow> is_proxy s \<and> FindEnvVar (cs_env s) ''QDROUTERD_CONF'' = config"

lemma FindEnvVar_prefix:
  assumes "prefix xs ys" and "\<exists>v \<in> set xs. has_prefix v name"
  shows "FindEnvVar ys name = FindEnvVar xs name"
proof -
  have "FindEnvVar (xs @ zs) name = FindEnvVar xs name" for zs
    using assms(2) by (induction xs) auto
  then show ?thesis using assms(1) by (auto simp: prefix_def)
qed

lemma created_serves:
  assumes "created_as (with_shm (getProxyContainerCreateConfig env si config b os)) s"
    and "\<not> has_prefix (env ''SKUPPER_TMPDIR'') ''QDROUTERD_CONF''"
  shows "has_config config s"
proof -
  have env: "prefix (proxy_env env config) (cs_env s)"
    and labels: "fmdom (getLabels si True) |\<subseteq>| cs_labels s"
    using assms(1) by (simp_all add: created_as_def getProxyContainerCreateConfig_def Let_def)
  have "FindEnvVar (proxy_env env config) ''QDROUTERD_CONF'' = config"
    using FindEnvVar_first [of "[env ''SKUPPER_TMPDIR'']" "''QDROUTERD_CONF''" config] assms(2)
    by (simp add: proxy_env_def)
  moreover have "\<exists>v \<in> set (proxy_env env config). has_prefix v ''QDROUTERD_CONF''"
    using has_prefix_var [of "''QDROUTERD_CONF''" "''='' @ config"] by (simp add: proxy_env_def)
  moreover have "''skupper.io/application'' |\<in>| fmdom (getLabels si True)" by (simp add: getLabels_def)
  ultimately show ?thesis using env labels FindEnvVar_prefix by (auto simp: has_config_def is_proxy_def)
qed

lemma daemon_create:
  assumes "container_daemon (sd_client dd) st" and "cr_Name opts |\<notin>| fmdom (st (calls w))"
  shows "\<exists>i s w'. dd_CreateContainer dd opts w = (Inr i, w') \<and> created_as (with_shm opts) s \<and>
    st (calls w') = fmupd (cr_Name opts) s (st (calls w))"
proof -
  have "create_promise (sd_client dd) st" using assms(1) by (simp add: container_daemon_def)
  from this [unfolded create_promise_def, rule_format, of "with_shm opts" "calls w" "getTimeoutContext dd"] assms(2)
  show ?thesis by (auto simp: dd_CreateContainer_def daemon_context [OF assms(1)])
qed

lemma daemon_start:
  assumes "container_daemon (sd_client dd) st" and "fmlookup (st (calls w)) n = Some s"
  shows "\<exists>w'. StartContainer n dd w = (Inr (), w') \<and> st (calls w') = fmupd n (s\<lparr>cs_running := True\<rparr>) (st (calls w))"
proof -
  have "unit_promise (sd_client dd) st ContainerStart (\<lambda>_. True) (\<lambda>n s. fmupd n (s\<lparr>cs_running := True\<rparr>))"
    using assms(1) by (simp add: container_daemon_def)
  from daemon_unit [OF this assms(1,2), of "getTimeoutContext dd"] show ?thesis
    by (simp add: StartContainer_def dd_StartContainer_def)
qed

lemma daemon_version:
  assumes "container_daemon (sd_client dd) st"
  shows "\<exists>os w'. dd_ServerVersion dd w = (Inr os, w') \<and> st (calls w') = st (calls w)"
  using daemon_answers(1) [OF assms]
  by (auto simp: dd_ServerVersion_def daemon_context [OF assms] daemon_quiet [OF assms])

lemma daemon_deploy:
  assumes "container_daemon (sd_client (DockerInterface cli)) st" and "si_Address si |\<notin>| fmdom (st (calls w))"
    and "\<not> has_prefix (h_env (Host cli) ''SKUPPER_TMPDIR'') ''QDROUTERD_CONF''"
  shows "\<exists>w' s. deploy_proxy e cli si config w = (Inr (), w') \<and> has_config config s \<and> cs_running s \<and>
    st (calls w') = fmupd (si_Address si) s (st (calls w))"
proof -
  let ?dd = "DockerInterface cli"
  from daemon_version [OF assms(1), of w] obtain os w1 where
    os: "dd_ServerVersion ?dd w = (Inr os, w1)" "st (calls w1) = st (calls w)" by blast
  let ?opts = "getProxyContainerCreateConfig (h_env (Host cli)) si config (h_env (Host cli) ''SKUPPER_MAP_TO_HOST'' \<noteq> []) os"
  have name: "cr_Name ?opts = si_Address si" by (simp add: getProxyContainerCreateConfig_def Let_def)
  from daemon_create [OF assms(1), of ?opts w1] assms(2) obtain i s w2 where
    create: "dd_CreateContainer ?dd ?opts w1 = (Inr i, w2)" "created_as (with_shm ?opts) s"
      "st (calls w2) = fmupd (si_Address si) s (st (calls w))" by (auto simp: name os(2))
  have "fmlookup (st (calls w2)) (si_Address si) = Some s" by (simp add: create(3))
  from daemon_start [OF assms(1) this] obtain w3 where
    start: "StartContainer (si_Address si) ?dd w2 = (Inr (), w3)"
      "st (calls w3) = fmupd (si_Address si) (s\<lparr>cs_running := True\<rparr>) (st (calls w2))" by blast
  have "has_config config s" by (rule created_serves [OF create(2) assms(3)])
  then have "has_config config (s\<lparr>cs_running := True\<rparr>) \<and> cs_running (s\<lparr>cs_running := True\<rparr>)" by (simp add: has_config_def is_proxy_def)
  moreover have "deploy_proxy e cli si config w = (Inr (), w3)"
    using os(1) create(1) start(1) name by (simp add: deploy_proxy_def NewProxyContainer_def Let_def)
  moreover have "st (calls w3) = fmupd (si_Address si) (s\<lparr>cs_running := True\<rparr>) (st (calls w))"
    by (intro fmap_ext) (simp add: start(2) create(3))
  ultimately show ?thesis by blast
qed

section \<open>One round\<close>

lemma asServiceInterface_fields [simp]:
  "si_Address (asServiceInterface rng sb) = sb_address sb" "si_Origin (asServiceInterface rng sb) = sb_origin sb"
  by (simp_all add: asServiceInterface_def)

text \<open>A text generated in two of the orders the loops may take.\<close>

definition looped_text :: "VanClient \<Rightarrow> string \<Rightarrow> ServiceBindings \<Rightarrow> string \<Rightarrow> bool" where
  "looped_text cli origin sb t \<longleftrightarrow>
     (\<exists>n n'. t = config_text (h_loops (Host cli) n') (asServiceInterface (h_loops (Host cli) n) sb) origin)"

lemma looped_proxy_text: "\<forall>n. range_ok (h_loops (Host cli) n) \<Longrightarrow> looped_text cli origin sb t \<Longrightarrow> proxy_text origin sb t"
  by (auto simp: looped_text_def proxy_text_def)

lemma config_text_not_empty: "config_text rng si origin \<noteq> []"
  by (simp add: config_text_def GetRouterConfigForProxy_def MarshalRouterConfig_def marshal_indent_def)

text \<open>What comes before the decision: the listing, the network, the text.\<close>

lemma ensure_decides:
  assumes "container_daemon (sd_client (DockerInterface cli)) st"
  shows "\<exists>P t n w1 w2. looped_text cli origin sb t \<and> t \<noteq> [] \<and>
    getProxies (DockerInterface cli) w = (Inr P, w1) \<and> attach_targets cli sb w1 = (Inr (), w2) \<and>
    (\<forall>n. n |\<in>| fmdom P \<longleftrightarrow> (\<exists>s. fmlookup (st (calls w)) n = Some s \<and> is_proxy s)) \<and>
    st (calls w2) = st (calls w) \<and> prefix (calls w) (calls w2) \<and>
    ensureProxyFor cli origin sb w =
      (if sb_address sb |\<notin>| fmdom P
       then deploy_proxy ''Failed to create proxy container'' cli (asServiceInterface (h_loops (Host cli) n) sb) t w2
       else redeploy_proxy cli (asServiceInterface (h_loops (Host cli) n) sb) t w2)"
proof -
  let ?dd = "DockerInterface cli"
  from daemon_proxies [OF assms(1), of w] obtain P w1 where
    P: "getProxies ?dd w = (Inr P, w1)" "st (calls w1) = st (calls w)"
      "\<forall>n. n |\<in>| fmdom P \<longleftrightarrow> (\<exists>s. fmlookup (st (calls w)) n = Some s \<and> is_proxy s)" by blast
  from daemon_attach [OF assms(1), of sb w1] obtain w2 where
    w2: "attach_targets cli sb w1 = (Inr (), w2)" "st (calls w2) = st (calls w)" using P(2) by auto
  have "prefix (calls w) (calls w2)"
    using docker_onlyD(2) [OF keeps_getProxies P(1)] docker_onlyD(2) [OF keeps_attach w2(1)] prefix_order.trans by blast
  with P w2 show ?thesis
    by (intro exI [of _ P] exI [of _ w1] exI [of _ w2] exI [of _ "length (calls w1)"]
        exI [of _ "config_text (h_loops (Host cli) (length (calls w2)))
          (asServiceInterface (h_loops (Host cli) (length (calls w1))) sb) origin"])
      (auto simp: ensureProxyFor_def in_order_def Let_def looped_text_def config_text_not_empty)
qed

text \<open>Either the proxy was there with the text generated now, and stays as it is, or there is a new one, and it runs.\<close>

lemma daemon_ensure:
  assumes "container_daemon (sd_client (DockerInterface cli)) st"
    and "\<not> has_prefix (h_env (Host cli) ''SKUPPER_TMPDIR'') ''QDROUTERD_CONF''"
    and "\<forall>s. fmlookup (st (calls w)) (sb_address sb) = Some s \<longrightarrow> is_proxy s"
  shows "\<exists>w' s t. ensureProxyFor cli origin sb w = (Inr (), w') \<and> looped_text cli origin sb t \<and> has_config t s \<and>
    st (calls w') = fmupd (sb_address sb) s (st (calls w)) \<and>
    (fmlookup (st (calls w)) (sb_address sb) = Some s \<or>
     cs_running s \<and>
     (\<forall>s0. fmlookup (st (calls w)) (sb_address sb) = Some s0 \<longrightarrow>
        FindEnvVar (cs_env s0) ''QDROUTERD_CONF'' \<noteq> t \<and>
        (\<exists>made. calls w' = calls w @ made \<and> ContainerRemove (sb_address sb) \<in> rq_call ` set made)))"
proof -
  let ?dd = "DockerInterface cli" and ?a = "sb_address sb"
  from ensure_decides [OF assms(1), of origin sb w] obtain P t n w1 w2 where
    t: "looped_text cli origin sb t" "t \<noteq> []" and
    P: "getProxies (DockerInterface cli) w = (Inr P, w1)" "\<forall>n. n |\<in>| fmdom P \<longleftrightarrow> (\<exists>s. fmlookup (st (calls w)) n = Some s \<and> is_proxy s)" and
    w2: "st (calls w2) = st (calls w)" "prefix (calls w) (calls w2)" and
    run: "ensureProxyFor cli origin sb w =
      (if ?a |\<notin>| fmdom P
       then deploy_proxy ''Failed to create proxy container'' cli (asServiceInterface (h_loops (Host cli) n) sb) t w2
       else redeploy_proxy cli (asServiceInterface (h_loops (Host cli) n) sb) t w2)" by (elim exE conjE) (rule that)
  let ?si = "asServiceInterface (h_loops (Host cli) n) sb"
  show ?thesis
  proof (cases "fmlookup (st (calls w)) ?a")
    case None
    then have "?a |\<notin>| fmdom P" "si_Address ?si |\<notin>| fmdom (st (calls w2))"
      using P(2) by (simp_all add: w2(1) fmdom_notI)
    from daemon_deploy [OF assms(1) this(2) assms(2), of "''Failed to create proxy container''" t] obtain w' s where
      "deploy_proxy ''Failed to create proxy container'' cli ?si t w2 = (Inr (), w')" "has_config t s" "cs_running s"
      "st (calls w') = fmupd ?a s (st (calls w))" by (auto simp: w2(1))
    with \<open>?a |\<notin>| fmdom P\<close> show ?thesis using t(1) None by (intro exI [of _ w'] exI [of _ s] exI [of _ t]) (simp add: run)
  next
    case (Some s)
    then have known: "?a |\<in>| fmdom P" and proxy: "is_proxy s" using P(2) assms(3) by auto
    have s2: "fmlookup (st (calls w2)) ?a = Some s" by (simp add: w2(1) Some)
    from daemon_inspect [OF assms(1) s2] obtain j w3 where
      w3: "InspectContainer ?a ?dd w2 = (Inr j, w3)" "st (calls w3) = st (calls w)" "cc_Env (cj_Config j) = cs_env s"
      by (auto simp: w2(1))
    show ?thesis
    proof (cases "FindEnvVar (cs_env s) ''QDROUTERD_CONF'' = t")
      case True
      then have "ensureProxyFor cli origin sb w = (Inr (), w3)"
        using known w3(1,3) t(2) by (simp add: run redeploy_proxy_def Let_def)
      moreover have "st (calls w3) = fmupd ?a s (st (calls w))"
        using Some w3(2) by (intro fmap_ext) auto
      ultimately show ?thesis
        using True proxy t(1) Some by (intro exI [of _ w3] exI [of _ s] exI [of _ t]) (simp add: has_config_def)
    next
      case False
      have "?a |\<in>| fmdom (st (calls w3))" using Some w3(2) by (simp add: fmdomI)
      from daemon_delete [OF assms(1) this] obtain w4 stop where
        w4: "deleteProxy ?a ?dd w3 = (Inr (), w4)" "st (calls w4) = fmdrop ?a (st (calls w))"
          "calls w4 = calls w3 @ [stop, \<lparr>rq_call = ContainerRemove ?a, rq_context = getTimeoutContext ?dd\<rparr>]"
        using w3(2) by auto
      have "si_Address ?si |\<notin>| fmdom (st (calls w4))" by (simp add: w4(2))
      from daemon_deploy [OF assms(1) this assms(2), of "''Failed to re-create proxy container''" t] obtain w5 s' where
        w5: "deploy_proxy ''Failed to re-create proxy container'' cli ?si t w4 = (Inr (), w5)" "has_config t s'"
          "cs_running s'" "st (calls w5) = fmupd ?a s' (st (calls w4))" by auto
      have "ensureProxyFor cli origin sb w = (Inr (), w5)"
        using known False w3(1,3) w4(1) w5(1) by (simp add: run redeploy_proxy_def Let_def)
      moreover have "st (calls w5) = fmupd ?a s' (st (calls w))"
        by (intro fmap_ext) (simp add: w5(4) w4(2))
      moreover have "\<exists>made. calls w5 = calls w @ made \<and> ContainerRemove ?a \<in> rq_call ` set made"
      proof -
        have "keeps docker_step (InspectContainer ?a ?dd)" by (rule docker_only)
        from docker_onlyD(2) [OF this w3(1)] docker_onlyD(2) [OF keeps_deploy w5(1)]
        have "prefix (calls w2) (calls w3)" "prefix (calls w4) (calls w5)" .
        then show ?thesis using w2(2) w4(3) by (auto simp: prefix_def)
      qed
      ultimately show ?thesis
        using w5(2,3) t(1) Some False by (intro exI [of _ w5] exI [of _ s'] exI [of _ t]) simp
    qed
  qed
qed

lemma logged_done: "m w = (Inr x, w') \<Longrightarrow> logged m w = (Inr (), w')"
  by (simp add: logged_def)

text \<open>The outcome for one service: a proxy with a text of its bindings, which runs unless it was already there.\<close>

definition served :: "VanClient \<Rightarrow> string \<Rightarrow> container_state gomap \<Rightarrow> container_state gomap \<Rightarrow> ServiceBindings \<Rightarrow> bool" where
  "served cli origin before after sb \<longleftrightarrow>
     (\<exists>s t. fmlookup after (sb_address sb) = Some s \<and> looped_text cli origin sb t \<and> has_config t s \<and>
        (cs_running s \<or> fmlookup before (sb_address sb) = Some s))"

lemma daemon_ensure_all:
  assumes "container_daemon (sd_client (DockerInterface cli)) st"
    and "\<not> has_prefix (h_env (Host cli) ''SKUPPER_TMPDIR'') ''QDROUTERD_CONF''"
    and "distinct (map sb_address sbs)"
    and "\<forall>sb \<in> set sbs. \<forall>s. fmlookup (st (calls w)) (sb_address sb) = Some s \<longrightarrow> is_proxy s"
  shows "\<exists>w'. forE (\<lambda>v. logged (ensureProxyFor cli origin v)) sbs w = (Inr (), w') \<and>
    (\<forall>sb \<in> set sbs. served cli origin (st (calls w)) (st (calls w')) sb) \<and>
    (\<forall>n. n \<notin> sb_address ` set sbs \<longrightarrow> fmlookup (st (calls w')) n = fmlookup (st (calls w)) n)"
  using assms(3,4)
proof (induction sbs arbitrary: w)
  case (Cons sb sbs)
  have "\<forall>s. fmlookup (st (calls w)) (sb_address sb) = Some s \<longrightarrow> is_proxy s" using Cons.prems(2) by simp
  from daemon_ensure [OF assms(1,2) this, of origin] obtain w1 s t where
    w1: "ensureProxyFor cli origin sb w = (Inr (), w1)" "looped_text cli origin sb t" "has_config t s"
      "st (calls w1) = fmupd (sb_address sb) s (st (calls w))"
      "cs_running s \<or> fmlookup (st (calls w)) (sb_address sb) = Some s" by auto
  have fresh: "sb_address sb \<notin> sb_address ` set sbs" using Cons.prems(1) by simp
  have "\<forall>sb \<in> set sbs. \<forall>s. fmlookup (st (calls w1)) (sb_address sb) = Some s \<longrightarrow> is_proxy s"
    using fresh Cons.prems(2) by (auto simp: w1(4))
  with Cons.IH [of w1] Cons.prems(1) obtain w' where
    w': "forE (\<lambda>v. logged (ensureProxyFor cli origin v)) sbs w1 = (Inr (), w')"
      "\<forall>sb \<in> set sbs. served cli origin (st (calls w1)) (st (calls w')) sb"
      "\<forall>n. n \<notin> sb_address ` set sbs \<longrightarrow> fmlookup (st (calls w')) n = fmlookup (st (calls w1)) n" by auto
  have "fmlookup (st (calls w')) (sb_address sb) = Some s" using w'(3) fresh by (simp add: w1(4))
  then have "served cli origin (st (calls w)) (st (calls w')) sb" using w1(2,3,5) by (auto simp: served_def)
  moreover have "served cli origin (st (calls w)) (st (calls w')) sb'" if "sb' \<in> set sbs" for sb'
  proof -
    have "sb_address sb' \<noteq> sb_address sb"
    proof
      assume "sb_address sb' = sb_address sb"
      moreover have "sb_address sb' \<in> sb_address ` set sbs" using that by (rule imageI)
      ultimately show False using fresh by simp
    qed
    from this [symmetric] bspec [OF w'(2) that] show ?thesis by (simp add: served_def w1(4))
  qed
  ultimately show ?case
    using w'(1,3) logged_done [of "ensureProxyFor cli origin sb", OF w1(1)]
    by (intro exI [of _ w']) (auto simp: w1(4))
qed simp

lemma daemon_prune_all:
  assumes "container_daemon (sd_client (DockerInterface cli)) st"
    and "\<forall>(n, v) \<in> set nvs. container_name v = Inr n \<and> n |\<in>| fmdom (st (calls w))" and "distinct (map fst nvs)"
  shows "\<exists>w'. forE (prune_proxy cli bound) (map snd nvs) w = (Inr (), w') \<and>
    (\<forall>n. fmlookup (st (calls w')) n =
       (if n \<in> fst ` set nvs \<and> n |\<notin>| bound then None else fmlookup (st (calls w)) n))"
  using assms(2,3)
proof (induction nvs arbitrary: w)
  case (Cons nv nvs)
  obtain n v where nv: "nv = (n, v)" by (cases nv)
  have name: "container_name v = Inr n" and known: "n |\<in>| fmdom (st (calls w))" using Cons.prems(1) by (auto simp: nv)
  have "\<exists>w1. prune_proxy cli bound v w = (Inr (), w1) \<and>
      st (calls w1) = (if n |\<in>| bound then st (calls w) else fmdrop n (st (calls w)))"
  proof (cases "n |\<in>| bound")
    case False
    from daemon_delete [OF assms(1) known] obtain w1 where
      "deleteProxy n (DockerInterface cli) w = (Inr (), w1)" "st (calls w1) = fmdrop n (st (calls w))" by blast
    with False name logged_done [of "deleteProxy n (DockerInterface cli)" w "()" w1] show ?thesis
      by (simp add: prune_proxy_def)
  qed (simp add: prune_proxy_def name)
  then obtain w1 where w1: "prune_proxy cli bound v w = (Inr (), w1)"
    "st (calls w1) = (if n |\<in>| bound then st (calls w) else fmdrop n (st (calls w)))" by blast
  have "\<forall>(n', v') \<in> set nvs. container_name v' = Inr n' \<and> n' |\<in>| fmdom (st (calls w1))"
    using Cons.prems by (auto simp: nv w1(2) rev_image_eqI split: if_splits)
  from Cons.IH [OF this] Cons.prems(2) obtain w' where
    w': "forE (prune_proxy cli bound) (map snd nvs) w1 = (Inr (), w')"
      "\<forall>k. fmlookup (st (calls w')) k = (if k \<in> fst ` set nvs \<and> k |\<notin>| bound then None else fmlookup (st (calls w1)) k)"
    by auto
  have "fmlookup (st (calls w')) k =
      (if k \<in> fst ` set (nv # nvs) \<and> k |\<notin>| bound then None else fmlookup (st (calls w)) k)" for k
    using w'(2) by (auto simp: nv w1(2))
  with w'(1) w1(1) show ?case by (intro exI [of _ w']) (simp add: nv)
qed simp

lemma distinct_bindings:
  assumes "range_ok r" and "keyed sb_address b"
  shows "distinct (map sb_address (map snd (range_of r b)))" and "sb_address ` set (map snd (range_of r b)) = fset (fmdom b)"
proof -
  have eq: "map sb_address (map snd (range_of r b)) = map fst (range_of r b)"
    using keyedD [OF assms(2)] by (auto simp: range_of_iff [OF assms(1)])
  then show "distinct (map sb_address (map snd (range_of r b)))" using range_of_distinct [OF assms(1)] by metis
  have "set (map sb_address (map snd (range_of r b))) = fset (fmdom b)"
    unfolding eq using range_ok_set [OF assms(1)] by (simp add: range_of_keys)
  then show "sb_address ` set (map snd (range_of r b)) = fset (fmdom b)" by (metis set_map)
qed

text \<open>The outcome of a round.\<close>

definition round_done ::
  "VanClient \<Rightarrow> string \<Rightarrow> ServiceBindings gomap \<Rightarrow> container_state gomap \<Rightarrow> container_state gomap \<Rightarrow> bool" where
  "round_done cli origin b before after \<longleftrightarrow>
     (\<forall>n. case fmlookup b n of
        Some sb \<Rightarrow> served cli origin before after sb
      | None \<Rightarrow> fmlookup after n =
          (case fmlookup before n of Some s \<Rightarrow> if is_proxy s then None else Some s | None \<Rightarrow> None))"

lemma reconcile_round:
  assumes "\<forall>n. range_ok (h_loops (Host cli) n)" and "container_daemon (sd_client (DockerInterface cli)) st"
    and "\<not> has_prefix (h_env (Host cli) ''SKUPPER_TMPDIR'') ''QDROUTERD_CONF''"
    and "keyed sb_address b"
    and "\<forall>n s. n |\<in>| fmdom b \<and> fmlookup (st (calls w)) n = Some s \<longrightarrow> is_proxy s"
  shows "\<exists>w'. updateProxies cli origin b w = (Inr (), w') \<and> round_done cli origin b (st (calls w)) (st (calls w'))"
proof -
  let ?rng = "h_loops (Host cli) (length (calls w))"
  have rng: "range_ok ?rng" using assms(1) ..
  let ?sbs = "map snd (range_of ?rng b)"
  note sbs = distinct_bindings [OF rng assms(4)]
  have "\<forall>sb \<in> set ?sbs. \<forall>s. fmlookup (st (calls w)) (sb_address sb) = Some s \<longrightarrow> is_proxy s"
    using assms(5) sbs(2) by blast
  from daemon_ensure_all [OF assms(2,3) sbs(1) this, where origin = origin] obtain w1 where
    w1: "forE (\<lambda>v. logged (ensureProxyFor cli origin v)) ?sbs w = (Inr (), w1)"
      "\<forall>sb \<in> set ?sbs. served cli origin (st (calls w)) (st (calls w1)) sb"
      "\<forall>n. n |\<notin>| fmdom b \<longrightarrow> fmlookup (st (calls w1)) n = fmlookup (st (calls w)) n"
    unfolding sbs(2) by blast
  from daemon_proxies [OF assms(2), of w1] obtain P w2 where
    P: "getProxies (DockerInterface cli) w1 = (Inr P, w2)" "st (calls w2) = st (calls w1)"
      "\<forall>n. n |\<in>| fmdom P \<longleftrightarrow> (\<exists>s. fmlookup (st (calls w1)) n = Some s \<and> is_proxy s)"
      "\<forall>n v. fmlookup P n = Some v \<longrightarrow> container_name v = Inr n" by blast
  let ?rng2 = "h_loops (Host cli) (length (calls w2))"
  have rng2: "range_ok ?rng2" using assms(1) ..
  let ?nvs = "range_of ?rng2 P"
  have "\<forall>(n, v) \<in> set ?nvs. container_name v = Inr n \<and> n |\<in>| fmdom (st (calls w2))"
    using P(2-4) by (auto simp: range_of_iff [OF rng2] fmlookup_dom_iff)
  from daemon_prune_all [OF assms(2) this range_of_distinct [OF rng2], of "fmdom b"] obtain w3 where
    w3: "forE (prune_proxy cli (fmdom b)) (map snd ?nvs) w2 = (Inr (), w3)"
      "\<forall>n. fmlookup (st (calls w3)) n = (if n \<in> fst ` set ?nvs \<and> n |\<notin>| fmdom b then None else fmlookup (st (calls w2)) n)"
    by blast
  have listed: "n \<in> fst ` set ?nvs \<longleftrightarrow> n |\<in>| fmdom P" for n
    using range_ok_set [OF rng2, of "fmdom P"] by (simp add: range_of_keys flip: set_map)
  have "updateProxies cli origin b w = (Inr (), w3)"
    using w1(1) P(1) w3(1) by (simp add: updateProxies_def in_order_def)
  moreover have "case fmlookup b n of
       Some sb \<Rightarrow> served cli origin (st (calls w)) (st (calls w3)) sb
     | None \<Rightarrow> fmlookup (st (calls w3)) n =
         (case fmlookup (st (calls w)) n of Some s \<Rightarrow> if is_proxy s then None else Some s | None \<Rightarrow> None)" for n
  proof (cases "fmlookup b n")
    case (Some sb)
    then have "sb \<in> set ?sbs" by (simp add: range_of_values [OF rng] del: set_map) blast
    with w1(2) keyedD [OF assms(4) Some] Some show ?thesis by (auto simp: served_def w3(2) P(2) fmdomI)
  next
    case None
    then have "fmlookup (st (calls w1)) n = fmlookup (st (calls w)) n" using w1(3) by (simp add: fmdom_notI)
    with None show ?thesis by (auto simp: w3(2) P(2,3) listed fmdom_notI split: option.split)
  qed
  ultimately show ?thesis unfolding round_done_def by blast
qed

section \<open>What a round touches\<close>

text \<open>The container a call changes, and the worlds between which only the containers named in \<open>A\<close> were created, started,
  stopped or removed.\<close>

fun changes :: "docker_call \<Rightarrow> string option" where
  "changes (ContainerCreate c) = Some (cr_Name c)"
| "changes (ContainerStart n) = Some n"
| "changes (ContainerStop n t) = Some n"
| "changes (ContainerRestart n t) = Some n"
| "changes (ContainerRemove n) = Some n"
| "changes _ = None"

lemma changes_containers_iff: "changes_containers call \<longleftrightarrow> (\<exists>n. changes call = Some n)"
  by (cases call) simp_all

definition touches :: "string set \<Rightarrow> World \<Rightarrow> World \<Rightarrow> bool" where
  "touches A w w' \<longleftrightarrow>
     (\<exists>made. calls w' = calls w @ made \<and> (\<forall>rq \<in> set made. \<forall>n. changes (rq_call rq) = Some n \<longrightarrow> n \<in> A))"

lemma touches_refl: "reflp (touches A)"
  by (simp add: touches_def reflp_def)

lemma touches_trans: "transp (touches A)"
  by (fastforce simp: touches_def transp_def)

lemma touches_mono: "touches A w w' \<Longrightarrow> A \<subseteq> B \<Longrightarrow> touches B w w'"
  by (auto simp: touches_def)

lemma keeps_touches_call: "(\<And>n. changes call = Some n \<Longrightarrow> n \<in> A) \<Longrightarrow> keeps (touches A) (api_call d ctx call answer)"
  by (simp add: keeps_def touches_def api_call_def Let_def split: option.split)

lemmas touches_steps = keeps_bindE [OF _ _ touches_trans] keeps_tryE [OF _ _ touches_trans] keeps_pure [OF touches_refl]
  keeps_logged [OF _ touches_refl touches_trans] keeps_forE [OF _ touches_refl touches_trans] keeps_in_order

lemma keeps_touches_ops:
  "keeps (touches A) (InspectContainer n dd)" "keeps (touches A) (ListContainers opts dd)"
  "keeps (touches A) (InspectNetworkOp n dd)" "keeps (touches A) (ConnectContainerToNetwork n c dd)"
  "keeps (touches A) (dd_ServerVersion dd)"
  by (auto simp: container_calls InspectNetworkOp_def dd_defs intro!: keeps_touches_call)

lemma keeps_touches_own:
  "n \<in> A \<Longrightarrow> keeps (touches A) (StopContainer n dd)" "n \<in> A \<Longrightarrow> keeps (touches A) (RemoveContainer n dd)"
  "n \<in> A \<Longrightarrow> keeps (touches A) (StartContainer n dd)" "cr_Name opts \<in> A \<Longrightarrow> keeps (touches A) (dd_CreateContainer dd opts)"
  by (auto simp: container_calls dd_defs intro!: keeps_touches_call)

lemma touches_proxies: "keeps (touches A) (getProxies dd)"
  unfolding getProxies_def
  by (intro touches_steps keeps_touches_ops) (auto split: sum.split intro: touches_steps)

lemma touches_attach: "keeps (touches A) (attach_targets cli sb)"
  unfolding attach_targets_def attach_target_def
  by (auto intro!: touches_steps keeps_touches_ops split: if_splits)

lemma proxy_name: "cr_Name (getProxyContainerCreateConfig env si config b os) = si_Address si"
  by (simp add: getProxyContainerCreateConfig_def Let_def)

lemma keeps_bindE_result:
  assumes "keeps R m" and "\<And>x w w'. m w = (Inr x, w') \<Longrightarrow> keeps R (k x)" and "transp R"
  shows "keeps R (bindE h m k)"
  unfolding keeps_def
proof
  fix w
  obtain r w' where m: "m w = (r, w')" by (cases "m w")
  have step: "R w w'" using keepsD [OF assms(1) m] .
  show "R w (snd (bindE h m k w))"
  proof (cases r)
    case (Inr x)
    with assms(2) [of w x w'] m have "R w' (snd (k x w'))" by (simp add: keeps_def)
    with step transpD [OF assms(3)] show ?thesis by (simp add: bindE_def m Inr)
  qed (simp add: bindE_def m step)
qed

lemma touches_deploy:
  assumes "si_Address si \<in> A"
  shows "keeps (touches A) (deploy_proxy e cli si config)"
proof -
  let ?new = "\<lambda>mapToHost. NewProxyContainer (h_env (Host cli)) si config mapToHost (DockerInterface cli)"
  have "keeps (touches A) (?new mapToHost)" for mapToHost
    unfolding NewProxyContainer_def Let_def
    by (intro touches_steps keeps_touches_ops keeps_touches_own) (simp add: proxy_name assms)
  moreover have "cr_Name c \<in> A" if "?new mapToHost w = (Inr c, w')" for mapToHost w c w'
    using that assms by (auto simp: NewProxyContainer_def Let_def result_iff proxy_name)
  ultimately show ?thesis
    unfolding deploy_proxy_def Let_def
    by (intro keeps_bindE_result [OF _ _ touches_trans] touches_steps keeps_touches_own) blast
qed

lemma touches_redeploy: "si_Address si \<in> A \<Longrightarrow> keeps (touches A) (redeploy_proxy cli si config)"
  unfolding redeploy_proxy_def deleteProxy_def Let_def
  by (auto intro!: touches_steps keeps_touches_ops keeps_touches_own touches_deploy)

lemma touches_ensure: "sb_address sb \<in> A \<Longrightarrow> keeps (touches A) (ensureProxyFor cli origin sb)"
  unfolding ensureProxyFor_def Let_def
  by (auto intro!: touches_steps touches_proxies touches_attach touches_deploy touches_redeploy simp: asServiceInterface_fields)

section \<open>The second round\<close>

text \<open>A proxy that is there with one of its texts is left alone when the text does not depend on the order.\<close>

lemma settled_ensure:
  assumes "\<forall>n. range_ok (h_loops (Host cli) n)" and "container_daemon (sd_client (DockerInterface cli)) st"
    and "settled sb" and "fmlookup (st (calls w)) (sb_address sb) = Some s" and "has_config t s" and "proxy_text origin sb t"
  shows "\<exists>w'. ensureProxyFor cli origin sb w = (Inr (), w') \<and> touches {} w w' \<and> st (calls w') = st (calls w)"
proof -
  let ?dd = "DockerInterface cli" and ?a = "sb_address sb"
  from ensure_decides [OF assms(2), of origin sb w] obtain P t' n w1 w2 where
    t': "looped_text cli origin sb t'" "t' \<noteq> []" and P: "getProxies ?dd w = (Inr P, w1)"
      "\<forall>n. n |\<in>| fmdom P \<longleftrightarrow> (\<exists>s. fmlookup (st (calls w)) n = Some s \<and> is_proxy s)" and
    w2: "attach_targets cli sb w1 = (Inr (), w2)" "st (calls w2) = st (calls w)" and
    run: "ensureProxyFor cli origin sb w =
      (if ?a |\<notin>| fmdom P
       then deploy_proxy ''Failed to create proxy container'' cli (asServiceInterface (h_loops (Host cli) n) sb) t' w2
       else redeploy_proxy cli (asServiceInterface (h_loops (Host cli) n) sb) t' w2)" by blast
  have "t' = t" using settled_text [OF assms(3) looped_proxy_text [OF assms(1) t'(1)] assms(6)] .
  have known: "?a |\<in>| fmdom P" using P(2) assms(4,5) by (auto simp: has_config_def)
  have "fmlookup (st (calls w2)) ?a = Some s" using assms(4) w2(2) by simp
  from daemon_inspect [OF assms(2) this] obtain j w3 where
    w3: "InspectContainer ?a ?dd w2 = (Inr j, w3)" "st (calls w3) = st (calls w)" "cc_Env (cj_Config j) = cs_env s"
    by (auto simp: w2(2))
  have "FindEnvVar (cs_env s) ''QDROUTERD_CONF'' = t'" using assms(5) by (simp add: has_config_def \<open>t' = t\<close>)
  then have "ensureProxyFor cli origin sb w = (Inr (), w3)"
    using w3(1,3) known t'(2) by (simp add: run redeploy_proxy_def Let_def)
  moreover have "touches {} w w3"
    using keepsD [OF touches_proxies P(1)] keepsD [OF touches_attach w2(1)] keepsD [OF keeps_touches_ops(1) w3(1)]
      transpD [OF touches_trans] by blast
  ultimately show ?thesis using w3(2) by blast
qed

text \<open>The proxies of \<open>sbs\<close> are there, each with one of its texts.\<close>

definition all_served :: "string \<Rightarrow> container_state gomap \<Rightarrow> ServiceBindings list \<Rightarrow> bool" where
  "all_served origin before sbs \<longleftrightarrow>
     (\<forall>sb \<in> set sbs. \<exists>s t. fmlookup before (sb_address sb) = Some s \<and> has_config t s \<and> proxy_text origin sb t)"

definition unsettled :: "ServiceBindings list \<Rightarrow> string set" where
  "unsettled sbs = sb_address ` {sb \<in> set sbs. \<not> settled sb}"

lemma served_ensure:
  assumes "\<forall>n. range_ok (h_loops (Host cli) n)" and "container_daemon (sd_client (DockerInterface cli)) st"
    and "\<not> has_prefix (h_env (Host cli) ''SKUPPER_TMPDIR'') ''QDROUTERD_CONF''"
    and "fmlookup (st (calls w)) (sb_address sb) = Some s" and "has_config t s" and "proxy_text origin sb t"
  shows "\<exists>w' s'. ensureProxyFor cli origin sb w = (Inr (), w') \<and> touches (unsettled [sb]) w w' \<and> is_proxy s' \<and>
    st (calls w') = fmupd (sb_address sb) s' (st (calls w))"
proof (cases "settled sb")
  case True
  from settled_ensure [OF assms(1,2) True assms(4-6)] obtain w' where
    w': "ensureProxyFor cli origin sb w = (Inr (), w')" "touches {} w w'" "st (calls w') = st (calls w)" by blast
  have "st (calls w') = fmupd (sb_address sb) s (st (calls w))"
    using assms(4) by (intro fmap_ext) (auto simp: w'(3))
  then show ?thesis using w'(1) touches_mono [OF w'(2)] assms(5) by (auto simp: has_config_def)
next
  case False
  then have own: "sb_address sb \<in> unsettled [sb]" by (simp add: unsettled_def)
  have "\<forall>s. fmlookup (st (calls w)) (sb_address sb) = Some s \<longrightarrow> is_proxy s" using assms(4,5) by (simp add: has_config_def)
  from daemon_ensure [OF assms(2,3) this, of origin] obtain w' s' t' where
    w': "ensureProxyFor cli origin sb w = (Inr (), w')" "has_config t' s'" "st (calls w') = fmupd (sb_address sb) s' (st (calls w))"
    by blast
  show ?thesis using w' keepsD [OF touches_ensure [OF own] w'(1)] by (auto simp: has_config_def)
qed

lemma served_ensure_all:
  assumes "\<forall>n. range_ok (h_loops (Host cli) n)" and "container_daemon (sd_client (DockerInterface cli)) st"
    and "\<not> has_prefix (h_env (Host cli) ''SKUPPER_TMPDIR'') ''QDROUTERD_CONF''"
    and "distinct (map sb_address sbs)" and "all_served origin (st (calls w)) sbs"
  shows "\<exists>w'. forE (\<lambda>v. logged (ensureProxyFor cli origin v)) sbs w = (Inr (), w') \<and> touches (unsettled sbs) w w' \<and>
    (\<forall>n s. fmlookup (st (calls w')) n = Some s \<and> is_proxy s \<longrightarrow>
       n \<in> sb_address ` set sbs \<or> fmlookup (st (calls w)) n = Some s)"
  using assms(4,5)
proof (induction sbs arbitrary: w)
  case Nil
  show ?case using touches_refl by (simp add: reflp_def)
next
  case (Cons sb sbs)
  from Cons.prems(2) obtain s t where
    "fmlookup (st (calls w)) (sb_address sb) = Some s" "has_config t s" "proxy_text origin sb t" by (auto simp: all_served_def)
  from served_ensure [OF assms(1-3) this] obtain w1 s' where
    w1: "ensureProxyFor cli origin sb w = (Inr (), w1)" "touches (unsettled [sb]) w w1" "is_proxy s'"
      "st (calls w1) = fmupd (sb_address sb) s' (st (calls w))" by blast
  have "all_served origin (st (calls w1)) sbs"
    unfolding all_served_def
  proof
    fix sb'
    assume sb': "sb' \<in> set sbs"
    then have "sb_address sb' \<in> sb_address ` set sbs" by (rule imageI)
    then have "sb_address sb \<noteq> sb_address sb'" using Cons.prems(1) by (intro notI) simp
    with sb' Cons.prems(2) show "\<exists>s t. fmlookup (st (calls w1)) (sb_address sb') = Some s \<and> has_config t s \<and> proxy_text origin sb' t"
      by (simp add: all_served_def w1(4))
  qed
  with Cons.IH [of w1] Cons.prems(1) obtain w' where
    w': "forE (\<lambda>v. logged (ensureProxyFor cli origin v)) sbs w1 = (Inr (), w')" "touches (unsettled sbs) w1 w'"
      "\<forall>n s. fmlookup (st (calls w')) n = Some s \<and> is_proxy s \<longrightarrow>
        n \<in> sb_address ` set sbs \<or> fmlookup (st (calls w1)) n = Some s" by auto
  have "unsettled [sb] \<subseteq> unsettled (sb # sbs)" "unsettled sbs \<subseteq> unsettled (sb # sbs)" by (auto simp: unsettled_def)
  from transpD [OF touches_trans touches_mono [OF w1(2) this(1)] touches_mono [OF w'(2) this(2)]]
  have "touches (unsettled (sb # sbs)) w w'" .
  moreover have "n \<in> sb_address ` set (sb # sbs) \<or> fmlookup (st (calls w)) n = Some s"
    if "fmlookup (st (calls w')) n = Some s \<and> is_proxy s" for n s
    using w'(3) that by (auto simp: w1(4) split: if_splits)
  ultimately show ?case
    using w'(1) logged_done [of "ensureProxyFor cli origin sb", OF w1(1)] by (intro exI [of _ w']) simp
qed

lemma prune_bound:
  "\<forall>(n, v) \<in> set nvs. container_name v = Inr n \<and> n |\<in>| bound \<Longrightarrow>
     forE (prune_proxy cli bound) (map snd nvs) w = (Inr (), w)"
  by (induction nvs) (auto simp: prune_proxy_def)

lemma next_round:
  assumes "\<forall>n. range_ok (h_loops (Host cli) n)" and "container_daemon (sd_client (DockerInterface cli)) st"
    and "\<not> has_prefix (h_env (Host cli) ''SKUPPER_TMPDIR'') ''QDROUTERD_CONF''"
    and "keyed sb_address b" and "round_done cli origin b before (st (calls w))"
  shows "\<exists>w'. updateProxies cli origin b w = (Inr (), w') \<and>
    touches {n. \<exists>sb. fmlookup b n = Some sb \<and> \<not> settled sb} w w'"
proof -
  let ?rng = "h_loops (Host cli) (length (calls w))"
  have rng: "range_ok ?rng" using assms(1) ..
  let ?sbs = "map snd (range_of ?rng b)"
  note sbs = distinct_bindings [OF rng assms(4)]
  have bound: "\<exists>n. fmlookup b n = Some sb \<and> sb_address sb = n" if "sb \<in> set ?sbs" for sb
    using that keyedD [OF assms(4)] by (auto simp: range_of_iff [OF rng])
  have "all_served origin (st (calls w)) ?sbs"
    unfolding all_served_def
  proof
    fix sb
    assume "sb \<in> set ?sbs"
    then obtain n where "fmlookup b n = Some sb" using bound by blast
    with assms(5) [unfolded round_done_def, rule_format, of n] have "served cli origin before (st (calls w)) sb" by simp
    then show "\<exists>s t. fmlookup (st (calls w)) (sb_address sb) = Some s \<and> has_config t s \<and> proxy_text origin sb t"
      using looped_proxy_text [OF assms(1)] unfolding served_def by blast
  qed
  from served_ensure_all [OF assms(1-3) sbs(1) this] obtain w1 where
    w1: "forE (\<lambda>v. logged (ensureProxyFor cli origin v)) ?sbs w = (Inr (), w1)" "touches (unsettled ?sbs) w w1"
      "\<forall>n s. fmlookup (st (calls w1)) n = Some s \<and> is_proxy s \<longrightarrow>
        n |\<in>| fmdom b \<or> fmlookup (st (calls w)) n = Some s" unfolding sbs(2) by blast
  have only: "n |\<in>| fmdom b" if "fmlookup (st (calls w1)) n = Some s" "is_proxy s" for n s
  proof (rule ccontr)
    assume none: "n |\<notin>| fmdom b"
    with w1(3) that have "fmlookup (st (calls w)) n = Some s" by blast
    with assms(5) [unfolded round_done_def, rule_format, of n] none that(2) show False
      by (auto simp: fmdom_notD split: option.splits if_splits)
  qed
  from daemon_proxies [OF assms(2), of w1] obtain P w2 where
    P: "getProxies (DockerInterface cli) w1 = (Inr P, w2)"
      "\<forall>n. n |\<in>| fmdom P \<longleftrightarrow> (\<exists>s. fmlookup (st (calls w1)) n = Some s \<and> is_proxy s)"
      "\<forall>n v. fmlookup P n = Some v \<longrightarrow> container_name v = Inr n" by blast
  let ?rng2 = "h_loops (Host cli) (length (calls w2))"
  have rng2: "range_ok ?rng2" using assms(1) ..
  have "\<forall>(n, v) \<in> set (range_of ?rng2 P). container_name v = Inr n \<and> n |\<in>| fmdom b"
  proof -
    have "n |\<in>| fmdom b" if "n |\<in>| fmdom P" for n using that P(2) only by blast
    then show ?thesis using P(3) by (auto simp: range_of_iff [OF rng2] fmdomI)
  qed
  from prune_bound [OF this] have "updateProxies cli origin b w = (Inr (), w2)"
    using w1(1) P(1) by (simp add: updateProxies_def in_order_def)
  moreover have "unsettled ?sbs \<subseteq> {n. \<exists>sb. fmlookup b n = Some sb \<and> \<not> settled sb}"
    using bound unfolding unsettled_def by blast
  from transpD [OF touches_trans touches_mono [OF w1(2) this] keepsD [OF touches_proxies P(1)]]
  have "touches {n. \<exists>sb. fmlookup b n = Some sb \<and> \<not> settled sb} w w2" .
  ultimately show ?thesis by blast
qed

text \<open>
  C2 (refinement). One round of \<open>updateProxies\<close> against a daemon that keeps its promises, when no container
  that is not a proxy has the name of a service, and in whatever order each loop visits its map: every set of bindings
  then has a proxy container with a configuration generated from it, and the container runs, unless it was there
  before with just this configuration, when it is left as it was; every proxy without bindings is gone, and every other
  container is as it was.
\<close>

theorem updateProxies_reconciles:
  assumes "\<forall>n. range_ok (h_loops (Host cli) n)" and "container_daemon (sd_client (DockerInterface cli)) st"
    and "\<not> has_prefix (h_env (Host cli) ''SKUPPER_TMPDIR'') ''QDROUTERD_CONF''"
    and "keyed sb_address b"
    and "\<forall>n s. n |\<in>| fmdom b \<and> fmlookup (st (calls w)) n = Some s \<longrightarrow> is_proxy s"
  shows "\<exists>w'. updateProxies cli origin b w = (Inr (), w') \<and>
    (\<forall>n. case fmlookup b n of
       Some sb \<Rightarrow> \<exists>s r r'. fmlookup (st (calls w')) n = Some s \<and> is_proxy s \<and> range_ok r \<and> range_ok r' \<and>
         FindEnvVar (cs_env s) ''QDROUTERD_CONF'' = config_text r' (asServiceInterface r sb) origin \<and>
         (cs_running s \<or> fmlookup (st (calls w)) n = Some s)
     | None \<Rightarrow> fmlookup (st (calls w')) n =
         (case fmlookup (st (calls w)) n of
            Some s \<Rightarrow> if is_proxy s then None else Some s
          | None \<Rightarrow> None))"
proof -
  from reconcile_round [OF assms, of origin] obtain w' where
    w': "updateProxies cli origin b w = (Inr (), w')" "round_done cli origin b (st (calls w)) (st (calls w'))" by blast
  have "\<exists>s r r'. fmlookup (st (calls w')) n = Some s \<and> is_proxy s \<and> range_ok r \<and> range_ok r' \<and>
      FindEnvVar (cs_env s) ''QDROUTERD_CONF'' = config_text r' (asServiceInterface r sb) origin \<and>
      (cs_running s \<or> fmlookup (st (calls w)) n = Some s)" if "fmlookup b n = Some sb" for n sb
  proof -
    have "served cli origin (st (calls w)) (st (calls w')) sb" "sb_address sb = n"
      using w'(2) [unfolded round_done_def, rule_format, of n] keyedD [OF assms(4) that] that by simp_all
    then show ?thesis using looped_proxy_text [OF assms(1)] unfolding served_def has_config_def proxy_text_def by metis
  qed
  note present = this
  show ?thesis
  proof (intro exI [of _ w'] conjI allI w'(1))
    fix n
    show "case fmlookup b n of
       Some sb \<Rightarrow> \<exists>s r r'. fmlookup (st (calls w')) n = Some s \<and> is_proxy s \<and> range_ok r \<and> range_ok r' \<and>
         FindEnvVar (cs_env s) ''QDROUTERD_CONF'' = config_text r' (asServiceInterface r sb) origin \<and>
         (cs_running s \<or> fmlookup (st (calls w)) n = Some s)
     | None \<Rightarrow> fmlookup (st (calls w')) n =
         (case fmlookup (st (calls w)) n of Some s \<Rightarrow> if is_proxy s then None else Some s | None \<Rightarrow> None)"
      using present [of n] w'(2) [unfolded round_done_def, rule_format, of n] by (cases "fmlookup b n") simp_all
  qed
qed

text \<open>
  C19 (termination). Reconciliation settles after one round, but for the order of the runtime's loops: a second round
  right after the first, in whatever orders, creates, starts, stops and removes no container, except proxies of
  services of this site with more than one target.
\<close>

theorem second_round_settles:
  assumes "\<forall>n. range_ok (h_loops (Host cli) n)" and "container_daemon (sd_client (DockerInterface cli)) st"
    and "\<not> has_prefix (h_env (Host cli) ''SKUPPER_TMPDIR'') ''QDROUTERD_CONF''"
    and "keyed sb_address b"
    and "\<forall>n s. n |\<in>| fmdom b \<and> fmlookup (st (calls w)) n = Some s \<longrightarrow> is_proxy s"
  shows "\<exists>w1 w2 made. updateProxies cli origin b w = (Inr (), w1) \<and> updateProxies cli origin b w1 = (Inr (), w2) \<and>
    calls w2 = calls w1 @ made \<and>
    (\<forall>rq \<in> set made. changes_containers (rq_call rq) \<longrightarrow>
       (\<exists>n sb. changes (rq_call rq) = Some n \<and> fmlookup b n = Some sb \<and> sb_origin sb = [] \<and> fcard (fmdom (sb_targets sb)) > 1))"
proof -
  from reconcile_round [OF assms, of origin] obtain w1 where
    w1: "updateProxies cli origin b w = (Inr (), w1)" "round_done cli origin b (st (calls w)) (st (calls w1))" by blast
  from next_round [OF assms(1-4) w1(2)] obtain w2 made where
    w2: "updateProxies cli origin b w1 = (Inr (), w2)" "calls w2 = calls w1 @ made"
      "\<forall>rq \<in> set made. \<forall>n. changes (rq_call rq) = Some n \<longrightarrow> (\<exists>sb. fmlookup b n = Some sb \<and> \<not> settled sb)"
    unfolding touches_def by auto
  show ?thesis
    using w1(1) w2 by (intro exI [of _ w1] exI [of _ w2] exI [of _ made])
      (auto simp: changes_containers_iff settled_def not_le)
qed

text \<open>
  C28 (error). \<open>ensureProxyFor\<close> compares texts, not configurations. For a tcp service of this site with two targets: a
  proxy that runs with the text of one order of the loops is stopped, removed and created anew when the next
  pass takes the reverse order, although the old and the new text are read as the same configuration.
\<close>

theorem order_recreates_proxy:
  assumes "container_daemon (sd_client (DockerInterface cli)) st"
    and "\<not> has_prefix (h_env (Host cli) ''SKUPPER_TMPDIR'') ''QDROUTERD_CONF''"
    and "sb_protocol sb = ''tcp''" and "sb_origin sb = []" and "distinct_hosts sb"
    and "fmlookup (sb_targets sb) k1 = Some t1" and "fmlookup (sb_targets sb) k2 = Some t2" and "k1 \<noteq> k2"
    and "target_host (binding_target t1) = Some h1" and "target_host (binding_target t2) = Some h2"
    and "fmlookup (st (calls w)) (sb_address sb) = Some s" and "is_proxy s"
    and "FindEnvVar (cs_env s) ''QDROUTERD_CONF'' = config_text rng_up (asServiceInterface rng_up sb) origin"
    and "\<forall>n. h_loops (Host cli) n = rng_down"
  shows "\<exists>w' made s' config. ensureProxyFor cli origin sb w = (Inr (), w') \<and> calls w' = calls w @ made \<and>
    ContainerRemove (sb_address sb) \<in> rq_call ` set made \<and>
    fmlookup (st (calls w')) (sb_address sb) = Some s' \<and> cs_running s' \<and>
    FindEnvVar (cs_env s') ''QDROUTERD_CONF'' \<noteq> FindEnvVar (cs_env s) ''QDROUTERD_CONF'' \<and>
    UnmarshalRouterConfig (FindEnvVar (cs_env s') ''QDROUTERD_CONF'') = Inr config \<and>
    UnmarshalRouterConfig (FindEnvVar (cs_env s) ''QDROUTERD_CONF'') = Inr config"
proof -
  note texts = two_targets_two_texts [OF assms(3-10), of origin]
  have "\<forall>s. fmlookup (st (calls w)) (sb_address sb) = Some s \<longrightarrow> is_proxy s" using assms(11,12) by simp
  from daemon_ensure [OF assms(1,2) this, of origin] obtain w' s' t where
    w': "ensureProxyFor cli origin sb w = (Inr (), w')" "looped_text cli origin sb t" "has_config t s'"
      "st (calls w') = fmupd (sb_address sb) s' (st (calls w))" and
    out: "fmlookup (st (calls w)) (sb_address sb) = Some s' \<or>
     cs_running s' \<and>
     (\<forall>s0. fmlookup (st (calls w)) (sb_address sb) = Some s0 \<longrightarrow>
        FindEnvVar (cs_env s0) ''QDROUTERD_CONF'' \<noteq> t \<and>
        (\<exists>made. calls w' = calls w @ made \<and> ContainerRemove (sb_address sb) \<in> rq_call ` set made))" by blast
  have t: "t = config_text rng_down (asServiceInterface rng_down sb) origin"
    using w'(2) assms(14) by (simp add: looped_text_def)
  have env: "FindEnvVar (cs_env s') ''QDROUTERD_CONF'' = t" using w'(3) by (simp add: has_config_def)
  have "fmlookup (st (calls w)) (sb_address sb) \<noteq> Some s'" using env assms(11,13) texts(1) t by auto
  with out assms(11) obtain made where
    "cs_running s'" "calls w' = calls w @ made" "ContainerRemove (sb_address sb) \<in> rq_call ` set made" by blast
  then show ?thesis using w'(1,4) texts texts(1) [symmetric]
    by (intro exI [of _ w'] exI [of _ made] exI [of _ s']) (auto simp: env [unfolded t] assms(13))
qed

section \<open>A daemon that keeps the promises\<close>

definition sim_container_state :: "sim_container \<Rightarrow> container_state" where
  "sim_container_state c =
     \<lparr>cs_env = cc_Env (cr_Config (sim_created c)), cs_labels = fmdom (cc_Labels (cr_Config (sim_created c))),
      cs_running = sim_running c\<rparr>"

definition sim_state :: "sim \<Rightarrow> daemon_state" where
  "sim_state s hist = fmmap sim_container_state (sim_run s hist)"

lemma fmmap_fmupd: "fmmap f (fmupd k v m) = fmupd k (f v) (fmmap f m)"
  by (rule fmap_ext) simp

lemma sorted_list_of_fmap_iff: "(k, v) \<in> set (sorted_list_of_fmap m) \<longleftrightarrow> fmlookup m k = Some v"
  by (auto simp: sorted_list_of_fmap_def fmlookup_dom_iff)

lemma sim_list_promise: "list_promise (sim_api s) (sim_state s)"
  unfolding list_promise_def
proof (intro allI)
  fix hist labels ctx
  let ?keep = "\<lambda>(n, c). list_all (\<lambda>l. l |\<in>| fmdom (cc_Labels (cr_Config (sim_created c)))) labels"
  let ?cs = "map sim_summary (filter ?keep (sorted_list_of_fmap (sim_run s hist)))"
  have names: "\<forall>c \<in> set ?cs. \<exists>n ns. ct_Names c = (''/'' @ n) # ns" by (auto simp: sim_summary_def)
  have "(\<exists>c \<in> set ?cs. hd (ct_Names c) = ''/'' @ n) \<longleftrightarrow>
      (\<exists>t. fmlookup (sim_state s hist) n = Some t \<and> set labels \<subseteq> fset (cs_labels t))" for n
    by (auto simp: sim_summary_def sim_state_def sim_container_state_def sorted_list_of_fmap_iff list_all_iff)
  with names show "\<exists>cs. api_list (sim_api s) (hist @ [\<lparr>rq_call = ContainerList \<lparr>lo_All = True, lo_Labels = labels\<rparr>, rq_context = ctx\<rparr>]) = Inr cs \<and>
      (\<forall>c \<in> set cs. \<exists>n ns. ct_Names c = (''/'' @ n) # ns) \<and>
      {n. \<exists>c \<in> set cs. hd (ct_Names c) = ''/'' @ n} =
        {n. \<exists>t. fmlookup (sim_state s hist) n = Some t \<and> set labels \<subseteq> fset (cs_labels t)}"
    by (intro exI [of _ ?cs]) simp
qed

lemma sim_unit_promise:
  assumes "\<And>m n c. fmlookup m n = Some c \<Longrightarrow> ready (sim_container_state c) \<Longrightarrow>
    sim_unit (call n) m = Inr () \<and>
    fmmap sim_container_state (sim_step (call n) m) = change n (sim_container_state c) (fmmap sim_container_state m)"
  shows "unit_promise (sim_api s) (sim_state s) call ready change"
  unfolding unit_promise_def
proof (intro allI impI)
  fix hist n t ctx
  assume t: "fmlookup (sim_state s hist) n = Some t \<and> ready t"
  then obtain c where c: "fmlookup (sim_run s hist) n = Some c" "t = sim_container_state c" by (auto simp: sim_state_def)
  from assms [OF c(1)] t c(2) show "api_unit (sim_api s) (hist @ [\<lparr>rq_call = call n, rq_context = ctx\<rparr>]) = Inr () \<and>
      sim_state s (hist @ [\<lparr>rq_call = call n, rq_context = ctx\<rparr>]) = change n t (sim_state s hist)"
    by (simp add: sim_state_def)
qed


lemma sim_create_promise: "create_promise (sim_api s) (sim_state s)"
  unfolding create_promise_def
proof (intro allI impI)
  fix hist ctx and c :: ContainerCreateConfig
  assume "cr_Name c |\<notin>| fmdom (sim_state s hist)"
  then show "\<exists>i t. api_create (sim_api s) (hist @ [\<lparr>rq_call = ContainerCreate c, rq_context = ctx\<rparr>]) = Inr i \<and>
      created_as c t \<and>
      sim_state s (hist @ [\<lparr>rq_call = ContainerCreate c, rq_context = ctx\<rparr>]) = fmupd (cr_Name c) t (sim_state s hist)"
    by (intro exI [of _ "cr_Name c"] exI [of _ "sim_container_state \<lparr>sim_created = c, sim_running = False\<rparr>"])
      (simp add: sim_state_def created_as_def sim_container_state_def fmmap_fmupd)
qed

lemma sim_daemon: "container_daemon (sim_api s) (sim_state s)"
  unfolding container_daemon_def
proof (intro conjI allI impI)
  fix hist :: "request list" and rq and p t
  show "api_context (sim_api s) hist = NoContextError" by simp
  show "\<exists>os. api_os (sim_api s) hist = Inr os" by simp
  show "\<exists>cs. api_network (sim_api s) hist = Inr cs" by (simp add: sim_answer_def sim_network_def)
  show "api_unit (sim_api s) hist \<noteq> Inl (Panic p)"
    by (cases "rq_call (last hist)") (simp_all add: sim_answer_def no_such_def split: option.split)
  show "\<not> changes_containers (rq_call rq) \<Longrightarrow> sim_state s (hist @ [rq]) = sim_state s hist"
    by (cases "rq_call rq") (simp_all add: sim_state_def)
  show "create_promise (sim_api s) (sim_state s)" by (rule sim_create_promise)
  show "list_promise (sim_api s) (sim_state s)" by (rule sim_list_promise)
  show "inspect_promise (sim_api s) (sim_state s)"
    by (auto simp: inspect_promise_def sim_state_def sim_json_def sim_container_state_def)
  show "unit_promise (sim_api s) (sim_state s) ContainerStart (\<lambda>_. True) (\<lambda>n s. fmupd n (s\<lparr>cs_running := True\<rparr>))"
    by (rule sim_unit_promise) (simp add: sim_container_state_def fmmap_fmupd fmlookup_dom_iff)
  show "unit_promise (sim_api s) (sim_state s) (\<lambda>n. ContainerStop n t) (\<lambda>_. True) (\<lambda>n s. fmupd n (s\<lparr>cs_running := False\<rparr>))"
    by (rule sim_unit_promise) (simp add: sim_container_state_def fmmap_fmupd fmlookup_dom_iff)
  show "unit_promise (sim_api s) (sim_state s) ContainerRemove (\<lambda>s. \<not> cs_running s) (\<lambda>n s. fmdrop n)"
    by (rule sim_unit_promise) (simp add: sim_container_state_def)
qed

text \<open>In the witness the proxy \<open>old\<close> has lost its service, and \<open>db\<close> has none yet.\<close>

definition old_proxy :: sim_container where
  "old_proxy =
     \<lparr>sim_created = getProxyContainerCreateConfig (h_env sample_host) (sample_service\<lparr>si_Address := ''old''\<rparr>) ''x'' False ''linux'',
      sim_running = True\<rparr>"

definition proxies_cli :: VanClient where
  "proxies_cli = \<lparr>DockerInterface = sim_client (fmupd ''old'' old_proxy (fmupd ''pg1'' sample_router fmempty)), Host = sample_host\<rparr>"

definition db_bindings :: "ServiceBindings gomap" where
  "db_bindings = fmupd ''db'' (new_bindings sample_service) fmempty"

text \<open>A service with one target, and one of another site.\<close>

definition api_bindings :: "ServiceBindings gomap" where
  "api_bindings = fmupd ''api'' (new_bindings (sample_service\<lparr>si_Address := ''api'', si_Targets := [hd (si_Targets sample_service)]\<rparr>))
     (fmupd ''web'' (new_bindings (sample_service\<lparr>si_Address := ''web'', si_Origin := ''east''\<rparr>)) fmempty)"

lemma new_bindings_fields [simp]:
  "sb_address (new_bindings d) = si_Address d" "sb_origin (new_bindings d) = si_Origin d"
  "sb_protocol (new_bindings d) = si_Protocol d"
  "sb_targets (new_bindings d) = fold (new_target_entry d) (si_Targets d) fmempty"
  by (simp_all add: new_bindings_def newServiceBindings_def Let_def)

lemma sample_loops: "range_ok (h_loops sample_host n)"
  by (simp add: sample_host_def)

lemma proxies_setting:
  "\<forall>n. range_ok (h_loops (Host proxies_cli) n)"
  "\<not> has_prefix (h_env (Host proxies_cli) ''SKUPPER_TMPDIR'') ''QDROUTERD_CONF''"
  "keyed sb_address db_bindings" "keyed sb_address api_bindings"
  "\<forall>n s. n |\<in>| fmdom db_bindings \<and>
    fmlookup (sim_state (fmupd ''old'' old_proxy (fmupd ''pg1'' sample_router fmempty)) (calls sample_world)) n = Some s \<longrightarrow>
    is_proxy s"
  "\<forall>n s. n |\<in>| fmdom api_bindings \<and>
    fmlookup (sim_state (fmupd ''old'' old_proxy (fmupd ''pg1'' sample_router fmempty)) (calls sample_world)) n = Some s \<longrightarrow>
    is_proxy s"
proof -
  show "keyed sb_address db_bindings" unfolding db_bindings_def by (intro keyed_rules) simp
  show "keyed sb_address api_bindings" unfolding api_bindings_def by (intro keyed_rules) simp_all
  show "\<forall>n. range_ok (h_loops (Host proxies_cli) n)" using sample_loops by (simp add: proxies_cli_def)
  show "\<forall>n s. n |\<in>| fmdom api_bindings \<and>
      fmlookup (sim_state (fmupd ''old'' old_proxy (fmupd ''pg1'' sample_router fmempty)) (calls sample_world)) n = Some s \<longrightarrow>
      is_proxy s"
    by (auto simp: api_bindings_def sim_state_def sample_world_def split: if_splits)
qed (simp_all add: proxies_cli_def sample_host_def has_prefix_def db_bindings_def sim_state_def sample_world_def)

lemma updateProxies_reconciles_witness:
  "\<exists>w' s. updateProxies proxies_cli ''west'' db_bindings sample_world = (Inr (), w') \<and>
    fmlookup (sim_state (fmupd ''old'' old_proxy (fmupd ''pg1'' sample_router fmempty)) (calls w')) ''db'' = Some s \<and>
    cs_running s \<and>
    fmlookup (sim_state (fmupd ''old'' old_proxy (fmupd ''pg1'' sample_router fmempty)) (calls w')) ''old'' = None"
proof -
  let ?s = "fmupd ''old'' old_proxy (fmupd ''pg1'' sample_router fmempty)"
  have daemon: "container_daemon (sd_client (DockerInterface proxies_cli)) (sim_state ?s)"
    by (simp add: proxies_cli_def sim_daemon)
  have old: "is_proxy (sim_container_state old_proxy)"
    by (simp add: is_proxy_def sim_container_state_def old_proxy_def getProxyContainerCreateConfig_def getLabels_def Let_def)
  note round = updateProxies_reconciles [OF proxies_setting(1) daemon proxies_setting(2,3,5), of "''west''"]
  have "fmlookup db_bindings ''db'' = Some (new_bindings sample_service)" "fmlookup db_bindings ''old'' = None"
    "fmlookup (sim_state ?s (calls sample_world)) ''old'' = Some (sim_container_state old_proxy)"
    "fmlookup (sim_state ?s (calls sample_world)) ''db'' = None"
    by (simp_all add: db_bindings_def sim_state_def sample_world_def)
  note facts = this
  from round obtain w' where
    run: "updateProxies proxies_cli ''west'' db_bindings sample_world = (Inr (), w')" and
    out: "\<forall>n. case fmlookup db_bindings n of
       Some sb \<Rightarrow> \<exists>s r r'. fmlookup (sim_state ?s (calls w')) n = Some s \<and> is_proxy s \<and> range_ok r \<and> range_ok r' \<and>
         FindEnvVar (cs_env s) ''QDROUTERD_CONF'' = config_text r' (asServiceInterface r sb) ''west'' \<and>
         (cs_running s \<or> fmlookup (sim_state ?s (calls sample_world)) n = Some s)
     | None \<Rightarrow> fmlookup (sim_state ?s (calls w')) n =
         (case fmlookup (sim_state ?s (calls sample_world)) n of Some s \<Rightarrow> if is_proxy s then None else Some s | None \<Rightarrow> None)"
    by blast
  have db: "\<exists>s. fmlookup (sim_state ?s (calls w')) ''db'' = Some s \<and>
      (cs_running s \<or> fmlookup (sim_state ?s (calls sample_world)) ''db'' = Some s)"
    using out [rule_format, of "''db''"] unfolding facts(1) option.case by blast
  have gone: "fmlookup (sim_state ?s (calls w')) ''old'' =
      (case fmlookup (sim_state ?s (calls sample_world)) ''old'' of
         Some s \<Rightarrow> if is_proxy s then None else Some s | None \<Rightarrow> None)"
    using out [rule_format, of "''old''"] unfolding facts(2) option.case .
  show ?thesis using run db gone old facts(3,4) by auto
qed

lemma second_round_settles_witness:
  "\<exists>w1 w2. updateProxies proxies_cli ''west'' api_bindings sample_world = (Inr (), w1) \<and>
    updateProxies proxies_cli ''west'' api_bindings w1 = (Inr (), w2) \<and>
    (\<exists>made. calls w2 = calls w1 @ made \<and> list_all (\<lambda>rq. \<not> changes_containers (rq_call rq)) made)"
proof -
  have daemon: "container_daemon (sd_client (DockerInterface proxies_cli))
      (sim_state (fmupd ''old'' old_proxy (fmupd ''pg1'' sample_router fmempty)))"
    by (simp add: proxies_cli_def sim_daemon)
  have small: "sb_origin sb \<noteq> [] \<or> fcard (fmdom (sb_targets sb)) \<le> 1" if "fmlookup api_bindings n = Some sb" for n sb
    using that by (auto simp: api_bindings_def sample_service_def new_target_entry_def split: if_splits)
  from second_round_settles [OF proxies_setting(1) daemon proxies_setting(2,4,6), of "''west''"] obtain w1 w2 made where
    run: "updateProxies proxies_cli ''west'' api_bindings sample_world = (Inr (), w1)"
      "updateProxies proxies_cli ''west'' api_bindings w1 = (Inr (), w2)" "calls w2 = calls w1 @ made" and
    made: "\<forall>rq \<in> set made. changes_containers (rq_call rq) \<longrightarrow>
       (\<exists>n sb. changes (rq_call rq) = Some n \<and> fmlookup api_bindings n = Some sb \<and> sb_origin sb = [] \<and> fcard (fmdom (sb_targets sb)) > 1)"
    by blast
  have "list_all (\<lambda>rq. \<not> changes_containers (rq_call rq)) made"
    using made small unfolding list_all_iff by (metis not_le)
  then show ?thesis using run by blast
qed

text \<open>The witness: the proxy of \<open>db\<close> runs, and the next pass takes the other order.\<close>

definition db_proxy :: sim_container where
  "db_proxy =
     \<lparr>sim_created = with_shm (getProxyContainerCreateConfig (h_env sample_host) sample_service
        (config_text rng_up (asServiceInterface rng_up (new_bindings sample_service)) ''west'') False ''linux''),
      sim_running = True\<rparr>"

definition down_cli :: VanClient where
  "down_cli = \<lparr>DockerInterface = sim_client (fmupd ''db'' db_proxy fmempty), Host = sample_host\<lparr>h_loops := \<lambda>_. rng_down\<rparr>\<rparr>"

lemma db_proxy_serves:
  "has_config (config_text rng_up (asServiceInterface rng_up (new_bindings sample_service)) ''west'') (sim_container_state db_proxy)"
proof -
  let ?t = "config_text rng_up (asServiceInterface rng_up (new_bindings sample_service)) ''west''"
  let ?c = "with_shm (getProxyContainerCreateConfig (h_env sample_host) sample_service ?t False ''linux'')"
  have "created_as ?c (sim_container_state \<lparr>sim_created = ?c, sim_running = False\<rparr>)"
    by (simp add: created_as_def sim_container_state_def)
  from created_serves [OF this] show ?thesis
    by (simp add: has_config_def is_proxy_def sim_container_state_def db_proxy_def sample_host_def has_prefix_def)
qed

lemma order_recreates_proxy_witness:
  "\<exists>w' made. ensureProxyFor down_cli ''west'' (new_bindings sample_service) sample_world = (Inr (), w') \<and>
    calls w' = made \<and> ContainerRemove ''db'' \<in> rq_call ` set made"
proof -
  let ?sb = "new_bindings sample_service" and ?st = "sim_state (fmupd ''db'' db_proxy fmempty)"
  let ?pg = "\<lambda>n p. \<lparr>eb_name = n, eb_selector = container_selector, eb_service = [], eb_egressPort = p\<rparr>"
  have daemon: "container_daemon (sd_client (DockerInterface down_cli)) ?st" by (simp add: down_cli_def sim_daemon)
  have env: "\<not> has_prefix (h_env (Host down_cli) ''SKUPPER_TMPDIR'') ''QDROUTERD_CONF''"
    by (simp add: down_cli_def sample_host_def has_prefix_def)
  have sb: "sb_protocol ?sb = ''tcp''" "sb_origin ?sb = []" "sb_address ?sb = ''db''"
    "sb_targets ?sb = fmupd ''db@pg2'' (?pg ''pg2'' 6432) (fmupd ''db@pg1'' (?pg ''pg1'' 0) fmempty)"
    by (simp_all add: sample_service_def zero_ServiceInterface_def zero_ServiceInterfaceTarget_def new_target_entry_def target_key_def)
  have hosts: "target_host (binding_target (?pg n p)) = Some n" for n p
    by (simp add: target_host_def binding_target_def)
  have distinct: "distinct_hosts ?sb" unfolding distinct_hosts_def sb(4) by (auto simp: hosts split: if_splits)
  have there: "fmlookup (?st (calls sample_world)) (sb_address ?sb) = Some (sim_container_state db_proxy)"
    unfolding sb(3) by (simp add: sim_state_def sample_world_def)
  have config: "is_proxy (sim_container_state db_proxy)" "FindEnvVar (cs_env (sim_container_state db_proxy)) ''QDROUTERD_CONF'' =
      config_text rng_up (asServiceInterface rng_up ?sb) ''west''"
    using db_proxy_serves by (simp_all add: has_config_def)
  have loops: "\<forall>n. h_loops (Host down_cli) n = rng_down" by (simp add: down_cli_def)
  have targets: "fmlookup (sb_targets ?sb) ''db@pg1'' = Some (?pg ''pg1'' 0)"
    "fmlookup (sb_targets ?sb) ''db@pg2'' = Some (?pg ''pg2'' 6432)" "''db@pg1'' \<noteq> ''db@pg2''" unfolding sb(4) by simp_all
  from order_recreates_proxy [OF daemon env sb(1,2) distinct targets hosts hosts there config loops]
  show ?thesis unfolding sb(3) by (auto simp: sample_world_def)
qed

end
