(* ===== verification/ControllerRuns.thy ===== *)
theory ControllerRuns
  imports Reconcile
begin

text \<open>
  The controller's life as a step relation: messages, changes of the services file by the client, file
  events and ageing ticks, in any order and at any time, each handler run to its end.
\<close>

section \<open>Steps\<close>

text \<open>What the client's commands do to the file (\<open>ServiceInterfaces\<close>): the definitions stay keyed and readable, and
  the only ones that carry an origin are ones that were there.\<close>

definition client_edit :: "service_defs \<Rightarrow> service_defs \<Rightarrow> bool" where
  "client_edit m m' \<longleftrightarrow> keyed si_Address m' \<and> defs_ok m' \<and>
     (\<forall>a s. fmlookup m' a = Some s \<and> si_Origin s \<noteq> [] \<longrightarrow> (\<exists>s0. fmlookup m a = Some s0 \<and> si_Origin s0 = si_Origin s))"

inductive controller_step :: "VanClient \<Rightarrow> site \<Rightarrow> site \<Rightarrow> bool" for cli where
  message: "handle_message (Host cli) now msg s = (Inr (), s') \<Longrightarrow> controller_step cli s s'"
| file_event: "processServiceDefs cli s = (Inr (), s') \<Longrightarrow> controller_step cli s s'"
| watcher_start: "runServiceDefsWatcher cli now s = (Inr (), s') \<Longrightarrow> controller_step cli s s'"
| ageing: "age_tick (Host cli) now s = (r, s') \<Longrightarrow> controller_step cli s s'"
| edit: "controller_view (Host cli) w = Some m \<Longrightarrow> client_edit m m' \<Longrightarrow>
    controller_store (Host cli) m' w = (Inr (), w') \<Longrightarrow> controller_step cli (c, w) (c, w')"

inductive_cases controller_stepE: "controller_step cli s s'"

inductive reachable_site :: "VanClient \<Rightarrow> string \<Rightarrow> site \<Rightarrow> bool" for cli origin where
  start: "wf_fs (files w) \<Longrightarrow> controller_view (Host cli) w = Some m \<Longrightarrow> keyed si_Address m \<Longrightarrow>
    \<forall>a s. fmlookup m a = Some s \<longrightarrow> si_Origin s \<noteq> origin \<Longrightarrow> reachable_site cli origin (NewController origin, w)"
| step: "reachable_site cli origin s \<Longrightarrow> controller_step cli s s' \<Longrightarrow> reachable_site cli origin s'"

section \<open>The invariant\<close>

definition own_service :: "string \<Rightarrow> ServiceInterface \<Rightarrow> bool" where
  "own_service address d \<longleftrightarrow> si_Address d = address \<and> \<not> is_remote (si_Origin d) \<and> si_Targets d = []"

definition file_inv :: "string \<Rightarrow> service_defs \<Rightarrow> bool" where
  "file_inv origin m \<longleftrightarrow> keyed si_Address m \<and> (\<forall>a s. fmlookup m a = Some s \<longrightarrow> si_Origin s \<noteq> origin)"

definition site_inv :: "VanClient \<Rightarrow> string \<Rightarrow> site \<Rightarrow> bool" where
  "site_inv cli origin s \<longleftrightarrow>
     (case s of (c, w) \<Rightarrow>
        ct_origin c = origin \<and> wf_fs (files w) \<and>
        (\<exists>m. controller_view (Host cli) w = Some m \<and> file_inv origin m) \<and>
        fmpred own_service (ct_localServices c) \<and> keyed sb_address (ct_bindings c) \<and>
        origin |\<notin>| fmdom (ct_byOrigin c))"

lemma file_inv_sub:
  assumes "file_inv origin m" and "\<And>a s. fmlookup m' a = Some s \<Longrightarrow>
    fmlookup m a = Some s \<or> (si_Address s = a \<and> si_Origin s \<noteq> origin)"
  shows "file_inv origin m'"
proof -
  have "si_Address s = a \<and> si_Origin s \<noteq> origin" if "fmlookup m' a = Some s" for a s
    using assms(2) [OF that] assms(1) keyedD [of si_Address m a s] by (auto simp: file_inv_def)
  then show ?thesis by (simp add: file_inv_def keyed_def fmpred_iff)
qed

lemma site_inv_ensure:
  assumes "range_ok (h_rng (Host cli))" and "site_inv cli own (c, w)" and "from_origin origin defs" and "defs_ok defs"
    and "origin \<noteq> own"
  shows "site_inv cli own (ensureServiceInterfaceDefinitions (Host cli) now origin defs (c, w))"
proof -
  let ?h = "Host cli"
  from assms(2) obtain m where m: "wf_fs (files w)" "controller_view ?h w = Some m" "file_inv own m" by (auto simp: site_inv_def)
  let ?m = "apply_changes (changed_defs (h_rng ?h) c origin defs) (deleted_names (h_rng ?h) c origin defs) m"
  from ensure_run [OF assms(1) m(1,2) assms(4), of now origin c] obtain c' w' where
    run: "ensureServiceInterfaceDefinitions ?h now origin defs (c, w) = (c', w')" "wf_fs (files w')"
      "controller_view ?h w' = Some ?m" "ct_localServices c' = ct_localServices c" "ct_bindings c' = ct_bindings c"
      "ct_origin c' = ct_origin c" "fmdom (ct_byOrigin c') = finsert origin (fmdom (ct_byOrigin c))" by auto
  have "file_inv own ?m"
  proof (rule file_inv_sub [OF m(3)])
    fix a s
    assume "fmlookup ?m a = Some s"
    then have "fmlookup m a = Some s \<or> fmlookup defs a = Some s"
      by (auto simp: apply_changes_lookup [OF assms(1) from_origin_known(1) [OF assms(3)]] split: if_splits option.splits)
    then show "fmlookup m a = Some s \<or> (si_Address s = a \<and> si_Origin s \<noteq> own)"
      using from_origin_known(2) [OF assms(3)] assms(5) by blast
  qed
  then show ?thesis using run assms(2,5) by (simp add: site_inv_def)
qed

lemma site_inv_message:
  assumes "range_ok (h_rng (Host cli))" and "site_inv cli own (c, w)"
    and "handle_message (Host cli) now msg (c, w) = (r, s')"
  shows "site_inv cli own s'"
proof -
  have own: "ct_origin c = own" using assms(2) by (simp add: site_inv_def)
  have upd: "site_inv cli own (handle_update (Host cli) now origin updates (c, w))" if "origin \<noteq> own" for origin updates
  proof (cases "unmarshal (dec_list dec_service zero_ServiceInterface) updates []")
    case (Inr ds)
    with site_inv_ensure [OF assms(1,2) from_origin_index index_defs_ok [OF unmarshal_list_ok [OF Inr]] that]
    show ?thesis by (simp add: handle_update_def)
  qed (use assms(2) in \<open>simp add: handle_update_def\<close>)
  show ?thesis
    using assms(2,3) own upd by (auto simp: handle_message_def split: option.splits if_splits)
qed

lemma site_inv_ageing:
  assumes "range_ok (h_rng (Host cli))" and "site_inv cli own (c, w)"
    and "age_tick (Host cli) now (c, w) = (r, s')"
  shows "site_inv cli own s'"
proof -
  let ?h = "Host cli" and ?ps = "range_of (h_rng (Host cli)) (ct_byOrigin c)"
  from assms(2) obtain m where m: "wf_fs (files w)" "controller_view ?h w = Some m" "file_inv own m" by (auto simp: site_inv_def)
  from age_loop_run [OF assms(1) m(1,2), of now c ?ps "[]"] obtain w' m' where
    run: "age_loop ?h now c ?ps [] w = (Inr (filter (expired c now) (map fst ?ps)), w')" "wf_fs (files w')"
      "controller_view ?h w' = Some m'" and
    m': "\<forall>a. fmlookup m' a = (if \<exists>origin defs. (origin, defs) \<in> set ?ps \<and> expired c now origin \<and> a |\<in>| fmdom defs
      then None else fmlookup m a)" by auto
  have "file_inv own m'" by (rule file_inv_sub [OF m(3)]) (simp add: m' split: if_splits)
  then show ?thesis
    using assms(2,3) run by (auto simp: site_inv_def age_tick_def forget_def fmlookup_dom_iff)
qed


text \<open>A file event: the definitions read, the index and the bindings.\<close>

lemma advertised_own: "fmpred own_service (ct_localServices (serviceSyncDefinitionsUpdated r m c))"
proof -
  obtain l b k where f: "fold (sync_definition r) (range_of r m) (fmempty, fmempty, ct_byOrigin c) = (l, b, k)"
    by (metis prod_cases3)
  have l: "l = upd_all si_Address
      (filter (\<lambda>s. \<not> is_remote (si_Origin s)) (map (sync_view \<circ> snd) (range_of r m))) fmempty"
    using sync_fold_latest [of r "range_of r m" fmempty fmempty "ct_byOrigin c"] f by simp
  have "own_service a d" if "fmlookup l a = Some d" for a d
    using fmlookup_upd_all_cases [OF that [unfolded l]] by (auto simp: own_service_def)
  then show ?thesis by (simp add: serviceSyncDefinitionsUpdated_def f fmpred_iff)
qed

lemma pare_dom [simp]: "range_ok r \<Longrightarrow> fmdom (pareByOrigin r s k) = fmdom k"
  by (auto simp: pareByOrigin_def find_Some_iff split: option.split)
    (metis finsert_absorb fmdomI nth_mem range_of_iff)

lemma sync_step_origins:
  assumes "range_ok r" and "si_Origin d \<noteq> own" and "own |\<notin>| fmdom k"
  shows "own |\<notin>| fmdom (snd (snd (sync_definition r (n, d) (l, b, k))))"
  using assms by (simp add: sync_definition_def Let_def)

lemma sync_origins:
  assumes "range_ok r" and "\<forall>p \<in> set ps. si_Origin (snd p) \<noteq> own" and "own |\<notin>| fmdom (snd (snd maps))"
  shows "own |\<notin>| fmdom (snd (snd (fold (sync_definition r) ps maps)))"
  using assms(2,3)
proof (induction ps arbitrary: maps)
  case (Cons p ps)
  obtain l b k n d where eq: "maps = (l, b, k)" "p = (n, d)" by (metis prod.exhaust)
  with Cons.prems sync_step_origins [OF assms(1), of d own k n l b] Cons.IH [of "sync_definition r p maps"]
  show ?case by simp
qed simp

lemma updateServiceBindings_keyed:
  "keyed sb_address b \<Longrightarrow> keyed sb_address (updateServiceBindings r b)"
  by (auto simp: updateServiceBindings_def new_bindings_def newServiceBindings_def update_bindings_def Let_def
      update_targets_frame update_fields_def intro!: keyed_upd dest: keyedD split: option.split)

lemma update_all_bindings_keyed:
  assumes "range_ok r" and "keyed sb_address b"
  shows "keyed sb_address (update_all_bindings r m b)"
proof -
  have "keyed sb_address (fold updateServiceBindings rs b)" for rs
    using assms(2) by (induction rs arbitrary: b) (simp_all add: updateServiceBindings_keyed)
  then show ?thesis by (auto simp: update_all_bindings_eq [OF assms(1)] keyed_def fmpred_iff)
qed

lemma site_inv_file:
  assumes "range_ok (h_rng (Host cli))" and "site_inv cli own (c, w)"
    and "processServiceDefs cli (c, w) = (r, s')"
  shows "site_inv cli own s'"
proof -
  let ?rng = "h_rng (Host cli)"
  from assms(2) obtain m where m: "wf_fs (files w)" "controller_view (Host cli) w = Some m" "file_inv own m" by (auto simp: site_inv_def)
  let ?c1 = "serviceSyncDefinitionsUpdated ?rng m c"
  let ?b = "update_all_bindings ?rng m (ct_bindings ?c1)"
  have load: "getServiceDefinitions (Host cli) w = (Inr m, w)"
    using controller_services.load_view [OF m(2)] by (simp add: getServiceDefinitions_def)
  obtain r2 w2 where up: "updateProxies cli (ct_origin ?c1) ?b w = (r2, w2)" by fastforce
  have s': "s' = (?c1\<lparr>ct_bindings := ?b\<rparr>, w2)"
    using assms(3) load up by (simp add: processServiceDefs_def Let_def)
  have files: "files w2 = files w" by (rule docker_onlyD(1) [OF keeps_updateProxies up])
  have same: "ct_origin ?c1 = ct_origin c" "ct_bindings ?c1 = ct_bindings c"
    by (simp_all add: serviceSyncDefinitionsUpdated_def split: prod.split)
  have local: "\<forall>p \<in> set (range_of ?rng m). si_Origin (snd p) \<noteq> own"
    using m(3) by (simp add: file_inv_def range_of_iff [OF assms(1)] Ball_def)
  have "own |\<notin>| fmdom (snd (snd (fmempty, fmempty, ct_byOrigin c)))" using assms(2) by (simp add: site_inv_def)
  from sync_origins [OF assms(1) local this] have "own |\<notin>| fmdom (ct_byOrigin ?c1)"
    by (simp add: serviceSyncDefinitionsUpdated_def split: prod.split) (metis snd_conv)
  then show ?thesis
    using assms(2) m(1,3) m(2) files same advertised_own
    by (simp add: s' site_inv_def update_all_bindings_keyed [OF assms(1)] controller_view_def services_at_files [OF files])
qed

lemma site_inv_edit:
  assumes "site_inv cli own (c, w)" and "is_remote own" and "controller_view (Host cli) w = Some m" and "client_edit m m'"
    and "controller_store (Host cli) m' w = (Inr (), w')"
  shows "site_inv cli own (c, w')"
proof -
  have ok: "defs_ok m'" using assms(4) by (simp add: client_edit_def)
  from assms(1,3) have m: "wf_fs (files w)" "file_inv own m" by (auto simp: site_inv_def)
  from controller_services.store_view [OF m(1) assms(3) ok] assms(5)
  have "controller_view (Host cli) w' = Some m'" "wf_fs (files w')" by auto
  moreover have "file_inv own m'"
    using assms(2,4) m(2) by (auto simp: file_inv_def client_edit_def is_remote_def) metis
  ultimately show ?thesis using assms(1) by (simp add: site_inv_def)
qed

lemma reachable_site_inv:
  assumes "range_ok (h_rng (Host cli))" and "is_remote origin" and "reachable_site cli origin s"
  shows "site_inv cli origin s"
  using assms(3)
proof (induction rule: reachable_site.induct)
  case (start w m)
  then show ?case by (auto simp: site_inv_def NewController_def file_inv_def)
next
  case (step s s')
  obtain c w where s: "s = (c, w)" by (cases s)
  note inv = step.IH [unfolded s]
  from step.hyps(2) show ?case
  proof (rule controller_stepE)
    fix now msg
    assume "handle_message (Host cli) now msg s = (Inr (), s')"
    then show ?thesis by (rule site_inv_message [OF assms(1) inv, folded s])
  next
    assume "processServiceDefs cli s = (Inr (), s')"
    then show ?thesis by (rule site_inv_file [OF assms(1) inv, folded s])
  next
    fix now
    assume "runServiceDefsWatcher cli now s = (Inr (), s')"
    then obtain c1 w1 where run: "processServiceDefs cli (c, w) = (Inr (), (c1, w1))"
      and s': "s' = (hear_known (h_rng (Host cli)) now c1, w1)"
      by (auto simp: s runServiceDefsWatcher_def bindE_Inr_iff)
    from site_inv_file [OF assms(1) inv run] show ?thesis by (simp add: s' site_inv_def hear_known_def)
  next
    fix now r
    assume "age_tick (Host cli) now s = (r, s')"
    then show ?thesis by (rule site_inv_ageing [OF assms(1) inv, folded s])
  next
    fix w0 m m' w' c0
    assume "s = (c0, w0)" "s' = (c0, w')" "controller_view (Host cli) w0 = Some m" "client_edit m m'"
      "controller_store (Host cli) m' w0 = (Inr (), w')"
    then show ?thesis using site_inv_edit [OF inv assms(2)] s by auto
  qed
qed


text \<open>
  C5 (invariant). Whatever messages, ticks, file events and client commands a controller has seen, in
  whatever order: the services file can be read, every definition in it is stored under its own address, and none
  carries this site's own origin, so that no update is ever taken for this site's; the services that would be
  advertised are this site's own, without their targets; and every set of bindings is stored under its own address.
\<close>

theorem reachable_site_invariant:
  assumes "range_ok (h_rng (Host cli))" and "is_remote origin" and "reachable_site cli origin (c, w)"
  shows "ct_origin c = origin \<and>
    (\<exists>m. controller_view (Host cli) w = Some m \<and>
       fmpred (\<lambda>a s. si_Address s = a \<and> si_Origin s \<noteq> origin) m) \<and>
    fmpred (\<lambda>a d. si_Address d = a \<and> \<not> is_remote (si_Origin d) \<and> si_Targets d = []) (ct_localServices c) \<and>
    fmpred (\<lambda>a sb. sb_address sb = a) (ct_bindings c)"
proof -
  have inv: "site_inv cli origin (c, w)" by (rule reachable_site_inv [OF assms])
  then obtain m where m: "controller_view (Host cli) w = Some m" "file_inv origin m" by (auto simp: site_inv_def)
  have "fmpred (\<lambda>a s. si_Address s = a \<and> si_Origin s \<noteq> origin) m"
    using m(2) by (auto simp: file_inv_def keyed_def fmpred_iff)
  moreover have "own_service = (\<lambda>a d. si_Address d = a \<and> \<not> is_remote (si_Origin d) \<and> si_Targets d = [])"
    by (simp add: own_service_def fun_eq_iff)
  ultimately show ?thesis using inv m(1) by (simp add: site_inv_def keyed_def)
qed

text \<open>The witness: the controller of \<open>west\<close> starts on its file, handles an update of \<open>east\<close> and then ages.\<close>

lemma reachable_site_invariant_witness:
  "\<exists>c w. reachable_site sample_cli ''west'' (c, w) \<and> ct_heardFrom c = fmupd ''east'' 5 fmempty \<and>
    fmpred (\<lambda>a sb. sb_address sb = a) (ct_bindings c)"
proof -
  have host: "Host sample_cli = sample_host" by (simp add: sample_cli_def)
  have start: "reachable_site sample_cli ''west'' (NewController ''west'', controller_world)"
  proof (rule reachable_site.start [OF wf_controller_world _ keyed_stored])
    show "controller_view (Host sample_cli) controller_world = Some stored_defs" by (simp add: host controller_world_view)
    show "\<forall>a s. fmlookup stored_defs a = Some s \<longrightarrow> si_Origin s \<noteq> ''west''" by auto
  qed
  let ?defs = "index_defs ''east'' []"
  have ok: "defs_ok ?defs" by (simp add: index_defs_def keyed_rules)
  have rng: "range_ok (h_rng sample_host)" by simp
  from ensure_run [OF rng wf_controller_world controller_world_view ok, of 5 "''east''" "NewController ''west''"]
  obtain c w where run: "ensureServiceInterfaceDefinitions sample_host 5 ''east'' ?defs (NewController ''west'', controller_world) = (c, w)"
    "ct_heardFrom c = fmupd ''east'' 5 fmempty" by (auto simp: NewController_def)
  have "unmarshal (dec_list dec_service zero_ServiceInterface) (marshal (enc_list enc_service) []) [] = Inr []"
    by (rule service.list_text_round_trip) simp
  then have "handle_message sample_host 5 (update_message ''east'' (marshal (enc_list enc_service) []))
      (NewController ''west'', controller_world) = (Inr (), (c, w))"
    using run(1) by (simp add: handle_message_def update_message_def handle_update_def NewController_def)
  then have "reachable_site sample_cli ''west'' (c, w)"
    using reachable_site.step [OF start controller_step.message] host by metis
  moreover from reachable_site_invariant [OF _ _ this] have "fmpred (\<lambda>a sb. sb_address sb = a) (ct_bindings c)"
    by (simp add: host is_remote_def)
  ultimately show ?thesis using run(2) by blast
qed

end
