(* ===== verification/Workers.thy ===== *)
theory Workers
  imports ControllerRuns
begin

text \<open>
  The controller's goroutines, \<open>runServiceSync\<close>, \<open>syncSender\<close> (\<open>service_sync.go\<close>) and \<open>runServiceDefsWatcher\<close>
  (\<open>controller.go\<close>): how each starts, what it does at every event it waits for, and how it ends. The process is a
  machine over these events, each handled to its end. The message broker's client and the file watcher are
  not under \<open>src/\<close>: their answers are parameters and events.
\<close>

section \<open>Workers\<close>

text \<open>\<open>Unborn\<close>: no \<open>go\<close> statement was reached yet; \<open>Starting\<close>: it was, and nothing of the goroutine has run.\<close>

datatype worker = Unborn | Starting | Running | Ended "error option"

datatype exit_reason = Stopped | FatalError string error | Crashed error

text \<open>The answers of the broker's client when the worker starts.\<close>

record amqp_api =
  am_dial :: "unit result"
  am_session :: "unit result"
  am_receiver :: "unit result"
  am_sender :: "unit result"

text \<open>\<open>ps_sent\<close> are the messages handed to \<open>sender.Send\<close>, whose error the program drops.\<close>

record process =
  ps_site :: site
  ps_receiver :: worker
  ps_sender :: worker
  ps_watcher :: worker
  ps_sent :: "SyncMessage list"
  ps_exit :: "exit_reason option"

text \<open>After a handler: an error that leaves it is a panic, which ends the process.\<close>

definition handled :: "unit result \<times> site \<Rightarrow> process \<Rightarrow> process" where
  "handled outcome p =
     (case outcome of
        (Inl e, s) \<Rightarrow> p\<lparr>ps_site := s, ps_exit := Some (Crashed e)\<rparr>
      | (Inr _, s) \<Rightarrow> p\<lparr>ps_site := s\<rparr>)"

definition runServiceSync :: "amqp_api \<Rightarrow> process \<Rightarrow> process" where
  "runServiceSync am p =
     (case am_dial am of
        Inl e \<Rightarrow> p\<lparr>ps_receiver := Ended (Some (Wrapf ''Failed to create amqp connection'' e))\<rparr>
      | Inr _ \<Rightarrow>
     (case am_session am of
        Inl e \<Rightarrow> p\<lparr>ps_receiver := Ended (Some (Wrapf ''Failed to create amqp session'' e))\<rparr>
      | Inr _ \<Rightarrow>
     (case am_receiver am of
        Inl e \<Rightarrow> p\<lparr>ps_receiver := Ended (Some (Wrapf ''Failed to create amqp receiver'' e))\<rparr>
      | Inr _ \<Rightarrow> p\<lparr>ps_receiver := Running, ps_sender := Starting\<rparr>)))"

definition receive_one :: "host \<Rightarrow> int \<Rightarrow> SyncMessage result \<Rightarrow> process \<Rightarrow> process" where
  "receive_one h now delivery p =
     (case delivery of
        Inl e \<Rightarrow> p\<lparr>ps_receiver := Ended (Some (Wrapf ''Failed reading message from service sync'' e))\<rparr>
      | Inr msg \<Rightarrow> handled (handle_message h now msg (ps_site p)) p)"

definition syncSender :: "amqp_api \<Rightarrow> process \<Rightarrow> process" where
  "syncSender am p =
     (case am_sender am of
        Inl e \<Rightarrow> p\<lparr>ps_exit := Some (FatalError ''Failed to create sender: '' e)\<rparr>
      | Inr _ \<Rightarrow> p\<lparr>ps_sender := Running\<rparr>)"

definition send_tick :: "host \<Rightarrow> process \<Rightarrow> process" where
  "send_tick h p = p\<lparr>ps_sent := ps_sent p @ [local_update (h_rng h) (fst (ps_site p))]\<rparr>"

definition age_event :: "host \<Rightarrow> int \<Rightarrow> process \<Rightarrow> process" where
  "age_event h now p =
     (case age_tick h now (ps_site p) of
        (Inl _, s) \<Rightarrow> p\<lparr>ps_site := s, ps_sender := Ended None\<rparr>
      | (Inr _, s) \<Rightarrow> p\<lparr>ps_site := s\<rparr>)"

text \<open>\<open>added\<close> is the answer of \<open>watcher.Add\<close>; \<open>write_op\<close> the watcher's bit of a write.\<close>

definition watch_start :: "VanClient \<Rightarrow> int \<Rightarrow> unit result \<Rightarrow> process \<Rightarrow> process" where
  "watch_start cli now added p =
     (case added of
        Inl _ \<Rightarrow> p\<lparr>ps_watcher := Ended None\<rparr>
      | Inr _ \<Rightarrow> handled (runServiceDefsWatcher cli now (ps_site p)) (p\<lparr>ps_watcher := Running\<rparr>))"

unbundle bit_operations_syntax

definition watch_event :: "VanClient \<Rightarrow> int32 \<Rightarrow> int32 option \<Rightarrow> process \<Rightarrow> process" where
  "watch_event cli write_op event p =
     (case event of
        None \<Rightarrow> p\<lparr>ps_watcher := Ended None\<rparr>
      | Some op \<Rightarrow> if op AND write_op = write_op then handled (processServiceDefs cli (ps_site p)) p else p)"

section \<open>The process\<close>

datatype process_event =
    ReceiverStart
  | Delivery int "SyncMessage result"
  | SenderStart
  | SendTick
  | AgeTick int
  | WatcherStart int "unit result"
  | WatchEvent "int32 option"
  | StopSignal

record setting =
  st_cli :: VanClient
  st_amqp :: amqp_api
  st_write :: int32

text \<open>An event happens to a worker that waits for it.\<close>

fun worker_step :: "setting \<Rightarrow> process_event \<Rightarrow> process \<Rightarrow> process" where
  "worker_step st ReceiverStart p = (if ps_receiver p = Starting then runServiceSync (st_amqp st) p else p)"
| "worker_step st (Delivery now d) p =
     (if ps_receiver p = Running then receive_one (Host (st_cli st)) now d p else p)"
| "worker_step st SenderStart p = (if ps_sender p = Starting then syncSender (st_amqp st) p else p)"
| "worker_step st SendTick p = (if ps_sender p = Running then send_tick (Host (st_cli st)) p else p)"
| "worker_step st (AgeTick now) p = (if ps_sender p = Running then age_event (Host (st_cli st)) now p else p)"
| "worker_step st (WatcherStart now added) p =
     (if ps_watcher p = Starting then watch_start (st_cli st) now added p else p)"
| "worker_step st (WatchEvent ev) p =
     (if ps_watcher p = Running then watch_event (st_cli st) (st_write st) ev p else p)"
| "worker_step st StopSignal p = p\<lparr>ps_exit := Some Stopped\<rparr>"

definition process_step :: "setting \<Rightarrow> process_event \<Rightarrow> process \<Rightarrow> process" where
  "process_step st ev p = (if ps_exit p = None then worker_step st ev p else p)"

definition process_run :: "setting \<Rightarrow> process_event list \<Rightarrow> process \<Rightarrow> process" where
  "process_run st evs p = fold (process_step st) evs p"

text \<open>The process when \<open>Run\<close> has started its workers.\<close>

definition started :: "string \<Rightarrow> World \<Rightarrow> process" where
  "started origin w =
     \<lparr>ps_site = (NewController origin, w), ps_receiver = Starting, ps_sender = Unborn, ps_watcher = Starting,
      ps_sent = [], ps_exit = None\<rparr>"

text \<open>Any events in any order, and between them changes of the services file by the client's commands.\<close>

inductive process_reaches :: "setting \<Rightarrow> string \<Rightarrow> process \<Rightarrow> bool" for st origin where
  start: "wf_fs (files w) \<Longrightarrow> controller_view (Host (st_cli st)) w = Some m \<Longrightarrow> keyed si_Address m \<Longrightarrow>
    \<forall>a s. fmlookup m a = Some s \<longrightarrow> si_Origin s \<noteq> origin \<Longrightarrow> process_reaches st origin (started origin w)"
| event: "process_reaches st origin p \<Longrightarrow> process_reaches st origin (process_step st ev p)"
| edit: "process_reaches st origin p \<Longrightarrow> ps_site p = (c, w) \<Longrightarrow> controller_view (Host (st_cli st)) w = Some m \<Longrightarrow>
    client_edit m m' \<Longrightarrow> controller_store (Host (st_cli st)) m' w = (Inr (), w') \<Longrightarrow>
    process_reaches st origin (p\<lparr>ps_site := (c, w')\<rparr>)"

section \<open>The goroutines refine the handlers\<close>

text \<open>What an event does to the site is a step of \<open>controller_step\<close> or nothing, unless it ends the process.\<close>

lemma handled_simps [simp]:
  "ps_receiver (handled o' p) = ps_receiver p" "ps_sender (handled o' p) = ps_sender p"
  "ps_watcher (handled o' p) = ps_watcher p" "ps_sent (handled o' p) = ps_sent p"
  "ps_site (handled o' p) = snd o'"
  "ps_exit (handled o' p) = None \<longleftrightarrow> (\<exists>u. fst o' = Inr u) \<and> ps_exit p = None"
  by (auto simp: handled_def split: prod.split sum.split)

lemma runServiceSync_simps [simp]:
  "ps_site (runServiceSync am p) = ps_site p" "ps_sent (runServiceSync am p) = ps_sent p"
  "ps_exit (runServiceSync am p) = ps_exit p" "ps_watcher (runServiceSync am p) = ps_watcher p"
  by (simp_all add: runServiceSync_def split: sum.split)

lemma syncSender_simps [simp]:
  "ps_site (syncSender am p) = ps_site p" "ps_sent (syncSender am p) = ps_sent p"
  "ps_receiver (syncSender am p) = ps_receiver p" "ps_watcher (syncSender am p) = ps_watcher p"
  by (simp_all add: syncSender_def split: sum.split)

lemma worker_step_site:
  assumes "ps_exit p = None" and "ps_exit (worker_step st ev p) = None"
  shows "ps_site (worker_step st ev p) = ps_site p \<or>
    controller_step (st_cli st) (ps_site p) (ps_site (worker_step st ev p))"
proof (cases ev)
  case (Delivery now d)
  show ?thesis
  proof (cases "ps_receiver p = Running \<and> (\<exists>msg. d = Inr msg)")
    case True
    then obtain msg where d: "d = Inr msg" by blast
    obtain r s where run: "handle_message (Host (st_cli st)) now msg (ps_site p) = (r, s)" by (cases "handle_message (Host (st_cli st)) now msg (ps_site p)")
    with assms True d Delivery obtain u where "r = Inr u" by (auto simp: receive_one_def)
    then show ?thesis using controller_step.message [of "st_cli st" now msg "ps_site p" s] run True d Delivery
      by (simp add: receive_one_def)
  qed (cases d, auto simp: Delivery receive_one_def)
next
  case (AgeTick now)
  obtain r s where run: "age_tick (Host (st_cli st)) now (ps_site p) = (r, s)" by (cases "age_tick (Host (st_cli st)) now (ps_site p)")
  show ?thesis using controller_step.ageing [OF run]
    by (cases r) (simp_all add: AgeTick age_event_def run)
next
  case (WatcherStart now added)
  show ?thesis
  proof (cases "ps_watcher p = Starting \<and> (\<exists>u. added = Inr u)")
    case True
    then obtain u where d: "added = Inr u" by blast
    obtain r s where run: "runServiceDefsWatcher (st_cli st) now (ps_site p) = (r, s)" by (cases "runServiceDefsWatcher (st_cli st) now (ps_site p)")
    with assms True d WatcherStart obtain u' where "r = Inr u'" by (auto simp: watch_start_def)
    then show ?thesis using controller_step.watcher_start [of "st_cli st" now "ps_site p" s] run True d WatcherStart
      by (simp add: watch_start_def)
  qed (cases added, auto simp: WatcherStart watch_start_def)
next
  case (WatchEvent event)
  show ?thesis
  proof (cases "ps_watcher p = Running \<and> (\<exists>op. event = Some op \<and> op AND st_write st = st_write st)")
    case True
    then obtain op where d: "event = Some op" "op AND st_write st = st_write st" by blast
    obtain r s where run: "processServiceDefs (st_cli st) (ps_site p) = (r, s)" by (cases "processServiceDefs (st_cli st) (ps_site p)")
    with assms True d WatchEvent obtain u' where "r = Inr u'" by (auto simp: watch_event_def)
    then show ?thesis using controller_step.file_event [of "st_cli st" "ps_site p" s] run True d WatchEvent
      by (simp add: watch_event_def)
  qed (cases event, auto simp: WatchEvent watch_event_def)
qed (simp_all add: send_tick_def)

lemma exit_stays: "ps_exit p \<noteq> None \<Longrightarrow> process_step st ev p = p"
  by (auto simp: process_step_def)

lemma process_site:
  "process_reaches st origin p \<Longrightarrow> ps_exit p = None \<Longrightarrow> reachable_site (st_cli st) origin (ps_site p)"
proof (induction rule: process_reaches.induct)
  case (start w m)
  then show ?case by (simp add: started_def reachable_site.start)
next
  case (event p ev)
  then have none: "ps_exit p = None" using exit_stays by metis
  with event.prems have "ps_exit (worker_step st ev p) = None" by (simp add: process_step_def)
  from worker_step_site [OF none this] event.IH [OF none] none
  show ?case by (auto simp: process_step_def intro: reachable_site.step)
next
  case (edit p c w m m' w')
  then have "reachable_site (st_cli st) origin (c, w)" by simp
  then show ?case using controller_step.edit [OF edit.hyps(3-5)] by (auto intro: reachable_site.step)
qed

text \<open>What a site tells the others.\<close>

definition own_advert :: "string \<Rightarrow> SyncMessage \<Rightarrow> bool" where
  "own_advert origin msg \<longleftrightarrow>
     sm_Subject msg = Some ''service-sync-update'' \<and> sm_Origin msg = Some origin \<and>
     (\<exists>ds. sm_Value msg = Some (marshal (enc_list enc_service) ds) \<and>
        (\<forall>d \<in> set ds. \<not> is_remote (si_Origin d) \<and> si_Targets d = []))"

lemma local_update_own:
  assumes "range_ok (h_rng (Host cli))" and "is_remote origin" and "reachable_site cli origin s"
  shows "own_advert origin (local_update (h_rng (Host cli)) (fst s))"
proof -
  let ?ds = "map snd (range_of (h_rng (Host cli)) (ct_localServices (fst s)))"
  have inv: "ct_origin (fst s) = origin" "fmpred own_service (ct_localServices (fst s))"
    using reachable_site_inv [OF assms] by (simp_all add: site_inv_def split: prod.splits)
  have "\<not> is_remote (si_Origin d) \<and> si_Targets d = []" if "d \<in> set ?ds" for d
    using that inv(2) by (auto simp: range_of_iff [OF assms(1)] own_service_def fmpred_iff)
  then show ?thesis using inv(1) by (auto simp: own_advert_def local_update_def)
qed

definition process_inv :: "string \<Rightarrow> process \<Rightarrow> bool" where
  "process_inv origin p \<longleftrightarrow>
     (\<forall>msg \<in> set (ps_sent p). own_advert origin msg) \<and>
     (ps_receiver p = Unborn \<or> ps_receiver p = Starting \<longrightarrow> ps_sender p = Unborn) \<and>
     (ps_sender p = Unborn \<or> ps_sender p = Starting \<longrightarrow> ps_sent p = [])"

lemma process_inv_event:
  assumes "process_inv origin p" and "own_advert origin (local_update (h_rng (Host (st_cli st))) (fst (ps_site p)))"
  shows "process_inv origin (worker_step st ev p)"
proof (cases ev)
  case ReceiverStart
  then show ?thesis using assms(1) by (auto simp: process_inv_def runServiceSync_def split: sum.split)
next
  case (Delivery now d)
  then show ?thesis using assms(1) by (cases d) (auto simp: process_inv_def receive_one_def)
next
  case SenderStart
  then show ?thesis using assms(1) by (auto simp: process_inv_def syncSender_def split: sum.split)
next
  case SendTick
  then show ?thesis using assms by (auto simp: process_inv_def send_tick_def)
next
  case (AgeTick now)
  then show ?thesis using assms(1) by (auto simp: process_inv_def age_event_def split: prod.split sum.split)
next
  case (WatcherStart now added)
  then show ?thesis using assms(1) by (auto simp: process_inv_def watch_start_def split: sum.split)
next
  case (WatchEvent event)
  then show ?thesis using assms(1) by (auto simp: process_inv_def watch_event_def split: option.split)
next
  case StopSignal
  then show ?thesis using assms(1) by (simp add: process_inv_def)
qed

lemma process_inv_reaches:
  assumes "range_ok (h_rng (Host (st_cli st)))" and "is_remote origin" and "process_reaches st origin p"
  shows "process_inv origin p"
  using assms(3)
proof (induction rule: process_reaches.induct)
  case (start w m)
  then show ?case by (simp add: started_def process_inv_def)
next
  case (event p ev)
  show ?case
  proof (cases "ps_exit p = None")
    case True
    with process_inv_event [OF event.IH local_update_own [OF assms(1,2) process_site [OF event.hyps]]]
    show ?thesis by (simp add: process_step_def)
  qed (use event.IH in \<open>simp add: exit_stays\<close>)
next
  case (edit p c w m m' w')
  then show ?case by (simp add: process_inv_def)
qed

text \<open>A sender exists only after the broker's client granted the connection, the session and the receiver, and it runs
  only with a link of its own; the receiver that started it ends by a failed read.\<close>

definition connected_inv :: "setting \<Rightarrow> process \<Rightarrow> bool" where
  "connected_inv st p \<longleftrightarrow>
     (ps_sender p \<noteq> Unborn \<longrightarrow>
        am_dial (st_amqp st) = Inr () \<and> am_session (st_amqp st) = Inr () \<and> am_receiver (st_amqp st) = Inr () \<and>
        (ps_receiver p = Running \<or>
         (\<exists>e. ps_receiver p = Ended (Some (Wrapf ''Failed reading message from service sync'' e))))) \<and>
     (ps_sender p = Running \<longrightarrow> am_sender (st_amqp st) = Inr ()) \<and>
     (ps_sent p \<noteq> [] \<longrightarrow> ps_sender p \<noteq> Unborn \<and> am_sender (st_amqp st) = Inr ())"

lemma connected_inv_event: "connected_inv st p \<Longrightarrow> connected_inv st (worker_step st ev p)"
proof (cases ev)
  case ReceiverStart
  assume "connected_inv st p"
  then show ?thesis by (auto simp: ReceiverStart connected_inv_def runServiceSync_def split: sum.split)
next
  case (Delivery now d)
  assume "connected_inv st p"
  then show ?thesis by (cases d) (auto simp: Delivery connected_inv_def receive_one_def)
next
  case SenderStart
  assume "connected_inv st p"
  then show ?thesis by (auto simp: SenderStart connected_inv_def syncSender_def split: sum.split)
next
  case (AgeTick now)
  assume "connected_inv st p"
  then show ?thesis by (auto simp: AgeTick connected_inv_def age_event_def split: prod.split sum.split)
next
  case (WatcherStart now added)
  assume "connected_inv st p"
  then show ?thesis by (auto simp: WatcherStart connected_inv_def watch_start_def split: sum.split)
next
  case (WatchEvent event)
  assume "connected_inv st p"
  then show ?thesis by (auto simp: WatchEvent connected_inv_def watch_event_def split: option.split)
qed (auto simp: connected_inv_def send_tick_def)

lemma connected_inv_reaches: "process_reaches st origin p \<Longrightarrow> connected_inv st p"
proof (induction rule: process_reaches.induct)
  case (start w m)
  then show ?case by (simp add: started_def connected_inv_def)
next
  case (event p ev)
  then show ?case using connected_inv_event by (simp add: process_step_def)
next
  case (edit p c w m m' w')
  then show ?case by (simp add: connected_inv_def)
qed

text \<open>
  C4 (refinement). The goroutines of a controller, under every order of their events, of the answers of the broker
  and of the client's commands: while the process runs its site is one the handlers can reach, so that every
  fact about those holds of it; every message it ever sends carries its own origin and lists only services of its
  own, without their targets; and it sends nothing unless the broker's client granted the connection, the session,
  the receiver and the sender, and the receiver then runs or has ended by a failed read.
\<close>

theorem process_refines:
  assumes "range_ok (h_rng (Host (st_cli st)))" and "is_remote origin" and "process_reaches st origin p"
  shows "(ps_exit p = None \<longrightarrow> reachable_site (st_cli st) origin (ps_site p)) \<and>
    (\<forall>msg \<in> set (ps_sent p). sm_Subject msg = Some ''service-sync-update'' \<and> sm_Origin msg = Some origin \<and>
      (\<exists>ds. sm_Value msg = Some (marshal (enc_list enc_service) ds) \<and>
        (\<forall>d \<in> set ds. \<not> is_remote (si_Origin d) \<and> si_Targets d = []))) \<and>
    (ps_sent p \<noteq> [] \<longrightarrow>
       am_dial (st_amqp st) = Inr () \<and> am_session (st_amqp st) = Inr () \<and> am_receiver (st_amqp st) = Inr () \<and>
       am_sender (st_amqp st) = Inr () \<and>
       (ps_receiver p = Running \<or>
        (\<exists>e. ps_receiver p = Ended (Some (Wrapf ''Failed reading message from service sync'' e)))))"
proof -
  have "\<forall>msg \<in> set (ps_sent p). own_advert origin msg"
    using process_inv_reaches [OF assms] unfolding process_inv_def by (rule conjunct1)
  then show ?thesis
    using process_site [OF assms(3)] connected_inv_reaches [OF assms(3)]
    unfolding own_advert_def connected_inv_def by (intro conjI) blast+
qed

text \<open>The witness: the controller of \<open>west\<close> connects and advertises at the first tick.\<close>

definition sample_setting :: setting where
  "sample_setting =
     \<lparr>st_cli = sample_cli,
      st_amqp = \<lparr>am_dial = Inr (), am_session = Inr (), am_receiver = Inr (), am_sender = Inr ()\<rparr>, st_write = 2\<rparr>"

lemma process_refines_witness:
  "\<exists>p. process_reaches sample_setting ''west'' p \<and> ps_sent p = [local_update rng_up (NewController ''west'')] \<and>
    ps_exit p = None \<and> reachable_site sample_cli ''west'' (ps_site p)"
proof -
  have host: "Host (st_cli sample_setting) = sample_host" by (simp add: sample_setting_def sample_cli_def)
  let ?p0 = "started ''west'' controller_world"
  let ?p3 = "process_step sample_setting SendTick (process_step sample_setting SenderStart (process_step sample_setting ReceiverStart ?p0))"
  have "process_reaches sample_setting ''west'' ?p0"
  proof (rule process_reaches.start [OF wf_controller_world _ keyed_stored])
    show "controller_view (Host (st_cli sample_setting)) controller_world = Some stored_defs"
      by (simp add: host controller_world_view)
    show "\<forall>a s. fmlookup stored_defs a = Some s \<longrightarrow> si_Origin s \<noteq> ''west''" by auto
  qed
  then have p: "process_reaches sample_setting ''west'' ?p3" by (intro process_reaches.event)
  have run: "ps_exit ?p3 = None" "ps_sent ?p3 = [local_update rng_up (NewController ''west'')]"
    by (simp_all add: process_step_def started_def runServiceSync_def syncSender_def send_tick_def sample_setting_def
        sample_cli_def sample_host_def)
  have "range_ok (h_rng (Host (st_cli sample_setting)))" "is_remote ''west''" by (simp_all add: host is_remote_def)
  from process_refines [OF this p] run(1) have "reachable_site (st_cli sample_setting) ''west'' (ps_site ?p3)" by blast
  then have "reachable_site sample_cli ''west'' (ps_site ?p3)" by (simp add: sample_setting_def)
  with p run show ?thesis by blast
qed

section \<open>Nothing restarts a worker\<close>

lemma receiver_stays: "ps_receiver p = Ended e \<Longrightarrow> ps_receiver (process_step st ev p) = Ended e"
  by (cases ev) (simp_all add: process_step_def age_event_def send_tick_def watch_start_def watch_event_def
      split: prod.split sum.split option.split)

lemma watcher_stays: "ps_watcher p = Ended e \<Longrightarrow> ps_watcher (process_step st ev p) = Ended e"
  by (cases ev) (simp_all add: process_step_def age_event_def send_tick_def receive_one_def
      split: prod.split sum.split option.split)

lemma sender_stays:
  assumes "ps_receiver p \<noteq> Starting" and "ps_sender p = Ended e"
  shows "ps_receiver (process_step st ev p) \<noteq> Starting" and "ps_sender (process_step st ev p) = Ended e"
    and "ps_sent (process_step st ev p) = ps_sent p"
  using assms by (cases ev; simp add: process_step_def age_event_def send_tick_def receive_one_def watch_start_def
      watch_event_def split: prod.split sum.split option.split)+

lemma run_stays:
  assumes "ps_receiver p \<noteq> Starting" and "ps_sender p = Ended e"
  shows "ps_sender (process_run st evs p) = Ended e \<and> ps_sent (process_run st evs p) = ps_sent p"
  using assms
proof (induction evs arbitrary: p)
  case (Cons ev evs)
  from Cons.IH [OF sender_stays(1,2) [OF Cons.prems, of st ev]] sender_stays(3) [OF Cons.prems, of st ev]
  show ?case by (simp add: process_run_def)
qed (simp add: process_run_def)

lemma receiver_run: "ps_receiver p = Ended e \<Longrightarrow> ps_receiver (process_run st evs p) = Ended e"
proof (induction evs arbitrary: p)
  case (Cons ev evs)
  from Cons.IH [OF receiver_stays [OF Cons.prems, of st ev]] show ?case by (simp add: process_run_def)
qed (simp add: process_run_def)

text \<open>
  C16 (error). Nothing restarts a worker. One tick of the ageing that cannot update the services file ends the sender:
  whatever happens afterwards, the site never advertises again, although its other workers go on. And one failed
  receive ends the receiver: no message that arrives afterwards changes anything.
\<close>

theorem failed_worker_is_silent:
  assumes "ps_exit p = None" and "ps_sender p = Running" and "ps_receiver p \<noteq> Starting"
    and "age_tick (Host (st_cli st)) now (ps_site p) = (Inl e, s)"
  shows "ps_exit (process_step st (AgeTick now) p) = None \<and>
    ps_receiver (process_step st (AgeTick now) p) = ps_receiver p \<and>
    (\<forall>evs. ps_sent (process_run st (AgeTick now # evs) p) = ps_sent p) \<and>
    (ps_receiver p = Running \<longrightarrow> (\<forall>later err evs now' d q.
      q = process_run st (Delivery later (Inl err) # evs) p \<longrightarrow> process_step st (Delivery now' d) q = q))"
proof -
  let ?p = "process_step st (AgeTick now) p"
  have p: "ps_exit ?p = None" "ps_receiver ?p = ps_receiver p" "ps_sender ?p = Ended None" "ps_sent ?p = ps_sent p"
    using assms by (simp_all add: process_step_def age_event_def)
  have "ps_sent (process_run st (AgeTick now # evs) p) = ps_sent p" for evs
    using run_stays [of ?p None st evs] p assms(3) by (simp add: process_run_def)
  moreover have "process_step st (Delivery now' d) q = q"
    if r: "ps_receiver p = Running" and q: "q = process_run st (Delivery later (Inl err) # evs) p" for later err evs now' d q
  proof -
    have "\<exists>r. ps_receiver (process_step st (Delivery later (Inl err)) p) = Ended r"
      using r assms(1) by (simp add: process_step_def receive_one_def)
    then obtain r where "ps_receiver (process_step st (Delivery later (Inl err)) p) = Ended r" ..
    from receiver_run [OF this, of st evs] have "ps_receiver q = Ended r" by (simp add: q process_run_def)
    then show ?thesis by (simp add: process_step_def)
  qed
  ultimately show ?thesis using p(1,2) by blast
qed

text \<open>The witness: a controller that has heard of \<open>east\<close> long ago, on a host without a services file.\<close>

definition silent_process :: process where
  "silent_process = (started ''west'' \<lparr>files = fmempty, calls = []\<rparr>)
     \<lparr>ps_receiver := Running, ps_sender := Running,
      ps_site := ((NewController ''west'')\<lparr>ct_heardFrom := fmupd ''east'' 0 fmempty,
          ct_byOrigin := fmupd ''east'' (fmupd ''db'' zero_ServiceInterface fmempty) fmempty\<rparr>,
        \<lparr>files = fmempty, calls = []\<rparr>)\<rparr>"

lemma failed_worker_is_silent_witness:
  "ps_sent (process_run sample_setting [AgeTick (60 * second), SendTick] silent_process) = []"
proof -
  have host: "Host (st_cli sample_setting) = sample_host" by (simp add: sample_setting_def sample_cli_def)
  have "controller_load sample_host \<lparr>files = fmempty, calls = []\<rparr> =
      (Inl (Wrapf ''Failed to retrieve skupper service definitions'' (NotExist ''etc/messaging/services/skupper-services'')),
       \<lparr>files = fmempty, calls = []\<rparr>)"
    by code_simp
  then have "\<exists>e. age_tick (Host (st_cli sample_setting)) (60 * second) (ps_site silent_process) = (Inl e, ps_site silent_process)"
    by (simp add: host silent_process_def age_tick_def range_of_def updateSkupperServices_def modify_defs_def age_limit_def
      rng_up_def sorted_list_of_fset.rep_eq)
  then obtain e s where "age_tick (Host (st_cli sample_setting)) (60 * second) (ps_site silent_process) = (Inl e, s)" by blast
  from failed_worker_is_silent [OF _ _ _ this]
  have "\<forall>evs. ps_sent (process_run sample_setting (AgeTick (60 * second) # evs) silent_process) = ps_sent silent_process"
    by (simp add: silent_process_def started_def)
  then show ?thesis by (simp add: silent_process_def started_def)
qed

end
