(* ===== verification/TwoSites.thy ===== *)
theory TwoSites
  imports Workers
begin

text \<open>
  Two sites together: a service defined at one of them, sent with its periodic update, handled by the controller
  of the other, written to that site's services file, processed there and turned into a proxy container whose
  configuration is read by its router.
\<close>

section \<open>A processed file is served\<close>

lemma process_serves:
  assumes "range_ok (h_rng (Host cli))" and "\<forall>n. range_ok (h_loops (Host cli) n)"
    and "container_daemon (sd_client (DockerInterface cli)) st"
    and "\<not> has_prefix (h_env (Host cli) ''SKUPPER_TMPDIR'') ''QDROUTERD_CONF''"
    and "controller_view (Host cli) w = Some m" and "keyed si_Address m" and "keyed sb_address (ct_bindings c)"
    and "\<forall>n s. n |\<in>| fmdom m \<and> fmlookup (st (calls w)) n = Some s \<longrightarrow> is_proxy s"
    and "fmlookup m a = Some d"
  shows "\<exists>c' w' sb. processServiceDefs cli (c, w) = (Inr (), (c', w')) \<and> bindings_follow d sb \<and> sb_address sb = a \<and>
    served cli (ct_origin c) (st (calls w)) (st (calls w')) sb"
proof -
  let ?rng = "h_rng (Host cli)"
  let ?c1 = "serviceSyncDefinitionsUpdated ?rng m c"
  let ?b = "update_all_bindings ?rng m (ct_bindings ?c1)"
  have load: "getServiceDefinitions (Host cli) w = (Inr m, w)"
    using controller_services.load_view [OF assms(5)] by (simp add: getServiceDefinitions_def)
  have same: "ct_origin ?c1 = ct_origin c" "ct_bindings ?c1 = ct_bindings c"
    by (simp_all add: serviceSyncDefinitionsUpdated_def split: prod.split)
  have keyed_b: "keyed sb_address ?b" using update_all_bindings_keyed [OF assms(1,7)] by (simp add: same)
  note follow = update_all_bindings_follow [OF assms(1,6), where b = "ct_bindings ?c1"]
  have "n |\<in>| fmdom m" if "n |\<in>| fmdom ?b" for n
    using follow [of n] that by (cases "fmlookup m n") (auto simp: fmlookup_dom_iff)
  then have proxies: "\<forall>n s. n |\<in>| fmdom ?b \<and> fmlookup (st (calls w)) n = Some s \<longrightarrow> is_proxy s"
    using assms(8) by blast
  from reconcile_round [OF assms(2-4) keyed_b proxies, of "ct_origin ?c1"] obtain w' where
    w': "updateProxies cli (ct_origin ?c1) ?b w = (Inr (), w')" and
    served: "round_done cli (ct_origin ?c1) ?b (st (calls w)) (st (calls w'))" by blast
  from follow [of a] assms(9) obtain sb where sb: "fmlookup ?b a = Some sb" "bindings_follow d sb" by auto
  have "processServiceDefs cli (c, w) = (Inr (), (?c1\<lparr>ct_bindings := ?b\<rparr>, w'))"
    using load w' by (simp add: processServiceDefs_def Let_def)
  moreover have "served cli (ct_origin c) (st (calls w)) (st (calls w')) sb"
    using served [unfolded round_done_def, rule_format, of a] unfolding sb(1) option.case same(1) .
  ultimately show ?thesis using sb(2) keyedD [OF keyed_b sb(1)] by blast
qed

text \<open>The configuration of a service learnt from another site: a listener, and no connector to any target.\<close>

lemma remote_text:
  assumes "proxy_text origin sb t" and "bindings_follow d sb" and "si_Protocol d = ''tcp''" and "si_Origin d \<noteq> []"
  shows "\<exists>r. UnmarshalRouterConfig t = Inr r \<and>
    TcpListeners (Bridges r) = fmupd ''ingress''
      \<lparr>te_Name = ''ingress'', te_Host = ''0.0.0.0'', te_Port = itoa (si_Port d), te_Address = sb_address sb,
       te_SiteId = origin\<rparr> fmempty \<and>
    TcpConnectors (Bridges r) = fmempty \<and> HttpConnectors (Bridges r) = fmempty"
proof -
  from assms(1) obtain r r' where r: "range_ok r" "range_ok r'" "t = config_text r' (asServiceInterface r sb) origin"
    by (auto simp: proxy_text_def)
  let ?si = "asServiceInterface r sb"
  have si: "si_Protocol ?si = ''tcp''" "si_Origin ?si \<noteq> []" "si_Port ?si = si_Port d" "si_Address ?si = sb_address sb"
    using assms(2-4) by (simp_all add: bindings_follow_def asServiceInterface_def)
  have "UnmarshalRouterConfig t = Inr (proxy_config ?si origin)"
    unfolding r(3) by (rule config_text_read [OF r(2)])
  then show ?thesis
    using tcp_proxy_config(1) [OF si(1), of origin] remote_proxy_config [OF si(2), of origin] si(3,4)
    by (simp add: tcp_ingress_def)
qed

section \<open>From one site to the other\<close>

text \<open>
  C1 (functional). A tcp service that site \<open>A\<close> defines at an address free at site \<open>B\<close>: once \<open>B\<close> has handled \<open>A\<close>'s next
  update and the change of its own services file that this makes, and whatever containers the daemon of \<open>B\<close> had, as
  long as those named like a service are proxies, there is a proxy at \<open>B\<close> whose router listens on the service's port and
  forwards to the service's address, and connects to no target: those stay with \<open>A\<close>. The proxy runs, unless a proxy
  with this very configuration was there before: that one is left as it was.
\<close>

theorem service_reaches_other_site:
  assumes "range_ok r" and "synced cA mA" and "defs_ok mA" and "is_remote (ct_origin cA)"
    and "fmlookup mA a = Some d" and "\<not> is_remote (si_Origin d)" and "si_Protocol d = ''tcp''"
    and "range_ok (h_rng (Host cli))" and "container_daemon (sd_client (DockerInterface cli)) st"
    and "\<not> has_prefix (h_env (Host cli) ''SKUPPER_TMPDIR'') ''QDROUTERD_CONF''"
    and "wf_fs (files w)" and "controller_view (Host cli) w = Some mB" and "synced cB mB"
    and "keyed sb_address (ct_bindings cB)" and "ct_origin cA \<noteq> ct_origin cB" and "fmlookup mB a = None"
    and "\<forall>n s. (n |\<in>| fmdom mA \<or> n |\<in>| fmdom mB) \<and> fmlookup (st (calls w)) n = Some s \<longrightarrow> is_proxy s"
    and "\<forall>n. range_ok (h_loops (Host cli) n)"
  shows "\<exists>site cB' w' s r'.
    handle_message (Host cli) now (local_update r cA) (cB, w) = (Inr (), site) \<and>
    processServiceDefs cli site = (Inr (), (cB', w')) \<and>
    fmlookup (st (calls w')) a = Some s \<and> is_proxy s \<and> (cs_running s \<or> fmlookup (st (calls w)) a = Some s) \<and>
    UnmarshalRouterConfig (FindEnvVar (cs_env s) ''QDROUTERD_CONF'') = Inr r' \<and>
    TcpListeners (Bridges r') = fmupd ''ingress''
      \<lparr>te_Name = ''ingress'', te_Host = ''0.0.0.0'', te_Port = itoa (si_Port d), te_Address = a,
       te_SiteId = ct_origin cB\<rparr> fmempty \<and>
    TcpConnectors (Bridges r') = fmempty \<and> HttpConnectors (Bridges r') = fmempty"
proof -
  let ?o = "ct_origin cA" and ?l = "local_services mA" and ?h = "Host cli"
  let ?defs = "fmmap (\<lambda>d. d\<lparr>si_Origin := ?o\<rparr>) ?l"
  have keyedA: "keyed si_Address ?l" using assms(2) keyed_local_services by (simp add: synced_def)
  have keyedB: "keyed si_Address mB" using assms(13) by (simp add: synced_def)
  note advert = advert_received [OF assms(1-3)]
  have idx: "index_defs ?o (map snd (range_of r ?l)) = ?defs" by (rule index_of_advert [OF assms(1) keyedA])
  obtain cB1 w1 m1 where one: "handle_message ?h now (local_update r cA) (cB, w) = (Inr (), (cB1, w1))"
    "controller_view ?h w1 = Some m1" "calls w1 = calls w" "ct_bindings cB1 = ct_bindings cB" "ct_origin cB1 = ct_origin cB"
    and m1: "\<And>a. fmlookup m1 a = merged ?o ?defs mB a"
    using merged_synced [OF assms(8,11-13,4,15) advert(2), of now] unfolding advert(1) idx by metis
  have from_o: "from_origin ?o ?defs" using from_origin_index [of ?o "map snd (range_of r ?l)"] unfolding idx .
  have keyed1: "keyed si_Address m1" by (rule merged_origin(1) [OF from_o m1 assms(4) keyedB])
  have "n |\<in>| fmdom mA \<or> n |\<in>| fmdom mB" if "n |\<in>| fmdom m1" for n
    using that by (auto simp: fmlookup_dom_iff m1 merged_def fmlookup_local_services split: option.splits if_splits)
  then have proxies: "\<forall>n s. n |\<in>| fmdom m1 \<and> fmlookup (st (calls w1)) n = Some s \<longrightarrow> is_proxy s"
    using assms(17) by (auto simp: one(3))
  have d: "fmlookup m1 a = Some ((sync_view d)\<lparr>si_Origin := ?o\<rparr>)"
    using assms(5,6,16) by (simp add: m1 merged_def fmlookup_local_services)
  have "keyed sb_address (ct_bindings cB1)" using assms(14) by (simp add: one(4))
  from process_serves [OF assms(8,18,9,10) one(2) keyed1 this proxies d] obtain cB' w' sb where
    two: "processServiceDefs cli (cB1, w1) = (Inr (), (cB', w'))" "sb_address sb = a"
      "served cli (ct_origin cB) (st (calls w)) (st (calls w')) sb"
    and follow: "bindings_follow ((sync_view d)\<lparr>si_Origin := ?o\<rparr>) sb"
    unfolding one(3,5) by blast
  from two(3) obtain s t where s: "fmlookup (st (calls w')) a = Some s" "looped_text cli (ct_origin cB) sb t" "has_config t s"
    "cs_running s \<or> fmlookup (st (calls w)) a = Some s" unfolding served_def two(2) by blast
  have "?o \<noteq> []" using assms(4) by (simp add: is_remote_def)
  with remote_text [OF looped_proxy_text [OF assms(18) s(2)] follow] assms(7) obtain r' where
    "UnmarshalRouterConfig t = Inr r'"
    "TcpListeners (Bridges r') = fmupd ''ingress''
      \<lparr>te_Name = ''ingress'', te_Host = ''0.0.0.0'', te_Port = itoa (si_Port d), te_Address = a,
       te_SiteId = ct_origin cB\<rparr> fmempty"
    "TcpConnectors (Bridges r') = fmempty" "HttpConnectors (Bridges r') = fmempty"
    by (auto simp: two(2))
  then show ?thesis using one(1) two(1) s by (auto simp: has_config_def)
qed

text \<open>The witness: \<open>east\<close> defines \<open>api\<close>, and \<open>west\<close> holds \<open>db\<close> of its own and \<open>web\<close> of \<open>east\<close>'s; its daemon runs a
  stale proxy and a container of the user.\<close>

lemma service_reaches_other_site_witness:
  "\<exists>site cB' w' s r'.
    handle_message sample_host 5 (local_update rng_down east_controller) (sample_controller, controller_world) = (Inr (), site) \<and>
    processServiceDefs proxies_cli site = (Inr (), (cB', w')) \<and>
    fmlookup (sim_state (fmupd ''old'' old_proxy (fmupd ''pg1'' sample_router fmempty)) (calls w')) ''api'' = Some s \<and> cs_running s \<and>
    UnmarshalRouterConfig (FindEnvVar (cs_env s) ''QDROUTERD_CONF'') = Inr r' \<and> TcpConnectors (Bridges r') = fmempty"
proof -
  let ?st = "sim_state (fmupd ''old'' old_proxy (fmupd ''pg1'' sample_router fmempty))"
  have host: "Host proxies_cli = sample_host" by (simp add: proxies_cli_def)
  have rng: "range_ok (h_rng (Host proxies_cli))" by (simp add: host)
  have new: "fmlookup (?st (calls controller_world)) ''api'' = None"
    by (simp add: sim_state_def controller_world_def file_world_def)
  have daemon: "container_daemon (sd_client (DockerInterface proxies_cli)) ?st"
    by (simp add: proxies_cli_def sim_daemon)
  have api: "fmlookup east_defs ''api'' = Some api_service" "\<not> is_remote (si_Origin api_service)"
    "si_Protocol api_service = ''tcp''" by (simp_all add: is_remote_def api_service_def zero_ServiceInterface_def)
  have east: "is_remote (ct_origin east_controller)" "ct_origin east_controller \<noteq> ct_origin sample_controller" by simp_all
  have bindings: "keyed sb_address (ct_bindings sample_controller)"
    by (simp add: sample_controller_def serviceSyncDefinitionsUpdated_def NewController_def keyed_rules split: prod.split)
  have free: "fmlookup stored_defs ''api'' = None" by simp
  have named: "\<forall>n s. (n |\<in>| fmdom east_defs \<or> n |\<in>| fmdom stored_defs) \<and> fmlookup (?st (calls controller_world)) n = Some s \<longrightarrow>
      is_proxy s"
    by (auto simp: sim_state_def controller_world_def file_world_def fmlookup_dom_iff split: if_splits)
  from service_reaches_other_site [OF range_ok_down east_synced east_defs_ok east(1) api rng daemon
      proxies_setting(2) wf_controller_world controller_world_view [folded host] sample_controller_synced bindings
      east(2) free named proxies_setting(1), of 5]
  show ?thesis unfolding host new by blast
qed

end
