(* ===== verification/Paths.thy ===== *)
theory Paths
  imports Host
begin

text \<open>
  Absolute paths built from plain elements: what the program's path texts resolve to when
  \<open>SKUPPER_TMPDIR\<close> is an absolute path, and how the file operations act on them.
\<close>

section \<open>Plain paths\<close>

definition plain :: "string \<Rightarrow> bool" where
  "plain e \<longleftrightarrow> e \<noteq> [] \<and> e \<noteq> ''.'' \<and> e \<noteq> ''..'' \<and> CHR ''/'' \<notin> set e"

definition abs_path :: "path \<Rightarrow> string" where
  "abs_path es = concat (map (\<lambda>e. CHR ''/'' # e) es)"

lemma abs_path_simps [simp]:
  "abs_path [] = []"
  "abs_path (e # es) = CHR ''/'' # e @ abs_path es"
  "abs_path (es @ fs) = abs_path es @ abs_path fs"
  by (simp_all add: abs_path_def)

lemma abs_path_snoc: "abs_path es @ CHR ''/'' # e = abs_path (es @ [e])"
  by simp

lemma split_abs_path: "list_all plain es \<Longrightarrow> split_on (CHR ''/'') (abs_path es) = [] # es \<or> es = []"
proof (induction es)
  case (Cons e es)
  then have e: "CHR ''/'' \<notin> set e" by (simp add: plain_def)
  show ?case
  proof (cases es)
    case Nil
    then show ?thesis using e by (simp add: split_on_absent)
  next
    case (Cons f fs)
    have "split_on (CHR ''/'') (abs_path es) = [] # es"
      using Cons.IH Cons.prems \<open>es = f # fs\<close> by simp
    then have "split_on (CHR ''/'') (f @ abs_path fs) = es"
      using \<open>es = f # fs\<close> by simp
    then show ?thesis
      using split_on_append [OF e, of "f @ abs_path fs"] \<open>es = f # fs\<close> by simp
  qed
qed simp

lemma clean_plain: "list_all plain es \<Longrightarrow> clean_elems True acc es = rev acc @ es"
  by (induction es arbitrary: acc) (auto simp: plain_def)

lemma resolve_abs_path: "list_all plain es \<Longrightarrow> resolve h (abs_path es) = es"
proof (cases es)
  case (Cons e fs)
  assume p: "list_all plain es"
  then have "split_on (CHR ''/'') (abs_path es) = [] # es"
    using split_abs_path [OF p] Cons by simp
  then show ?thesis
    using Cons clean_plain [OF p, of "[]"] by (simp add: resolve_def)
qed (simp add: resolve_def)

lemma abs_path_Nil [simp]: "abs_path es = [] \<longleftrightarrow> es = []"
  by (cases es) simp_all

lemma join_slash: "es \<noteq> [] \<Longrightarrow> CHR ''/'' # join_with ''/'' es = abs_path es"
proof (induction es)
  case (Cons e es)
  then show ?case by (cases es) simp_all
qed simp

lemma path_clean_abs: "list_all plain es \<Longrightarrow> es \<noteq> [] \<Longrightarrow> path_clean (abs_path es) = abs_path es"
proof -
  assume p: "list_all plain es" and ne: "es \<noteq> []"
  then have "split_on (CHR ''/'') (abs_path es) = [] # es"
    using split_abs_path by blast
  moreover obtain cs where "abs_path es = CHR ''/'' # cs" using ne by (cases es) auto
  ultimately show ?thesis
    using clean_plain [OF p, of "[]"] join_slash [OF ne] by (simp add: path_clean_def Let_def)
qed

section \<open>The site's directories\<close>

text \<open>\<open>sub_path p\<close> is the directory of \<open>p\<close> below the site's own.\<close>

definition sub_path :: "Path \<Rightarrow> path" where
  "sub_path p = (if p = HostPath then [] else [skupperPaths p])"

lemma plain_sub_path: "list_all plain (''skupper'' # sub_path p)"
  by (cases p) (simp_all add: sub_path_def plain_def)

definition rooted_at :: "environment \<Rightarrow> path \<Rightarrow> bool" where
  "rooted_at env d \<longleftrightarrow> env ''SKUPPER_TMPDIR'' = abs_path d \<and> d \<noteq> [] \<and> list_all plain d"

lemma GetSkupperPath_abs:
  assumes "rooted_at env d"
  shows "GetSkupperPath env p = abs_path (d @ ''skupper'' # sub_path p)"
proof -
  have d: "env ''SKUPPER_TMPDIR'' = abs_path d" "d \<noteq> []" "list_all plain d"
    using assms by (simp_all add: rooted_at_def)
  have "skupperPaths p = (if p = HostPath then [] else hd (sub_path p))"
    by (simp add: sub_path_def)
  then have "path_join [abs_path d, ''skupper'', skupperPaths p] = path_clean (abs_path (d @ ''skupper'' # sub_path p))"
    using d(2) by (cases p) (simp_all add: path_join_def sub_path_def)
  then show ?thesis
    using path_clean_abs [of "d @ ''skupper'' # sub_path p"] plain_sub_path [of p] d
    by (simp add: GetSkupperPath_def)
qed

lemma resolve_skupper:
  assumes "rooted_at env d" and "list_all plain es"
  shows "resolve h (GetSkupperPath env p @ abs_path es) = d @ ''skupper'' # sub_path p @ es"
proof -
  have "GetSkupperPath env p @ abs_path es = abs_path (d @ ''skupper'' # sub_path p @ es)"
    by (simp add: GetSkupperPath_abs [OF assms(1)])
  moreover have "list_all plain (d @ ''skupper'' # sub_path p @ es)"
    using assms plain_sub_path [of p] by (simp add: rooted_at_def)
  ultimately show ?thesis by (simp only: resolve_abs_path)
qed

lemma GetSkupperPath_not_Nil [simp]: "rooted_at env d \<Longrightarrow> GetSkupperPath env p @ s \<noteq> []"
  by (simp add: GetSkupperPath_abs)

end
