(* ===== verification/SiteFiles.thy ===== *)
theory SiteFiles
  imports ServiceInterfaces SpecTypes Paths
begin

text \<open>
  The files of a site beside the service definitions: the router configuration
  (\<open>WriteToConfigFile\<close>, \<open>GetRouterConfigFromFile\<close> of \<open>pkg/qdr/qdr.go\<close>), the site configuration
  (\<open>client/site_config_*.go\<close>) and the certificates (\<open>getCertData\<close> of \<open>client/router_create.go\<close>).
\<close>

section \<open>The files\<close>

definition WriteToConfigFile :: "host \<Rightarrow> string \<Rightarrow> RouterConfig \<Rightarrow> (World, unit) oper" where
  "WriteToConfigFile h configFile r =
     bindE id (liftE (MarshalRouterConfig (h_rng h) r)) (\<lambda>marshalled. os_WriteFile h configFile marshalled)"

text \<open>\<open>None\<close> is the nil pointer, returned without an error for an empty name.\<close>

definition GetRouterConfigFromFile :: "host \<Rightarrow> string \<Rightarrow> (World, RouterConfig option) oper" where
  "GetRouterConfigFromFile h name =
     (if name = [] then returnE None
      else bindE id (os_ReadFile h name) (\<lambda>config.
           bindE id (liftE (UnmarshalRouterConfig config)) (\<lambda>r. returnE (Some r))))"

definition deref :: "'v option \<Rightarrow> (World, 'v) oper" where
  "deref p = (case p of None \<Rightarrow> failE (Panic ''nil pointer dereference'') | Some v \<Rightarrow> returnE v)"

definition skupper_path :: "VanClient \<Rightarrow> Path \<Rightarrow> string" where
  "skupper_path cli p = GetSkupperPath (h_env (Host cli)) p"

definition config_file :: "VanClient \<Rightarrow> string" where
  "config_file cli = skupper_path cli ConfigPath @ ''/qdrouterd.json''"

definition with_router_config :: "VanClient \<Rightarrow> (RouterConfig \<Rightarrow> (World, 'a) oper) \<Rightarrow> (World, 'a) oper" where
  "with_router_config cli k =
     bindE (Wrapf ''Failed to retrieve router config'') (GetRouterConfigFromFile (Host cli) (config_file cli)) (\<lambda>p.
     bindE id (deref p) k)"

definition write_router_config :: "VanClient \<Rightarrow> RouterConfig \<Rightarrow> (World, unit) oper" where
  "write_router_config cli r =
     bindE (Wrapf ''Failed to update router config file'') (WriteToConfigFile (Host cli) (config_file cli) r) returnE"

section \<open>The site configuration\<close>

definition NewUUID :: "host \<Rightarrow> string" where
  "NewUUID h = h_uuid h"

definition site_file :: "VanClient \<Rightarrow> string \<Rightarrow> string" where
  "site_file cli name = skupper_path cli SitesPath @ ''/'' @ name @ ''.json''"

definition SiteConfigCreate :: "VanClient \<Rightarrow> SiteConfigSpec \<Rightarrow> (World, SiteConfig) oper" where
  "SiteConfigCreate cli spec =
     (let sc = \<lparr>sg_Spec = spec, sg_UID = NewUUID (Host cli)\<rparr>
      in bindE id (os_WriteFile (Host cli) (site_file cli DefaultBridgeName) (marshal enc_site sc)) (\<lambda>_. returnE sc))"

text \<open>The text \<open>null\<close> sets the pointer that is decoded into to nil.\<close>

definition SiteConfigInspect :: "VanClient \<Rightarrow> string \<Rightarrow> (World, SiteConfig option) oper" where
  "SiteConfigInspect cli name =
     bindE id (os_ReadFile (Host cli) (site_file cli name)) (\<lambda>scFile.
     bindE (Wrapf ''Failed to decode json for site config definition'')
       (liftE (unmarshal (dec_ptr dec_site zero_SiteConfig) scFile (Some zero_SiteConfig))) returnE)"

section \<open>Certificates\<close>

text \<open>\<open>getCertData\<close> (\<open>client/router_create.go\<close>) returns what it has read so far along with the error.\<close>

fun read_certs ::
  "host \<Rightarrow> string \<Rightarrow> string list \<Rightarrow> string gomap \<Rightarrow> (World, string gomap \<times> error option) oper" where
  "read_certs h certPath [] certData = returnE (certData, None)"
| "read_certs h certPath (f # fs) certData =
     tryE (os_ReadFile h (certPath @ ''/'' @ f)) (\<lambda>r.
       case r of
         Inr dataString \<Rightarrow> read_certs h certPath fs (fmupd f dataString certData)
       | Inl e \<Rightarrow> returnE (certData, Some (Wrapf ''Failed to read certificat data'' e)))"

definition getCertData :: "VanClient \<Rightarrow> string \<Rightarrow> (World, string gomap \<times> error option) oper" where
  "getCertData cli name =
     (let certPath = skupper_path cli CertsPath @ ''/'' @ name
      in tryE (os_ReadDir (Host cli) certPath) (\<lambda>r.
           case r of
             Inl e \<Rightarrow> returnE (fmempty, Some e)
           | Inr fnames \<Rightarrow> read_certs (Host cli) certPath fnames fmempty))"


section \<open>The router configuration file as a store\<close>

text \<open>What a reader of the file sees, and the contract of the services file, met by this one too.\<close>

definition router_config :: "VanClient \<Rightarrow> World \<Rightarrow> RouterConfig option" where
  "router_config cli w =
     (case fs_ReadFile (files w) (resolve (Host cli) (config_file cli)) of
        Inl _ \<Rightarrow> None
      | Inr content \<Rightarrow> (case UnmarshalRouterConfig content of Inl _ \<Rightarrow> None | Inr r \<Rightarrow> Some r))"

lemma config_file_not_Nil [simp]: "config_file cli \<noteq> []"
  by (simp add: config_file_def)

lemma with_router_config_run:
  "router_config cli w = Some r \<Longrightarrow> with_router_config cli k w = k r w"
  "router_config cli w = None \<Longrightarrow> \<exists>e. with_router_config cli k w = (Inl e, w)"
  by (auto simp: router_config_def with_router_config_def GetRouterConfigFromFile_def os_ReadFile_def deref_def
      bindE_def split: sum.splits)

lemma convert_element_stores: "convert_element ty dec j zero f = Inr c \<Longrightarrow> \<exists>e. c = f e"
  by (auto simp: convert_element_def bindR_def split: sum.splits)

lemma add_entity_wf: "wf_config c \<Longrightarrow> add_entity ty j c = Inr c' \<Longrightarrow> wf_config c'"
  unfolding add_entity_def
  by (auto split: if_splits dest!: convert_element_stores
      simp: wf_defs keyed_upd store_Metadata_def store_Address_def store_Connector_def store_Listener_def
        store_SslProfile_def add_defs)

lemma UnmarshalRouterConfig_wf: "UnmarshalRouterConfig content = Inr r \<Longrightarrow> wf_config r"
proof -
  assume "UnmarshalRouterConfig content = Inr r"
  then obtain obj where "(case obj of JArr elements \<Rightarrow> foldR add_element elements empty_config
      | _ \<Rightarrow> Inl (Errorf ''Invalid JSON for router configuration, expected array at top level'')) = Inr r"
    by (auto simp: UnmarshalRouterConfig_def bindR_Inr_iff)
  then obtain es where es: "foldR add_element es empty_config = Inr r"
    by (cases obj) auto
  show ?thesis
  proof (rule foldR_keeps [where P = wf_config, OF _ _ es])
    show "wf_config empty_config" by (simp add: wf_defs empty_config_def NewBridgeConfig_def)
  next
    fix e b b'
    assume "wf_config b" "add_element e b = Inr b'"
    then show "wf_config b'"
      by (auto simp: add_element_def result_iff split: json.splits list.splits intro: add_entity_wf)
  qed
qed

lemma write_router_config_run:
  assumes "wf_fs (files w)" and "router_config cli w = Some r0" and "wf_config r" and "range_ok (h_rng (Host cli))"
  shows "\<exists>content. write_router_config cli r w =
      (Inr (), w\<lparr>files := fmupd (resolve (Host cli) (config_file cli)) (File content) (files w)\<rparr>) \<and>
    UnmarshalRouterConfig content = Inr r \<and>
    wf_fs (fmupd (resolve (Host cli) (config_file cli)) (File content) (files w))"
proof -
  obtain c0 where c0: "fs_ReadFile (files w) (resolve (Host cli) (config_file cli)) = Inr c0"
    using assms(2) by (auto simp: router_config_def split: sum.splits)
  obtain content where content: "MarshalRouterConfig (h_rng (Host cli)) r = Inr content"
    by (simp add: MarshalRouterConfig_def)
  moreover have "UnmarshalRouterConfig content = Inr r"
    using read_written [OF assms(4,3)] content by simp
  moreover have "os_WriteFile (Host cli) (config_file cli) content w =
      (Inr (), w\<lparr>files := fmupd (resolve (Host cli) (config_file cli)) (File content) (files w)\<rparr>)"
    using fs_WriteFile_existing [OF assms(1) c0] by (simp add: os_WriteFile_def)
  moreover have "wf_fs (fmupd (resolve (Host cli) (config_file cli)) (File content) (files w))"
    using wf_fs_WriteFile [OF assms(1)] fs_WriteFile_existing [OF assms(1) c0] by (metis snd_conv)
  ultimately show ?thesis
    by (intro exI [of _ content]) (simp add: write_router_config_def WriteToConfigFile_def)
qed

lemma router_config_upd:
  "router_config cli (w\<lparr>files := fmupd (resolve (Host cli) (config_file cli)) (File content) fs\<rparr>) =
     (case UnmarshalRouterConfig content of Inl _ \<Rightarrow> None | Inr r \<Rightarrow> if resolve (Host cli) (config_file cli) = [] then None else Some r)"
  by (auto simp: router_config_def fs_ReadFile_def split: sum.splits)

lemma router_config_path: "router_config cli w = Some r \<Longrightarrow> resolve (Host cli) (config_file cli) \<noteq> []"
  by (auto simp: router_config_def fs_ReadFile_def split: sum.splits)

lemma router_config_files: "files w' = files w \<Longrightarrow> router_config cli w' = router_config cli w"
  by (simp add: router_config_def)

interpretation router_file: file_store "with_router_config cli returnE" "write_router_config cli" "router_config cli"
    "\<lambda>w. wf_fs (files w) \<and> range_ok (h_rng (Host cli))" wf_config for cli
proof unfold_locales
  fix w r r0
  show "router_config cli w = Some r \<Longrightarrow> with_router_config cli returnE w = (Inr r, w)"
    by (simp add: with_router_config_run)
  show "router_config cli w = None \<Longrightarrow> \<exists>e. with_router_config cli returnE w = (Inl e, w)"
    by (rule with_router_config_run)
  show "router_config cli w = Some r \<Longrightarrow> wf_config r"
    by (auto simp: router_config_def split: sum.splits intro: UnmarshalRouterConfig_wf)
  assume a: "wf_fs (files w) \<and> range_ok (h_rng (Host cli))" "router_config cli w = Some r0" "wf_config r"
  then obtain content where "write_router_config cli r w =
      (Inr (), w\<lparr>files := fmupd (resolve (Host cli) (config_file cli)) (File content) (files w)\<rparr>)"
    "UnmarshalRouterConfig content = Inr r" "wf_fs (fmupd (resolve (Host cli) (config_file cli)) (File content) (files w))"
    using write_router_config_run by blast
  then show "\<exists>w'. write_router_config cli r w = (Inr (), w') \<and> router_config cli w' = Some r \<and>
      (wf_fs (files w') \<and> range_ok (h_rng (Host cli))) \<and> calls w' = calls w"
    using a router_config_path [OF a(2)] by (simp add: router_config_upd)
qed

end
