(* ===== verification/Connectors.thy ===== *)
theory Connectors
  imports SiteFiles
begin

text \<open>
  The connector operations of the client, \<open>client/connector_*.go\<close>. A token is a file written and read by the certificate package, which is a parameter of the host
  (\<open>h_get_secret\<close>, \<open>h_put_secret\<close>).
\<close>

section \<open>Names of connectors\<close>

text \<open>What the group of \<open>conn([0-9])+\<close> holds after the leftmost match: the last digit of the run.\<close>

fun conn_group :: "string \<Rightarrow> char option" where
  "conn_group [] = None"
| "conn_group (c # s) =
     (let digits = takeWhile is_digit (drop 4 (c # s))
      in if has_prefix (c # s) ''conn'' \<and> digits \<noteq> [] then Some (last digits) else conn_group s)"

definition next_number :: "string \<Rightarrow> int \<Rightarrow> int" where
  "next_number fname m =
     (case conn_group fname of
        None \<Rightarrow> m
      | Some c \<Rightarrow>
          (let v = (case atoi [c] of Inl _ \<Rightarrow> 0 | Inr i \<Rightarrow> i)
           in if v \<ge> m then v + 1 else m))"

definition connector_name :: "string list \<Rightarrow> string" where
  "connector_name fnames = ''conn'' @ itoa (fold next_number fnames 1)"

definition generateConnectorName :: "host \<Rightarrow> string \<Rightarrow> (World, string) oper" where
  "generateConnectorName h path =
     bindE (Wrapf ''Could not retrieve configured connectors (need init?)'') (os_ReadDir h path) (\<lambda>fnames.
       returnE (connector_name fnames))"

section \<open>Creating and removing\<close>

definition secret_file :: "string \<Rightarrow> string \<times> string \<Rightarrow> VanClient \<Rightarrow> (World, unit) oper" where
  "secret_file connPath kv cli =
     (case kv of (k, v) \<Rightarrow>
        if k = TokenGeneratedBy then
          bindE (Wrapf ''Failed to write connector file'') (os_WriteFile (Host cli) (connPath @ ''/generated-by'') v) returnE
        else
          bindE (Wrapf ''Failed to write connector certificate file'')
            (os_WriteFile (Host cli) (connPath @ ''/'' @ k) v) returnE)"

text \<open>\<open>content, _ := ioutil.ReadFile(...)\<close>: nothing when the file cannot be read.\<close>

definition read_or_empty :: "host \<Rightarrow> string \<Rightarrow> (World, string) oper" where
  "read_or_empty h fname =
     tryE (os_ReadFile h fname) (\<lambda>r. case r of Inl _ \<Rightarrow> returnE [] | Inr s \<Rightarrow> returnE s)"

definition token_suffix :: "RouterConfig \<Rightarrow> string" where
  "token_suffix r = (if IsEdge r then ''/edge-'' else ''/inter-router-'')"

definition new_connector :: "RouterConfig \<Rightarrow> string \<Rightarrow> int32 \<Rightarrow> string \<Rightarrow> string \<Rightarrow> Connector" where
  "new_connector current name cost host port =
     zero_Connector\<lparr>cn_Name := name, cn_Cost := cost, cn_SslProfile := name @ ''-profile'',
       cn_Host := host, cn_Port := port, cn_Role := (if IsEdge current then RoleEdge else RoleInterRouter)\<rparr>"

definition with_connector :: "string \<Rightarrow> int32 \<Rightarrow> string \<Rightarrow> string \<Rightarrow> RouterConfig \<Rightarrow> RouterConfig" where
  "with_connector name cost host port current =
     AddConnector (new_connector current name cost host port)
       (AddConnSslProfile (zero_SslProfile\<lparr>sp_Name := name @ ''-profile''\<rparr>) current)"

definition restart_all :: "string \<Rightarrow> string \<Rightarrow> VanClient \<Rightarrow> (World, unit) oper" where
  "restart_all on_transport on_controller cli =
     bindE (Wrapf on_transport) (RestartTransportContainer (DockerInterface cli)) (\<lambda>_.
     bindE (Wrapf on_controller) (RestartContainer ControllerDeploymentName (DockerInterface cli)) (\<lambda>_.
     bindE (Wrapf ''Failed to list proxies to restart'') (ServiceInterfaceList cli) (\<lambda>vsis.
     forE (\<lambda>vs. bindE (Wrapf ''Failed to restart proxy container'')
       (RestartContainer (si_Address vs) (DockerInterface cli)) returnE) vsis)))"

definition store_token :: "VanClient \<Rightarrow> string gomap \<Rightarrow> string \<Rightarrow> (World, unit) oper" where
  "store_token cli secret connPath =
     bindE (Wrapf ''Failed to create skupper connector directory'') (os_Mkdir (Host cli) connPath) (\<lambda>_.
     forE (\<lambda>kv. secret_file connPath kv cli) (range_of (h_rng (Host cli)) secret))"

definition configure_connector :: "VanClient \<Rightarrow> string \<Rightarrow> string \<Rightarrow> int32 \<Rightarrow> (World, unit) oper" where
  "configure_connector cli connPath name cost =
     with_router_config cli (\<lambda>current.
     bindE id (read_or_empty (Host cli) (connPath @ token_suffix current @ ''host'')) (\<lambda>hostString.
     bindE id (read_or_empty (Host cli) (connPath @ token_suffix current @ ''port'')) (\<lambda>portString.
     write_router_config cli (with_connector name cost hostString portString current))))"

definition connect_files ::
  "VanClient \<Rightarrow> string gomap \<Rightarrow> string \<Rightarrow> int32 \<Rightarrow> (World, unit) oper" where
  "connect_files cli secret name cost =
     (let connPath = skupper_path cli ConnectionsPath @ ''/'' @ name
      in bindE id (store_token cli secret connPath) (\<lambda>_. configure_connector cli connPath name cost))"

definition get_secret :: "VanClient \<Rightarrow> string \<Rightarrow> (World, string gomap) oper" where
  "get_secret cli secretFile w = (h_get_secret (Host cli) (files w) secretFile, w)"

definition choose_name :: "VanClient \<Rightarrow> ConnectorCreateOptions \<Rightarrow> (World, string) oper" where
  "choose_name cli options =
     (if co_Name options = [] then generateConnectorName (Host cli) (skupper_path cli ConnectionsPath)
      else returnE (co_Name options))"

definition connect_as :: "VanClient \<Rightarrow> string gomap \<Rightarrow> int32 \<Rightarrow> string \<Rightarrow> (World, string) oper" where
  "connect_as cli secret cost name =
     bindE id (connect_files cli secret name cost) (\<lambda>_.
     bindE id (restart_all ''Failed to re-start transport container''
                 ''Failed to re-start controller container'' cli) (\<lambda>_. returnE name))"

definition connect_site :: "VanClient \<Rightarrow> string gomap \<Rightarrow> ConnectorCreateOptions \<Rightarrow> (World, string) oper" where
  "connect_site cli secret options =
     (case fmlookup secret ''skupper.io/generated-by'' of
        None \<Rightarrow> failE (Errorf ''Cannot find secret origin for token'')
      | Some generatedBy \<Rightarrow>
          bindE (Wrapf ''Unable to retrieve site UUID'') (SiteConfigInspect cli DefaultBridgeName) (\<lambda>p.
          bindE id (deref p) (\<lambda>sc.
          if sg_UID sc = generatedBy then failE (Errorf ''Cannot create connection to self with token'')
          else bindE id (choose_name cli options) (connect_as cli secret (co_Cost options)))))"

definition ConnectorCreate :: "VanClient \<Rightarrow> string \<Rightarrow> ConnectorCreateOptions \<Rightarrow> (World, string) oper" where
  "ConnectorCreate cli secretFile options =
     bindE (Wrapf ''Failed to make connector'') (get_secret cli secretFile) (\<lambda>secret.
     need_router cli (connect_site cli secret options))"

definition ConnectorRemove :: "VanClient \<Rightarrow> string \<Rightarrow> (World, unit) oper" where
  "ConnectorRemove cli name =
     bindE (Wrapf ''Failed to retrieve transport container'')
       (InspectContainer ''skupper-router'' (DockerInterface cli)) (\<lambda>_.
     with_router_config cli (\<lambda>current.
     bindE id
       (case RemoveConnector name current of
          (found, r1) \<Rightarrow>
            if found then
              bindE (Wrapf ''Failed to remove connector file contents'')
                (os_RemoveAll (Host cli) (skupper_path cli ConnectionsPath @ ''/'' @ name)) (\<lambda>_.
              write_router_config cli (snd (RemoveConnSslProfile name r1)))
            else returnE ()) (\<lambda>_.
     restart_all ''Failed to restart transport container'' ''Failed to restart controller container'' cli)))"

section \<open>Tokens, listing and inspection\<close>

definition token_annotations :: "string \<Rightarrow> string \<Rightarrow> string gomap" where
  "token_annotations ipAddr uid =
     fmap_of_list [(''inter-router-port'', ''55671''), (''inter-router-host'', ipAddr), (TokenGeneratedBy, uid)]"

definition put_secret :: "VanClient \<Rightarrow> string \<Rightarrow> string \<Rightarrow> string gomap \<Rightarrow> string gomap \<Rightarrow> (World, unit) oper" where
  "put_secret cli subject secretFile certData annotations w =
     (Inr (), w\<lparr>files := h_put_secret (Host cli) subject secretFile certData annotations (files w)\<rparr>)"

definition make_token :: "VanClient \<Rightarrow> string \<Rightarrow> string \<Rightarrow> ContainerJSON \<Rightarrow> RouterConfig \<Rightarrow> (World, unit) oper" where
  "make_token cli subject secretFile router current =
     (if IsEdge current then failE (Errorf ''Edge mode transport configuration cannot accept connections'')
      else
        bindE id (getCertData cli ''skupper-internal-ca'') (\<lambda>(caData, err).
        bindE (Wrapf ''Unable to retrieve CA data'')
          (case err of Some e \<Rightarrow> failE e | None \<Rightarrow> returnE ()) (\<lambda>_.
        bindE id (deref (fmlookup (cj_Networks router) ''skupper-network'')) (\<lambda>ipAddr.
        bindE (Wrapf ''Unable to retrieve site config data'') (SiteConfigInspect cli DefaultBridgeName) (\<lambda>p.
        bindE id (deref p) (\<lambda>sc.
        put_secret cli subject secretFile (h_gen_cert (Host cli) subject subject ipAddr caData)
          (token_annotations ipAddr (sg_UID sc))))))))"

definition ConnectorTokenCreate :: "VanClient \<Rightarrow> string \<Rightarrow> string \<Rightarrow> (World, unit) oper" where
  "ConnectorTokenCreate cli subject secretFile =
     bindE (Wrapf ''Unable to retrieve transport container (need init?)'')
       (InspectContainer ''skupper-router'' (DockerInterface cli)) (\<lambda>router.
     with_router_config cli (make_token cli subject secretFile router))"

definition connector_entry :: "VanClient \<Rightarrow> RouterConfig \<Rightarrow> string \<Rightarrow> (World, TypesConnector) oper" where
  "connector_entry cli current fname =
     bindE id (read_or_empty (Host cli) (skupper_path cli ConnectionsPath @ ''/'' @ fname @ token_suffix current @ ''host'')) (\<lambda>host.
     bindE id (read_or_empty (Host cli) (skupper_path cli ConnectionsPath @ ''/'' @ fname @ token_suffix current @ ''port'')) (\<lambda>port.
     returnE \<lparr>tc_Name = fname, tc_Role = (if IsEdge current then ConnectorRoleEdge else ConnectorRoleInterRouter),
              tc_Host = host, tc_Port = port\<rparr>))"

fun connector_entries :: "VanClient \<Rightarrow> RouterConfig \<Rightarrow> string list \<Rightarrow> (World, TypesConnector list) oper" where
  "connector_entries cli current [] = returnE []"
| "connector_entries cli current (f # fs) =
     bindE id (connector_entry cli current f) (\<lambda>c.
     bindE id (connector_entries cli current fs) (\<lambda>cs. returnE (c # cs)))"

definition ConnectorList :: "VanClient \<Rightarrow> (World, TypesConnector list) oper" where
  "ConnectorList cli =
     bindE (Wrapf ''Unable to retrieve transport container (need init?)'')
       (InspectContainer ''skupper-router'' (DockerInterface cli)) (\<lambda>_.
     with_router_config cli (\<lambda>current.
     bindE (Wrapf ''Failed to read connector definitions'')
       (os_ReadDir (Host cli) (skupper_path cli ConnectionsPath)) (\<lambda>fnames.
     connector_entries cli current fnames)))"


section \<open>The names generated\<close>

lemma digit_char_val: "digit_val c = Some n \<Longrightarrow> n < 10 \<and> c = digit_char n"
  by (auto simp: digit_val_def digit_char_def Let_def split: if_splits)

lemma conn_group_digit: "conn_group s = Some c \<Longrightarrow> is_digit c"
proof (induction s rule: conn_group.induct)
  case (2 c' s)
  let ?ds = "takeWhile is_digit (drop 4 (c' # s))"
  have "is_digit (last ?ds)" if "?ds \<noteq> []"
    using set_takeWhileD [OF last_in_set [OF that]] by blast
  with 2 show ?case by (auto simp: Let_def split: if_splits)
qed simp

lemma atoi_digit: "n < 10 \<Longrightarrow> atoi [digit_char n] = Inr (int n)"
  using atoi_itoa [of "int n"] by (simp add: itoa_def nat_digits.simps [of n] int64_range_def)

lemma conn_group_number:
  assumes "conn_group s = Some c"
  obtains n where "n < 10" "c = digit_char n" "atoi [c] = Inr (int n)"
proof -
  obtain n where "digit_val c = Some n"
    using conn_group_digit [OF assms] by (auto simp: is_digit_def)
  with digit_char_val [of c n] atoi_digit [of n] show thesis by (auto intro: that)
qed

lemma next_number_mono: "m \<le> next_number s m"
  by (auto simp: next_number_def split: option.split sum.split)

lemma next_number_above: "conn_group s = Some (digit_char n) \<Longrightarrow> n < 10 \<Longrightarrow> int n < next_number s m"
  by (simp add: next_number_def atoi_digit Let_def)

lemma next_number_le: "1 \<le> m \<Longrightarrow> m \<le> 10 \<Longrightarrow> next_number s m \<le> 10"
  by (cases "conn_group s") (auto simp: next_number_def Let_def elim!: conn_group_number)

lemma fold_next_number_mono: "m \<le> fold next_number fs m"
  by (induction fs arbitrary: m) (auto intro: order_trans next_number_mono)

lemma fold_next_number_le: "1 \<le> m \<Longrightarrow> m \<le> 10 \<Longrightarrow> fold next_number fs m \<le> 10"
proof (induction fs arbitrary: m)
  case (Cons s fs)
  show ?case
    using Cons.IH [of "next_number s m"] next_number_mono [of m s] next_number_le [OF Cons.prems, of s] Cons.prems
    by simp
qed simp

lemma fold_next_number_above:
  assumes "s \<in> set fs" and "conn_group s = Some (digit_char n)" and "n < 10"
  shows "int n < fold next_number fs m"
proof -
  obtain xs ys where "fs = xs @ s # ys" using assms(1) by (meson split_list)
  then have "fold next_number fs m = fold next_number ys (next_number s (fold next_number xs m))"
    by simp
  moreover note fold_next_number_mono [of "next_number s (fold next_number xs m)" ys]
  moreover note next_number_above [OF assms(2,3), of "fold next_number xs m"]
  ultimately show ?thesis by linarith
qed

lemma conn_group_conn:
  assumes "ds \<noteq> []" and "\<forall>c \<in> set ds. is_digit c"
  shows "conn_group (''conn'' @ ds) = Some (last ds)"
proof -
  have digits: "takeWhile is_digit ds = ds" using assms(2) by (simp add: takeWhile_eq_all_conv)
  show ?thesis by (simp add: has_prefix_def Let_def digits assms(1))
qed

lemma generated_number:
  "1 \<le> fold next_number fnames 1" "fold next_number fnames 1 \<le> 10"
  using fold_next_number_mono [of 1 fnames] fold_next_number_le [of 1 fnames] by simp_all

lemma generated_name_ten: "fold next_number fnames 1 = 10 \<Longrightarrow> connector_name fnames = ''conn10''"
proof -
  have ten: "itoa 10 = ''10''" by code_simp
  show "fold next_number fnames 1 = 10 \<Longrightarrow> connector_name fnames = ''conn10''"
    by (simp add: connector_name_def ten)
qed

lemma generated_name_nine:
  assumes "\<exists>s \<in> set fnames. conn_group s = Some (CHR ''9'')"
  shows "connector_name fnames = ''conn10''"
proof -
  have nine: "CHR ''9'' = digit_char 9" by code_simp
  obtain s where "s \<in> set fnames" "conn_group s = Some (digit_char 9)" using assms nine by auto
  from fold_next_number_above [OF this, of 1] generated_number(2) [of fnames] show ?thesis
    by (intro generated_name_ten) simp
qed

text \<open>
  C30 (safety). A name generated for a connector is one of \<open>conn1\<close> to \<open>conn10\<close>, and it is not the name
  of an entry of the directory unless it is \<open>conn10\<close>; as soon as an entry's number ends in the digit
  9 it is always \<open>conn10\<close>, because the regular expression keeps only the last digit of a number.
\<close>

theorem generated_name_fresh:
  "(connector_name fnames \<in> set fnames \<longrightarrow> connector_name fnames = ''conn10'') \<and>
   (\<exists>n. 1 \<le> n \<and> n \<le> 10 \<and> connector_name fnames = ''conn'' @ itoa n) \<and>
   ((\<exists>s \<in> set fnames. conn_group s = Some (CHR ''9'')) \<longrightarrow> connector_name fnames = ''conn10'')"
proof -
  let ?n = "fold next_number fnames 1"
  have "?n = 10" if "connector_name fnames \<in> set fnames"
  proof (rule ccontr)
    assume "?n \<noteq> 10"
    then have "?n = int (nat ?n)" "nat ?n < 10" using generated_number [of fnames] by linarith+
    then obtain k where k: "?n = int k" "k < 10" by blast
    then have "itoa ?n = [digit_char k]" by (simp add: itoa_def nat_digits.simps [of k])
    moreover have "is_digit (digit_char k)" using k(2) by (simp add: is_digit_def)
    ultimately have "conn_group (connector_name fnames) = Some (digit_char k)"
      using conn_group_conn [of "[digit_char k]"] by (simp add: connector_name_def)
    from fold_next_number_above [OF that this k(2), of 1] k(1) show False by simp
  qed
  moreover have "\<exists>n. 1 \<le> n \<and> n \<le> 10 \<and> connector_name fnames = ''conn'' @ itoa n"
    using generated_number by (auto simp: connector_name_def)
  ultimately show ?thesis using generated_name_ten generated_name_nine by blast
qed

lemma generated_name_fresh_witness:
  "connector_name [''conn1'', ''conn10'', ''conn9''] = ''conn10'' \<and> connector_name [''conn1'', ''east''] = ''conn2''"
proof -
  have "conn_group ''conn9'' = Some (CHR ''9'')" by code_simp
  then have "connector_name [''conn1'', ''conn10'', ''conn9''] = ''conn10''"
    using generated_name_fresh [of "[''conn1'', ''conn10'', ''conn9'']"] by auto
  moreover have "connector_name [''conn1'', ''east''] = ''conn2''" by code_simp
  ultimately show ?thesis by blast
qed

end
