(* ===== verification/Connecting.thy ===== *)
theory Connecting
  imports Connectors
begin

text \<open>
  What \<open>ConnectorCreate\<close> and \<open>ConnectorRemove\<close> do to the files of a site: which phases only read, the
  directory of a new connection, and the router configuration before and after.
\<close>

section \<open>Operations that only read\<close>

named_theorems only_reads \<open>operations that leave the world as it is\<close>

lemma keeps_eq_steps [only_reads]:
  "keeps (=) (returnE x)" "keeps (=) (failE e)" "keeps (=) (liftE r)"
  "keeps (=) (os_ReadFile h s)" "keeps (=) (os_ReadDir h s)" "keeps (=) (deref p)"
  by (auto simp: keeps_def os_defs deref_def split: option.split)

interpretation same_world: step_relation "(=) :: World \<Rightarrow> World \<Rightarrow> bool"
  by unfold_locales (simp_all add: reflp_def transp_def)

lemmas keeps_eq_bind [only_reads] = same_world.kept(4,5)

lemma keeps_eq_reads [only_reads]:
  "keeps (=) (GetRouterConfigFromFile h n)" "keeps (=) (SiteConfigInspect cli n)"
  "keeps (=) (generateConnectorName h n)" "keeps (=) (read_or_empty h n)" "keeps (=) (get_secret cli f)"
proof -
  show "keeps (=) (GetRouterConfigFromFile h n)"
    unfolding GetRouterConfigFromFile_def by (simp add: only_reads)
  show "keeps (=) (SiteConfigInspect cli n)"
    unfolding SiteConfigInspect_def by (intro only_reads)
  show "keeps (=) (generateConnectorName h n)"
    unfolding generateConnectorName_def by (intro only_reads)
  show "keeps (=) (read_or_empty h n)"
    unfolding read_or_empty_def by (intro only_reads) (auto split: sum.split intro: only_reads)
  show "keeps (=) (get_secret cli f)"
    by (simp add: keeps_def get_secret_def)
qed

lemma keeps_eq_getCertData [only_reads]: "keeps (=) (getCertData cli n)"
proof -
  have read: "keeps (=) (read_certs h p fs m)" for h p fs m
  proof (induction fs arbitrary: m)
    case Nil
    show ?case unfolding read_certs.simps by (rule only_reads)
  next
    case (Cons a fs)
    show ?case unfolding read_certs.simps by (intro only_reads same_world.kept_sum Cons)
  qed
  show ?thesis unfolding getCertData_def Let_def by (intro only_reads same_world.kept_sum read)
qed

lemma reads_same: "keeps (=) m \<Longrightarrow> m w = (r, w') \<Longrightarrow> w' = w"
  by (auto dest: keepsD)

lemma reads_run: "keeps (=) m \<Longrightarrow> m w = (fst (m w), w)"
  by (metis keeps_def prod.collapse)

definition site_of :: "VanClient \<Rightarrow> World \<Rightarrow> SiteConfig option" where
  "site_of cli w =
     (case fst (SiteConfigInspect cli DefaultBridgeName w) of Inr p \<Rightarrow> p | Inl _ \<Rightarrow> None)"

definition secret_of :: "VanClient \<Rightarrow> string \<Rightarrow> World \<Rightarrow> string gomap option" where
  "secret_of cli f w = (case h_get_secret (Host cli) (files w) f of Inr s \<Rightarrow> Some s | Inl _ \<Rightarrow> None)"

definition chosen_name :: "VanClient \<Rightarrow> ConnectorCreateOptions \<Rightarrow> World \<Rightarrow> string option" where
  "chosen_name cli options w =
     (case fst (choose_name cli options w) of Inr n \<Rightarrow> Some n | Inl _ \<Rightarrow> None)"

lemma keeps_eq_choose [only_reads]: "keeps (=) (choose_name cli options)"
  unfolding choose_name_def by (auto intro: only_reads)

lemma reads_send:
  "fst (SiteConfigInspect cli n (send call ctx w)) = fst (SiteConfigInspect cli n w)"
  "fst (choose_name cli options (send call ctx w)) = fst (choose_name cli options w)"
  by (auto simp: SiteConfigInspect_def choose_name_def generateConnectorName_def os_ReadFile_def os_ReadDir_def
      bindE_def send_simps split: sum.split)

lemma views_send [simp]:
  "site_of cli (send call ctx w) = site_of cli w"
  "chosen_name cli options (send call ctx w) = chosen_name cli options w"
  by (simp_all add: site_of_def chosen_name_def reads_send)

section \<open>The phases of ConnectorCreate\<close>

text \<open>Before the phase that writes files everything only reads, and that phase is reached only with a
  token of another site.\<close>

lemma connect_site_phases:
  assumes "connect_site cli secret options w = (r, w')"
  shows "((\<exists>e. r = Inl e) \<and> w' = w) \<or>
    (\<exists>origin sc name. fmlookup secret ''skupper.io/generated-by'' = Some origin \<and> site_of cli w = Some sc \<and>
       sg_UID sc \<noteq> origin \<and> chosen_name cli options w = Some name \<and>
       connect_as cli secret (co_Cost options) name w = (r, w'))"
proof (cases "fmlookup secret ''skupper.io/generated-by''")
  case None
  with assms show ?thesis by (auto simp: connect_site_def)
next
  case (Some origin)
  note site = reads_run [OF keeps_eq_reads(2), of cli DefaultBridgeName w]
  note name = reads_run [OF keeps_eq_choose, of cli options w]
  show ?thesis
  proof (cases "site_of cli w")
    case None
    then show ?thesis
      using assms Some site
      by (cases "fst (SiteConfigInspect cli DefaultBridgeName w)")
        (auto simp: connect_site_def site_of_def deref_def)
  next
    case (Some sc)
    then have "SiteConfigInspect cli DefaultBridgeName w = (Inr (Some sc), w)"
      using site by (auto simp: site_of_def split: sum.splits)
    then show ?thesis
      using assms \<open>fmlookup secret _ = Some origin\<close> Some name
      by (cases "fst (choose_name cli options w)")
        (auto simp: connect_site_def chosen_name_def deref_def split: if_splits)
  qed
qed

lemma ConnectorCreate_phases:
  assumes "ConnectorCreate cli f options w = (r, w')"
  shows "((\<exists>e. r = Inl e) \<and> files w' = files w) \<or>
    (\<exists>secret origin sc name w1. secret_of cli f w = Some secret \<and>
       fmlookup secret ''skupper.io/generated-by'' = Some origin \<and> site_of cli w = Some sc \<and>
       sg_UID sc \<noteq> origin \<and> chosen_name cli options w = Some name \<and> files w1 = files w \<and>
       call_list w1 = call_list w @ [ContainerInspect ''skupper-router''] \<and>
       connect_as cli secret (co_Cost options) name w1 = (r, w'))"
proof (cases "h_get_secret (Host cli) (files w) f")
  case (Inl e)
  with assms show ?thesis by (auto simp: ConnectorCreate_def get_secret_def)
next
  case (Inr secret)
  let ?w1 = "send (ContainerInspect ''skupper-router'') (getTimeoutContext (DockerInterface cli)) w"
  have secret: "secret_of cli f w = Some secret" using Inr by (simp add: secret_of_def)
  have run: "need_router cli (connect_site cli secret options) w = (r, w')"
    using assms Inr by (simp add: ConnectorCreate_def get_secret_def)
  from need_router_cases [of cli w "connect_site cli secret options"] run
  have "((\<exists>e. r = Inl e) \<and> w' = ?w1) \<or> connect_site cli secret options ?w1 = (r, w')" by auto
  then show ?thesis
    using connect_site_phases [of cli secret options ?w1 r w'] secret by (fastforce simp: send_simps)
qed


section \<open>The directory of a connection\<close>

definition connections_dir :: "path \<Rightarrow> path" where
  "connections_dir d = d @ [''skupper'', ''connections'']"

definition config_path :: "path \<Rightarrow> path" where
  "config_path d = d @ [''skupper'', ''config'', ''qdrouterd.json'']"

abbreviation site_at :: "VanClient \<Rightarrow> path \<Rightarrow> bool" where
  "site_at cli d \<equiv> rooted_at (h_env (Host cli)) d"

lemma plain_config: "list_all plain [''qdrouterd.json'']"
  by (simp add: plain_def)

lemma resolve_config: "site_at cli d \<Longrightarrow> resolve (Host cli) (config_file cli) = config_path d"
  using resolve_skupper [OF _ plain_config, of "h_env (Host cli)" d "Host cli" ConfigPath]
  by (simp add: config_file_def skupper_path_def config_path_def sub_path_def)

lemma resolve_connection:
  assumes "site_at cli d" and "plain name"
  shows "resolve (Host cli) (skupper_path cli ConnectionsPath @ CHR ''/'' # name) = connections_dir d @ [name]"
    and "plain k \<Longrightarrow> resolve (Host cli) (skupper_path cli ConnectionsPath @ CHR ''/'' # name @ CHR ''/'' # k) =
      connections_dir d @ [name, k]"
  using resolve_skupper [OF assms(1), of "[name]" "Host cli" ConnectionsPath]
    resolve_skupper [OF assms(1), of "[name, k]" "Host cli" ConnectionsPath] assms(2)
  by (simp_all add: skupper_path_def connections_dir_def sub_path_def)

lemma skupper_path_not_Nil [simp]: "site_at cli d \<Longrightarrow> skupper_path cli p \<noteq> []"
  by (simp add: skupper_path_def GetSkupperPath_abs)

lemma wf_fs_below:
  "wf_fs fs \<Longrightarrow> p \<noteq> [] \<Longrightarrow> fmlookup fs p = None \<Longrightarrow> fmlookup fs (p @ q) = None"
proof (induction q rule: rev_induct)
  case (snoc x q)
  show ?case
  proof (rule ccontr)
    assume "fmlookup fs (p @ q @ [x]) \<noteq> None"
    then have "is_dir fs (butlast (p @ q @ [x]))"
      using snoc.prems(1) unfolding wf_fs_def by blast
    then have "p @ q = [] \<or> fmlookup fs (p @ q) = Some Dir" by (simp add: is_dir_def butlast_append)
    with snoc show False by simp
  qed
qed simp

definition token_name :: "string \<Rightarrow> string" where
  "token_name k = (if k = TokenGeneratedBy then ''generated-by'' else k)"

definition token_key_ok :: "string \<Rightarrow> bool" where
  "token_key_ok k \<longleftrightarrow> k = TokenGeneratedBy \<or> plain k \<and> k \<noteq> ''generated-by''"

definition token_ok :: "string gomap \<Rightarrow> bool" where
  "token_ok secret \<longleftrightarrow> fmpred (\<lambda>k _. token_key_ok k) secret"

definition token_files :: "path \<Rightarrow> (string \<times> string) list \<Rightarrow> (path \<times> node) list" where
  "token_files conn kvs = map (\<lambda>(k, v). (conn @ [token_name k], File v)) kvs"

lemma plain_token_name: "token_key_ok k \<Longrightarrow> plain (token_name k)"
  by (auto simp: token_key_ok_def token_name_def plain_def)

lemma token_name_inj: "token_key_ok k \<Longrightarrow> token_key_ok k' \<Longrightarrow> token_name k = token_name k' \<Longrightarrow> k = k'"
  by (auto simp: token_key_ok_def token_name_def split: if_splits)

lemma secret_file_run:
  assumes "site_at cli d" and "plain name" and "token_key_ok k"
    and "fmlookup (files w) (connections_dir d @ [name]) = Some Dir"
    and "fmlookup (files w) (connections_dir d @ [name, token_name k]) \<noteq> Some Dir"
  shows "secret_file (skupper_path cli ConnectionsPath @ CHR ''/'' # name) (k, v) cli w =
    (Inr (), w\<lparr>files := fmupd (connections_dir d @ [name, token_name k]) (File v) (files w)\<rparr>)"
proof -
  let ?p = "skupper_path cli ConnectionsPath @ CHR ''/'' # name @ CHR ''/'' # token_name k"
  have path: "resolve (Host cli) ?p = connections_dir d @ [name, token_name k]"
    using resolve_connection(2) [OF assms(1,2) plain_token_name [OF assms(3)]] .
  have "os_WriteFile (Host cli) ?p v w =
      (Inr (), w\<lparr>files := fmupd (connections_dir d @ [name, token_name k]) (File v) (files w)\<rparr>)"
    using assms(1,4,5) by (simp add: os_WriteFile_def path fs_WriteFile_def is_dir_def butlast_append)
  then show ?thesis by (simp add: secret_file_def token_name_def split: if_splits)
qed

lemma secret_files_run:
  assumes "site_at cli d" and "plain name" and "\<forall>(k, v) \<in> set kvs. token_key_ok k"
    and "fmlookup (files w) (connections_dir d @ [name]) = Some Dir"
    and "\<forall>x. fmlookup (files w) (connections_dir d @ [name, x]) \<noteq> Some Dir"
  shows "forE (\<lambda>kv. secret_file (skupper_path cli ConnectionsPath @ CHR ''/'' # name) kv cli) kvs w =
    (Inr (), w\<lparr>files := fold (\<lambda>(p, n). fmupd p n) (token_files (connections_dir d @ [name]) kvs) (files w)\<rparr>)"
  using assms(3-)
proof (induction kvs arbitrary: w)
  case (Cons kv kvs)
  obtain k v where kv: "kv = (k, v)" by (cases kv)
  let ?w1 = "w\<lparr>files := fmupd (connections_dir d @ [name, token_name k]) (File v) (files w)\<rparr>"
  have "secret_file (skupper_path cli ConnectionsPath @ CHR ''/'' # name) (k, v) cli w = (Inr (), ?w1)"
    using Cons.prems kv by (intro secret_file_run assms(1,2)) auto
  moreover have "forE (\<lambda>kv. secret_file (skupper_path cli ConnectionsPath @ CHR ''/'' # name) kv cli) kvs ?w1 =
      (Inr (), ?w1\<lparr>files := fold (\<lambda>(p, n). fmupd p n) (token_files (connections_dir d @ [name]) kvs) (files ?w1)\<rparr>)"
    using Cons.prems kv by (intro Cons.IH) auto
  ultimately show ?case by (simp add: kv token_files_def)
qed (simp add: token_files_def)


lemma wf_token_files:
  assumes "wf_fs fs" and "fmlookup fs conn = Some Dir" and "\<forall>x. fmlookup fs (conn @ [x]) \<noteq> Some Dir"
  shows "wf_fs (fold (\<lambda>(p, n). fmupd p n) (token_files conn kvs) fs)"
  using assms
proof (induction kvs arbitrary: fs)
  case (Cons kv kvs)
  obtain k v where kv: "kv = (k, v)" by (cases kv)
  have "wf_fs (fmupd (conn @ [token_name k]) (File v) fs)"
    using Cons.prems by (intro wf_fs_upd_File) (auto simp: is_dir_def)
  then have "wf_fs (fold (\<lambda>(p, n). fmupd p n) (token_files conn kvs) (fmupd (conn @ [token_name k]) (File v) fs))"
    using Cons.prems by (intro Cons.IH) auto
  then show ?case by (simp add: kv token_files_def)
qed (simp add: token_files_def)

text \<open>What the new directory holds.\<close>

definition token_value :: "string gomap \<Rightarrow> string \<Rightarrow> string" where
  "token_value secret k = (case fmlookup secret k of Some v \<Rightarrow> v | None \<Rightarrow> [])"

lemma token_files_keys:
  assumes "range_ok rng" and "token_ok secret"
  shows "distinct (map fst (token_files conn (range_of rng secret)))"
    and "\<forall>(k, v) \<in> set (range_of rng secret). token_key_ok k"
proof -
  have "\<forall>k \<in> fset (fmdom secret). token_key_ok k"
    using assms(2) by (auto simp: token_ok_def fmpred_iff fmlookup_dom_iff)
  moreover have "set (map fst (range_of rng secret)) = fset (fmdom secret)"
    using assms(1) by (simp add: range_of_keys range_ok_set)
  ultimately have ok: "\<forall>k \<in> set (map fst (range_of rng secret)). token_key_ok k" by simp
  then show "\<forall>(k, v) \<in> set (range_of rng secret). token_key_ok k" by force
  have "inj_on token_name (set (map fst (range_of rng secret)))"
    using ok by (auto simp: inj_on_def dest: token_name_inj)
  then have "distinct (map token_name (map fst (range_of rng secret)))"
    using range_of_distinct [OF assms(1), of secret] by (metis distinct_map)
  then have "distinct (map (\<lambda>x. conn @ [x]) (map token_name (map fst (range_of rng secret))))"
    by (subst distinct_map) (simp add: inj_on_def)
  then show "distinct (map fst (token_files conn (range_of rng secret)))"
    by (simp add: token_files_def comp_def case_prod_beta)
qed

lemma lookup_token_files:
  assumes "range_ok rng" and "token_ok secret"
  shows "fmlookup (fold (\<lambda>(p, n). fmupd p n) (token_files conn (range_of rng secret)) fs) q =
    (case map_of (token_files conn (range_of rng secret)) q of Some n \<Rightarrow> Some n | None \<Rightarrow> fmlookup fs q)"
  by (rule fold_fmupd_lookup [OF token_files_keys(1) [OF assms]])

lemma map_of_token_files:
  assumes "range_ok rng" and "token_ok secret"
  shows "fmlookup secret k = Some v \<Longrightarrow>
      map_of (token_files conn (range_of rng secret)) (conn @ [token_name k]) = Some (File v)"
    and "token_key_ok k \<Longrightarrow> fmlookup secret k = None \<Longrightarrow>
      map_of (token_files conn (range_of rng secret)) (conn @ [token_name k]) = None"
    and "(\<forall>x. q \<noteq> conn @ [x]) \<Longrightarrow> map_of (token_files conn (range_of rng secret)) q = None"
proof -
  note keys = token_files_keys [OF assms]
  show "map_of (token_files conn (range_of rng secret)) (conn @ [token_name k]) = Some (File v)"
    if "fmlookup secret k = Some v"
  proof -
    have "(k, v) \<in> set (range_of rng secret)" using that assms(1) by (simp add: range_of_iff)
    then have "(conn @ [token_name k], File v) \<in> set (token_files conn (range_of rng secret))"
      by (force simp: token_files_def)
    with keys(1) show ?thesis by (rule map_of_is_SomeI)
  qed
  show "map_of (token_files conn (range_of rng secret)) (conn @ [token_name k]) = None"
    if "token_key_ok k" "fmlookup secret k = None"
  proof -
    have "token_name k \<noteq> token_name k'" if "(k', v') \<in> set (range_of rng secret)" for k' v'
    proof
      assume "token_name k = token_name k'"
      moreover have "token_key_ok k'" using keys(2) that by blast
      ultimately have "k = k'" using \<open>token_key_ok k\<close> by (blast dest: token_name_inj)
      then show False using that \<open>fmlookup secret k = None\<close> assms(1) by (simp add: range_of_iff)
    qed
    then show ?thesis by (force simp: map_of_eq_None_iff token_files_def)
  qed
  show "map_of (token_files conn (range_of rng secret)) q = None" if "\<forall>x. q \<noteq> conn @ [x]"
    using that by (force simp: map_of_eq_None_iff token_files_def)
qed


section \<open>The phase that writes\<close>

definition token_key :: "RouterConfig \<Rightarrow> string \<Rightarrow> string" where
  "token_key r s = (if IsEdge r then ''edge-'' else ''inter-router-'') @ s"

lemma token_suffix_key: "token_suffix r @ s = CHR ''/'' # token_key r s"
  by (simp add: token_suffix_def token_key_def)

lemma token_key_host_port:
  "x \<in> {''host'', ''port''} \<Longrightarrow> plain (token_key r x) \<and> token_key_ok (token_key r x) \<and> token_name (token_key r x) = token_key r x"
  by (auto simp: token_key_def plain_def token_key_ok_def token_name_def TokenGeneratedBy_def)

text \<open>The connector the configuration gets from a token.\<close>

definition connector_of :: "string gomap \<Rightarrow> string \<Rightarrow> int32 \<Rightarrow> RouterConfig \<Rightarrow> RouterConfig" where
  "connector_of secret name cost r =
     with_connector name cost (token_value secret (token_key r ''host'')) (token_value secret (token_key r ''port'')) r"

definition connected_fs :: "path \<Rightarrow> range_order \<Rightarrow> string gomap \<Rightarrow> string \<Rightarrow> filesystem \<Rightarrow> filesystem" where
  "connected_fs d rng secret name fs =
     fold (\<lambda>(p, n). fmupd p n) (token_files (connections_dir d @ [name]) (range_of rng secret))
       (fmupd (connections_dir d @ [name]) Dir fs)"

lemma read_token_value:
  assumes "site_at cli d" and "plain name" and "range_ok rng" and "token_ok secret" and "wf_fs fs"
    and "fmlookup fs (connections_dir d @ [name]) = None" and "files w = connected_fs d rng secret name fs"
    and "x \<in> {''host'', ''port''}"
  shows "read_or_empty (Host cli) (skupper_path cli ConnectionsPath @ CHR ''/'' # name @ token_suffix r @ x) w =
    (Inr (token_value secret (token_key r x)), w)"
proof -
  note key = token_key_host_port [OF assms(8), of r]
  let ?conn = "connections_dir d @ [name]"
  have none: "fmlookup (fmupd ?conn Dir fs) (?conn @ [token_key r x]) = None"
    using wf_fs_below [OF assms(5) _ assms(6), of "[token_key r x]"] by simp
  have "fmlookup (files w) (?conn @ [token_key r x]) = map_option File (fmlookup secret (token_key r x))"
    using key none map_of_token_files(1) [OF assms(3,4), of "token_key r x" _ ?conn]
      map_of_token_files(2) [OF assms(3,4), of "token_key r x" ?conn]
    by (cases "fmlookup secret (token_key r x)") (simp_all add: assms(7) connected_fs_def lookup_token_files [OF assms(3,4)])
  then have "fs_ReadFile (files w) (?conn @ [token_key r x]) =
      (case fmlookup secret (token_key r x) of None \<Rightarrow> Inl (parent_error (files w) (?conn @ [token_key r x])) | Some v \<Rightarrow> Inr v)"
    by (auto simp: fs_ReadFile_def split: option.split)
  moreover have "resolve (Host cli) (skupper_path cli ConnectionsPath @ CHR ''/'' # name @ token_suffix r @ x) =
      ?conn @ [token_key r x]"
    using resolve_connection(2) [OF assms(1,2), of "token_key r x"] key by (simp add: token_suffix_key)
  ultimately show ?thesis
    using assms(1) by (simp add: read_or_empty_def tryE_def os_ReadFile_def token_value_def split: option.split)
qed

lemma store_token_run:
  assumes "site_at cli d" and "plain name" and "token_ok secret" and "range_ok (h_rng (Host cli))" and "wf_fs (files w)"
    and "fmlookup (files w) (connections_dir d) = Some Dir"
    and "fmlookup (files w) (connections_dir d @ [name]) = None"
  shows "store_token cli secret (skupper_path cli ConnectionsPath @ CHR ''/'' # name) w =
      (Inr (), w\<lparr>files := connected_fs d (h_rng (Host cli)) secret name (files w)\<rparr>)"
    and "wf_fs (connected_fs d (h_rng (Host cli)) secret name (files w))"
proof -
  let ?rng = "h_rng (Host cli)" and ?conn = "connections_dir d @ [name]"
  let ?path = "skupper_path cli ConnectionsPath @ CHR ''/'' # name"
  define w1 where "w1 = w\<lparr>files := fmupd ?conn Dir (files w)\<rparr>"
  have mkdir: "os_Mkdir (Host cli) ?path w = (Inr (), w1)"
    using assms(6,7) resolve_connection(1) [OF assms(1,2)] assms(1)
    by (simp add: os_Mkdir_def fs_Mkdir_def fmlookup_dom_iff is_dir_def butlast_append w1_def)
  have wf1: "wf_fs (files w1)"
    using assms(5-7) by (simp add: w1_def wf_fs_upd_Dir is_dir_def butlast_append)
  have none: "\<forall>x. fmlookup (files w1) (?conn @ [x]) = None"
    using wf_fs_below [OF assms(5) _ assms(7)] by (simp add: w1_def)
  show "store_token cli secret ?path w = (Inr (), w\<lparr>files := connected_fs d ?rng secret name (files w)\<rparr>)"
    using mkdir secret_files_run [OF assms(1,2) token_files_keys(2) [OF assms(4,3)], of w1] none
    by (simp add: store_token_def w1_def connected_fs_def)
  show "wf_fs (connected_fs d ?rng secret name (files w))"
    using wf_token_files [OF wf1, of ?conn "range_of ?rng secret"] none by (simp add: w1_def connected_fs_def)
qed

lemma router_config_lookup:
  assumes "site_at cli d" and "fmlookup (files w') (config_path d) = fmlookup (files w) (config_path d)"
  shows "router_config cli w' = router_config cli w"
  using assms(2) by (auto simp: router_config_def resolve_config [OF assms(1)] fs_ReadFile_def config_path_def
      split: option.split node.split)

lemma connected_fs_other:
  assumes "range_ok rng" and "token_ok secret" and "\<not> prefix (connections_dir d @ [name]) q"
  shows "fmlookup (connected_fs d rng secret name fs) q = fmlookup fs q"
proof -
  have "\<forall>x. q \<noteq> (connections_dir d @ [name]) @ [x]" and "q \<noteq> connections_dir d @ [name]"
    using assms(3) by (auto simp: prefix_def)
  with map_of_token_files(3) [OF assms(1,2) this(1)] show ?thesis
    by (simp add: connected_fs_def lookup_token_files [OF assms(1,2)])
qed

lemma config_not_connection: "\<not> prefix (connections_dir d @ p) (config_path d)"
  by (simp add: connections_dir_def config_path_def)

lemma router_config_connected:
  assumes "site_at cli d" and "range_ok rng" and "token_ok secret"
  shows "router_config cli (w\<lparr>files := connected_fs d rng secret name (files w)\<rparr>) = router_config cli w"
  using connected_fs_other [OF assms(2,3) config_not_connection]
  by (intro router_config_lookup [OF assms(1)]) simp

lemma connect_files_run:
  assumes "site_at cli d" and "plain name" and "token_ok secret" and "range_ok (h_rng (Host cli))"
    and "wf_fs (files w)" and "router_config cli w = Some r"
    and "fmlookup (files w) (connections_dir d) = Some Dir"
    and "fmlookup (files w) (connections_dir d @ [name]) = None"
  shows "\<exists>content. connect_files cli secret name cost w =
      (Inr (), w\<lparr>files := fmupd (config_path d) (File content) (connected_fs d (h_rng (Host cli)) secret name (files w))\<rparr>) \<and>
    UnmarshalRouterConfig content = Inr (connector_of secret name cost r) \<and>
    wf_fs (fmupd (config_path d) (File content) (connected_fs d (h_rng (Host cli)) secret name (files w)))"
proof -
  let ?rng = "h_rng (Host cli)"
  let ?path = "skupper_path cli ConnectionsPath @ CHR ''/'' # name"
  define w2 where "w2 = w\<lparr>files := connected_fs d ?rng secret name (files w)\<rparr>"
  note store = store_token_run [OF assms(1-5,7,8), folded w2_def]
  have config: "router_config cli w2 = Some r"
    using assms(6) router_config_connected [OF assms(1,4,3)] by (simp add: w2_def)
  note reads = read_token_value [OF assms(1,2,4,3,5,8), where w = w2]
  have from_token: "read_or_empty (Host cli) (?path @ token_suffix r @ ''host'') w2 = (Inr (token_value secret (token_key r ''host'')), w2)"
    "read_or_empty (Host cli) (?path @ token_suffix r @ ''port'') w2 = (Inr (token_value secret (token_key r ''port'')), w2)"
    using reads [of "''host''" r] reads [of "''port''" r] by (simp_all add: w2_def)
  have "wf_config (connector_of secret name cost r)"
    using router_file.view_ok [OF config] by (simp add: connector_of_def with_connector_def keyed_rules)
  from write_router_config_run [OF _ config this assms(4)] store(2) obtain content where
    content: "write_router_config cli (connector_of secret name cost r) w2 =
        (Inr (), w2\<lparr>files := fmupd (config_path d) (File content) (files w2)\<rparr>)"
      "UnmarshalRouterConfig content = Inr (connector_of secret name cost r)"
      "wf_fs (fmupd (config_path d) (File content) (files w2))"
    by (auto simp: resolve_config [OF assms(1)] w2_def)
  have "connect_files cli secret name cost w = (Inr (), w2\<lparr>files := fmupd (config_path d) (File content) (files w2)\<rparr>)"
    using store(1) from_token content(1)
    by (simp add: connect_files_def configure_connector_def Let_def with_router_config_run(1) [OF config] connector_of_def)
  then show ?thesis using content(2,3) by (auto simp: w2_def)
qed

text \<open>When the phase succeeds, the directory was new and the configuration readable.\<close>

lemma connect_files_Inr:
  assumes "site_at cli d" and "plain name" and "token_ok secret" and "range_ok (h_rng (Host cli))"
    and "wf_fs (files w)" and "connect_files cli secret name cost w = (Inr u, w')"
  shows "fmlookup (files w) (connections_dir d) = Some Dir"
    and "fmlookup (files w) (connections_dir d @ [name]) = None"
    and "\<exists>r. router_config cli w = Some r"
proof -
  let ?path = "skupper_path cli ConnectionsPath @ CHR ''/'' # name"
  have "fst (os_Mkdir (Host cli) ?path w) = Inr ()"
    using assms(6) by (auto simp: connect_files_def store_token_def Let_def result_iff)
  then show dir: "fmlookup (files w) (connections_dir d) = Some Dir"
    "fmlookup (files w) (connections_dir d @ [name]) = None"
    using assms(1) resolve_connection(1) [OF assms(1,2)]
    by (auto simp: os_Mkdir_def fs_Mkdir_def fmlookup_dom_iff is_dir_def butlast_append connections_dir_def
        split: if_splits prod.splits)
  show "\<exists>r. router_config cli w = Some r"
  proof (rule ccontr)
    assume "\<nexists>r. router_config cli w = Some r"
    then have "router_config cli (w\<lparr>files := connected_fs d (h_rng (Host cli)) secret name (files w)\<rparr>) = None"
      using router_config_connected [OF assms(1,4,3)] by simp
    from with_router_config_run(2) [OF this] obtain e where
      "configure_connector cli ?path name cost (w\<lparr>files := connected_fs d (h_rng (Host cli)) secret name (files w)\<rparr>) =
        (Inl e, w\<lparr>files := connected_fs d (h_rng (Host cli)) secret name (files w)\<rparr>)"
      unfolding configure_connector_def by blast
    with store_token_run(1) [OF assms(1-5) dir] assms(6) show False
      by (simp add: connect_files_def Let_def)
  qed
qed

section \<open>Restarting the containers\<close>

lemma keeps_list_services: "keeps docker_step (list_services cli vs)"
proof (induction vs)
  case Nil
  show ?case unfolding list_services.simps by (rule docker_step_keeps)
next
  case (Cons v vs)
  show ?case unfolding list_services.simps
    by (intro docker_step_keeps docker_only)
      (auto split: sum.split option.split intro!: docker_step_keeps Cons.IH)
qed

lemma keeps_service_list [docker_only]: "keeps docker_step (ServiceInterfaceList cli)"
proof -
  have load: "keeps docker_step (client_load h cli)" for h
  proof -
    have "keeps docker_step (os_ReadFile (Host cli) s)" for s
      by (simp add: keeps_def os_ReadFile_def docker_step_def)
    then show ?thesis unfolding client_load_def load_defs_def by (intro docker_step_keeps)
  qed
  show ?thesis
    unfolding ServiceInterfaceList_def need_router_def by (intro docker_step_keeps docker_only keeps_list_services load)
qed

lemma keeps_recreate [docker_only]: "keeps docker_step (recreate n opts dd)"
  unfolding recreate_def by (intro docker_step_keeps docker_only)

lemma keeps_restart_proxies [docker_only]:
  "keeps docker_step (forE (\<lambda>vs. bindE h (RestartContainer (si_Address vs) dd) returnE) vsis)"
  by (intro keeps_forE docker_step_keeps docker_only docker_step_refl docker_step_trans)

lemma keeps_restart_all [docker_only]: "keeps docker_step (restart_all a b cli)"
  unfolding restart_all_def RestartTransportContainer_def by (intro docker_step_keeps docker_only)

text \<open>The requests of a restart that succeeds.\<close>

lemma list_services_calls:
  "list_services cli vs w = (Inr xs, w') \<Longrightarrow> map si_Address xs = map si_Address vs \<and>
     call_list w' = call_list w @ map (\<lambda>v. ContainerInspect (si_Address v)) vs"
proof (induction vs arbitrary: xs w)
  case (Cons v vs)
  obtain r w1 where r: "InspectContainer (si_Address v) (DockerInterface cli) w = (r, w1)" by fastforce
  from Cons.prems obtain ys y where "list_services cli vs w1 = (Inr ys, w')" "xs = y # ys" "si_Address y = si_Address v"
    by (auto simp: tryE_def r result_iff split: sum.splits option.splits error.splits)
  with Cons.IH [of w1 ys] InspectContainer_send [OF r] show ?case by simp
qed simp

lemma RestartContainer_call:
  "RestartContainer n dd w = (r, w') \<Longrightarrow> call_list w' = call_list w @ [ContainerRestart n (10 * second)]"
  using api_call_calls [of dd "getTimeoutContext dd" "ContainerRestart n (10 * second)" "api_unit (sd_client dd)" w r w']
  by (simp add: RestartContainer_def dd_RestartContainer_def call_list_def)

lemma restart_proxies_calls:
  "forE (\<lambda>vs. bindE h (RestartContainer (si_Address vs) dd) returnE) xs w = (Inr u, w') \<Longrightarrow>
     call_list w' = call_list w @ map (\<lambda>v. ContainerRestart (si_Address v) (10 * second)) xs"
proof (induction xs arbitrary: w)
  case (Cons x xs)
  let ?restart = "\<lambda>vs. bindE h (RestartContainer (si_Address vs) dd) returnE"
  from Cons.prems obtain z w1 where "?restart x w = (Inr z, w1)" and rest: "forE ?restart xs w1 = (Inr u, w')"
    by (simp only: forE.simps bindE_Inr_iff) blast
  then have w1: "RestartContainer (si_Address x) dd w = (Inr z, w1)" by (auto simp: result_iff)
  from Cons.IH [OF rest] RestartContainer_call [OF w1] show ?case by simp
qed simp

definition restart_requests :: "VanClient \<Rightarrow> ContainerJSON \<Rightarrow> service_defs \<Rightarrow> docker_call list" where
  "restart_requests cli current m =
     (let addresses = map si_Address (map snd (range_of (h_rng (Host cli)) m))
      in [ContainerInspect ''skupper-router'', ContainerStop ''skupper-router'' (10 * second), ContainerRemove ''skupper-router'',
          ContainerCreate (with_shm (restarted_transport current)), ContainerStart ''skupper-router'',
          ContainerRestart ControllerDeploymentName (10 * second), ContainerInspect ''skupper-router''] @
         map ContainerInspect addresses @ map (\<lambda>n. ContainerRestart n (10 * second)) addresses)"

lemma restart_all_calls:
  assumes "restart_all a b cli w = (Inr (), w')"
  shows "\<exists>current m. services cli w' = Some m \<and>
    api_inspect (sd_client (DockerInterface cli)) (take (Suc (length (calls w))) (calls w')) = Inr current \<and>
    call_list w' = call_list w @ restart_requests cli current m"
proof -
  let ?dd = "DockerInterface cli"
  from assms obtain w1 x w2 vsis w5 where
    w1: "RestartTransportContainer ?dd w = (Inr (), w1)" and
    w2: "RestartContainer ControllerDeploymentName ?dd w1 = (Inr x, w2)" and
    list: "ServiceInterfaceList cli w2 = (Inr vsis, w5)" and
    w': "forE (\<lambda>vs. bindE (Wrapf ''Failed to restart proxy container'') (RestartContainer (si_Address vs) ?dd) returnE) vsis w5 = (Inr (), w')"
    by (auto simp: restart_all_def result_iff)
  from w1 obtain current w0 where w0: "InspectContainer ''skupper-router'' ?dd w = (Inr current, w0)"
    "recreate ''skupper-router'' (restarted_transport current) ?dd w0 = (Inr (), w1)"
    by (auto simp: RestartTransportContainer_def result_iff)
  then have t: "call_list w1 = call_list w @ [ContainerInspect ''skupper-router'', ContainerStop ''skupper-router'' (10 * second),
      ContainerRemove ''skupper-router'', ContainerCreate (with_shm (restarted_transport current)), ContainerStart ''skupper-router'']"
    by (auto simp: recreate_run dest: InspectContainer_send)
  from list [unfolded ServiceInterfaceList_def need_router_def bindE_Inr_iff] obtain r w3 m w4 where
    r: "InspectContainer ''skupper-router'' ?dd w2 = (Inr r, w3)" and
    m: "client_load id cli w3 = (Inr m, w4)" and
    l: "list_services cli (map snd (range_of (h_rng (Host cli)) m)) w4 = (Inr vsis, w5)" by blast
  have view: "services cli w3 = Some m" "w4 = w3"
    using m client_services.load_view [of cli w3] client_services.load_fails [of cli w3 id]
    by (cases "services cli w3"; auto)+
  note vs = list_services_calls [OF l]
  have "files w' = files w3"
    using docker_onlyD(1) [OF keeps_list_services l] docker_onlyD(1) [OF keeps_restart_proxies w'] view(2) by simp
  then have "services cli w' = Some m" using view(1) services_at_files [of w' w3] by (simp add: services_def)
  moreover have "call_list w' = call_list w5 @ map (\<lambda>n. ContainerRestart n (10 * second)) (map si_Address vsis)"
    using restart_proxies_calls [OF w'] by (simp add: comp_def)
  moreover have "api_inspect (sd_client ?dd) (take (Suc (length (calls w))) (calls w')) = Inr current"
  proof -
    have "keeps docker_step (RestartContainer ControllerDeploymentName ?dd)" by (rule docker_only)
    from docker_onlyD(2) [OF keeps_recreate w0(2)] docker_onlyD(2) [OF this w2] docker_onlyD(2) [OF keeps_service_list list]
      docker_onlyD(2) [OF keeps_restart_proxies w']
    have "prefix (calls w0) (calls w')" by (meson prefix_order.trans)
    moreover have "length (calls w0) = Suc (length (calls w))" using InspectContainer_send [OF w0(1)] by (simp add: send_simps)
    ultimately have "take (Suc (length (calls w))) (calls w') = calls w0" by (auto simp: prefix_def)
    moreover have "api_inspect (sd_client ?dd) (calls w0) = Inr current"
      using w0(1) by (auto simp: InspectContainer_def dd_InspectContainer_def api_call_def Let_def split: option.splits)
    ultimately show ?thesis by simp
  qed
  ultimately show ?thesis
    using t RestartContainer_call [OF w2] InspectContainer_send [OF r] vs view(2)
    by (intro exI [of _ current] exI [of _ m]) (simp add: comp_def restart_requests_def)
qed

lemma connect_as_Inr:
  assumes "connect_as cli secret cost name w = (Inr n, w')"
  shows "n = name" and "\<exists>w2. connect_files cli secret name cost w = (Inr (), w2) \<and> files w' = files w2 \<and>
    restart_all ''Failed to re-start transport container'' ''Failed to re-start controller container'' cli w2 = (Inr (), w')"
proof -
  from assms obtain w2 where w2: "connect_files cli secret name cost w = (Inr (), w2)"
    "restart_all ''Failed to re-start transport container'' ''Failed to re-start controller container'' cli w2 = (Inr (), w')"
    "n = name" by (auto simp: connect_as_def result_iff)
  then show "n = name" "\<exists>w2. connect_files cli secret name cost w = (Inr (), w2) \<and> files w' = files w2 \<and>
      restart_all ''Failed to re-start transport container'' ''Failed to re-start controller container'' cli w2 = (Inr (), w')"
    using docker_onlyD(1) [OF keeps_restart_all w2(2)] by auto
qed


section \<open>Connecting\<close>

lemma connector_create_effect:
  assumes "site_at cli d" and "wf_fs (files w)" and "range_ok (h_rng (Host cli))"
    and "secret_of cli f w = Some secret" and "token_ok secret"
    and "ConnectorCreate cli f options w = (Inr name, w')" and "plain name"
  shows "(\<exists>sc. site_of cli w = Some sc \<and> fmlookup secret TokenGeneratedBy \<noteq> Some (sg_UID sc)) \<and>
    chosen_name cli options w = Some name \<and> wf_fs (files w') \<and>
    fmlookup (files w) (connections_dir d @ [name]) = None \<and>
    (\<forall>k v. fmlookup secret k = Some v \<longrightarrow>
       fmlookup (files w') (connections_dir d @ [name, token_name k]) = Some (File v)) \<and>
    (\<exists>r. router_config cli w = Some r \<and>
       router_config cli w' = Some (connector_of secret name (co_Cost options) r)) \<and>
    (\<forall>q. q \<noteq> config_path d \<and> \<not> prefix (connections_dir d @ [name]) q \<longrightarrow>
       fmlookup (files w') q = fmlookup (files w) q) \<and>
    (\<exists>current m. services cli w' = Some m \<and>
      api_inspect (sd_client (DockerInterface cli)) (take (length (calls w) + 2) (calls w')) = Inr current \<and>
      call_list w' = call_list w @ [ContainerInspect ''skupper-router''] @ restart_requests cli current m)"
proof -
  from ConnectorCreate_phases [OF assms(6)] assms(4) obtain origin sc n w1 where
    origin: "fmlookup secret ''skupper.io/generated-by'' = Some origin" "site_of cli w = Some sc" "sg_UID sc \<noteq> origin"
    and name: "chosen_name cli options w = Some n" and w1: "files w1 = files w"
    and sent: "call_list w1 = call_list w @ [ContainerInspect ''skupper-router'']"
    and run: "connect_as cli secret (co_Cost options) n w1 = (Inr name, w')" by auto
  from connect_as_Inr [OF run] obtain w2 where n: "n = name"
    and w2: "connect_files cli secret name (co_Cost options) w1 = (Inr (), w2)" "files w' = files w2"
    and restart: "restart_all ''Failed to re-start transport container'' ''Failed to re-start controller container'' cli w2 = (Inr (), w')"
    by auto
  note phase = connect_files_Inr [OF assms(1,7,5,3) _ w2(1), unfolded w1, OF assms(2)]
  from phase(3) obtain r where r: "router_config cli w1 = Some r" by blast
  from connect_files_run [OF assms(1,7,5,3) _ r, unfolded w1, OF assms(2) phase(1,2), of "co_Cost options"] w2
  obtain content where content:
    "files w' = fmupd (config_path d) (File content) (connected_fs d (h_rng (Host cli)) secret name (files w))"
    "UnmarshalRouterConfig content = Inr (connector_of secret name (co_Cost options) r)"
    "wf_fs (fmupd (config_path d) (File content) (connected_fs d (h_rng (Host cli)) secret name (files w)))"
    "calls w2 = calls w1"
    by auto
  have "length (calls w2) = Suc (length (calls w))"
    using arg_cong [OF sent, of length] by (simp add: content(4) call_list_def)
  with restart_all_calls [OF restart] have restarted: "\<exists>current m. services cli w' = Some m \<and>
      api_inspect (sd_client (DockerInterface cli)) (take (length (calls w) + 2) (calls w')) = Inr current \<and>
      call_list w' = call_list w @ [ContainerInspect ''skupper-router''] @ restart_requests cli current m"
    using sent by (auto simp: call_list_def content(4))
  have config: "router_config cli w' = Some (connector_of secret name (co_Cost options) r)"
    using content(1,2) by (simp add: router_config_def resolve_config [OF assms(1)] config_path_def)
  have held: "fmlookup (files w') (connections_dir d @ [name, token_name k]) = Some (File v)" if "fmlookup secret k = Some v" for k v
  proof -
    have "connections_dir d @ [name, token_name k] \<noteq> config_path d" by (simp add: connections_dir_def config_path_def)
    then show ?thesis
      using map_of_token_files(1) [OF assms(3,5) that, of "connections_dir d @ [name]"]
      by (simp add: content(1) connected_fs_def lookup_token_files [OF assms(3,5)])
  qed
  have other: "fmlookup (files w') q = fmlookup (files w) q"
    if "q \<noteq> config_path d" "\<not> prefix (connections_dir d @ [name]) q" for q
    using that connected_fs_other [OF assms(3,5) that(2)] by (simp add: content(1))
  have "router_config cli w = Some r" using r router_config_files [OF w1] by simp
  then show ?thesis
    using origin name n phase(2) config held other content(1,3) by (intro conjI restarted) (auto simp: TokenGeneratedBy_def)
qed

text \<open>
  C7 (functional). When \<open>ConnectorCreate\<close> succeeds with a token whose keys are plain file names, at a
  site whose directory is an absolute path: the token came from another site, the connection's
  directory is new and holds a file for each key of the token, the router's configuration is the one
  it had with a profile and a connector of that name added, to the host and port of the token for the
  router's mode, and no other file of the machine is changed. After a look whether the router is there, the
  daemon was asked to stop and remove the router, to create it as it is reported to be and to start it, to restart the
  controller, and, after a look at each, the proxy of every service in the services file; and for nothing else.
\<close>

theorem connector_create_result:
  assumes "site_at cli d" and "wf_fs (files w)" and "range_ok (h_rng (Host cli))"
    and "secret_of cli f w = Some secret" and "token_ok secret"
    and "ConnectorCreate cli f options w = (Inr name, w')" and "plain name"
  shows "(\<exists>sc. site_of cli w = Some sc \<and> fmlookup secret TokenGeneratedBy \<noteq> Some (sg_UID sc)) \<and>
    chosen_name cli options w = Some name \<and> wf_fs (files w') \<and>
    fmlookup (files w) (connections_dir d @ [name]) = None \<and>
    (\<forall>k v. fmlookup secret k = Some v \<longrightarrow>
       fmlookup (files w') (connections_dir d @ [name, token_name k]) = Some (File v)) \<and>
    (\<exists>r. router_config cli w = Some r \<and>
       router_config cli w' = Some (connector_of secret name (co_Cost options) r)) \<and>
    (\<forall>q. q \<noteq> config_path d \<and> \<not> prefix (connections_dir d @ [name]) q \<longrightarrow>
       fmlookup (files w') q = fmlookup (files w) q) \<and>
    (\<exists>current m. services cli w' = Some m \<and>
      api_inspect (sd_client (DockerInterface cli)) (take (length (calls w) + 2) (calls w')) = Inr current \<and>
      map rq_call (calls w') = map rq_call (calls w) @
        [ContainerInspect ''skupper-router'', ContainerInspect ''skupper-router'',
         ContainerStop ''skupper-router'' (10 * second), ContainerRemove ''skupper-router'',
         ContainerCreate (with_shm (restarted_transport current)), ContainerStart ''skupper-router'',
         ContainerRestart ControllerDeploymentName (10 * second), ContainerInspect ''skupper-router''] @
        map ContainerInspect (map si_Address (map snd (range_of (h_rng (Host cli)) m))) @
        map (\<lambda>n. ContainerRestart n (10 * second)) (map si_Address (map snd (range_of (h_rng (Host cli)) m))))"
  using connector_create_effect [OF assms] unfolding call_list_def restart_requests_def Let_def append.simps .


lemma resolve_connections: "site_at cli d \<Longrightarrow> resolve (Host cli) (skupper_path cli ConnectionsPath) = connections_dir d"
  using resolve_skupper [of "h_env (Host cli)" d "[]" "Host cli" ConnectionsPath]
  by (simp add: skupper_path_def connections_dir_def sub_path_def)

lemma connect_as_used_name:
  assumes "site_at cli d" and "plain name" and "fmlookup (files w) (connections_dir d @ [name]) \<noteq> None"
  shows "\<exists>e. connect_as cli secret cost name w = (Inl e, w)"
proof -
  have "os_Mkdir (Host cli) (skupper_path cli ConnectionsPath @ CHR ''/'' # name) w =
      (Inl (AlreadyExists (join_with ''/'' (connections_dir d @ [name]))), w)"
    using assms by (simp add: os_Mkdir_def resolve_connection(1) [OF assms(1,2)] fs_Mkdir_def fmlookup_dom_iff)
  then show ?thesis by (simp add: connect_as_def connect_files_def store_token_def Let_def raised_def)
qed

lemma chosen_generated:
  assumes "site_at cli d" and "co_Name options = []" and "chosen_name cli options w = Some name"
  shows "name = connector_name (sorted_list_of_fset (children (files w) (connections_dir d)))"
proof (cases "is_dir (files w) (connections_dir d)")
  case True
  then show ?thesis
    using assms by (simp add: chosen_name_def choose_name_def generateConnectorName_def os_ReadDir_def
        resolve_connections fs_ReadDir_def)
next
  case False
  then have "\<exists>e. fs_ReadDir (files w) (connections_dir d) = Inl e"
    by (auto simp: fs_ReadDir_def split: option.split node.split)
  then show ?thesis
    using assms by (auto simp: chosen_name_def choose_name_def generateConnectorName_def os_ReadDir_def resolve_connections)
qed

text \<open>
  C31 (error). Three cases in which \<open>ConnectorCreate\<close> always fails and writes no file, whatever the daemon
  answers: a token generated by the site itself, a given name (without a slash) that a connection already has, and a
  name to generate while the connections \<open>conn9\<close> and \<open>conn10\<close> exist, since the name is then \<open>conn10\<close> again.
\<close>

theorem connector_create_refused:
  assumes "site_at cli d" and "ConnectorCreate cli f options w = (r, w')"
    and "(\<exists>secret sc. secret_of cli f w = Some secret \<and> site_of cli w = Some sc \<and>
           fmlookup secret TokenGeneratedBy = Some (sg_UID sc)) \<or>
         (co_Name options \<noteq> [] \<and> plain (co_Name options) \<and> co_Name options |\<in>| children (files w) (connections_dir d)) \<or>
         (co_Name options = [] \<and> ''conn9'' |\<in>| children (files w) (connections_dir d) \<and>
           ''conn10'' |\<in>| children (files w) (connections_dir d))"
  shows "(\<exists>e. r = Inl e) \<and> files w' = files w"
proof -
  from ConnectorCreate_phases [OF assms(2)] consider
    "(\<exists>e. r = Inl e) \<and> files w' = files w"
  | secret origin sc name w1 where "secret_of cli f w = Some secret"
      "fmlookup secret ''skupper.io/generated-by'' = Some origin" "site_of cli w = Some sc" "sg_UID sc \<noteq> origin"
      "chosen_name cli options w = Some name" "files w1 = files w"
      "connect_as cli secret (co_Cost options) name w1 = (r, w')" by blast
  then show ?thesis
  proof cases
    case 2
    have used: "plain name \<and> name |\<in>| children (files w) (connections_dir d)"
    proof (cases "co_Name options = []")
      case False
      then show ?thesis using assms(3) 2(1-5) by (auto simp: TokenGeneratedBy_def chosen_name_def choose_name_def)
    next
      case True
      then have there: "''conn9'' |\<in>| children (files w) (connections_dir d)" "''conn10'' |\<in>| children (files w) (connections_dir d)"
        using assms(3) 2(1-4) by (auto simp: TokenGeneratedBy_def)
      have "conn_group ''conn9'' = Some (CHR ''9'')" by code_simp
      moreover have "''conn9'' \<in> set (sorted_list_of_fset (children (files w) (connections_dir d)))"
        using there(1) by (simp add: sorted_list_of_fset.rep_eq)
      ultimately have "name = ''conn10''"
        using chosen_generated [OF assms(1) True 2(5)]
          generated_name_nine [of "sorted_list_of_fset (children (files w) (connections_dir d))"] by blast
      then show ?thesis using there(2) by (simp add: plain_def)
    qed
    then have "fmlookup (files w1) (connections_dir d @ [name]) \<noteq> None"
      using 2(6) by (simp add: children_iff fmlookup_dom_iff)
    with used obtain e where "connect_as cli secret (co_Cost options) name w1 = (Inl e, w1)"
      using connect_as_used_name [OF assms(1)] by blast
    then show ?thesis using 2(6,7) by auto
  qed
qed

section \<open>Disconnecting\<close>

lemma remove_connector_of:
  assumes "fmlookup (Connectors r) name = None" and "fmlookup (SslProfiles r) (name @ ''-profile'') = None"
  shows "RemoveConnector name (connector_of secret name cost r) =
      (True, AddConnSslProfile (zero_SslProfile\<lparr>sp_Name := name @ ''-profile''\<rparr>) r)"
    and "snd (RemoveConnSslProfile name (AddConnSslProfile (zero_SslProfile\<lparr>sp_Name := name @ ''-profile''\<rparr>) r)) = r"
proof -
  have drop: "fmdrop k (fmupd k v m) = m" if "fmlookup m k = None" for k v and m :: "(string, 'z) fmap"
    using that by (intro fmap_ext) auto
  show "RemoveConnector name (connector_of secret name cost r) =
      (True, AddConnSslProfile (zero_SslProfile\<lparr>sp_Name := name @ ''-profile''\<rparr>) r)"
    by (rule prod_eqI) (auto simp: connector_of_def with_connector_def new_connector_def add_defs RemoveConnector_def
        Let_def drop [OF assms(1)])
  show "snd (RemoveConnSslProfile name (AddConnSslProfile (zero_SslProfile\<lparr>sp_Name := name @ ''-profile''\<rparr>) r)) = r"
    by (simp add: RemoveConnSslProfile_def add_defs Let_def norm_ConnSslProfile_def zero_SslProfile_def drop [OF assms(2)])
qed

lemma ConnectorRemove_run:
  assumes "site_at cli d" and "plain name" and "wf_fs (files w)" and "range_ok (h_rng (Host cli))"
    and "router_up cli w" and "router_config cli w = Some r" and "RemoveConnector name r = (True, r1)"
  shows "\<exists>res w2. ConnectorRemove cli name w = (res, w2) \<and> wf_fs (files w2) \<and>
    router_config cli w2 = Some (snd (RemoveConnSslProfile name r1)) \<and>
    (\<forall>q. q \<noteq> config_path d \<longrightarrow> fmlookup (files w2) q =
       (if prefix (connections_dir d @ [name]) q then None else fmlookup (files w) q))"
proof -
  let ?conn = "connections_dir d @ [name]"
  define w1 where "w1 = send (ContainerInspect ''skupper-router'') (getTimeoutContext (DockerInterface cli)) w"
  define w2 where "w2 = w1\<lparr>files := fs_RemoveAll (files w) ?conn\<rparr>"
  obtain j where inspect: "InspectContainer ''skupper-router'' (DockerInterface cli) w = (Inr j, w1)"
    using assms(5) InspectContainer_send [of "''skupper-router''" "DockerInterface cli" w]
    by (cases "InspectContainer ''skupper-router'' (DockerInterface cli) w") (auto simp: router_up_def w1_def)
  have config1: "router_config cli w1 = Some r"
    using assms(6) router_config_files [of w1 w cli] by (simp add: w1_def send_simps)
  have removed: "os_RemoveAll (Host cli) (skupper_path cli ConnectionsPath @ CHR ''/'' # name) w1 = (Inr (), w2)"
    using assms(1) by (simp add: os_RemoveAll_def resolve_connection(1) [OF assms(1,2)] w2_def) (simp add: w1_def send_simps)
  have wf2: "wf_fs (files w2)" using wf_fs_RemoveAll [OF assms(3)] by (simp add: w2_def)
  have config2: "router_config cli w2 = Some r"
  proof -
    have "fmlookup (files w2) (config_path d) = fmlookup (files w) (config_path d)"
      using config_not_connection [of d "[name]"] by (simp add: w2_def fs_RemoveAll_def)
    from router_config_lookup [OF assms(1) this] show ?thesis using assms(6) by simp
  qed
  have "wf_config (snd (RemoveConnSslProfile name r1))"
    using router_file.view_ok [OF assms(6)] assms(7) wf_removes(1) [of r name] wf_removes(2) [of r1 name] by simp
  from write_router_config_run [OF wf2 config2 this assms(4)] obtain content where
    content: "write_router_config cli (snd (RemoveConnSslProfile name r1)) w2 =
        (Inr (), w2\<lparr>files := fmupd (config_path d) (File content) (files w2)\<rparr>)"
      "UnmarshalRouterConfig content = Inr (snd (RemoveConnSslProfile name r1))"
      "wf_fs (fmupd (config_path d) (File content) (files w2))"
    by (auto simp: resolve_config [OF assms(1)])
  let ?w3 = "w2\<lparr>files := fmupd (config_path d) (File content) (files w2)\<rparr>"
  obtain res w4 where restart: "restart_all ''Failed to restart transport container''
      ''Failed to restart controller container'' cli ?w3 = (res, w4)" by fastforce
  have w4: "files w4 = fmupd (config_path d) (File content) (files w2)"
    using docker_onlyD(1) [OF keeps_restart_all restart] by simp
  have "ConnectorRemove cli name w = (res, w4)"
    using inspect removed content(1) restart
    by (cases res) (simp_all add: ConnectorRemove_def with_router_config_run(1) [OF config1] assms(7))
  moreover have "router_config cli w4 = Some (snd (RemoveConnSslProfile name r1))"
    using content(2) by (simp add: router_config_def w4 resolve_config [OF assms(1)] config_path_def)
  ultimately show ?thesis
    using content(3) by (auto simp: w4 w2_def fs_RemoveAll_def)
qed


text \<open>
  C29 (roundtrip). Removing a connection that was just created leaves the machine as it was: the router
  configuration has the value it had, the connection's directory is gone and every other file is what
  it was, provided the configuration had no connector or profile of that name and the router is still
  there. It holds whatever the restarts of the containers answer.
\<close>

theorem connect_disconnect:
  assumes "site_at cli d" and "wf_fs (files w)" and "range_ok (h_rng (Host cli))"
    and "secret_of cli f w = Some secret" and "token_ok secret" and "plain name"
    and "ConnectorCreate cli f options w = (Inr name, w1)" and "router_up cli w1"
    and "router_config cli w = Some r"
    and "fmlookup (Connectors r) name = None" and "fmlookup (SslProfiles r) (name @ ''-profile'') = None"
  shows "\<exists>res w2. ConnectorRemove cli name w1 = (res, w2) \<and> router_config cli w2 = router_config cli w \<and>
    (\<forall>q. q \<noteq> config_path d \<longrightarrow> fmlookup (files w2) q = fmlookup (files w) q)"
proof -
  note created = connector_create_effect [OF assms(1-5,7,6)]
  have config: "router_config cli w1 = Some (connector_of secret name (co_Cost options) r)"
    using created assms(9) by auto
  from ConnectorRemove_run [OF assms(1,6) _ assms(3,8) config remove_connector_of(1) [OF assms(10,11)]] created
  obtain res w2 where w2: "ConnectorRemove cli name w1 = (res, w2)"
    "router_config cli w2 = Some r"
    "\<forall>q. q \<noteq> config_path d \<longrightarrow> fmlookup (files w2) q =
       (if prefix (connections_dir d @ [name]) q then None else fmlookup (files w1) q)"
    using remove_connector_of(2) [OF assms(10,11)] by auto
  have "fmlookup (files w2) q = fmlookup (files w) q" if q: "q \<noteq> config_path d" for q
  proof (cases "prefix (connections_dir d @ [name]) q")
    case True
    then obtain p where "q = (connections_dir d @ [name]) @ p" by (auto simp: prefix_def)
    then have "fmlookup (files w) q = None"
      using wf_fs_below [OF assms(2), of "connections_dir d @ [name]" p] created by simp
    then show ?thesis using w2(3) q True by simp
  next
    case False
    then show ?thesis using w2(3) q created by simp
  qed
  then show ?thesis using w2(1,2) assms(9) by auto
qed

section \<open>Tokens across sites\<close>

text \<open>What the certificate package promises of the token file: reading it back gives the certificate data
  and the annotations it was written with.\<close>

definition token_law :: "host \<Rightarrow> host \<Rightarrow> bool" where
  "token_law hA hB \<longleftrightarrow> (\<forall>subject f certData annotations fs.
     h_get_secret hB (h_put_secret hA subject f certData annotations fs) f = Inr (certData ++\<^sub>f annotations))"

lemma ConnectorTokenCreate_result:
  assumes "ConnectorTokenCreate cli subject f w = (Inr (), w')"
  shows "\<exists>router r sc ip caData. fst (InspectContainer ''skupper-router'' (DockerInterface cli) w) = Inr router \<and>
    fmlookup (cj_Networks router) ''skupper-network'' = Some ip \<and>
    router_config cli w = Some r \<and> \<not> IsEdge r \<and> site_of cli w = Some sc \<and>
    files w' = h_put_secret (Host cli) subject f (h_gen_cert (Host cli) subject subject ip caData)
      (token_annotations ip (sg_UID sc)) (files w)"
proof -
  obtain res w1 where inspect: "InspectContainer ''skupper-router'' (DockerInterface cli) w = (res, w1)" by fastforce
  have w1: "files w1 = files w" using InspectContainer_send [OF inspect] by (simp add: send_simps)
  obtain router where router: "res = Inr router"
    using assms inspect by (cases res) (simp_all add: ConnectorTokenCreate_def)
  have run: "with_router_config cli (make_token cli subject f router) w1 = (Inr (), w')"
    using assms inspect router by (simp add: ConnectorTokenCreate_def)
  have "router_config cli w1 \<noteq> None"
    using with_router_config_run(2) [of cli w1 "make_token cli subject f router"] run by auto
  then obtain r where r: "router_config cli w1 = Some r" by blast
  have made: "make_token cli subject f router r w1 = (Inr (), w')"
    using run with_router_config_run(1) [OF r, of "make_token cli subject f router"] by simp
  have edge: "\<not> IsEdge r" using made by (auto simp: make_token_def)
  from made edge obtain caData err wa ip wb sc where
    steps: "getCertData cli ''skupper-internal-ca'' w1 = (Inr (caData, err), wa)"
      "fmlookup (cj_Networks router) ''skupper-network'' = Some ip"
      "SiteConfigInspect cli DefaultBridgeName wa = (Inr (Some sc), wb)"
      "put_secret cli subject f (h_gen_cert (Host cli) subject subject ip caData) (token_annotations ip (sg_UID sc)) wb = (Inr (), w')"
    by (auto simp: make_token_def result_iff deref_def split: option.splits)
  have "wa = w1" "wb = w1"
    using reads_same [OF keeps_eq_getCertData steps(1)] reads_same [OF keeps_eq_reads(2) steps(3)] by simp_all
  with steps have "fmlookup (cj_Networks router) ''skupper-network'' = Some ip"
    "SiteConfigInspect cli DefaultBridgeName w1 = (Inr (Some sc), w1)"
    "put_secret cli subject f (h_gen_cert (Host cli) subject subject ip caData) (token_annotations ip (sg_UID sc)) w1 = (Inr (), w')"
    by simp_all
  moreover have "site_of cli w1 = Some sc"
    using \<open>SiteConfigInspect cli DefaultBridgeName w1 = (Inr (Some sc), w1)\<close> by (simp add: site_of_def)
  then have "site_of cli w = Some sc" by (simp add: InspectContainer_send [OF inspect])
  ultimately show ?thesis
    using inspect router r edge w1 router_config_files [OF w1] by (auto simp: put_secret_def)
qed

text \<open>
  C9 (functional). A token created at a site and used at another. Against a certificate package that
  reads a token file back as it was written, the token carries the creating site's id, the address of
  its router on the skupper network and the port 55671, and a successful \<open>ConnectorCreate\<close> with the
  copied file gives the connecting router a connector to that address and port when it is an interior
  router. At an edge site the connector has an empty host and an empty port, because the token has no
  \<open>edge-host\<close> and \<open>edge-port\<close>.
\<close>

theorem token_connects:
  assumes "ConnectorTokenCreate cliA subject fA wA = (Inr (), wA')"
    and "token_law (Host cliA) (Host cliB)"
    and "h_get_secret (Host cliB) (files wB) fB = h_get_secret (Host cliB) (files wA') fA"
    and "\<forall>caData ip. {''edge-host'', ''edge-port''} \<inter> fset (fmdom (h_gen_cert (Host cliA) subject subject ip caData)) = {}"
    and "\<forall>caData ip. token_ok (h_gen_cert (Host cliA) subject subject ip caData)"
    and "site_at cliB d" and "wf_fs (files wB)" and "range_ok (h_rng (Host cliB))"
    and "ConnectorCreate cliB fB options wB = (Inr name, wB')" and "plain name"
  shows "\<exists>router ip scA rB c. fst (InspectContainer ''skupper-router'' (DockerInterface cliA) wA) = Inr router \<and>
    fmlookup (cj_Networks router) ''skupper-network'' = Some ip \<and>
    site_of cliA wA = Some scA \<and> site_of cliB wB \<noteq> Some scA \<and>
    router_config cliB wB' = Some rB \<and> fmlookup (Connectors rB) name = Some c \<and>
    (if IsEdge rB then cn_Role c = RoleEdge \<and> cn_Host c = [] \<and> cn_Port c = []
     else cn_Role c = RoleInterRouter \<and> cn_Host c = ip \<and> cn_Port c = ''55671'')"
proof -
  from ConnectorTokenCreate_result [OF assms(1)] obtain router r scA ip caData where
    router: "fst (InspectContainer ''skupper-router'' (DockerInterface cliA) wA) = Inr router"
      "fmlookup (cj_Networks router) ''skupper-network'' = Some ip"
    and scA: "site_of cliA wA = Some scA"
    and made: "files wA' = h_put_secret (Host cliA) subject fA (h_gen_cert (Host cliA) subject subject ip caData)
      (token_annotations ip (sg_UID scA)) (files wA)" by auto
  let ?cert = "h_gen_cert (Host cliA) subject subject ip caData"
  let ?secret = "?cert ++\<^sub>f token_annotations ip (sg_UID scA)"
  have secret: "secret_of cliB fB wB = Some ?secret"
    using assms(2,3) made by (simp add: secret_of_def token_law_def)
  have annotations: "token_annotations ip (sg_UID scA) =
      fmupd ''inter-router-port'' ''55671'' (fmupd ''inter-router-host'' ip (fmupd TokenGeneratedBy (sg_UID scA) fmempty))"
    by (simp add: token_annotations_def)
  have "plain ''inter-router-port''" "plain ''inter-router-host''" by (simp_all add: plain_def)
  then have "token_ok (token_annotations ip (sg_UID scA))"
    by (auto simp: token_ok_def annotations token_key_ok_def)
  with assms(5) have ok: "token_ok ?secret" by (auto simp: token_ok_def)
  from connector_create_effect [OF assms(6-8) secret ok assms(9,10)] obtain scB rB where
    scB: "site_of cliB wB = Some scB" "fmlookup ?secret TokenGeneratedBy \<noteq> Some (sg_UID scB)"
    and rB: "router_config cliB wB' = Some (connector_of ?secret name (co_Cost options) rB)" by auto
  have carried: "fmlookup ?secret TokenGeneratedBy = Some (sg_UID scA)"
    "token_value ?secret ''inter-router-host'' = ip" "token_value ?secret ''inter-router-port'' = ''55671''"
    by (simp_all add: annotations token_value_def TokenGeneratedBy_def)
  have edge: "token_value ?secret ''edge-host'' = []" "token_value ?secret ''edge-port'' = []"
    using assms(4) [rule_format, of ip caData]
    by (auto simp: annotations token_value_def TokenGeneratedBy_def fmlookup_dom_iff split: option.split)
  let ?c = "new_connector rB name (co_Cost options) (token_value ?secret (token_key rB ''host'')) (token_value ?secret (token_key rB ''port''))"
  have conn: "fmlookup (Connectors (connector_of ?secret name (co_Cost options) rB)) name = Some ?c"
    and mode: "IsEdge (connector_of ?secret name (co_Cost options) rB) = IsEdge rB"
    by (simp_all add: connector_of_def with_connector_def new_connector_def add_defs Let_def IsEdge_def)
  show ?thesis
    using router scA scB rB conn mode carried edge
    by (intro exI [of _ router] exI [of _ ip] exI [of _ scA] exI [of _ "connector_of ?secret name (co_Cost options) rB"] exI [of _ ?c])
      (auto simp: new_connector_def token_key_def)
qed


section \<open>At a concrete site\<close>

definition router_text :: "RouterConfig \<Rightarrow> string" where
  "router_text r = (case MarshalRouterConfig rng_up r of Inr s \<Rightarrow> s | Inl _ \<Rightarrow> [])"

definition site_text :: "string \<Rightarrow> string" where
  "site_text uid = marshal enc_site (zero_SiteConfig\<lparr>sg_UID := uid\<rparr>)"

definition sub_dirs :: "string \<Rightarrow> string \<Rightarrow> filesystem" where
  "sub_dirs a b =
     fmupd [a, b, ''qpid-dispatch-certs'', ''skupper-internal-ca''] Dir (fmupd [a, b, ''qpid-dispatch-certs''] Dir
     (fmupd [a, b, ''sites''] Dir (fmupd [a, b, ''config''] Dir (fmupd [a, b, ''connections''] Dir
       (fmupd [a, b, ''services''] Dir (fmupd [a, b] Dir (fmupd [a] Dir fmempty)))))))"

definition site_world :: "RouterConfig \<Rightarrow> string \<Rightarrow> string gomap \<Rightarrow> World" where
  "site_world r uid secret =
     \<lparr>files = fmupd [''token''] (File (secret_text secret))
        (fmupd [''t'', ''skupper'', ''sites'', ''skupper0.json''] (File (site_text uid))
          (fmupd [''t'', ''skupper'', ''config'', ''qdrouterd.json''] (File (router_text r))
            (fmupd [''t'', ''skupper'', ''services'', ''skupper-services''] (File (marshal_defs fmempty))
              (sub_dirs ''t'' ''skupper'')))), calls = []\<rparr>"

definition site_cli :: VanClient where
  "site_cli = \<lparr>DockerInterface = sim_client (fmupd ''skupper-router'' sample_router fmempty), Host = sample_host\<rparr>"

definition sample_secret :: "string gomap" where
  "sample_secret = fmap_of_list
     [(''skupper.io/generated-by'', ''east-uid''), (''inter-router-host'', ''10.0.0.7''),
      (''inter-router-port'', ''55671''), (''ca.crt'', ''pem'')]"

definition west_config :: RouterConfig where
  "west_config = InitialConfig ''west'' ''west-uid'' False"

lemma wf_site_world: "wf_fs (files (site_world r uid secret))"
proof -
  have dirs: "wf_fs (sub_dirs a b)" for a b
    unfolding sub_dirs_def by (intro wf_fs_upd_Dir wf_fs_empty) (simp_all add: is_dir_def)
  show ?thesis
    unfolding site_world_def world.simps
    by (intro wf_fs_upd_File dirs) (simp_all add: is_dir_def sub_dirs_def)
qed

lemma site_cli_host [simp]: "Host site_cli = sample_host" "DockerInterface site_cli = sim_client (fmupd ''skupper-router'' sample_router fmempty)"
  by (simp_all add: site_cli_def)

lemma site_cli_at: "site_at site_cli [''t'']"
  by (simp add: rooted_at_def sample_host_def plain_def)

lemma sample_rng [simp]: "h_rng sample_host = rng_up"
  by (simp add: sample_host_def)

lemma config_of_site_world: "wf_config r \<Longrightarrow> router_config site_cli (site_world r uid secret) = Some r"
proof -
  assume "wf_config r"
  then have "UnmarshalRouterConfig (router_text r) = Inr r"
    using read_written [OF range_ok_up] by (simp add: router_text_def MarshalRouterConfig_def)
  moreover have "fs_ReadFile (files (site_world r uid secret)) [''t'', ''skupper'', ''config'', ''qdrouterd.json''] = Inr (router_text r)"
    by (simp add: fs_ReadFile_def site_world_def)
  ultimately show ?thesis
    using resolve_config [OF site_cli_at] by (simp add: router_config_def config_path_def)
qed

lemma resolve_in_site:
  assumes "list_all plain es"
  shows "resolve sample_host (GetSkupperPath (h_env sample_host) p @ abs_path es) = [''t'', ''skupper''] @ sub_path p @ es"
  using resolve_skupper [OF site_cli_at assms, of sample_host p] by simp

lemma site_of_site_world: "site_of site_cli (site_world r uid secret) = Some (zero_SiteConfig\<lparr>sg_UID := uid\<rparr>)"
proof -
  have "site_file site_cli DefaultBridgeName = GetSkupperPath (h_env sample_host) SitesPath @ abs_path [''skupper0.json'']"
    by (simp add: site_file_def skupper_path_def DefaultBridgeName_def)
  moreover have "list_all plain [''skupper0.json'']" by (simp add: plain_def)
  ultimately have path: "resolve sample_host (site_file site_cli DefaultBridgeName) = [''t'', ''skupper'', ''sites'', ''skupper0.json'']"
    using resolve_in_site [of "[''skupper0.json'']" SitesPath] by (simp add: sub_path_def)
  have "dec_ptr dec_site zero_SiteConfig (enc_site s) (Some zero_SiteConfig) = Inr (Some s)" for s
  proof -
    have "dec_ptr dec_site zero_SiteConfig (enc_site s) (Some zero_SiteConfig) =
        bindR (dec_site (enc_site s) zero_SiteConfig) (\<lambda>v. Inr (Some v))"
      by (simp add: dec_ptr_def enc_site_def encode_struct_def)
    then show ?thesis using site.dec_enc [of s] by simp
  qed
  moreover have "site_file site_cli DefaultBridgeName \<noteq> []" by (simp add: site_file_def)
  then have "os_ReadFile sample_host (site_file site_cli DefaultBridgeName) (site_world r uid secret) = (Inr (site_text uid), site_world r uid secret)"
    by (simp add: os_ReadFile_def path) (simp add: fs_ReadFile_def site_world_def)
  ultimately show ?thesis
    by (simp add: site_of_def SiteConfigInspect_def site_text_def)
qed

lemma services_file_site:
  "resolve sample_host (services_file site_cli) = [''t'', ''skupper'', ''services'', ''skupper-services'']"
proof -
  have "services_file site_cli = GetSkupperPath (h_env sample_host) ServicesPath @ abs_path [''skupper-services'']"
    by (simp add: services_file_def)
  moreover have "list_all plain [''skupper-services'']" by (simp add: plain_def)
  ultimately show ?thesis
    using resolve_in_site [of "[''skupper-services'']" ServicesPath] by (simp add: sub_path_def)
qed

lemma services_of_site_world: "services site_cli (site_world r uid secret) = Some fmempty"
proof -
  have "services_file site_cli \<noteq> []" by (simp add: services_file_def)
  then show ?thesis
    by (simp add: services_def services_at_def services_file_site) (simp add: fs_ReadFile_def site_world_def keyed_rules)
qed


lemma sample_services_lookup:
  assumes "fmlookup (files w') [''t'', ''skupper'', ''services'', ''skupper-services''] =
    fmlookup (files w) [''t'', ''skupper'', ''services'', ''skupper-services'']"
  shows "services site_cli w' = services site_cli w"
  using assms
  by (auto simp: services_def services_at_def services_file_site fs_ReadFile_def split: option.split node.split)

text \<open>At this site the restarts succeed and the router is there afterwards.\<close>

lemma restarted_name [simp]: "cr_Name (with_shm (restarted_transport j)) = ''skupper-router''"
  by (simp add: with_shm_def restarted_transport_def privileged_host_def)

lemma sim_router_after_recreate:
  assumes "RestartTransportContainer (sim_client s) w = (Inr (), w')" and "''skupper-router'' |\<in>| fmdom (sim_run s (calls w))"
  shows "''skupper-router'' |\<in>| fmdom (sim_run s (calls w')) \<and> files w' = files w"
proof -
  obtain c where c: "fmlookup (sim_run s (calls w)) ''skupper-router'' = Some c"
    using assms(2) by (auto simp: fmlookup_dom_iff)
  show ?thesis
    using assms(1) c
    by (auto simp: RestartTransportContainer_def recreate_run fmlookup_dom_iff sim_run_def send_simps)
qed

lemma restart_all_site:
  assumes "DockerInterface cli = sim_client s" and "''skupper-router'' |\<in>| fmdom (sim_run s (calls w))"
    and "services cli w = Some fmempty" and "range_ok (h_rng (Host cli))"
  shows "\<exists>w'. restart_all a b cli w = (Inr (), w') \<and> router_up cli w'"
proof -
  obtain c where c: "fmlookup (sim_run s (calls w)) ''skupper-router'' = Some c"
    using assms(2) by (auto simp: fmlookup_dom_iff)
  obtain w1 where w1: "RestartTransportContainer (sim_client s) w = (Inr (), w1)"
    using c by (simp add: RestartTransportContainer_def recreate_run)
  note there = sim_router_after_recreate [OF w1 assms(2)]
  define w2 where "w2 = send (ContainerRestart ControllerDeploymentName (10 * second)) (getTimeoutContext (sim_client s)) w1"
  have restarted: "RestartContainer ControllerDeploymentName (sim_client s) w1 = (Inr (), w2)"
    by (simp add: RestartContainer_def dd_RestartContainer_def w2_def)
  have there2: "''skupper-router'' |\<in>| fmdom (sim_run s (calls w2))" using there by (simp add: w2_def)
  have up: "router_up cli w2"
    using there2 by (auto simp: router_up_def assms(1) fmlookup_dom_iff)
  define w3 where "w3 = send (ContainerInspect ''skupper-router'') (getTimeoutContext (DockerInterface cli)) w2"
  have "services cli w2 = Some fmempty"
    using assms(3) there services_at_files [of w2 w] by (simp add: services_def w2_def send_simps)
  then have "services cli w3 = Some fmempty" by (simp add: w3_def)
  then have "client_load id cli w3 = (Inr fmempty, w3)" by (rule client_services.load_view)
  then have listed: "ServiceInterfaceList cli w2 = (Inr [], w3)"
    using assms(4) by (simp add: ServiceInterfaceList_def need_router_up [OF up] w3_def)
  have "router_up cli w3"
    using there2 by (auto simp: router_up_def assms(1) fmlookup_dom_iff w3_def)
  then show ?thesis
    using w1 restarted listed by (simp add: restart_all_def assms(1))
qed

lemma sample_token_ok: "token_ok sample_secret"
proof -
  have "token_key_ok k" if "k \<in> {TokenGeneratedBy, ''inter-router-host'', ''inter-router-port'', ''ca.crt''}" for k
    using that by (auto simp: token_key_ok_def plain_def)
  then show ?thesis
    by (simp add: token_ok_def sample_secret_def TokenGeneratedBy_def fmpred_upd)
qed

lemma sample_origin: "fmlookup sample_secret ''skupper.io/generated-by'' = Some ''east-uid''"
  by (simp add: sample_secret_def)

lemma site_world_secret: "h_get_secret sample_host (files (site_world r uid secret)) ''token'' = Inr secret"
  by (simp add: sample_host_def, rule sample_get_put, simp add: site_world_def)

lemma connect_west:
  assumes "wf_config r" and "token_ok secret" and "fmlookup secret ''skupper.io/generated-by'' = Some ''east-uid''"
  shows "\<exists>w'. ConnectorCreate site_cli ''token'' \<lparr>co_Name = ''east'', co_Cost = 1\<rparr> (site_world r ''west-uid'' secret) = (Inr ''east'', w') \<and>
    router_up site_cli w'"
proof -
  let ?w = "site_world r ''west-uid'' secret" and ?opts = "\<lparr>co_Name = ''east'', co_Cost = 1\<rparr>"
  define w1 where "w1 = send (ContainerInspect ''skupper-router'') (getTimeoutContext (DockerInterface site_cli)) ?w"
  have calls: "calls ?w = []" by (simp add: site_world_def)
  then have up: "router_up site_cli ?w" by (simp add: router_up_def)
  have w1: "files w1 = files ?w" "services site_cli w1 = Some fmempty"
    "site_of site_cli w1 = Some (zero_SiteConfig\<lparr>sg_UID := ''west-uid''\<rparr>)"
    by (simp_all only: w1_def send_simps services_send views_send services_of_site_world site_of_site_world)
  have router: "''skupper-router'' |\<in>| fmdom (sim_run (fmupd ''skupper-router'' sample_router fmempty) (calls w1))"
    by (simp only: w1_def send_simps calls append_Nil sim_run_def fold.simps request.simps sim_step.simps
        fmdom_fmupd o_apply id_apply finsertI1)
  have dirs: "fmlookup (files w1) (connections_dir [''t'']) = Some Dir"
    "fmlookup (files w1) (connections_dir [''t''] @ [''east'']) = None"
    unfolding w1(1) by (simp_all add: site_world_def connections_dir_def sub_dirs_def)
  have east: "plain ''east''" by (simp add: plain_def)
  have config: "router_config site_cli w1 = Some r"
    using config_of_site_world [OF assms(1)] router_config_files [OF w1(1)] by simp
  have rng: "range_ok (h_rng (Host site_cli))" and wf: "wf_fs (files w1)"
    by (simp_all add: w1(1) wf_site_world)
  from connect_files_run [OF site_cli_at east assms(2) rng wf config dirs, of 1] obtain content where
    files2: "connect_files site_cli secret ''east'' 1 w1 = (Inr (), w1\<lparr>files := fmupd (config_path [''t'']) (File content)
      (connected_fs [''t''] (h_rng (Host site_cli)) secret ''east'' (files w1))\<rparr>)" by blast
  define w2 where "w2 = w1\<lparr>files := fmupd (config_path [''t'']) (File content)
      (connected_fs [''t''] (h_rng (Host site_cli)) secret ''east'' (files w1))\<rparr>"
  have w2: "connect_files site_cli secret ''east'' 1 w1 = (Inr (), w2)" "calls w2 = calls w1"
    using files2 by (simp_all add: w2_def)
  have "\<not> prefix (connections_dir [''t''] @ [''east'']) [''t'', ''skupper'', ''services'', ''skupper-services'']"
    by (simp add: connections_dir_def)
  from connected_fs_other [OF rng assms(2) this, of "files w1"]
  have "fmlookup (files w2) [''t'', ''skupper'', ''services'', ''skupper-services''] =
      fmlookup (files w1) [''t'', ''skupper'', ''services'', ''skupper-services'']"
    by (simp add: w2_def config_path_def)
  then have services: "services site_cli w2 = Some fmempty"
    using w1(2) sample_services_lookup [of w2 w1] by simp
  from restart_all_site [OF site_cli_host(2) _ services rng] router w2(2) obtain w' where
    w': "restart_all ''Failed to re-start transport container'' ''Failed to re-start controller container'' site_cli w2 = (Inr (), w')"
      "router_up site_cli w'" by auto
  have "SiteConfigInspect site_cli DefaultBridgeName w1 = (Inr (Some (zero_SiteConfig\<lparr>sg_UID := ''west-uid''\<rparr>)), w1)"
    using w1(3) reads_run [OF keeps_eq_reads(2), of site_cli DefaultBridgeName w1]
    by (auto simp: site_of_def split: sum.splits)
  then have "connect_site site_cli secret ?opts w1 = (Inr ''east'', w')"
    using w2(1) w'(1) assms(3) by (simp add: connect_site_def deref_def choose_name_def connect_as_def)
  then show ?thesis
    using w'(2) by (simp add: ConnectorCreate_def get_secret_def site_world_secret need_router_up [OF up] w1_def)
qed

lemma wf_west: "wf_config west_config"
  by (simp add: west_config_def wf_InitialConfig)

lemma secret_of_site_world: "secret_of site_cli ''token'' (site_world r uid secret) = Some secret"
  by (simp add: secret_of_def site_world_secret)

lemma plain_east: "plain ''east''"
  by (simp add: plain_def)

lemma rng_site: "range_ok (h_rng (Host site_cli))"
  by simp

lemma connector_create_result_witness:
  "\<exists>w'. ConnectorCreate site_cli ''token'' \<lparr>co_Name = ''east'', co_Cost = 1\<rparr> (site_world west_config ''west-uid'' sample_secret) =
      (Inr ''east'', w') \<and>
    router_config site_cli w' = Some (connector_of sample_secret ''east'' 1 west_config) \<and>
    fmlookup (files w') (connections_dir [''t''] @ [''east'', ''ca.crt'']) = Some (File ''pem'')"
proof -
  from connect_west [OF wf_west sample_token_ok sample_origin] obtain w' where
    w': "ConnectorCreate site_cli ''token'' \<lparr>co_Name = ''east'', co_Cost = 1\<rparr> (site_world west_config ''west-uid'' sample_secret) =
      (Inr ''east'', w')" by blast
  have "fmlookup sample_secret ''ca.crt'' = Some ''pem''" "token_name ''ca.crt'' = ''ca.crt''"
    by (simp_all add: sample_secret_def token_name_def TokenGeneratedBy_def)
  note names = this
  from connector_create_result [OF site_cli_at wf_site_world rng_site secret_of_site_world sample_token_ok w' plain_east]
  obtain r where "router_config site_cli (site_world west_config ''west-uid'' sample_secret) = Some r"
    "router_config site_cli w' = Some (connector_of sample_secret ''east'' (co_Cost \<lparr>co_Name = ''east'', co_Cost = 1\<rparr>) r)"
    "\<forall>k v. fmlookup sample_secret k = Some v \<longrightarrow>
       fmlookup (files w') (connections_dir [''t''] @ [''east'', token_name k]) = Some (File v)" by blast
  with config_of_site_world [OF wf_west] names w' show ?thesis by fastforce
qed

lemma connector_create_refused_witness:
  "\<exists>e w'. ConnectorCreate site_cli ''token'' \<lparr>co_Name = ''x'', co_Cost = 1\<rparr> (site_world west_config ''east-uid'' sample_secret) =
      (Inl e, w') \<and> files w' = files (site_world west_config ''east-uid'' sample_secret)"
proof -
  obtain r w' where run: "ConnectorCreate site_cli ''token'' \<lparr>co_Name = ''x'', co_Cost = 1\<rparr>
      (site_world west_config ''east-uid'' sample_secret) = (r, w')" by fastforce
  have own: "\<exists>secret sc. secret_of site_cli ''token'' (site_world west_config ''east-uid'' sample_secret) = Some secret \<and>
      site_of site_cli (site_world west_config ''east-uid'' sample_secret) = Some sc \<and>
      fmlookup secret TokenGeneratedBy = Some (sg_UID sc)"
    using sample_origin by (simp add: secret_of_site_world site_of_site_world TokenGeneratedBy_def)
  from connector_create_refused [OF site_cli_at run] own run show ?thesis by blast
qed

lemma connect_disconnect_witness:
  "\<exists>w1 res w2. ConnectorCreate site_cli ''token'' \<lparr>co_Name = ''east'', co_Cost = 1\<rparr>
      (site_world west_config ''west-uid'' sample_secret) = (Inr ''east'', w1) \<and>
    ConnectorRemove site_cli ''east'' w1 = (res, w2) \<and> router_config site_cli w2 = Some west_config"
proof -
  from connect_west [OF wf_west sample_token_ok sample_origin] obtain w1 where
    w1: "ConnectorCreate site_cli ''token'' \<lparr>co_Name = ''east'', co_Cost = 1\<rparr> (site_world west_config ''west-uid'' sample_secret) =
      (Inr ''east'', w1)" "router_up site_cli w1" by blast
  have new: "fmlookup (Connectors west_config) ''east'' = None" "fmlookup (SslProfiles west_config) (''east'' @ ''-profile'') = None"
    by (simp_all add: west_config_def InitialConfig_def)
  from connect_disconnect [OF site_cli_at wf_site_world rng_site secret_of_site_world sample_token_ok plain_east w1
      config_of_site_world [OF wf_west] new] w1(1) config_of_site_world [OF wf_west]
  show ?thesis by auto
qed

lemma sample_token_law: "token_law sample_host sample_host"
  unfolding token_law_def
  by (simp add: sample_host_def sample_put_def sample_get_put)

lemma no_ca_files: "children (files (site_world r uid secret)) [''t'', ''skupper'', ''qpid-dispatch-certs'', ''skupper-internal-ca''] = {||}"
  by (rule fset_eqI) (simp add: children_iff site_world_def sub_dirs_def)

lemma token_of_east:
  "ConnectorTokenCreate site_cli ''skupper'' ''token'' (site_world west_config ''east-uid'' fmempty) =
    (Inr (), (send (ContainerInspect ''skupper-router'') (getTimeoutContext (DockerInterface site_cli))
       (site_world west_config ''east-uid'' fmempty))\<lparr>files :=
         sample_put ''skupper'' ''token'' fmempty (token_annotations ''172.18.0.2'' ''east-uid'')
           (files (site_world west_config ''east-uid'' fmempty))\<rparr>)"
proof -
  let ?w = "site_world west_config ''east-uid'' fmempty"
  define w1 where "w1 = send (ContainerInspect ''skupper-router'') (getTimeoutContext (DockerInterface site_cli)) ?w"
  have calls: "calls ?w = []" by (simp add: site_world_def)
  have inspect: "InspectContainer ''skupper-router'' (DockerInterface site_cli) ?w = (Inr (sim_json ''skupper-router'' sample_router), w1)"
    using calls by (simp add: w1_def)
  have w1: "files w1 = files ?w" by (simp only: w1_def send_simps)
  have config: "router_config site_cli w1 = Some west_config"
    using config_of_site_world [OF wf_west] router_config_files [OF w1] by simp
  have edge: "\<not> IsEdge west_config" by (simp add: west_config_def InitialConfig_def IsEdge_def ModeInterior_def ModeEdge_def)
  have ip: "fmlookup (cj_Networks (sim_json ''skupper-router'' sample_router)) ''skupper-network'' = Some ''172.18.0.2''"
    by (simp add: sim_json_def sample_router_def getTransportContainerCreateConfig_def skupper_network_only_def
        TransportNetworkName_def sorted_list_of_fset.rep_eq)
  have path: "resolve sample_host (skupper_path site_cli CertsPath @ CHR ''/'' # ''skupper-internal-ca'') =
      [''t'', ''skupper'', ''qpid-dispatch-certs'', ''skupper-internal-ca'']"
    using resolve_in_site [of "[''skupper-internal-ca'']" CertsPath] by (simp add: skupper_path_def sub_path_def plain_def)
  have "is_dir (files ?w) [''t'', ''skupper'', ''qpid-dispatch-certs'', ''skupper-internal-ca'']"
    by (simp add: is_dir_def site_world_def sub_dirs_def)
  then have "os_ReadDir sample_host (skupper_path site_cli CertsPath @ CHR ''/'' # ''skupper-internal-ca'') w1 = (Inr [], w1)"
    by (simp add: os_ReadDir_def path w1 fs_ReadDir_def no_ca_files sorted_list_of_fset.rep_eq)
  then have certs: "getCertData site_cli ''skupper-internal-ca'' w1 = (Inr (fmempty, None), w1)"
    by (simp add: getCertData_def Let_def)
  have "site_of site_cli w1 = Some (zero_SiteConfig\<lparr>sg_UID := ''east-uid''\<rparr>)"
    by (simp only: w1_def views_send site_of_site_world)
  then have site: "SiteConfigInspect site_cli DefaultBridgeName w1 = (Inr (Some (zero_SiteConfig\<lparr>sg_UID := ''east-uid''\<rparr>)), w1)"
    using reads_run [OF keeps_eq_reads(2), of site_cli DefaultBridgeName w1] by (auto simp: site_of_def split: sum.splits)
  have "make_token site_cli ''skupper'' ''token'' (sim_json ''skupper-router'' sample_router) west_config w1 =
      put_secret site_cli ''skupper'' ''token'' (h_gen_cert sample_host ''skupper'' ''skupper'' ''172.18.0.2'' fmempty)
        (token_annotations ''172.18.0.2'' ''east-uid'') w1"
    using edge certs ip site by (simp add: make_token_def deref_def)
  moreover have "h_gen_cert sample_host = (\<lambda>_ _ _ _. fmempty)" "h_put_secret sample_host = sample_put"
    by (simp_all add: sample_host_def)
  ultimately show ?thesis
    unfolding w1_def [symmetric] using inspect w1
    by (simp add: ConnectorTokenCreate_def with_router_config_run(1) [OF config] put_secret_def)
qed

lemma token_connects_witness:
  "\<exists>wA' wB' rB c. ConnectorTokenCreate site_cli ''skupper'' ''token'' (site_world west_config ''east-uid'' fmempty) = (Inr (), wA') \<and>
    ConnectorCreate site_cli ''token'' \<lparr>co_Name = ''east'', co_Cost = 1\<rparr>
      (site_world west_config ''west-uid'' (token_annotations ''172.18.0.2'' ''east-uid'')) = (Inr ''east'', wB') \<and>
    router_config site_cli wB' = Some rB \<and> fmlookup (Connectors rB) ''east'' = Some c \<and>
    (if IsEdge rB then cn_Host c = [] else cn_Port c = ''55671'')"
proof -
  let ?token = "token_annotations ''172.18.0.2'' ''east-uid''"
  have annotations: "?token =
      fmupd ''inter-router-port'' ''55671'' (fmupd ''inter-router-host'' ''172.18.0.2'' (fmupd TokenGeneratedBy ''east-uid'' fmempty))"
    by (simp add: token_annotations_def)
  have "token_key_ok k" if "k \<in> {TokenGeneratedBy, ''inter-router-host'', ''inter-router-port''}" for k
    using that by (auto simp: token_key_ok_def plain_def)
  then have ok: "token_ok ?token" by (simp add: token_ok_def annotations fmpred_upd)
  have origin: "fmlookup ?token ''skupper.io/generated-by'' = Some ''east-uid''"
    by (simp add: annotations TokenGeneratedBy_def)
  from connect_west [OF wf_west ok origin] obtain wB' where
    wB': "ConnectorCreate site_cli ''token'' \<lparr>co_Name = ''east'', co_Cost = 1\<rparr> (site_world west_config ''west-uid'' ?token) = (Inr ''east'', wB')"
    by blast
  obtain wA' where wA': "ConnectorTokenCreate site_cli ''skupper'' ''token'' (site_world west_config ''east-uid'' fmempty) = (Inr (), wA')"
    "files wA' = sample_put ''skupper'' ''token'' fmempty ?token (files (site_world west_config ''east-uid'' fmempty))"
    using token_of_east by simp
  have "fmempty ++\<^sub>f ?token = ?token" by simp
  then have "h_get_secret (Host site_cli) (files wA') ''token'' = Inr ?token"
    using sample_token_law unfolding token_law_def wA'(2)
    by (simp add: sample_host_def sample_put_def sample_get_put)
  then have copied: "h_get_secret (Host site_cli) (files (site_world west_config ''west-uid'' ?token)) ''token'' =
      h_get_secret (Host site_cli) (files wA') ''token''"
    by (simp add: site_world_secret)
  have law: "token_law (Host site_cli) (Host site_cli)" using sample_token_law by simp
  have "h_gen_cert (Host site_cli) = (\<lambda>_ _ _ _. fmempty)" by (simp add: sample_host_def)
  then have certs: "\<forall>caData ip. {''edge-host'', ''edge-port''} \<inter> fset (fmdom (h_gen_cert (Host site_cli) ''skupper'' ''skupper'' ip caData)) = {}"
    "\<forall>caData ip. token_ok (h_gen_cert (Host site_cli) ''skupper'' ''skupper'' ip caData)"
    by (simp_all add: token_ok_def)
  from token_connects [OF wA'(1) law copied certs site_cli_at wf_site_world rng_site wB' plain_east] wA'(1) wB'
  show ?thesis by (fastforce split: if_splits)
qed

end
