(* ===== verification/Mgmt.thy ===== *)
theory Mgmt
  imports Connectors
begin

text \<open>
  The management queries of \<open>pkg/qdr/mgmt.go\<close> and \<open>pkg/qdr/container.go\<close>: a command run in the router
  container through the exec calls of the docker daemon, its output read as JSON, and what the client
  computes from it (\<open>client/connector_inspect.go\<close>, \<open>client/router_inspect.go\<close>). The copy of the
  multiplexed output stream is part of the daemon's answer to the attach request.
\<close>

section \<open>Data\<close>

record RouterNode =
  rn_Id :: string
  rn_Name :: string
  rn_NextHop :: string

record Connection =
  nx_Container :: string
  nx_OperStatus :: string
  nx_Host :: string
  nx_Role :: string
  nx_Active :: bool
  nx_Dir :: string

definition zero_RouterNode :: RouterNode where
  "zero_RouterNode = \<lparr>rn_Id = [], rn_Name = [], rn_NextHop = []\<rparr>"

definition zero_Connection :: Connection where
  "zero_Connection =
     \<lparr>nx_Container = [], nx_OperStatus = [], nx_Host = [], nx_Role = [], nx_Active = False, nx_Dir = []\<rparr>"

definition node_fields :: "RouterNode jfield list" where
  "node_fields =
     [str_field ''id'' False rn_Id rn_Id_update,
      str_field ''name'' False rn_Name rn_Name_update,
      str_field ''nextHop'' False rn_NextHop rn_NextHop_update]"

definition connection_fields :: "Connection jfield list" where
  "connection_fields =
     [str_field ''container'' False nx_Container nx_Container_update,
      str_field ''operStatus'' False nx_OperStatus nx_OperStatus_update,
      str_field ''host'' False nx_Host nx_Host_update,
      str_field ''role'' False nx_Role nx_Role_update,
      bool_field ''active'' False nx_Active nx_Active_update,
      str_field ''dir'' False nx_Dir nx_Dir_update]"

interpretation node: json_codec "encode_struct node_fields" "decode_struct node_fields" zero_RouterNode "\<lambda>_. True"
  by unfold_locales
    (intro decode_encode_struct; simp add: node_fields_def field_defs zero_RouterNode_def)+

interpretation connection: json_codec "encode_struct connection_fields" "decode_struct connection_fields"
    zero_Connection "\<lambda>_. True"
  by unfold_locales
    (intro decode_encode_struct; simp add: connection_fields_def field_defs zero_Connection_def)+

section \<open>Running a command in the router container\<close>

definition Stdout :: "ExecOutput \<Rightarrow> string" where
  "Stdout res = ex_Stdout res"

definition Stderr :: "ExecOutput \<Rightarrow> string" where
  "Stderr res = ex_Stderr res"

definition Exec :: "skupDockerClient \<Rightarrow> string \<Rightarrow> string list \<Rightarrow> (World, ExecOutput) oper" where
  "Exec dd id' cmd =
     bindE id (dd_CreateExec dd id' cmd) (\<lambda>execID.
     bindE id (dd_AttachExec dd execID) (\<lambda>(outBuf, errBuf).
     bindE id (dd_InspectExec dd execID) (\<lambda>exitCode.
     returnE \<lparr>ex_ExitCode = exitCode, ex_Stdout = outBuf, ex_Stderr = errBuf\<rparr>)))"

definition routerExec :: "string list \<Rightarrow> skupDockerClient \<Rightarrow> (World, ExecOutput) oper" where
  "routerExec command dd =
     bindE id (dd_InspectContainer dd ''skupper-router'') (\<lambda>current. Exec dd (cj_ID current) command)"

definition getQuery :: "string \<Rightarrow> string list" where
  "getQuery typename = [''qdmanage'', ''query'', ''--type'', typename]"

definition query_router ::
  "string \<Rightarrow> (json \<Rightarrow> 'v \<Rightarrow> 'v result) \<Rightarrow> 'v \<Rightarrow> skupDockerClient \<Rightarrow> (World, 'v list) oper" where
  "query_router typename dec zero dd =
     bindE id (routerExec (getQuery typename) dd) (\<lambda>execResult.
       liftE (unmarshal (dec_list dec zero) (ex_Stdout execResult) []))"

definition GetNodes :: "skupDockerClient \<Rightarrow> (World, RouterNode list) oper" where
  "GetNodes dd = query_router ''node'' (decode_struct node_fields) zero_RouterNode dd"

definition GetConnections :: "skupDockerClient \<Rightarrow> (World, Connection list) oper" where
  "GetConnections dd = query_router ''connection'' (decode_struct connection_fields) zero_Connection dd"

section \<open>What is computed from the answers\<close>

definition count_node :: "RouterNode \<Rightarrow> TransportConnectedSites \<Rightarrow> TransportConnectedSites" where
  "count_node n result =
     (if rn_NextHop n = [] then
        result\<lparr>ts_Direct := ts_Direct result + 1, ts_Total := ts_Total result + 1\<rparr>
      else if rn_NextHop n \<noteq> ''(self)'' then
        result\<lparr>ts_Indirect := ts_Indirect result + 1, ts_Total := ts_Total result + 1\<rparr>
      else result)"

definition GetConnectedSites :: "skupDockerClient \<Rightarrow> (World, TransportConnectedSites) oper" where
  "GetConnectedSites dd =
     bindE id (GetNodes dd) (\<lambda>nodes. returnE (fold count_node nodes zero_ConnectedSites))"

fun GetInterRouterOrEdgeConnection :: "string \<Rightarrow> Connection list \<Rightarrow> Connection option" where
  "GetInterRouterOrEdgeConnection host [] = None"
| "GetInterRouterOrEdgeConnection host (c # connections) =
     (if (nx_Role c = ''inter-router'' \<or> nx_Role c = ''edge'') \<and> nx_Host c = host then Some c
      else GetInterRouterOrEdgeConnection host connections)"

definition connected_to :: "Connection option \<Rightarrow> bool" where
  "connected_to connection = (case connection of None \<Rightarrow> False | Some c \<Rightarrow> nx_Active c)"

definition read_token_file :: "VanClient \<Rightarrow> string \<Rightarrow> (World, string) oper" where
  "read_token_file cli fname =
     bindE (Wrapf ''Could not retrieve connection-token files'')
       (os_ReadFile (Host cli) (skupper_path cli ConnectionsPath @ ''/'' @ fname)) returnE"

definition inspect_connection :: "VanClient \<Rightarrow> string \<Rightarrow> (World, ConnectorInspectResponse) oper" where
  "inspect_connection cli name =
     bindE (Wrapf ''Failed to retrieve router config'') (GetRouterConfigFromFile (Host cli) (config_file cli)) (\<lambda>p.
     bindE id (deref p) (\<lambda>current.
     bindE id (read_token_file cli (name @ token_suffix current @ ''host'')) (\<lambda>host.
     bindE id (read_token_file cli (name @ token_suffix current @ ''port'')) (\<lambda>port.
     bindE (Wrapf ''Unable to get connections from transport'') (GetConnections (DockerInterface cli)) (\<lambda>connections.
     returnE
       \<lparr>ci_Connector =
          \<lparr>tc_Name = name, tc_Role = (if IsEdge current then ConnectorRoleEdge else ConnectorRoleInterRouter),
           tc_Host = host, tc_Port = port\<rparr>,
        ci_Connected = connected_to (GetInterRouterOrEdgeConnection (host @ '':'' @ port) connections)\<rparr>)))))"

definition ConnectorInspect :: "VanClient \<Rightarrow> string \<Rightarrow> (World, ConnectorInspectResponse) oper" where
  "ConnectorInspect cli name =
     bindE (Wrapf ''Unable to retrieve transport container (need init?)'')
       (InspectContainer ''skupper-router'' (DockerInterface cli)) (\<lambda>_. inspect_connection cli name)"

text \<open>The query is repeated at most \<open>n\<close> more times while it fails, after half a second each.\<close>

fun connected_sites_retry :: "nat \<Rightarrow> skupDockerClient \<Rightarrow> (World, TransportConnectedSites) oper" where
  "connected_sites_retry 0 dd = GetConnectedSites dd"
| "connected_sites_retry (Suc n) dd =
     tryE (GetConnectedSites dd) (\<lambda>r.
       case r of Inl e \<Rightarrow> connected_sites_retry n dd | Inr sites \<Rightarrow> returnE sites)"

definition inspected_container ::
  "string \<Rightarrow> skupDockerClient \<Rightarrow> (World, string \<times> string) oper" where
  "inspected_container name dd =
     bindE id (InspectContainer name dd) (\<lambda>current.
     bindE id (GetImageVersion (cc_Image (cj_Config current)) dd) (\<lambda>version.
     returnE (version, cj_Status current)))"

definition RouterInspect :: "VanClient \<Rightarrow> (World, RouterInspectResponse) oper" where
  "RouterInspect cli =
     bindE id (inspected_container ''skupper-router'' (DockerInterface cli)) (\<lambda>(transportVersion, state).
     bindE id (inspected_container ControllerDeploymentName (DockerInterface cli)) (\<lambda>(controllerVersion, _).
     bindE id (with_router_config cli returnE) (\<lambda>routerConfig.
     bindE id (connected_sites_retry 5 (DockerInterface cli)) (\<lambda>connected.
     bindE id (ServiceInterfaceList cli) (\<lambda>vsis.
     returnE
       \<lparr>ri_Mode = rm_Mode (Metadata routerConfig), ri_State = state, ri_ConnectedSites = connected,
        ri_TransportVersion = transportVersion, ri_ControllerVersion = controllerVersion,
        ri_ExposedServices = length vsis\<rparr>)))))"

end
