(* ===== verification/Routers.thy ===== *)
theory Routers
  imports SiteFiles
begin

text \<open>
  Setting up and taking down a site: \<open>client/router_create.go\<close> and \<open>client/router_remove.go\<close>. The
  certificate authority and the certificates come from the certificate package (\<open>h_ca_cert\<close>,
  \<open>h_gen_cert\<close>).
\<close>

section \<open>Certificates\<close>

text \<open>\<open>for k, v := range certData\<close> with a write of each file.\<close>

definition write_certs :: "VanClient \<Rightarrow> string \<Rightarrow> string \<Rightarrow> string gomap \<Rightarrow> (World, unit) oper" where
  "write_certs cli name msg certData =
     forE (\<lambda>(k, v). bindE (Wrapf msg)
         (os_WriteFile (Host cli) (skupper_path cli CertsPath @ ''/'' @ name @ ''/'' @ k) v) returnE)
       (range_of (h_rng (Host cli)) certData)"

definition generateCredentials ::
  "VanClient \<Rightarrow> string \<Rightarrow> string \<Rightarrow> string \<Rightarrow> string list \<Rightarrow> bool \<Rightarrow> (World, unit) oper" where
  "generateCredentials cli ca name subject hosts includeConnectJson =
     bindE id (getCertData cli ca) (\<lambda>(caData, _).
     bindE id (write_certs cli name ''Failed to write certificate file''
       (h_gen_cert (Host cli) name subject (join_with '','' hosts) caData)) (\<lambda>_.
     if includeConnectJson then
       bindE (Wrapf ''Failed to write connect file'')
         (os_WriteFile (Host cli) (skupper_path cli CertsPath @ ''/'' @ name @ ''/connect.json'') ConnectJSON) returnE
     else returnE ()))"

definition ensureCA :: "VanClient \<Rightarrow> string \<Rightarrow> (World, string gomap) oper" where
  "ensureCA cli name =
     (let caData = h_ca_cert (Host cli) name name
      in bindE (Wrapf ''Failed to create certificate directory'')
           (os_Mkdir (Host cli) (skupper_path cli CertsPath @ ''/'' @ name)) (\<lambda>_.
         bindE id (write_certs cli name ''Failed to write CA certificate file'' caData) (\<lambda>_. returnE caData)))"

section \<open>What a router is created from\<close>

definition mc_address :: Address where
  "mc_address = \<lparr>ad_Prefix = ''mc'', ad_Distribution = ''multicast''\<rparr>"

definition health_listener :: Listener where
  "health_listener = zero_Listener\<lparr>ls_Host := ''0.0.0.0'', ls_Port := 9090, ls_Role := ''normal'', ls_Http := True,
     ls_HttpRootDir := ''disabled'', ls_Websockets := False, ls_Healthz := True, ls_Metrics := True\<rparr>"

definition amqp_listener :: Listener where
  "amqp_listener = zero_Listener\<lparr>ls_Name := ''amqp'', ls_Host := ''localhost'', ls_Port := AmqpDefaultPort\<rparr>"

definition amqps_listener :: Listener where
  "amqps_listener = zero_Listener\<lparr>ls_Name := ''amqps'', ls_Host := ''0.0.0.0'', ls_Port := AmqpsDefaultPort,
     ls_SslProfile := ''skupper-amqps'', ls_SaslMechanisms := ''EXTERNAL'', ls_AuthenticatePeer := True\<rparr>"

definition console_listener :: "bool \<Rightarrow> Listener" where
  "console_listener authenticate = zero_Listener\<lparr>ls_Name := ConsolePortName, ls_Host := ''0.0.0.0'',
     ls_Port := ConsoleDefaultServicePort, ls_Http := True, ls_AuthenticatePeer := authenticate\<rparr>"

definition site_listener :: "string \<Rightarrow> string \<Rightarrow> int32 \<Rightarrow> Listener" where
  "site_listener name role port = zero_Listener\<lparr>ls_Name := name, ls_Host := ''0.0.0.0'', ls_Role := role,
     ls_Port := port, ls_SslProfile := InterRouterProfile, ls_SaslMechanisms := ''EXTERNAL'',
     ls_AuthenticatePeer := True\<rparr>"

definition base_config :: "string \<Rightarrow> string \<Rightarrow> bool \<Rightarrow> RouterConfig" where
  "base_config name siteId edge =
     AddListener amqps_listener
       (AddSslProfile (zero_SslProfile\<lparr>sp_Name := ''skupper-amqps''\<rparr>)
         (AddListener amqp_listener
           (AddListener health_listener
             (AddAddress mc_address (InitialConfig (name @ ''-${HOSTNAME}'') siteId edge)))))"

definition with_console :: "SiteConfigSpec \<Rightarrow> RouterConfig \<Rightarrow> RouterConfig" where
  "with_console options r =
     (if sc_EnableRouterConsole options then
        (if sc_AuthMode options = ConsoleAuthModeInternal then AddListener (console_listener True) r
         else if sc_AuthMode options = ConsoleAuthModeUnsecured then AddListener (console_listener False) r
         else r)
      else r)"

definition with_site_listeners :: "SiteConfigSpec \<Rightarrow> RouterConfig \<Rightarrow> RouterConfig" where
  "with_site_listeners options r =
     (if sc_IsEdge options then r
      else AddListener (site_listener ''edge-listener'' RoleEdge EdgeListenerPort)
             (AddListener (site_listener ''interior-listener'' RoleInterRouter InterRouterListenerPort)
               (AddSslProfile (zero_SslProfile\<lparr>sp_Name := InterRouterProfile\<rparr>) r)))"

definition initial_router_config :: "SiteConfigSpec \<Rightarrow> string \<Rightarrow> string \<Rightarrow> RouterConfig" where
  "initial_router_config options name siteId =
     with_site_listeners options (with_console options (base_config name siteId (sc_IsEdge options)))"

definition transport_env :: "SiteConfigSpec \<Rightarrow> string \<Rightarrow> string list" where
  "transport_env options siteId =
     (if sc_IsEdge options then [] else [''APPLICATION_NAME='' @ TransportDeploymentName]) @
     (if sc_AuthMode options = ConsoleAuthModeInternal then
        [''QDROUTERD_AUTO_CREATE_SASLDB_SOURCE=/etc/qpid-dispatch/sasl-users/'',
         ''QDROUTERD_AUTO_CREATE_SASLDB_PATH=/tmp/qdrouterd.sasldb''] else []) @
     (if sc_TraceLog options then [''PN_TRACE_FRM=1''] else []) @
     [''QDROUTERD_CONF=/etc/qpid-dispatch/config/'' @ TransportConfigFile, ''QDROUTERD_CONF_TYPE=json'',
      ''SKUPPER_SITE_ID='' @ siteId]"

definition tcp_port :: "int32 \<Rightarrow> string" where
  "tcp_port p = itoa (sint p) @ ''/tcp''"

definition transport_ports :: "SiteConfigSpec \<Rightarrow> string fset" where
  "transport_ports options =
     finsert ''5671/tcp''
       ((if sc_AuthMode options \<noteq> [] then {|tcp_port ConsoleDefaultServicePort|} else {||}) |\<union>|
        {|tcp_port TransportLivenessPort|} |\<union>|
        (if sc_IsEdge options then {||} else {|tcp_port InterRouterListenerPort, tcp_port EdgeListenerPort|}))"

definition transport_volumes :: "SiteConfigSpec \<Rightarrow> string list" where
  "transport_volumes options =
     [''skupper'', ''skupper-amqps'', ''router-config''] @
     (if sc_IsEdge options then [] else [''skupper-internal'']) @
     (if sc_AuthMode options = ConsoleAuthModeInternal then [''skupper-console-users'', ''skupper-sasl-config''] else [])"

definition transport_mounts :: "VanClient \<Rightarrow> string gomap" where
  "transport_mounts cli =
     fmap_of_list
       [(skupper_path cli SaslConfigPath, ''/etc/sasl2''),
        (skupper_path cli ConsoleUsersPath, ''/etc/qpid-dispatch/sasl-users/''),
        (skupper_path cli ConfigPath, ''/etc/qpid-dispatch/config''),
        (skupper_path cli ConnectionsPath, ''/etc/qpid-dispatch/connections''),
        (skupper_path cli CertsPath, ''/etc/qpid-dispatch-certs'')]"

definition site_authorities :: "SiteConfigSpec \<Rightarrow> CertAuthority list" where
  "site_authorities options =
     \<lparr>ca_Name = ''skupper-ca''\<rparr> # (if sc_IsEdge options then [] else [\<lparr>ca_Name = ''skupper-internal-ca''\<rparr>])"

definition site_credentials :: "SiteConfigSpec \<Rightarrow> Credential list" where
  "site_credentials options =
     [\<lparr>cd_CA = ''skupper-ca'', cd_Name = ''skupper-amqps'', cd_Subject = ''skupper-messaging'',
       cd_Hosts = [''skupper-router''], cd_ConnectJson = False, cd_Post = False\<rparr>,
      \<lparr>cd_CA = ''skupper-ca'', cd_Name = ''skupper'', cd_Subject = ''skupper-messaging'',
       cd_Hosts = [], cd_ConnectJson = True, cd_Post = False\<rparr>] @
     (if sc_IsEdge options then []
      else [\<lparr>cd_CA = ''skupper-internal-ca'', cd_Name = ''skupper-internal'', cd_Subject = ''skupper-internal'',
             cd_Hosts = [''skupper-router''], cd_ConnectJson = False, cd_Post = False\<rparr>])"

definition controller_image :: "environment \<Rightarrow> string" where
  "controller_image env =
     (if env ''SKUPPER_CONTROLLER_IMAGE'' \<noteq> [] then env ''SKUPPER_CONTROLLER_IMAGE'' else DefaultControllerImage)"

text \<open>The variable tested is \<open>QDROUTERD_MAGE\<close>, the one read \<open>QDROUTERD_IMAGE\<close>, as in the source.\<close>

definition site_router_image :: "environment \<Rightarrow> string" where
  "site_router_image env =
     (if env ''QDROUTERD_MAGE'' \<noteq> [] then env ''QDROUTERD_IMAGE'' else DefaultTransportImage)"

definition controller_env :: "host \<Rightarrow> SiteConfigSpec \<Rightarrow> string \<Rightarrow> string list" where
  "controller_env h options siteId =
     [''SKUPPER_SITE_ID='' @ siteId, ''SKUPPER_TMPDIR='' @ h_env h ''SKUPPER_TMPDIR'',
      ''SKUPPER_PROXY_IMAGE='' @ controller_image (h_env h),
      ''SKUPPER_HOST='' @ (if h_goos h = ''linux'' then GetInternalIP h ''docker0'' else ''host-gateway'')] @
     (if sc_MapToHost options then [''SKUPPER_MAP_TO_HOST=true''] else []) @
     (if sc_TraceLog options then [''PN_TRACE_FRM=1''] else [])"

definition controller_mounts :: "VanClient \<Rightarrow> string gomap" where
  "controller_mounts cli =
     fmap_of_list
       [(''/var/run'', ''/var/run''),
        (skupper_path cli ServicesPath, ''/etc/messaging/services''),
        (skupper_path cli CertsPath @ ''/'' @ ''skupper'', ''/etc/messaging'')]"

text \<open>The error of \<open>Info\<close> is dropped and its nil answer read.\<close>

definition van_name :: "VanClient \<Rightarrow> SiteConfigSpec \<Rightarrow> (World, string) oper" where
  "van_name cli options =
     (if sc_SkupperName options = [] then
        tryE (dd_Info (DockerInterface cli)) (\<lambda>r.
          case r of Inl _ \<Rightarrow> failE (Panic ''nil pointer dereference'') | Inr name \<Rightarrow> returnE name)
      else returnE (sc_SkupperName options))"

definition router_spec :: "VanClient \<Rightarrow> SiteConfigSpec \<Rightarrow> string \<Rightarrow> string \<Rightarrow> RouterSpec" where
  "router_spec cli options siteId name =
     \<lparr>rs_Name = name, rs_AuthMode = sc_AuthMode options,
      rs_Transport =
        \<lparr>ds_Image = site_router_image (h_env (Host cli)), ds_LivenessPort = TransportLivenessPort,
         ds_Labels = fmap_of_list
           [(''application'', TransportDeploymentName), (''skupper.io/component'', TransportComponentName),
            (''prometheus.io/port'', ''9090''), (''prometheus.io/scrape'', ''true'')],
         ds_EnvVar = transport_env options siteId, ds_Ports = transport_ports options,
         ds_Volumes = transport_volumes options, ds_Mounts = transport_mounts cli\<rparr>,
      rs_Controller =
        \<lparr>ds_Image = controller_image (h_env (Host cli)), ds_LivenessPort = 0,
         ds_Labels = fmap_of_list
           [(''application'', ControllerDeploymentName), (''skupper.io/component'', ControllerComponentName)],
         ds_EnvVar = controller_env (Host cli) options siteId, ds_Ports = {||}, ds_Volumes = [],
         ds_Mounts = controller_mounts cli\<rparr>,
      rs_RouterConfig =
        (case MarshalRouterConfig (h_rng (Host cli)) (initial_router_config options name siteId) of
           Inl _ \<Rightarrow> [] | Inr s \<Rightarrow> s),
      rs_CertAuthoritys = site_authorities options, rs_Credentials = site_credentials options\<rparr>"

definition GetRouterSpecFromOpts :: "VanClient \<Rightarrow> SiteConfigSpec \<Rightarrow> string \<Rightarrow> (World, RouterSpec) oper" where
  "GetRouterSpecFromOpts cli options siteId =
     bindE id (van_name cli options) (\<lambda>name. returnE (router_spec cli options siteId name))"

section \<open>Creating a site\<close>

definition console_options :: "host \<Rightarrow> SiteConfigSpec \<Rightarrow> SiteConfigSpec result" where
  "console_options h options =
     (if sc_EnableConsole options then
        (if sc_AuthMode options = ConsoleAuthModeInternal \<or> sc_AuthMode options = [] then
           Inr (options\<lparr>sc_AuthMode := ConsoleAuthModeInternal,
             sc_User := (if sc_User options = [] then ''admin'' else sc_User options),
             sc_Password := (if sc_Password options = [] then RandomId h 10 else sc_Password options)\<rparr>)
         else if sc_User options \<noteq> [] then
           Inl (Errorf ''--router-console-user only valid when --router-console-auth=internal'')
         else if sc_Password options \<noteq> [] then
           Inl (Errorf ''--router-console-password only valid when --router-console-auth=internal'')
         else Inr options)
      else Inr options)"

definition sasl_config :: string where
  "sasl_config =
''
pwcheck_method: auxprop
auxprop_plugin: sasldb
sasldb_path: /tmp/qdrouterd.sasldb
''"

definition make_directories :: "VanClient \<Rightarrow> RouterSpec \<Rightarrow> (World, unit) oper" where
  "make_directories cli van =
     bindE id (forE (\<lambda>(mnt, _). os_Mkdir (Host cli) mnt)
         (range_of (h_rng (Host cli)) (ds_Mounts (rs_Transport van)))) (\<lambda>_.
     bindE id (forE (\<lambda>v. os_Mkdir (Host cli) (skupper_path cli CertsPath @ ''/'' @ v))
         (ds_Volumes (rs_Transport van))) (\<lambda>_.
     os_Mkdir (Host cli) (skupper_path cli ServicesPath)))"

definition write_site_files :: "VanClient \<Rightarrow> SiteConfigSpec \<Rightarrow> RouterSpec \<Rightarrow> (World, unit) oper" where
  "write_site_files cli options van =
     bindE id (os_WriteFile (Host cli) (skupper_path cli ServicesPath @ ''/skupper-services'') (marshal_defs fmempty)) (\<lambda>_.
     bindE id (os_WriteFile (Host cli) (config_file cli) (rs_RouterConfig van)) (\<lambda>_.
     if sc_EnableConsole options \<and> sc_AuthMode options = ConsoleAuthModeInternal then
       bindE id (os_WriteFile (Host cli) (skupper_path cli SaslConfigPath @ ''/qdrouterd.conf'') sasl_config) (\<lambda>_.
       os_WriteFile (Host cli) (skupper_path cli ConsoleUsersPath @ ''/'' @ sc_User options) (sc_Password options))
     else returnE ()))"

text \<open>The errors of the certificate steps are dropped.\<close>

definition make_certificates :: "VanClient \<Rightarrow> RouterSpec \<Rightarrow> (World, unit) oper" where
  "make_certificates cli van =
     bindE id (forE (\<lambda>ca. logged (ensureCA cli (ca_Name ca))) (rs_CertAuthoritys van)) (\<lambda>_.
     forE (\<lambda>c. logged (generateCredentials cli (cd_CA c) (cd_Name c) (cd_Subject c) (cd_Hosts c) (cd_ConnectJson c)))
       (rs_Credentials van))"

definition launch :: "VanClient \<Rightarrow> RouterSpec \<Rightarrow> (World, unit) oper" where
  "launch cli van =
     (let dd = DockerInterface cli; rng = h_rng (Host cli)
      in bindE id (NewTransportNetwork TransportNetworkName dd) (\<lambda>_.
         bindE id (NewTransportContainer rng van dd) (\<lambda>transport.
         bindE id (make_certificates cli van) (\<lambda>_.
         bindE (Wrapf ''Could not start transport container'') (StartContainer (cr_Name transport) dd) (\<lambda>_.
         bindE id (NewControllerContainer rng van dd) (\<lambda>controller.
         bindE (Wrapf ''Could not start controller container'') (StartContainer (cr_Name controller) dd) returnE))))))"

definition deploy :: "VanClient \<Rightarrow> SiteConfigSpec \<Rightarrow> RouterSpec \<Rightarrow> (World, unit) oper" where
  "deploy cli options van =
     bindE id (dd_PullImage (DockerInterface cli) (ds_Image (rs_Transport van)) ''{}'') (\<lambda>_.
     bindE id (dd_PullImage (DockerInterface cli) (ds_Image (rs_Controller van)) ''{}'') (\<lambda>_.
     bindE id (make_directories cli van) (\<lambda>_.
     bindE id (write_site_files cli options van) (\<lambda>_.
     launch cli van))))"

definition build_site :: "VanClient \<Rightarrow> SiteConfigSpec \<Rightarrow> (World, unit) oper" where
  "build_site cli options =
     bindE id (os_MkdirAll (Host cli) (skupper_path cli HostPath)) (\<lambda>_.
     bindE id (os_Mkdir (Host cli) (skupper_path cli SitesPath)) (\<lambda>_.
     bindE id (SiteConfigCreate cli options) (\<lambda>sc.
     bindE id (GetRouterSpecFromOpts cli options (sg_UID sc)) (\<lambda>van.
     deploy cli options van))))"

definition RouterCreate :: "VanClient \<Rightarrow> SiteConfigSpec \<Rightarrow> (World, unit) oper" where
  "RouterCreate cli options0 =
     bindE id (liftE (console_options (Host cli) options0)) (\<lambda>options.
     bindE id (logged (os_RemoveAll (Host cli) (skupper_path cli HostPath))) (\<lambda>_.
     build_site cli options))"

section \<open>Removing a site\<close>

definition stop_and_remove ::
  "string \<Rightarrow> string \<Rightarrow> string \<Rightarrow> skupDockerClient \<Rightarrow> (World, error list) oper" where
  "stop_and_remove on_stop on_remove name dd =
     tryE (StopContainer name dd) (\<lambda>r.
       case r of
         Inl e \<Rightarrow> returnE [Wrapf on_stop e]
       | Inr _ \<Rightarrow> tryE (RemoveContainer name dd) (\<lambda>r'.
           case r' of Inl e \<Rightarrow> returnE [Wrapf on_remove e] | Inr _ \<Rightarrow> returnE []))"

definition remove_if_there ::
  "string \<Rightarrow> string \<Rightarrow> string \<Rightarrow> skupDockerClient \<Rightarrow> (World, error list) oper" where
  "remove_if_there on_stop on_remove name dd =
     tryE (InspectContainer name dd) (\<lambda>r.
       case r of Inl _ \<Rightarrow> returnE [] | Inr _ \<Rightarrow> stop_and_remove on_stop on_remove name dd)"

fun remove_proxies :: "ContainerSummary list \<Rightarrow> skupDockerClient \<Rightarrow> (World, error list) oper" where
  "remove_proxies [] dd = returnE []"
| "remove_proxies (c # cs) dd =
     (if fmlookup (ct_Labels c) ''skupper.io/component'' = Some ''proxy'' then
        bindE id (stop_and_remove ''Failed to stop proxy container'' ''Failed to remove proxy container'' (ct_ID c) dd) (\<lambda>es.
        bindE id (remove_proxies cs dd) (\<lambda>rest. returnE (es @ rest)))
      else remove_proxies cs dd)"

definition remove_all_proxies :: "skupDockerClient \<Rightarrow> (World, error list) oper" where
  "remove_all_proxies dd =
     tryE (ListContainers \<lparr>lo_All = True, lo_Labels = [''skupper.io/component'']\<rparr> dd) (\<lambda>r.
       case r of
         Inl e \<Rightarrow> returnE [Wrapf ''Failed to list proxy containers'' e]
       | Inr containers \<Rightarrow> remove_proxies containers dd)"

definition remove_site_network :: "VanClient \<Rightarrow> (World, error list) oper" where
  "remove_site_network cli =
     tryE (InspectNetworkOp ''skupper-network'' (DockerInterface cli)) (\<lambda>r.
       case r of
         Inl _ \<Rightarrow> returnE []
       | Inr _ \<Rightarrow> tryE (RemoveNetwork (h_rng (Host cli)) ''skupper-network'' (DockerInterface cli)) (\<lambda>r'.
           case r' of Inl e \<Rightarrow> returnE [Wrapf ''Could not remove skupper network'' e] | Inr _ \<Rightarrow> returnE []))"

definition remove_host_files :: "VanClient \<Rightarrow> (World, error list) oper" where
  "remove_host_files cli =
     tryE (os_RemoveAll (Host cli) (skupper_path cli HostPath)) (\<lambda>r.
       case r of
         Inl e \<Rightarrow> returnE [Wrapf ''Failed to remove skupper files and directory'' e]
       | Inr _ \<Rightarrow> returnE [])"

definition RouterRemove :: "VanClient \<Rightarrow> (World, error list) oper" where
  "RouterRemove cli =
     (let dd = DockerInterface cli
      in bindE id (remove_if_there ''Could not stop controller container'' ''Could not remove controller container''
             ControllerDeploymentName dd) (\<lambda>e1.
         bindE id (remove_all_proxies dd) (\<lambda>e2.
         bindE id (remove_if_there ''Could not stop transport container'' ''Could not remove controller container''
             TransportDeploymentName dd) (\<lambda>e3.
         bindE id (remove_site_network cli) (\<lambda>e4.
         bindE id (remove_host_files cli) (\<lambda>e5.
         returnE (e1 @ e2 @ e3 @ e4 @ e5)))))))"

end
