(* ===== verification/Cli.thy ===== *)
theory Cli
  imports Mgmt Routers
begin

text \<open>
  The command line, \<open>cmd/skupper-docker/main.go\<close>: how the arguments are checked and read, and what each
  command does with the client and prints. Flag parsing and the dispatch to a command are done by
  another package; a command here takes its arguments and the values of its flags.
\<close>

section \<open>Commands\<close>

text \<open>What a command prints, the error it returns, and the world after it.\<close>

type_synonym command = "World \<Rightarrow> (string \<times> error option) \<times> World"

definition cmd_end :: "(World, 'a) oper \<Rightarrow> (error \<Rightarrow> error) \<Rightarrow> ('a \<Rightarrow> string) \<Rightarrow> command" where
  "cmd_end m h out w =
     (case m w of (Inl e, w') \<Rightarrow> (([], Some (raised h e)), w') | (Inr x, w') \<Rightarrow> ((out x, None), w'))"

definition line :: "string \<Rightarrow> string" where
  "line s = s @ [CHR 0x0A]"

definition lines :: "string list \<Rightarrow> string" where
  "lines ss = concat (map line ss)"

definition apostrophe :: string where
  "apostrophe = [CHR 0x27]"

text \<open>\<open>main\<close> sets a default for the directory; \<open>lookup\<close> is \<open>os.LookupEnv\<close>.\<close>

definition main_env :: "(string \<Rightarrow> string option) \<Rightarrow> environment" where
  "main_env lookup v =
     (case lookup v of
        Some s \<Rightarrow> s
      | None \<Rightarrow> if v = ''SKUPPER_TMPDIR'' then ''/var/tmp'' else [])"

definition ConnectToDockerOrDie :: "docker_api \<Rightarrow> int \<Rightarrow> int \<Rightarrow> skupDockerClient" where
  "ConnectToDockerOrDie api requestTimeout imagePullProgressDeadline =
     newSkupDockerClient api requestTimeout imagePullProgressDeadline"

definition NewClient :: "host \<Rightarrow> docker_api \<Rightarrow> VanClient" where
  "NewClient h api = \<lparr>DockerInterface = ConnectToDockerOrDie api 0 (10 * second), Host = h\<rparr>"

section \<open>Arguments\<close>

definition requiredArg :: "string \<Rightarrow> string list \<Rightarrow> unit result" where
  "requiredArg name args =
     (case args of
        [] \<Rightarrow> Inl (Errorf (name @ '' must be specified''))
      | [_] \<Rightarrow> Inr ()
      | _ # a # _ \<Rightarrow> Inl (Errorf (''illegal argument: '' @ a)))"

definition index_args :: "string list \<Rightarrow> nat \<Rightarrow> string result" where
  "index_args xs i = (if i < length xs then Inr (xs ! i) else Inl (Panic ''index out of range''))"

definition parseTargetTypeAndName :: "string list \<Rightarrow> (string \<times> string) result" where
  "parseTargetTypeAndName args =
     bindR (index_args args 0) (\<lambda>a.
       if length args = 2 then bindR (index_args args 1) (\<lambda>n. Inr (a, n))
       else if contains_str a ''container'' then
         (let parts = split_on (CHR ''/'') a
          in bindR (index_args parts 0) (\<lambda>ty. bindR (index_args parts 1) (\<lambda>n. Inr (ty, n))))
       else Inr (a, []))"

definition validExposeTargets :: "string list" where
  "validExposeTargets = [''container'', ''host-service'']"

fun stringSliceContains :: "string list \<Rightarrow> string \<Rightarrow> bool" where
  "stringSliceContains [] e = False"
| "stringSliceContains (a # s) e = (if a = e then True else stringSliceContains s e)"

definition verifyTargetTypeFromArgs :: "string list \<Rightarrow> unit result" where
  "verifyTargetTypeFromArgs args =
     bindR (parseTargetTypeAndName args) (\<lambda>(targetType, _).
       if \<not> stringSliceContains validExposeTargets targetType then
         Inl (Errorf (''target type must be one of: ['' @ join_with '', '' validExposeTargets @ '']''))
       else Inr ())"

definition exposeTargetArgs :: "string list \<Rightarrow> unit result" where
  "exposeTargetArgs args =
     (case args of
        [] \<Rightarrow> Inl (Errorf ''expose type must be specified (e.g. 'skupper-docker expose container' or 'skupper-docker expose host-service')'')
      | a # rest \<Rightarrow>
          if \<not> contains_char a (CHR ''/'') \<and> length args < 2 then
            Inl (Errorf (''expose target and name must be specified (e.g. 'skupper expose container <name>'' @ apostrophe))
          else if length args > 2 then Inl (Errorf (''illegal argument: '' @ args ! 1))
          else if length args > 1 \<and> contains_char a (CHR ''/'') then Inl (Errorf (''extra argument: '' @ args ! 1))
          else verifyTargetTypeFromArgs args)"

definition createServiceArgs :: "string list \<Rightarrow> unit result" where
  "createServiceArgs args =
     (if args = [] \<or> (\<not> contains_char (hd args) (CHR '':'') \<and> length args < 2) then
        Inl (Errorf ''Name and port must be specified'')
      else if length args > 2 then Inl (Errorf (''illegal argument: '' @ args ! 2))
      else if length args > 1 \<and> contains_char (hd args) (CHR '':'') then Inl (Errorf (''extra argument: '' @ args ! 1))
      else Inr ())"

definition bindArgs :: "string list \<Rightarrow> unit result" where
  "bindArgs args =
     (if length args < 2 \<or> (\<not> contains_char (args ! 1) (CHR ''/'') \<and> length args < 3) then
        Inl (Errorf ''Service name, target type and target name must all be specified (e.g. 'skupper bind <service-name> <target-type> <target-name>')'')
      else if length args > 3 then Inl (Errorf (''illegal argument: '' @ args ! 3))
      else if length args > 2 \<and> contains_char (args ! 1) (CHR ''/'') then Inl (Errorf (''extra argument: '' @ args ! 2))
      else verifyTargetTypeFromArgs (tl args))"

section \<open>The site\<close>

definition cmd_init :: "VanClient \<Rightarrow> SiteConfigSpec \<Rightarrow> command" where
  "cmd_init cli routerCreateOpts =
     cmd_end (RouterCreate cli routerCreateOpts) id
       (\<lambda>_. line ''Skupper is now installed.  Use 'skupper-docker status' to get more information.'')"

text \<open>\<open>show\<close> is the text of an error.\<close>

definition cmd_delete :: "(error \<Rightarrow> string) \<Rightarrow> VanClient \<Rightarrow> command" where
  "cmd_delete show cli w =
     (case RouterRemove cli w of
        (Inl e, w') \<Rightarrow> (([], Some e), w')
      | (Inr [], w') \<Rightarrow> ((line ''Skupper resources are now removed'', None), w')
      | (Inr (e # es), w') \<Rightarrow>
          ((lines (''Error(s) encountered removing skupper resources:'' #
             map (\<lambda>x. ''         '' @ show x) (e # es)), Some e), w'))"

definition connected_text :: "TransportConnectedSites \<Rightarrow> string" where
  "connected_text cs =
     (if ts_Total cs = 0 then '' It is not connected to any other sites.''
      else if ts_Total cs = 1 then '' It is connected to 1 other site.''
      else if ts_Total cs = ts_Direct cs then '' It is connected to '' @ itoa (int (ts_Total cs)) @ '' other sites.''
      else '' It is connected to '' @ itoa (int (ts_Total cs)) @ '' other sites ('' @ itoa (int (ts_Indirect cs)) @ '' indirectly).'')"

definition exposed_text :: "nat \<Rightarrow> string" where
  "exposed_text n =
     (if n = 0 then '' It has no exposed services.''
      else if n = 1 then '' It has 1 exposed service.''
      else '' It has '' @ itoa (int n) @ '' exposed services.'')"

definition status_text :: "RouterInspectResponse \<Rightarrow> string" where
  "status_text vir =
     line (''Skupper is enabled '' @
       (if ri_Mode vir = TransportModeEdge then '' in edge mode'' else '' in interior mode'') @ apostrophe @ ''.'' @
       (if ri_State vir \<noteq> ''running'' then '' Status '' @ ri_State vir @ ''...''
        else connected_text (ri_ConnectedSites vir)) @
       exposed_text (ri_ExposedServices vir))"

definition cmd_status :: "VanClient \<Rightarrow> command" where
  "cmd_status cli = cmd_end (RouterInspect cli) (Wrapf ''Unable to retrieve skupper status'') status_text"

definition pad30 :: "string \<Rightarrow> string" where
  "pad30 s = s @ replicate (30 - length s) (CHR '' '')"

definition cmd_version :: "string \<Rightarrow> VanClient \<Rightarrow> command" where
  "cmd_version version cli w =
     (case cmd_end (RouterInspect cli) (Wrapf ''Unable to retrieve skupper component versions'')
        (\<lambda>vir. lines [pad30 ''transport version'' @ '' '' @ ri_TransportVersion vir,
                      pad30 ''controller version'' @ '' '' @ ri_ControllerVersion vir]) w of
        ((out, err), w') \<Rightarrow> ((line (pad30 ''client version'' @ '' '' @ version) @ out, err), w'))"

section \<open>Connections\<close>

definition cmd_connection_token :: "VanClient \<Rightarrow> string \<Rightarrow> string \<Rightarrow> command" where
  "cmd_connection_token cli clientIdentity fname =
     cmd_end (ConnectorTokenCreate cli clientIdentity fname) (Wrapf ''Failed to create connection token'') (\<lambda>_. [])"

definition cmd_connect :: "VanClient \<Rightarrow> ConnectorCreateOptions \<Rightarrow> string \<Rightarrow> command" where
  "cmd_connect cli connectorCreateOpts fname =
     cmd_end
       (bindE (Wrapf ''Unable to retrieve site config'') (SiteConfigInspect cli DefaultBridgeName) (\<lambda>_.
        bindE (Wrapf ''Failed to create connection'') (ConnectorCreate cli fname connectorCreateOpts) returnE))
       id (\<lambda>name. line (''Skupper connector '' @ name @ '' configured''))"

definition cmd_disconnect :: "VanClient \<Rightarrow> string \<Rightarrow> command" where
  "cmd_disconnect cli name =
     cmd_end (ConnectorRemove cli name) (Wrapf ''Failed to remove connection'')
       (\<lambda>_. line (''Connection '' @ apostrophe @ name @ apostrophe @ '' has been removed''))"

definition connectors_text :: "TypesConnector list \<Rightarrow> string" where
  "connectors_text connectors =
     (if connectors = [] then line ''There are no connectors defined.''
      else lines (''Connectors:'' #
        map (\<lambda>c. ''    '' @ tc_Host c @ '':'' @ tc_Port c @ '' (name='' @ tc_Name c @ '')'') connectors))"

definition cmd_list_connectors :: "VanClient \<Rightarrow> command" where
  "cmd_list_connectors cli = cmd_end (ConnectorList cli) (Wrapf ''Unable to retrieve connections'') connectors_text"

text \<open>\<open>check-connection\<close>: the connectors with a flag that remembers that one was seen connected, and the
  number of those; at most \<open>waitFor\<close> rounds, each followed by a second of sleep.\<close>

definition seen_connected :: "VanClient \<Rightarrow> string \<Rightarrow> World \<Rightarrow> bool \<times> World" where
  "seen_connected cli name w =
     (case ConnectorInspect cli name w of
        (Inl _, w') \<Rightarrow> (False, w') | (Inr vci, w') \<Rightarrow> (ci_Connected vci, w'))"

fun check_round ::
  "VanClient \<Rightarrow> (string \<times> bool) list \<Rightarrow> nat \<Rightarrow> World \<Rightarrow> (string \<times> bool) list \<times> nat \<times> World" where
  "check_round cli [] connected w = ([], connected, w)"
| "check_round cli ((name, active) # cs) connected w =
     (case seen_connected cli name w of
        (now, w1) \<Rightarrow>
          (case check_round cli cs (if now \<and> \<not> active then connected + 1 else connected) w1 of
             (cs', connected', w2) \<Rightarrow> ((name, active \<or> now) # cs', connected', w2)))"

fun check_rounds ::
  "nat \<Rightarrow> VanClient \<Rightarrow> (string \<times> bool) list \<Rightarrow> nat \<Rightarrow> World \<Rightarrow> (string \<times> bool) list \<times> World" where
  "check_rounds 0 cli connectors connected w = (connectors, w)"
| "check_rounds (Suc n) cli connectors connected w =
     (if connected < length connectors then
        (case check_round cli connectors connected w of
           (connectors', connected', w') \<Rightarrow> check_rounds n cli connectors' connected' w')
      else (connectors, w))"

definition first_connectors :: "VanClient \<Rightarrow> string \<Rightarrow> World \<Rightarrow> (string \<times> bool) list \<times> World" where
  "first_connectors cli name w =
     (if name = ''all'' then
        (case ConnectorList cli w of
           (Inl _, w') \<Rightarrow> ([], w') | (Inr vcis, w') \<Rightarrow> (map (\<lambda>vci. (tc_Name vci, False)) vcis, w'))
      else
        (case ConnectorInspect cli name w of
           (Inl _, w') \<Rightarrow> ([], w')
         | (Inr vci, w') \<Rightarrow> ([(tc_Name (ci_Connector vci), ci_Connected vci)], w')))"

definition connection_text :: "string \<Rightarrow> (string \<times> bool) list \<Rightarrow> string" where
  "connection_text name connectors =
     (if connectors = [] then
        (if name = ''all'' then line ''There are no connectors configured or active''
         else line (''The connector '' @ name @ '' is not configured or active''))
      else lines (map (\<lambda>(n, active).
        ''Connection for '' @ n @ (if active then '' is active'' else '' not active'')) connectors))"

definition cmd_check_connection :: "VanClient \<Rightarrow> int \<Rightarrow> string \<Rightarrow> command" where
  "cmd_check_connection cli waitFor name w =
     (case first_connectors cli name w of
        (connectors, w1) \<Rightarrow>
          (case check_rounds (nat waitFor) cli connectors (length (filter snd connectors)) w1 of
             (connectors', w2) \<Rightarrow> ((connection_text name connectors', None), w2)))"

section \<open>Services\<close>

record ServiceInterfaceCreateOptions =
  so_Protocol :: string
  so_Address :: string
  so_Port :: int
  so_TargetPort :: int
  so_Headless :: bool

definition service_to_expose ::
  "ServiceInterfaceCreateOptions \<Rightarrow> ServiceInterface option \<Rightarrow> ServiceInterface result" where
  "service_to_expose options found =
     (case found of
        None \<Rightarrow> Inr (zero_ServiceInterface\<lparr>si_Address := so_Address options, si_Port := so_Port options,
                  si_Protocol := so_Protocol options\<rparr>)
      | Some service \<Rightarrow>
          if so_Protocol options \<noteq> [] \<and> si_Protocol service \<noteq> so_Protocol options then
            Inl (Errorf (''Invalid protocol '' @ so_Protocol options @ '' for service with mapping '' @ si_Protocol service))
          else Inr service)"

definition expose ::
  "VanClient \<Rightarrow> string \<Rightarrow> string \<Rightarrow> ServiceInterfaceCreateOptions \<Rightarrow> (World, unit) oper" where
  "expose cli targetType targetName options =
     bindE id (ServiceInterfaceInspect cli (so_Address options)) (\<lambda>found.
     bindE id (liftE (service_to_expose options found)) (\<lambda>service.
     bindE (Wrapf ''Unable to create skupper service'')
       (ServiceInterfaceBind cli (service\<lparr>si_Origin := []\<rparr>) targetType targetName
          (so_Protocol options) (so_TargetPort options)) returnE))"

definition cmd_expose :: "VanClient \<Rightarrow> ServiceInterfaceCreateOptions \<Rightarrow> string list \<Rightarrow> command" where
  "cmd_expose cli exposeOpts args =
     cmd_end
       (bindE id (liftE (parseTargetTypeAndName args)) (\<lambda>(targetType, targetName).
        if so_Address exposeOpts = [] \<and> targetType = ''host-service'' then
          failE (Errorf (''--address option is required for target type 'service'' @ apostrophe))
        else
          (let opts = (if so_Address exposeOpts = [] then exposeOpts\<lparr>so_Address := targetName\<rparr> else exposeOpts)
           in bindE id (expose cli targetType targetName opts) (\<lambda>_.
              returnE (targetType @ '' '' @ targetName @ '' exposed as '' @ so_Address opts)))))
       id line"

definition cmd_unexpose :: "VanClient \<Rightarrow> string \<Rightarrow> string list \<Rightarrow> command" where
  "cmd_unexpose cli unexposeAddress args =
     cmd_end
       (bindE id (liftE (parseTargetTypeAndName args)) (\<lambda>(targetType, targetName).
        if targetType = ''host-service'' \<and> unexposeAddress = [] then
          failE (Errorf ''Unexpose host-service must specify address, use --address option to provide it'')
        else
          bindE (Wrapf ''Unable to unbind skupper service'')
            (ServiceInterfaceUnbind cli targetType targetName unexposeAddress True) (\<lambda>_.
          returnE (targetType @ '' '' @ targetName @ '' unexposed''))))
       id line"

definition target_text :: "ServiceInterfaceTarget \<Rightarrow> string" where
  "target_text t = ''      => '' @ st_Selector t @ '' '' @ (if st_Name t \<noteq> [] then ''name='' @ st_Name t else [])"

definition exposed_lines :: "ServiceInterface \<Rightarrow> string list" where
  "exposed_lines si =
     (let head = ''    '' @ si_Address si @ '' ('' @ si_Protocol si @ '' port '' @ itoa (si_Port si) @ '')''
      in if si_Targets si = [] then [head] else (head @ '' with targets'') # map target_text (si_Targets si))"

definition services_text :: "ServiceInterface list \<Rightarrow> string" where
  "services_text vsis =
     (if vsis = [] then line ''No service interfaces defined''
      else lines (''Services exposed through Skupper:'' # concat (map exposed_lines vsis) @
        ['''', ''Aliases for services exposed through Skupper:''] @
        map (\<lambda>si. ''    '' @ si_Alias si @ '' '' @ si_Address si) vsis @ ['''']))"

definition cmd_list_exposed :: "VanClient \<Rightarrow> command" where
  "cmd_list_exposed cli = cmd_end (ServiceInterfaceList cli) (Wrapf ''Could not retrieve services'') services_text"

definition service_args :: "string list \<Rightarrow> (string \<times> string) result" where
  "service_args args =
     (if length args = 1 then
        (let parts = split_on (CHR '':'') (hd args)
         in bindR (index_args parts 0) (\<lambda>a. bindR (index_args parts 1) (\<lambda>p. Inr (a, p))))
      else bindR (index_args args 0) (\<lambda>a. bindR (index_args args 1) (\<lambda>p. Inr (a, p))))"

definition cmd_create_service :: "VanClient \<Rightarrow> ServiceInterface \<Rightarrow> string list \<Rightarrow> command" where
  "cmd_create_service cli serviceToCreate args =
     cmd_end
       (bindE id (liftE (service_args args)) (\<lambda>(address, sPort).
        bindE (\<lambda>_. Errorf (sPort @ '' is not a valid port'')) (liftE (atoi sPort)) (\<lambda>servicePort.
        bindE (Wrapf [])
          (ServiceInterfaceCreate cli (serviceToCreate\<lparr>si_Address := address, si_Port := servicePort\<rparr>)) returnE)))
       id (\<lambda>_. [])"

definition cmd_delete_service :: "VanClient \<Rightarrow> string \<Rightarrow> command" where
  "cmd_delete_service cli name = cmd_end (ServiceInterfaceRemove cli name) (Wrapf []) (\<lambda>_. [])"

definition cmd_bind :: "VanClient \<Rightarrow> string \<Rightarrow> int \<Rightarrow> string list \<Rightarrow> command" where
  "cmd_bind cli protocol targetPort args =
     cmd_end
       (if protocol \<notin> set [[], ''tcp'', ''http'', ''http2''] then
          failE (Errorf (protocol @ '' is not a valid protocol. Choose 'tcp', 'http' or 'http2'.''))
        else
          bindE id (liftE (parseTargetTypeAndName (tl args))) (\<lambda>(targetType, targetName).
          bindE (Wrapf []) (ServiceInterfaceInspect cli (hd args)) (\<lambda>found.
          case found of
            None \<Rightarrow> failE (Errorf (''Service '' @ hd args @ '' not found''))
          | Some service \<Rightarrow>
              bindE (Wrapf []) (ServiceInterfaceBind cli service targetType targetName protocol targetPort) returnE)))
       id (\<lambda>_. [])"

definition cmd_unbind :: "VanClient \<Rightarrow> string list \<Rightarrow> command" where
  "cmd_unbind cli args =
     cmd_end
       (bindE id (liftE (parseTargetTypeAndName (tl args))) (\<lambda>(targetType, targetName).
        bindE (Wrapf []) (ServiceInterfaceUnbind cli targetType targetName (hd args) False) returnE))
       id (\<lambda>_. [])"

end
