(* ===== verification/Startup.thy ===== *)
theory Startup
  imports Workers Connecting Cli
begin

text \<open>
  The controller's start-up: \<open>cmd/service-controller/main.go\<close> and \<open>WaitForContainerStatus\<close> of
  \<open>pkg/docker/containers.go\<close>. \<open>RetryWithContext\<close> belongs to another repository and parsing a key pair to a
  cryptographic library: both are parameters.
\<close>

section \<open>Waiting for a container\<close>

text \<open>\<open>RetryWithContext ctx interval check\<close>, the context given by its timeout; the closure's state is the variable
  it assigns and the world.\<close>

type_synonym inspected = "ContainerJSON option \<times> World"

type_synonym retry = "int \<Rightarrow> int \<Rightarrow> (inspected, bool) oper \<Rightarrow> (inspected, unit) oper"

definition container_has_status :: "string \<Rightarrow> string \<Rightarrow> skupDockerClient \<Rightarrow> (inspected, bool) oper" where
  "container_has_status name status dd s =
     (case InspectContainer name dd (snd s) of
        (Inl _, w) \<Rightarrow> (Inr False, (None, w))
      | (Inr container, w) \<Rightarrow> (Inr (cj_Status container = status), (Some container, w)))"

definition WaitForContainerStatus ::
  "retry \<Rightarrow> string \<Rightarrow> string \<Rightarrow> int \<Rightarrow> int \<Rightarrow> skupDockerClient \<Rightarrow> World \<Rightarrow>
   (ContainerJSON option \<times> error option) \<times> World" where
  "WaitForContainerStatus RetryWithContext name status timeout interval dd w =
     (case RetryWithContext timeout interval (container_has_status name status dd) (None, w) of
        (r, (container, w')) \<Rightarrow> ((container, case r of Inl e \<Rightarrow> Some e | Inr _ \<Rightarrow> None), w'))"

text \<open>What is documented of it: it calls the check once an interval until it is true, fails, or the context ends.\<close>

fun attempts :: "nat \<Rightarrow> error \<Rightarrow> ('s, bool) oper \<Rightarrow> ('s, unit) oper" where
  "attempts 0 e check s = (Inl e, s)"
| "attempts (Suc n) e check s =
     (case check s of
        (Inl e', s') \<Rightarrow> (Inl e', s')
      | (Inr ok, s') \<Rightarrow> if ok then (Inr (), s') else attempts n e check s')"

definition retries :: "retry \<Rightarrow> bool" where
  "retries R \<longleftrightarrow> (\<forall>timeout interval check s. 0 < interval \<longrightarrow>
     (\<exists>n e. n \<le> nat (timeout div interval) \<and> R timeout interval check s = attempts n e check s))"

section \<open>Credentials\<close>

definition os_Stat :: "host \<Rightarrow> string \<Rightarrow> (World, unit) oper" where
  "os_Stat h s w =
     (if s = [] then (Inl (NotExist []), w)
      else if resolve h s = [] \<or> resolve h s |\<in>| fmdom (files w) then (Inr (), w)
      else (Inl (parent_error (files w) (resolve h s)), w))"

text \<open>A pool is the text it was filled with; a certificate is opaque.\<close>

record tls_config =
  tl_InsecureSkipVerify :: bool
  tl_RootCAs :: "string option"
  tl_Certificates :: "string list"
  tl_MinVersion :: int

type_synonym key_pair = "string \<Rightarrow> string \<Rightarrow> string result"

definition LoadX509KeyPair :: "key_pair \<Rightarrow> host \<Rightarrow> string \<Rightarrow> string \<Rightarrow> (World, string) oper" where
  "LoadX509KeyPair X509KeyPair h cert key =
     bindE id (os_ReadFile h cert) (\<lambda>certPEM. bindE id (os_ReadFile h key) (\<lambda>keyPEM. liftE (X509KeyPair certPEM keyPEM)))"

text \<open>\<open>log.Fatal\<close> ends the process with a message.\<close>

datatype 'a or_exit = Exits string error | Goes 'a

definition VersionTLS10 :: int where
  "VersionTLS10 = 769"

definition getTlsConfig ::
  "key_pair \<Rightarrow> host \<Rightarrow> bool \<Rightarrow> string \<Rightarrow> string \<Rightarrow> string \<Rightarrow> (World, tls_config or_exit) oper" where
  "getTlsConfig X509KeyPair h verify cert key ca =
     bindE id (if verify then bindE id (os_ReadFile h ca) (\<lambda>pem. returnE (Some pem)) else returnE None) (\<lambda>pool.
       let config = (\<lambda>certs. \<lparr>tl_InsecureSkipVerify = \<not> verify, tl_RootCAs = pool, tl_Certificates = certs,
             tl_MinVersion = VersionTLS10\<rparr>)
       in tryE (os_Stat h cert) (\<lambda>errCert. tryE (os_Stat h key) (\<lambda>errKey.
            if errCert = Inr () \<or> errKey = Inr () then
              tryE (LoadX509KeyPair X509KeyPair h cert key) (\<lambda>r.
                case r of
                  Inl e \<Rightarrow> returnE (Exits ''Could not load x509 key pair'' e)
                | Inr tlsCert \<Rightarrow> returnE (Goes (config [tlsCert])))
            else returnE (Goes (config [])))))"

definition ControllerConfigPath :: string where
  "ControllerConfigPath = ''/etc/messaging/''"

section \<open>The two signals\<close>

text \<open>The first closes the channel \<open>Run\<close> waits on, the second exits with a failure.\<close>

record signals =
  sn_stop :: bool
  sn_exit :: bool

definition signal_received :: "signals \<Rightarrow> signals" where
  "signal_received s = (if \<not> sn_stop s then s\<lparr>sn_stop := True\<rparr> else s\<lparr>sn_exit := True\<rparr>)"

section \<open>main\<close>

definition controller_main ::
  "retry \<Rightarrow> key_pair \<Rightarrow> host \<Rightarrow> docker_api \<Rightarrow> World \<Rightarrow> (tls_config \<times> process) or_exit \<times> World" where
  "controller_main RetryWithContext X509KeyPair h api w =
     (let siteId = h_env h ''SKUPPER_SITE_ID''; cli = NewClient h api
      in case getTlsConfig X509KeyPair h True (ControllerConfigPath @ ''tls.crt'') (ControllerConfigPath @ ''tls.key'')
             (ControllerConfigPath @ ''ca.crt'') w of
           (Inl e, w1) \<Rightarrow> (Exits ''Error getting van client: '' e, w1)
         | (Inr (Exits m e), w1) \<Rightarrow> (Exits m e, w1)
         | (Inr (Goes tlsConfig), w1) \<Rightarrow>
             (case WaitForContainerStatus RetryWithContext ''skupper-router'' ''running'' (180 * second) (5 * second)
                  (DockerInterface cli) w1 of
                ((_, Some e), w2) \<Rightarrow> (Exits ''Failed waiting for router to be running'' e, w2)
              | ((_, None), w2) \<Rightarrow>
                  (case Run cli w2 of
                     (Inl e, w3) \<Rightarrow> (Exits ''Failed to pull proxy image: '' e, w3)
                   | (Inr _, w3) \<Rightarrow> (Goes (tlsConfig, started siteId w3), w3))))"

section \<open>What the start-up has done\<close>

lemma getTlsConfig_same: "keeps (=) (getTlsConfig X h verify cert key ca)"
proof -
  have reads: "keeps (=) (os_ReadFile h s)" "keeps (=) (os_Stat h s)" for s
    by (simp_all add: keeps_def os_ReadFile_def os_Stat_def)
  have pair: "keeps (=) (LoadX509KeyPair X h c k)" for c k
    unfolding LoadX509KeyPair_def by (intro same_world.kept reads)
  show ?thesis unfolding getTlsConfig_def Let_def
    by (auto intro!: same_world.kept reads pair split: sum.split)
qed

lemma getTlsConfig_pool:
  assumes "getTlsConfig X h True cert key ca w = (Inr (Goes config), w')"
  shows "\<not> tl_InsecureSkipVerify config \<and> (\<exists>pem. tl_RootCAs config = Some pem \<and> os_ReadFile h ca w = (Inr pem, w))"
proof -
  obtain r where ca: "os_ReadFile h ca w = (r, w)" by (cases "ca = []") (simp_all add: os_ReadFile_def)
  with assms show ?thesis
    by (cases r) (auto simp: getTlsConfig_def Let_def tryE_def os_Stat_def split: prod.splits sum.splits if_splits)
qed

definition status_asked :: "string \<Rightarrow> skupDockerClient \<Rightarrow> request" where
  "status_asked name dd = \<lparr>rq_call = ContainerInspect name, rq_context = WithTimeout (sd_timeout dd)\<rparr>"

lemma container_has_status_run:
  "\<exists>r c. container_has_status name status dd (c0, w) =
     (Inr r, (c, w\<lparr>calls := calls w @ [status_asked name dd]\<rparr>)) \<and>
     (r \<longrightarrow> (\<exists>cj. c = Some cj \<and> cj_Status cj = status \<and>
        api_inspect (sd_client dd) (calls w @ [status_asked name dd]) = Inr cj))"
  by (auto simp: container_has_status_def InspectContainer_def dd_InspectContainer_def api_call_def Let_def send_def
      getTimeoutContext_def status_asked_def split: option.split sum.split)

lemma attempts_run:
  "\<exists>k c r. attempts n e (container_has_status name status dd) (c0, w) =
     (r, (c, w\<lparr>calls := calls w @ replicate k (status_asked name dd)\<rparr>)) \<and> k \<le> n \<and>
     (case r of
        Inl e' \<Rightarrow> e' = e \<and> k = n
      | Inr _ \<Rightarrow> 0 < k \<and> (\<exists>cj. c = Some cj \<and> cj_Status cj = status \<and>
          api_inspect (sd_client dd) (calls w @ replicate k (status_asked name dd)) = Inr cj))"
proof (induction n arbitrary: c0 w)
  case 0
  show ?case by simp
next
  case (Suc n)
  let ?w = "w\<lparr>calls := calls w @ [status_asked name dd]\<rparr>"
  from container_has_status_run [of name status dd c0 w] obtain ok c where
    run: "container_has_status name status dd (c0, w) = (Inr ok, (c, ?w))"
    "ok \<longrightarrow> (\<exists>cj. c = Some cj \<and> cj_Status cj = status \<and>
        api_inspect (sd_client dd) (calls w @ [status_asked name dd]) = Inr cj)" by blast
  show ?case
  proof (cases ok)
    case True
    then show ?thesis using run by (intro exI [of _ 1] exI [of _ c] exI [of _ "Inr ()"]) simp
  next
    case False
    from Suc.IH [of c ?w] obtain k c' r where
      "attempts n e (container_has_status name status dd) (c, ?w) =
         (r, (c', ?w\<lparr>calls := calls ?w @ replicate k (status_asked name dd)\<rparr>))" "k \<le> n"
      "case r of Inl e' \<Rightarrow> e' = e \<and> k = n
        | Inr _ \<Rightarrow> 0 < k \<and> (\<exists>cj. c' = Some cj \<and> cj_Status cj = status \<and>
            api_inspect (sd_client dd) (calls ?w @ replicate k (status_asked name dd)) = Inr cj)" by blast
    then show ?thesis using run(1) False
      by (intro exI [of _ "Suc k"] exI [of _ c'] exI [of _ r]) (auto split: sum.splits)
  qed
qed

lemma wait_run:
  assumes "retries R" and "0 < interval"
    and "WaitForContainerStatus R name status timeout interval dd w = ((c, err), w')"
  shows "\<exists>k. k \<le> nat (timeout div interval) \<and> w' = w\<lparr>calls := calls w @ replicate k (status_asked name dd)\<rparr> \<and>
    (err = None \<longrightarrow> 0 < k \<and> (\<exists>cj. c = Some cj \<and> cj_Status cj = status \<and>
       api_inspect (sd_client dd) (calls w @ replicate k (status_asked name dd)) = Inr cj))"
proof -
  from assms(1,2) obtain n e where n: "n \<le> nat (timeout div interval)"
    "R timeout interval (container_has_status name status dd) (None, w) =
       attempts n e (container_has_status name status dd) (None, w)"
    unfolding retries_def by blast
  from attempts_run [of n e name status dd None w] obtain k c' r where
    run: "attempts n e (container_has_status name status dd) (None, w) =
      (r, (c', w\<lparr>calls := calls w @ replicate k (status_asked name dd)\<rparr>))" "k \<le> n"
    "case r of Inl e' \<Rightarrow> e' = e \<and> k = n
      | Inr _ \<Rightarrow> 0 < k \<and> (\<exists>cj. c' = Some cj \<and> cj_Status cj = status \<and>
          api_inspect (sd_client dd) (calls w @ replicate k (status_asked name dd)) = Inr cj)" by blast
  show ?thesis using assms(3) n run
    by (intro exI [of _ k]) (auto simp: WaitForContainerStatus_def split: sum.splits)
qed

lemma Run_run:
  assumes "Run cli w = (r, w')"
  shows "w' = w\<lparr>calls := calls w @ [\<lparr>rq_call = ImagePull (transport_image (h_env (Host cli))) (base64EncodeAuth ''{}''),
    rq_context = Cancelable\<rparr>]\<rparr>"
    and "r = Inr u \<Longrightarrow> \<exists>items. api_pull (sd_client (DockerInterface cli)) (calls w') = Inr items \<and> list_all good_item items"
  using assms by (auto simp: Run_def dd_PullImage_def Let_def send_def pull_loop_done split: sum.splits)

lemma main_waits:
  assumes "retries R" and "getTlsConfig X h True (ControllerConfigPath @ ''tls.crt'') (ControllerConfigPath @ ''tls.key'')
      (ControllerConfigPath @ ''ca.crt'') w = (Inr (Goes config), w)"
    and "controller_main R X h api w = (res, w')" and "dd = DockerInterface (NewClient h api)"
  shows "\<exists>k \<le> 36. (\<exists>m e. res = Exits m e \<and> w' = w\<lparr>calls := calls w @ replicate k (status_asked ''skupper-router'' dd)\<rparr>) \<or>
    (0 < k \<and> (\<exists>cj. api_inspect api (calls w @ replicate k (status_asked ''skupper-router'' dd)) = Inr cj \<and>
       cj_Status cj = ''running'') \<and>
     ((\<exists>m e. res = Exits m e) \<or> res = Goes (config, started (h_env h ''SKUPPER_SITE_ID'') w') \<and>
        (\<exists>items. api_pull api (calls w') = Inr items \<and> list_all good_item items)) \<and>
     w' = w\<lparr>calls := calls w @ replicate k (status_asked ''skupper-router'' dd) @
       [\<lparr>rq_call = ImagePull (transport_image (h_env h)) (base64EncodeAuth ''{}''), rq_context = Cancelable\<rparr>]\<rparr>)"
proof -
  let ?cli = "NewClient h api"
  have api: "sd_client dd = api" "Host ?cli = h"
    by (simp_all add: assms(4) NewClient_def ConnectToDockerOrDie_def newSkupDockerClient_def)
  obtain c err w2 where wait: "WaitForContainerStatus R ''skupper-router'' ''running'' (180 * second) (5 * second) dd w =
      ((c, err), w2)" by (metis prod.exhaust)
  have five: "0 < 5 * second" "nat (180 * second div (5 * second)) = 36" by (simp_all add: second_def)
  from wait_run [OF assms(1) five(1) wait] obtain k where
    k: "k \<le> 36" "w2 = w\<lparr>calls := calls w @ replicate k (status_asked ''skupper-router'' dd)\<rparr>"
      "err = None \<longrightarrow> 0 < k \<and> (\<exists>cj. cj_Status cj = ''running'' \<and>
        api_inspect api (calls w @ replicate k (status_asked ''skupper-router'' dd)) = Inr cj)"
    unfolding five(2) api by blast
  obtain r w3 where run: "Run ?cli w2 = (r, w3)" by (rule prod.exhaust)
  note w3 = Run_run(1) [OF run, unfolded api]
  have pulled: "\<exists>items. api_pull api (calls w3) = Inr items \<and> list_all good_item items" if "r = Inr u" for u
    using Run_run(2) [OF run that] unfolding assms(4) [symmetric] api .
  note main = assms(3) [unfolded controller_main_def Let_def assms(2) assms(4) [symmetric],
      simplified wait run sum.case or_exit.case prod.case]
  show ?thesis
  proof (cases err)
    case (Some e)
    with main k(1,2) show ?thesis by auto
  next
    case None
    then have "(\<exists>m e. res = Exits m e) \<or> res = Goes (config, started (h_env h ''SKUPPER_SITE_ID'') w') \<and>
        (\<exists>items. api_pull api (calls w') = Inr items \<and> list_all good_item items)" "w' = w3"
      using main pulled by (auto simp: run split: sum.splits)
    then show ?thesis using None k w3 by (intro exI [of _ k]) auto
  qed
qed

text \<open>
  C15 (safety). The start-up of the controller writes no file and asks the daemon for nothing but the state of the
  router, at most thirty-six times, and then for the proxies' image. It starts its workers, on the empty state, only
  when the last of these answers was a running router and the pull was answered to its end with messages that report no
  error, with a configuration that verifies the broker against the certificate authority of the mounted secret;
  otherwise it exits.
\<close>

theorem controller_starts:
  assumes "retries R" and "controller_main R X h api w = (res, w')"
    and "ask = status_asked ''skupper-router'' (DockerInterface (NewClient h api))"
    and "pull = \<lparr>rq_call = ImagePull (transport_image (h_env h)) (base64EncodeAuth ''{}''), rq_context = Cancelable\<rparr>"
  shows "files w' = files w \<and>
    (case res of
       Exits m e \<Rightarrow> \<exists>k \<le> 36. calls w' = calls w @ replicate k ask \<or> calls w' = calls w @ replicate k ask @ [pull]
     | Goes (tls, p) \<Rightarrow>
         (\<exists>k cj. 0 < k \<and> k \<le> 36 \<and> calls w' = calls w @ replicate k ask @ [pull] \<and>
            api_inspect api (calls w @ replicate k ask) = Inr cj \<and> cj_Status cj = ''running'') \<and>
         (\<exists>items. api_pull api (calls w') = Inr items \<and> list_all good_item items) \<and>
         p = started (h_env h ''SKUPPER_SITE_ID'') w' \<and> \<not> tl_InsecureSkipVerify tls \<and>
         (\<exists>pem. tl_RootCAs tls = Some pem \<and> os_ReadFile h ''/etc/messaging/ca.crt'' w = (Inr pem, w)))"
proof -
  have ca: "ControllerConfigPath @ ''ca.crt'' = ''/etc/messaging/ca.crt''" by (simp add: ControllerConfigPath_def)
  obtain g w1 where tls: "getTlsConfig X h True (ControllerConfigPath @ ''tls.crt'') (ControllerConfigPath @ ''tls.key'')
      (ControllerConfigPath @ ''ca.crt'') w = (g, w1)" by (rule prod.exhaust)
  have w1: "w1 = w" using keepsD [OF getTlsConfig_same tls] by simp
  show ?thesis
  proof (cases "\<exists>config. g = Inr (Goes config)")
    case False
    then have "w' = w \<and> (\<exists>m e. res = Exits m e)"
      using assms(2) tls w1 by (auto simp: controller_main_def Let_def split: sum.splits or_exit.splits)
    then show ?thesis by (auto intro: exI [of _ 0])
  next
    case True
    then obtain config where g: "g = Inr (Goes config)" by blast
    from getTlsConfig_pool [OF tls [unfolded g]] have pool: "\<not> tl_InsecureSkipVerify config"
      "\<exists>pem. tl_RootCAs config = Some pem \<and> os_ReadFile h ''/etc/messaging/ca.crt'' w = (Inr pem, w)"
      unfolding ca by auto
    from main_waits [OF assms(1) tls [unfolded g w1] assms(2) refl, folded assms(3,4)] pool show ?thesis by auto
  qed
qed

text \<open>The witness: a mounted secret without a key pair, and a router that runs.\<close>

definition wait_by_attempts :: retry where
  "wait_by_attempts timeout interval check s =
     attempts (nat (timeout div interval)) (PackageError ''context deadline exceeded'') check s"

definition secret_world :: World where
  "secret_world =
     \<lparr>files = fmap_of_list [([''etc''], Dir), ([''etc'', ''messaging''], Dir), ([''etc'', ''messaging'', ''ca.crt''], File ''CA'')],
      calls = []\<rparr>"

lemma controller_starts_witness:
  "\<exists>tls p w'. controller_main wait_by_attempts (\<lambda>_ _. Inl (PackageError [])) sample_host
      (sim_api (fmupd ''skupper-router'' sample_router fmempty)) secret_world = (Goes (tls, p), w') \<and>
    p = started [] w' \<and> tl_RootCAs tls = Some ''CA'' \<and> files w' = files secret_world"
proof -
  let ?s = "fmupd ''skupper-router'' sample_router fmempty" and ?X = "\<lambda>_ _. Inl (PackageError [])"
  let ?cli = "NewClient sample_host (sim_api ?s)"
  have law: "retries wait_by_attempts" by (auto simp: retries_def wait_by_attempts_def)
  have paths: "resolve sample_host (ControllerConfigPath @ ''ca.crt'') = [''etc'', ''messaging'', ''ca.crt'']"
    "resolve sample_host (ControllerConfigPath @ ''tls.crt'') = [''etc'', ''messaging'', ''tls.crt'']"
    "resolve sample_host (ControllerConfigPath @ ''tls.key'') = [''etc'', ''messaging'', ''tls.key'']"
    unfolding ControllerConfigPath_def by code_simp+
  have files: "fs_ReadFile (files secret_world) [''etc'', ''messaging'', ''ca.crt''] = Inr ''CA''"
    "[''etc'', ''messaging'', ''tls.crt''] |\<notin>| fmdom (files secret_world)"
    "[''etc'', ''messaging'', ''tls.key''] |\<notin>| fmdom (files secret_world)"
    by (simp_all add: secret_world_def fs_ReadFile_def)
  have tls: "\<exists>tls. getTlsConfig ?X sample_host True (ControllerConfigPath @ ''tls.crt'') (ControllerConfigPath @ ''tls.key'')
      (ControllerConfigPath @ ''ca.crt'') secret_world = (Inr (Goes tls), secret_world)"
    using files paths by (simp add: getTlsConfig_def os_ReadFile_def os_Stat_def tryE_def bindE_def)
  then obtain tls where tls: "getTlsConfig ?X sample_host True (ControllerConfigPath @ ''tls.crt'')
      (ControllerConfigPath @ ''tls.key'') (ControllerConfigPath @ ''ca.crt'') secret_world = (Inr (Goes tls), secret_world)" ..
  have dd: "DockerInterface ?cli = sim_client ?s" by (simp add: NewClient_def ConnectToDockerOrDie_def sim_client_def)
  have n: "nat (180 * second div (5 * second)) = Suc 35" by (simp add: second_def)
  have "sim_run ?s (calls secret_world) = ?s" by (simp add: secret_world_def)
  then have "\<exists>c w. container_has_status ''skupper-router'' ''running'' (sim_client ?s) (None, secret_world) = (Inr True, (c, w))"
    by (simp add: container_has_status_def sim_json_def sample_router_def)
  then obtain c1 w1 where first: "container_has_status ''skupper-router'' ''running'' (sim_client ?s) (None, secret_world) =
      (Inr True, (c1, w1))" by blast
  have "\<exists>c w. wait_by_attempts (180 * second) (5 * second) (container_has_status ''skupper-router'' ''running'' (sim_client ?s))
      (None, secret_world) = (Inr (), (c, w))"
    unfolding wait_by_attempts_def n attempts.simps(2) first by simp
  then obtain c w where wait: "WaitForContainerStatus wait_by_attempts ''skupper-router'' ''running'' (180 * second) (5 * second)
      (DockerInterface ?cli) secret_world = ((c, None), w)"
    by (auto simp: WaitForContainerStatus_def dd)
  have "api_pull (sim_api ?s) = (\<lambda>_. Inr sim_messages)" by (simp add: sim_api_def)
  then have "\<exists>w'. Run ?cli w = (Inr (), w')"
    by (simp add: Run_def dd dd_PullImage_def Let_def sim_messages_good)
  then obtain w' where run: "Run ?cli w = (Inr (), w')" ..
  have main: "controller_main wait_by_attempts ?X sample_host (sim_api ?s) secret_world =
      (Goes (tls, started (h_env sample_host ''SKUPPER_SITE_ID'') w'), w')"
    by (simp add: controller_main_def tls wait run)
  from controller_starts [OF law main refl refl] have "files w' = files secret_world"
    "\<exists>pem. tl_RootCAs tls = Some pem \<and> os_ReadFile sample_host ''/etc/messaging/ca.crt'' secret_world = (Inr pem, secret_world)"
    by auto
  moreover have "os_ReadFile sample_host ''/etc/messaging/ca.crt'' secret_world = (Inr ''CA'', secret_world)"
    using files(1) paths(1) by (simp add: os_ReadFile_def ControllerConfigPath_def)
  ultimately show ?thesis using main by (simp add: sample_host_def)
qed

end
