(* ===== verification/Queries.thy ===== *)
theory Queries
  imports Connecting Mgmt
begin

text \<open>
  The operations that only look: the requests that ask the daemon for something, the operations that
  send no other request and write no file, what \<open>GetConnectedSites\<close> counts, and what the status of a
  site reports.
\<close>

section \<open>Queries\<close>

text \<open>Running \<open>qdmanage query\<close> in the router's container asks the router and changes nothing.\<close>

fun is_query :: "docker_call \<Rightarrow> bool" where
  "is_query (ContainerList options) \<longleftrightarrow> True"
| "is_query (ContainerInspect name) \<longleftrightarrow> True"
| "is_query (ImageInspect ref) \<longleftrightarrow> True"
| "is_query ServerVersionCall \<longleftrightarrow> True"
| "is_query InfoCall \<longleftrightarrow> True"
| "is_query (NetworkInspect name) \<longleftrightarrow> True"
| "is_query (ExecCreate name cmd) \<longleftrightarrow> (\<exists>ty. cmd = getQuery ty)"
| "is_query (ExecAttach execID) \<longleftrightarrow> True"
| "is_query (ExecInspect execID) \<longleftrightarrow> True"
| "is_query _ \<longleftrightarrow> False"

definition only_queries :: "World \<Rightarrow> World \<Rightarrow> bool" where
  "only_queries w w' \<longleftrightarrow> files w' = files w \<and>
     (\<exists>rs. calls w' = calls w @ rs \<and> list_all (\<lambda>r. is_query (rq_call r)) rs)"

interpretation queries: step_relation only_queries
proof unfold_locales
  show "reflp only_queries" by (simp add: only_queries_def reflp_def)
  show "transp only_queries" by (force simp: only_queries_def transp_def)
qed

named_theorems querying \<open>operations that only send queries\<close>

lemmas [querying] = queries.kept queries.kept_option queries.kept_prod queries.kept_sum

lemma querying_reads [querying]:
  "keeps only_queries (os_ReadFile h s)" "keeps only_queries (os_ReadDir h s)" "keeps only_queries (deref p)"
  "keeps only_queries (GetRouterConfigFromFile h n)" "keeps only_queries (SiteConfigInspect cli n)"
  "keeps only_queries (read_or_empty h n)"
  by (intro queries.kept_same only_reads)+

lemma querying_call: "is_query call \<Longrightarrow> keeps only_queries (api_call d ctx call answer)"
  by (auto simp: keeps_def only_queries_def api_call_def Let_def send_def split: option.split)

lemma querying_dd [querying]:
  "keeps only_queries (InspectContainer n dd)" "keeps only_queries (dd_InspectContainer dd n)"
  "keeps only_queries (Exec dd i (getQuery ty))" "keeps only_queries (dd_InspectImageByID dd i)"
  "keeps only_queries (routerExec (getQuery ty) dd)"
proof -
  have inspect: "keeps only_queries (dd_InspectContainer dd n)" for n
    by (simp add: dd_InspectContainer_def querying_call)
  then show "keeps only_queries (InspectContainer n dd)" "keeps only_queries (dd_InspectContainer dd n)"
    by (simp_all add: InspectContainer_def)
  show exec: "keeps only_queries (Exec dd i (getQuery ty))" for i
    unfolding Exec_def dd_CreateExec_def dd_AttachExec_def dd_InspectExec_def
    by (intro querying querying_call) auto
  show "keeps only_queries (dd_InspectImageByID dd i)"
    by (simp add: dd_InspectImageByID_def inspectImageRaw_def querying_call)
  show "keeps only_queries (routerExec (getQuery ty) dd)"
    unfolding routerExec_def by (intro querying inspect exec)
qed

lemma querying_mgmt [querying]:
  "keeps only_queries (GetNodes dd)" "keeps only_queries (GetConnections dd)"
  "keeps only_queries (GetConnectedSites dd)" "keeps only_queries (connected_sites_retry n dd)"
  "keeps only_queries (GetImageVersion img dd)" "keeps only_queries (inspected_container name dd)"
proof -
  have query: "keeps only_queries (query_router ty dec zero dd)" for ty :: string and dec :: "json \<Rightarrow> 'v \<Rightarrow> 'v result" and zero
    unfolding query_router_def by (intro querying)
  show "keeps only_queries (GetNodes dd)" "keeps only_queries (GetConnections dd)"
    by (simp_all add: GetNodes_def GetConnections_def query_router_def querying)
  show sites: "keeps only_queries (GetConnectedSites dd)"
    unfolding GetConnectedSites_def GetNodes_def by (intro querying query)
  show "keeps only_queries (connected_sites_retry n dd)"
  proof (induction n)
    case 0
    show ?case unfolding connected_sites_retry.simps by (rule sites)
  next
    case (Suc n)
    show ?case unfolding connected_sites_retry.simps by (intro querying sites Suc)
  qed
  show version: "keeps only_queries (GetImageVersion img dd)" for img
    unfolding GetImageVersion_def
    by (intro querying) (auto simp: Let_def intro: querying split: list.split)
  show "keeps only_queries (inspected_container name dd)"
    unfolding inspected_container_def by (intro querying version)
qed

lemma querying_router [querying]:
  "(\<And>r. keeps only_queries (k r)) \<Longrightarrow> keeps only_queries (with_router_config cli k)"
  "keeps only_queries m \<Longrightarrow> keeps only_queries (need_router cli m)"
  "keeps only_queries (client_load h cli)" "keeps only_queries (read_token_file cli f)"
  unfolding with_router_config_def need_router_def client_load_def load_defs_def read_token_file_def
  by (intro querying; assumption?)+

lemma querying_lists [querying]:
  "keeps only_queries (connector_entries cli r fs)" "keeps only_queries (list_services cli vs)"
proof -
  show "keeps only_queries (connector_entries cli r fs)"
  proof (induction fs)
    case Nil
    show ?case unfolding connector_entries.simps by (rule querying)
  next
    case (Cons f fs)
    show ?case unfolding connector_entries.simps connector_entry_def by (intro querying Cons)
  qed
  show "keeps only_queries (list_services cli vs)"
  proof (induction vs)
    case Nil
    show ?case unfolding list_services.simps by (rule querying)
  next
    case (Cons v vs)
    show ?case unfolding list_services.simps by (intro querying Cons)
  qed
qed

lemma querying_inspect_connection [querying]: "keeps only_queries (inspect_connection cli n)"
  unfolding inspect_connection_def by (intro querying)

lemma querying_client [querying]:
  "keeps only_queries (ConnectorList cli)" "keeps only_queries (ConnectorInspect cli n)"
  "keeps only_queries (ServiceInterfaceInspect cli a)" "keeps only_queries (ServiceInterfaceList cli)"
  "keeps only_queries (RouterInspect cli)"
  unfolding ConnectorList_def ConnectorInspect_def ServiceInterfaceInspect_def ServiceInterfaceList_def
    RouterInspect_def
  by (intro querying)+

section \<open>The sites a router knows\<close>

text \<open>The reference: a node reached directly has no next hop, the router itself has the next hop
  \<open>(self)\<close>, any other is reached through another site.\<close>

definition site_counts :: "RouterNode list \<Rightarrow> TransportConnectedSites" where
  "site_counts nodes =
     \<lparr>ts_Direct = length (filter (\<lambda>n. rn_NextHop n = []) nodes),
      ts_Indirect = length (filter (\<lambda>n. rn_NextHop n \<notin> {[], ''(self)''}) nodes),
      ts_Total = length (filter (\<lambda>n. rn_NextHop n \<noteq> ''(self)'') nodes)\<rparr>"

lemma fold_count_node:
  "fold count_node nodes s =
     \<lparr>ts_Direct = ts_Direct s + ts_Direct (site_counts nodes), ts_Indirect = ts_Indirect s + ts_Indirect (site_counts nodes),
      ts_Total = ts_Total s + ts_Total (site_counts nodes)\<rparr>"
  by (induction nodes arbitrary: s) (auto simp: count_node_def site_counts_def)

lemma fold_count_zero: "fold count_node nodes zero_ConnectedSites = site_counts nodes"
  by (simp add: fold_count_node zero_ConnectedSites_def site_counts_def)

lemma site_counts_total: "ts_Total (site_counts nodes) = ts_Direct (site_counts nodes) + ts_Indirect (site_counts nodes)"
  by (induction nodes) (auto simp: site_counts_def)

text \<open>The worlds between the attempts of \<open>connected_sites_retry\<close>.\<close>

definition after_tries :: "skupDockerClient \<Rightarrow> nat \<Rightarrow> World \<Rightarrow> World" where
  "after_tries dd k w = ((\<lambda>v. snd (GetConnectedSites dd v)) ^^ k) w"

lemma after_tries_simps [simp]:
  "after_tries dd 0 w = w"
  "after_tries dd (Suc k) w = after_tries dd k (snd (GetConnectedSites dd w))"
  by (simp_all add: after_tries_def funpow_Suc_right del: funpow.simps(2))

lemma retry_attempts:
  "\<exists>k \<le> n. connected_sites_retry n dd w = GetConnectedSites dd (after_tries dd k w) \<and>
     (\<forall>i < k. \<exists>e. fst (GetConnectedSites dd (after_tries dd i w)) = Inl e) \<and>
     (k < n \<longrightarrow> (\<exists>sites. fst (GetConnectedSites dd (after_tries dd k w)) = Inr sites))"
proof (induction n arbitrary: w)
  case (Suc n)
  obtain r w1 where r: "GetConnectedSites dd w = (r, w1)" by (cases "GetConnectedSites dd w")
  show ?case
  proof (cases r)
    case (Inr sites)
    with r show ?thesis by (intro exI [of _ 0]) simp
  next
    case (Inl e)
    from Suc.IH [of w1] obtain k where k: "k \<le> n"
      "connected_sites_retry n dd w1 = GetConnectedSites dd (after_tries dd k w1)"
      "\<forall>i < k. \<exists>e. fst (GetConnectedSites dd (after_tries dd i w1)) = Inl e"
      "k < n \<longrightarrow> (\<exists>sites. fst (GetConnectedSites dd (after_tries dd k w1)) = Inr sites)" by blast
    have "\<exists>e. fst (GetConnectedSites dd (after_tries dd i w)) = Inl e" if "i < Suc k" for i
      using that k(3) r Inl by (cases i) simp_all
    then show ?thesis using k r Inl by (intro exI [of _ "Suc k"]) simp
  qed
qed simp

text \<open>The number of requests.\<close>

definition at_most :: "nat \<Rightarrow> World \<Rightarrow> World \<Rightarrow> bool" where
  "at_most n w w' \<longleftrightarrow> length (calls w') \<le> length (calls w) + n"

lemma at_most_steps:
  "keeps (at_most 0) (returnE x)" "keeps (at_most 0) (liftE r)" "keeps (at_most 1) (api_call d ctx call answer)"
  by (simp_all add: keeps_def at_most_def api_call_def Let_def send_def split: option.split)

lemma at_most_bind:
  assumes "keeps (at_most a) m" and "\<And>x. keeps (at_most b) (k x)"
  shows "keeps (at_most (a + b)) (bindE h m k)"
  unfolding keeps_def
proof
  fix w
  obtain r w1 where r: "m w = (r, w1)" by (cases "m w")
  have m: "length (calls w1) \<le> length (calls w) + a"
    using keepsD [OF assms(1) r] by (simp add: at_most_def)
  show "at_most (a + b) w (snd (bindE h m k w))"
  proof (cases r)
    case (Inr x)
    have "length (calls (snd (k x w1))) \<le> length (calls w1) + b"
      using assms(2) [of x] by (simp add: keeps_def at_most_def)
    then show ?thesis using r m Inr by (simp add: at_most_def)
  qed (use r m in \<open>simp add: at_most_def\<close>)
qed

lemma at_most_query: "keeps (at_most 4) (query_router ty dec zero dd)"
proof -
  note call = at_most_steps(3) and ret = at_most_steps(1)
  have "keeps (at_most (1 + (1 + (1 + 0)))) (Exec dd i c)" for i c
    unfolding Exec_def dd_CreateExec_def dd_AttachExec_def dd_InspectExec_def
    by (intro at_most_bind call) (auto simp only: split_paired_all prod.case intro!: at_most_bind call ret)
  then have "keeps (at_most (1 + (1 + (1 + (1 + 0))))) (routerExec c dd)" for c
    unfolding routerExec_def dd_InspectContainer_def by (intro at_most_bind call)
  then have "keeps (at_most (1 + (1 + (1 + (1 + 0))) + 0)) (query_router ty dec zero dd)"
    unfolding query_router_def by (intro at_most_bind at_most_steps)
  then show ?thesis by (simp add: numeral_eq_Suc)
qed

lemma at_most_GetConnectedSites: "keeps (at_most 4) (GetConnectedSites dd)"
proof -
  have "keeps (at_most (4 + 0)) (GetConnectedSites dd)"
    unfolding GetConnectedSites_def GetNodes_def by (intro at_most_bind at_most_query at_most_steps(1))
  then show ?thesis by simp
qed

lemma at_most_same: "keeps (=) m \<Longrightarrow> keeps (at_most 0) m"
  unfolding keeps_def at_most_def by (metis add_0_right order_refl)

lemma at_most_ConnectorInspect: "keeps (at_most 5) (ConnectorInspect cli n)"
proof -
  have tok: "keeps (=) (read_token_file cli f)" for f
    unfolding read_token_file_def by (intro only_reads)
  have "keeps (at_most (0 + (0 + (0 + (0 + (4 + 0)))))) (inspect_connection cli n)"
    unfolding inspect_connection_def GetConnections_def
    by (intro at_most_bind at_most_query at_most_steps(1) at_most_same only_reads tok)
  moreover have "keeps (at_most 1) (InspectContainer name dd)" for name dd
    unfolding InspectContainer_def dd_InspectContainer_def by (rule at_most_steps)
  ultimately have "keeps (at_most (1 + 4)) (ConnectorInspect cli n)"
    unfolding ConnectorInspect_def by (intro at_most_bind) simp_all
  then show ?thesis by simp
qed

lemma at_most_retry: "keeps (at_most (4 * Suc n)) (connected_sites_retry n dd)"
proof (induction n)
  case (Suc n)
  show ?case
    unfolding keeps_def
  proof
    fix w
    obtain r w1 where r: "GetConnectedSites dd w = (r, w1)" by (cases "GetConnectedSites dd w")
    have "length (calls w1) \<le> length (calls w) + 4"
      using keepsD [OF at_most_GetConnectedSites r] by (simp add: at_most_def)
    moreover have "length (calls (snd (connected_sites_retry n dd w1))) \<le> length (calls w1) + 4 * Suc n"
      using Suc by (simp add: keeps_def at_most_def)
    ultimately show "at_most (4 * Suc (Suc n)) w (snd (connected_sites_retry (Suc n) dd w))"
      using r by (cases r) (simp_all add: at_most_def)
  qed
qed (use at_most_GetConnectedSites in simp)

text \<open>
  C38 (equivalence). \<open>GetConnectedSites\<close> is the reference count of the nodes the router answers: direct
  sites without next hop, indirect ones, and their sum, the router itself left out. The retry around
  it is the first attempt that succeeds, or the last of its \<open>n + 1\<close> attempts, and sends at most four
  requests, all queries, for each of them.
\<close>

theorem connected_sites_counted:
  "GetConnectedSites dd w =
     (case GetNodes dd w of (Inl e, w') \<Rightarrow> (Inl e, w') | (Inr nodes, w') \<Rightarrow> (Inr (site_counts nodes), w')) \<and>
   (\<forall>nodes. ts_Total (site_counts nodes) = ts_Direct (site_counts nodes) + ts_Indirect (site_counts nodes)) \<and>
   (\<exists>k. k \<le> n \<and> connected_sites_retry n dd w = GetConnectedSites dd (after_tries dd k w) \<and>
     {i. i < k \<and> (\<exists>sites. fst (GetConnectedSites dd (after_tries dd i w)) = Inr sites)} = {} \<and>
     (k = n \<or> (\<exists>sites. fst (connected_sites_retry n dd w) = Inr sites))) \<and>
   only_queries w (snd (connected_sites_retry n dd w)) \<and>
   length (calls (snd (connected_sites_retry n dd w))) \<le> length (calls w) + 4 * (n + 1)"
proof -
  have "GetConnectedSites dd w =
     (case GetNodes dd w of (Inl e, w') \<Rightarrow> (Inl e, w') | (Inr nodes, w') \<Rightarrow> (Inr (site_counts nodes), w'))"
    by (auto simp: GetConnectedSites_def bindE_def fold_count_zero split: prod.split sum.split)
  moreover have "\<exists>k. k \<le> n \<and> connected_sites_retry n dd w = GetConnectedSites dd (after_tries dd k w) \<and>
     {i. i < k \<and> (\<exists>sites. fst (GetConnectedSites dd (after_tries dd i w)) = Inr sites)} = {} \<and>
     (k = n \<or> (\<exists>sites. fst (connected_sites_retry n dd w) = Inr sites))"
  proof -
    from retry_attempts [of n dd w] obtain k where k: "k \<le> n"
      "connected_sites_retry n dd w = GetConnectedSites dd (after_tries dd k w)"
      "\<forall>i < k. \<exists>e. fst (GetConnectedSites dd (after_tries dd i w)) = Inl e"
      "k < n \<longrightarrow> (\<exists>sites. fst (GetConnectedSites dd (after_tries dd k w)) = Inr sites)" by blast
    then show ?thesis by (intro exI [of _ k]) force
  qed
  moreover have "only_queries w (snd (connected_sites_retry n dd w))"
    using querying_mgmt(4) [of n dd] by (simp add: keeps_def)
  moreover have "length (calls (snd (connected_sites_retry n dd w))) \<le> length (calls w) + 4 * (n + 1)"
    using at_most_retry [of n dd] by (simp add: keeps_def at_most_def)
  ultimately show ?thesis using site_counts_total by blast
qed

section \<open>The status of a site\<close>

lemma list_services_length: "list_services cli vs w = (Inr xs, w') \<Longrightarrow> length xs = length vs"
  by (induction vs arbitrary: xs w w')
    (auto simp: tryE_def result_iff split: prod.splits sum.splits option.splits)

lemma ServiceInterfaceList_reports:
  assumes "range_ok (h_rng (Host cli))" and "ServiceInterfaceList cli w = (Inr vsis, w')"
  shows "\<exists>m. services cli w = Some m \<and> length vsis = fcard (fmdom m)"
proof -
  from assms(2) [unfolded ServiceInterfaceList_def need_router_def bindE_Inr_iff] obtain r w1 m w2 where
    r: "InspectContainer ''skupper-router'' (DockerInterface cli) w = (Inr r, w1)" and
    m: "client_load id cli w1 = (Inr m, w2)" and
    l: "list_services cli (map snd (range_of (h_rng (Host cli)) m)) w2 = (Inr vsis, w')"
    by blast
  have "files w1 = files w"
    using keepsD [OF querying_dd(1) r] by (simp add: only_queries_def)
  then have view: "services cli w1 = services cli w"
    unfolding services_def by (rule services_at_files)
  have "services cli w1 = Some m"
    using m client_services.load_view [of cli w1] client_services.load_fails [of cli w1 id]
    by (cases "services cli w1") auto
  then show ?thesis
    using view list_services_length [OF l] range_of_length [OF assms(1), of m] by auto
qed

text \<open>
  C39 (functional). A status that is reported is that of the files: the mode is the one of the router
  configuration, the number of exposed services that of the definitions in the services file, the
  number of sites the sum of the direct and the indirect ones. Reporting it, with the retries, sends
  queries only and writes no file, whatever the daemon answers.
\<close>

theorem status_reports:
  assumes "range_ok (h_rng (Host cli))" and "RouterInspect cli w = (Inr ri, w')"
  shows "\<exists>r m. router_config cli w = Some r \<and> services cli w = Some m \<and>
    ri_Mode ri = rm_Mode (Metadata r) \<and> ri_ExposedServices ri = fcard (fmdom m) \<and>
    ts_Total (ri_ConnectedSites ri) = ts_Direct (ri_ConnectedSites ri) + ts_Indirect (ri_ConnectedSites ri) \<and>
    only_queries w w'"
proof -
  let ?dd = "DockerInterface cli"
  from assms(2) obtain t w1 c w2 r w3 sites w4 vsis where
    t: "inspected_container ''skupper-router'' ?dd w = (Inr t, w1)" and
    c: "inspected_container ControllerDeploymentName ?dd w1 = (Inr c, w2)" and
    r: "with_router_config cli returnE w2 = (Inr r, w3)" and
    sites: "connected_sites_retry 5 ?dd w3 = (Inr sites, w4)" and
    l: "ServiceInterfaceList cli w4 = (Inr vsis, w')" and
    ri: "ri_Mode ri = rm_Mode (Metadata r)" "ri_ConnectedSites ri = sites" "ri_ExposedServices ri = length vsis"
    by (auto simp: RouterInspect_def result_iff split: prod.splits)
  have config: "keeps only_queries (with_router_config cli returnE)" by (intro querying)
  have same: "files w1 = files w" "files w2 = files w1" "files w3 = files w2" "files w4 = files w3"
    using keepsD [OF querying_mgmt(6) t] keepsD [OF querying_mgmt(6) c] keepsD [OF querying_mgmt(4) sites]
      keepsD [OF config r] by (simp_all add: only_queries_def)
  have "router_config cli w2 = Some r"
    using r router_file.load_view [of cli w2] router_file.load_fails [of cli w2]
    by (cases "router_config cli w2") auto
  then have r': "router_config cli w = Some r" using same router_config_files by metis
  obtain m where m: "services cli w4 = Some m" "length vsis = fcard (fmdom m)"
    using ServiceInterfaceList_reports [OF assms(1) l] by blast
  have "services cli w4 = services cli w"
    unfolding services_def by (rule services_at_files) (simp only: same)
  then have "services cli w = Some m" using m(1) by simp
  moreover obtain k where k: "GetConnectedSites ?dd (after_tries ?dd k w3) = (Inr sites, w4)"
    using retry_attempts [of 5 ?dd w3] sites by auto
  then have "\<exists>nodes. sites = site_counts nodes"
    by (auto simp: GetConnectedSites_def result_iff fold_count_zero)
  ultimately show ?thesis
    using r' m(2) ri site_counts_total keepsD [OF querying_client(5) assms(2)] by auto
qed

text \<open>The sample site with its controller running, whose router knows no other site.\<close>

definition status_cli :: VanClient where
  "status_cli = \<lparr>DockerInterface = sim_client
      (fmupd ''skupper-service-controller'' sample_router (fmupd ''skupper-router'' sample_router fmempty)),
    Host = sample_host\<rparr>"

lemma status_views: "services status_cli = services site_cli" "router_config status_cli = router_config site_cli"
  by (auto simp: services_def services_file_def router_config_def config_file_def skupper_path_def status_cli_def fun_eq_iff)

text \<open>A query leaves the containers of the small daemon alone, and is answered.\<close>

definition idle :: "sim \<Rightarrow> World \<Rightarrow> bool" where
  "idle s w \<longleftrightarrow> sim_run s (calls w) = s"

lemma idle_query: "idle s w \<Longrightarrow> is_query call \<Longrightarrow> idle s (send call ctx w)"
  by (cases call) (simp_all add: idle_def)

lemma idle_inspected:
  assumes "idle s w" and "fmlookup s name = Some c"
  shows "\<exists>r w1. inspected_container name (sim_client s) w = (Inr r, w1) \<and> idle s w1"
proof -
  let ?w1 = "send (ContainerInspect name) (getTimeoutContext (sim_client s)) w"
  let ?img = "cc_Image (cj_Config (sim_json name c))"
  let ?w2 = "send (ImageInspect ?img) (getTimeoutContext (sim_client s)) ?w1"
  have "InspectContainer name (sim_client s) w = (Inr (sim_json name c), ?w1)"
    using assms by (simp add: InspectContainer_def dd_InspectContainer_def idle_def)
  moreover have "dd_InspectImageByID (sim_client s) ?img ?w1 = (Inr [''img@sha256:0123456789abcdef''], ?w2)"
    by (simp add: dd_InspectImageByID_def inspectImageRaw_def sim_api_def)
  then have "\<exists>v. GetImageVersion ?img (sim_client s) ?w1 = (Inr v, ?w2)"
    by (simp add: GetImageVersion_def Let_def)
  moreover have "idle s ?w2" by (intro idle_query assms) simp_all
  ultimately show ?thesis by (auto simp: inspected_container_def)
qed

lemma idle_sites:
  assumes "idle s w" and "fmlookup s ''skupper-router'' = Some c"
  shows "\<exists>w1. connected_sites_retry n (sim_client s) w = (Inr (site_counts []), w1) \<and> idle s w1"
proof -
  let ?ctx = "getTimeoutContext (sim_client s)" and ?cmd = "getQuery ''node''"
  let ?w1 = "send (ContainerInspect ''skupper-router'') ?ctx w"
  let ?w4 = "send (ExecInspect ''exec'') ?ctx (send (ExecAttach ''exec'') ?ctx
      (send (ExecCreate (cj_ID (sim_json ''skupper-router'' c)) ?cmd) ?ctx ?w1))"
  have "dd_InspectContainer (sim_client s) ''skupper-router'' w = (Inr (sim_json ''skupper-router'' c), ?w1)"
    using assms by (simp add: dd_InspectContainer_def idle_def)
  then have "routerExec ?cmd (sim_client s) w = (Inr \<lparr>ex_ExitCode = 0, ex_Stdout = ''[]'', ex_Stderr = []\<rparr>, ?w4)"
    by (simp add: routerExec_def Exec_def dd_CreateExec_def dd_AttachExec_def dd_InspectExec_def sim_api_def)
  moreover have "unmarshal (dec_list (decode_struct node_fields) zero_RouterNode) ''[]'' [] = Inr []"
    by code_simp
  ultimately have "GetConnectedSites (sim_client s) w = (Inr (site_counts []), ?w4)"
    by (simp add: GetConnectedSites_def GetNodes_def query_router_def fold_count_zero [of "[]", simplified])
  then have "connected_sites_retry n (sim_client s) w = (Inr (site_counts []), ?w4)"
    by (cases n) simp_all
  moreover have "idle s ?w4" using assms(1) by (intro idle_query) auto
  ultimately show ?thesis by blast
qed

lemma status_sample:
  assumes "calls w = []" and "services site_cli w = Some fmempty" and "router_config site_cli w = Some r"
  shows "\<exists>ri w'. RouterInspect status_cli w = (Inr ri, w')"
proof -
  define s where "s = fmupd ''skupper-service-controller'' sample_router (fmupd ''skupper-router'' sample_router fmempty)"
  have cli: "DockerInterface status_cli = sim_client s" "Host status_cli = sample_host"
    by (simp_all add: status_cli_def s_def)
  have names: "fmlookup s ''skupper-router'' = Some sample_router" "fmlookup s ControllerDeploymentName = Some sample_router"
    by (simp_all add: s_def ControllerDeploymentName_def)
  have "idle s w" using assms(1) by (simp add: idle_def)
  then obtain t w1 where t: "inspected_container ''skupper-router'' (sim_client s) w = (Inr t, w1)" "idle s w1"
    using idle_inspected [OF _ names(1)] by blast
  from idle_inspected [OF t(2) names(2)] obtain c w2 where
    c: "inspected_container ControllerDeploymentName (sim_client s) w1 = (Inr c, w2)" "idle s w2" by blast
  from idle_sites [OF c(2) names(1), of 5] obtain w3 where
    k: "connected_sites_retry 5 (sim_client s) w2 = (Inr (site_counts []), w3)" "idle s w3" by blast
  have files: "files w2 = files w" "files w3 = files w"
    using keepsD [OF querying_mgmt(6) t(1)] keepsD [OF querying_mgmt(6) c(1)] keepsD [OF querying_mgmt(4) k(1)]
    by (simp_all add: only_queries_def)
  have "router_config status_cli w2 = Some r"
    using router_config_files [OF files(1), of status_cli] assms(3) by (simp add: status_views)
  then have config: "with_router_config status_cli returnE w2 = (Inr r, w2)"
    using with_router_config_run(1) [of status_cli w2 r returnE] by simp
  let ?w4 = "send (ContainerInspect ''skupper-router'') (getTimeoutContext (sim_client s)) w3"
  have "services status_cli ?w4 = services status_cli w"
    unfolding services_def by (rule services_at_files) (simp add: files(2))
  then have "client_load id status_cli ?w4 = (Inr fmempty, ?w4)"
    using assms(2) client_services.load_view [of status_cli ?w4] by (simp add: status_views)
  moreover have "InspectContainer ''skupper-router'' (sim_client s) w3 = (Inr (sim_json ''skupper-router'' sample_router), ?w4)"
    using k(2) names(1) by (simp add: InspectContainer_def dd_InspectContainer_def idle_def)
  ultimately have "ServiceInterfaceList status_cli w3 = (Inr [], ?w4)"
    by (simp add: ServiceInterfaceList_def need_router_def cli range_of_empty)
  then show ?thesis
    using t(1) c(1) k(1) config
    by (cases t; cases c) (simp add: RouterInspect_def cli)
qed

lemma status_reports_witness:
  "\<exists>ri w' r m. RouterInspect status_cli (site_world west_config ''uid'' fmempty) = (Inr ri, w') \<and>
    router_config status_cli (site_world west_config ''uid'' fmempty) = Some r \<and>
    services status_cli (site_world west_config ''uid'' fmempty) = Some m \<and>
    ri_Mode ri = rm_Mode (Metadata r) \<and> ri_ExposedServices ri = fcard (fmdom m)"
proof -
  let ?w = "site_world west_config ''uid'' fmempty"
  have r: "router_config site_cli ?w = Some west_config" by (rule config_of_site_world [OF wf_west])
  have "calls ?w = []" by (simp add: site_world_def)
  from status_sample [OF this services_of_site_world r] obtain ri w' where
    run: "RouterInspect status_cli ?w = (Inr ri, w')" by blast
  have "range_ok (h_rng (Host status_cli))" by (simp add: status_cli_def)
  from status_reports [OF this run] run show ?thesis by blast
qed

end
