(* ===== verification/Commands.thy ===== *)
theory Commands
  imports Cli Queries
begin

text \<open>
  What the commands of the command line guarantee: the argument checks let through only what the
  commands can read, \<open>check-connection\<close> ends within its rounds and reports what the router answered,
  and the commands that only look change nothing.
\<close>

section \<open>Arguments\<close>

text \<open>A reference for the arguments that name a target: a type and a name, or both in one word.\<close>

definition names_target :: "string list \<Rightarrow> string \<Rightarrow> string \<Rightarrow> bool" where
  "names_target args ty name \<longleftrightarrow>
     args = [ty, name] \<and> ty \<in> set validExposeTargets \<or>
     (\<exists>rest. args = [ty @ CHR ''/'' # name @ rest] \<and> ty \<in> set validExposeTargets \<and> CHR ''/'' \<notin> set name \<and>
        (rest = [] \<or> hd rest = CHR ''/'') \<and> contains_str (hd args) ''container'')"

lemma stringSliceContains_iff: "stringSliceContains s e \<longleftrightarrow> e \<in> set s"
  by (induction s) auto

lemma no_slash_types: "ty \<in> set validExposeTargets \<Longrightarrow> CHR ''/'' \<notin> set ty"
  by (auto simp: validExposeTargets_def)

lemma split_first_two:
  assumes "CHR ''/'' \<in> set a"
  shows "split_on (CHR ''/'') a ! 0 = ty \<and> split_on (CHR ''/'') a ! 1 = name \<longleftrightarrow>
    CHR ''/'' \<notin> set ty \<and> CHR ''/'' \<notin> set name \<and>
    (\<exists>rest. a = ty @ CHR ''/'' # name @ rest \<and> (rest = [] \<or> hd rest = CHR ''/''))"
proof -
  let ?c = "CHR ''/''"
  obtain p s where a: "a = p @ ?c # s" "?c \<notin> set p" using split_list_first [OF assms] by blast
  have split: "split_on ?c a = p # split_on ?c s" using a split_on_append by simp
  have hd: "split_on ?c s ! 0 = takeWhile (\<lambda>x. x \<noteq> ?c) s"
    using hd_split_on [of ?c s] by (simp add: hd_conv_nth)
  show ?thesis (is "?l = ?r")
  proof
    assume ?l
    then have ty: "ty = p" "name = takeWhile (\<lambda>x. x \<noteq> ?c) s" using split hd by simp_all
    have "s = name @ dropWhile (\<lambda>x. x \<noteq> ?c) s" using ty by simp
    moreover have "dropWhile (\<lambda>x. x \<noteq> ?c) s = [] \<or> hd (dropWhile (\<lambda>x. x \<noteq> ?c) s) = ?c"
      using hd_dropWhile [of "\<lambda>x. x \<noteq> ?c" s] by auto
    ultimately show ?r using a ty by (metis set_takeWhileD)
  next
    assume r: ?r
    then obtain rest where rest: "a = ty @ ?c # name @ rest" "rest = [] \<or> hd rest = ?c" by blast
    have "split_on ?c a = ty # split_on ?c (name @ rest)"
      using r rest split_on_append by simp
    moreover have "takeWhile (\<lambda>x. x \<noteq> ?c) (name @ rest) = name"
    proof (cases rest)
      case Nil
      then show ?thesis using r by (simp add: takeWhile_eq_all_conv) blast
    next
      case (Cons c cs)
      then have "rest = ?c # cs" using rest(2) by simp
      moreover have "\<forall>x \<in> set name. x \<noteq> ?c" using r by blast
      ultimately show ?thesis by (simp add: takeWhile_append2)
    qed
    ultimately show ?l using hd_split_on [of ?c "name @ rest"] by (simp add: hd_conv_nth)
  qed
qed

lemma parse_one_word:
  assumes "contains_str a ''container''" and "CHR ''/'' \<in> set a"
  shows "parseTargetTypeAndName [a] = Inr (split_on (CHR ''/'') a ! 0, split_on (CHR ''/'') a ! 1)"
  using assms split_on_two_parts [OF assms(2)]
  by (simp add: parseTargetTypeAndName_def index_args_def Let_def)

text \<open>The check of the target type, on the words the callers let through.\<close>

lemma verify_two: "verifyTargetTypeFromArgs [ty, name] = Inr () \<longleftrightarrow> ty \<in> set validExposeTargets"
  by (simp add: verifyTargetTypeFromArgs_def parseTargetTypeAndName_def index_args_def stringSliceContains_iff)

lemma verify_one:
  assumes "CHR ''/'' \<in> set a"
  shows "verifyTargetTypeFromArgs [a] = Inr () \<longleftrightarrow>
    contains_str a ''container'' \<and> split_on (CHR ''/'') a ! 0 \<in> set validExposeTargets"
proof (cases "contains_str a ''container''")
  case True
  then show ?thesis
    using assms by (simp add: verifyTargetTypeFromArgs_def parse_one_word stringSliceContains_iff)
next
  case False
  moreover have "a \<notin> set validExposeTargets" using assms no_slash_types by blast
  ultimately show ?thesis
    by (simp add: verifyTargetTypeFromArgs_def parseTargetTypeAndName_def index_args_def stringSliceContains_iff)
qed

lemma names_one_word:
  assumes "CHR ''/'' \<in> set a"
  shows "names_target [a] ty name \<longleftrightarrow> contains_str a ''container'' \<and> ty \<in> set validExposeTargets \<and>
    split_on (CHR ''/'') a ! 0 = ty \<and> split_on (CHR ''/'') a ! 1 = name"
  unfolding split_first_two [OF assms] using no_slash_types [of ty] by (auto simp: names_target_def)

lemma verify_no_panic:
  assumes "args = [a] \<and> CHR ''/'' \<in> set a \<or> args = [a, b]"
  shows "verifyTargetTypeFromArgs args \<noteq> Inl (Panic p)"
proof (cases "args = [a, b]")
  case False
  then have a: "args = [a]" "CHR ''/'' \<in> set a" using assms by auto
  show ?thesis
  proof (cases "contains_str a ''container''")
    case True
    show ?thesis unfolding verifyTargetTypeFromArgs_def a(1) parse_one_word [OF True a(2)] by simp
  next
    case False
    then show ?thesis
      by (simp add: a(1) verifyTargetTypeFromArgs_def parseTargetTypeAndName_def index_args_def)
  qed
qed (simp add: verifyTargetTypeFromArgs_def parseTargetTypeAndName_def index_args_def)

lemma names_target_parse: "names_target args ty name \<Longrightarrow> parseTargetTypeAndName args = Inr (ty, name)"
proof (cases "args = [ty, name]")
  case False
  assume n: "names_target args ty name"
  then obtain a where a: "args = [a]" "CHR ''/'' \<in> set a" using False by (auto simp: names_target_def)
  with n show ?thesis using parse_one_word [of a] names_one_word [OF a(2), of ty name] by simp
qed (simp add: parseTargetTypeAndName_def index_args_def)

lemma names_target_shapes:
  "names_target args ty name \<Longrightarrow> (\<exists>a. args = [a] \<and> CHR ''/'' \<in> set a) \<or> (args = [ty, name] \<and> CHR ''/'' \<notin> set ty)"
  using no_slash_types [of ty] by (auto simp: names_target_def)

lemma verify_words:
  assumes "args = [a] \<and> CHR ''/'' \<in> set a \<or> args = [a, b]"
  shows "verifyTargetTypeFromArgs args = Inr () \<longleftrightarrow> (\<exists>ty name. names_target args ty name)"
proof (cases "args = [a, b]")
  case True
  then show ?thesis by (auto simp: verify_two names_target_def)
next
  case False
  with assms have a: "args = [a]" "CHR ''/'' \<in> set a" by auto
  then show ?thesis by (simp add: verify_one names_one_word)
qed

lemma expose_check: "exposeTargetArgs args = Inr () \<longleftrightarrow> (\<exists>ty name. names_target args ty name)"
proof
  assume r: "exposeTargetArgs args = Inr ()"
  then obtain a b where "args = [a] \<and> CHR ''/'' \<in> set a \<or> args = [a, b]"
    by (cases args rule: remdups_adj.cases) (auto simp: exposeTargetArgs_def contains_char_def split: if_splits)
  moreover have "verifyTargetTypeFromArgs args = Inr ()"
    using r by (auto simp: exposeTargetArgs_def split: list.splits if_splits)
  ultimately show "\<exists>ty name. names_target args ty name" by (simp add: verify_words)
next
  assume "\<exists>ty name. names_target args ty name"
  then obtain ty name where n: "names_target args ty name" by blast
  then have "verifyTargetTypeFromArgs args = Inr ()"
    using names_target_shapes [OF n] verify_words [of args] by blast
  then show "exposeTargetArgs args = Inr ()"
    using names_target_shapes [OF n] by (auto simp: exposeTargetArgs_def contains_char_def)
qed

lemma bind_check: "bindArgs args = Inr () \<longleftrightarrow> (\<exists>service ty name. args = service # tl args \<and> names_target (tl args) ty name)"
proof
  assume r: "bindArgs args = Inr ()"
  then obtain s a b where "args = [s, a] \<and> CHR ''/'' \<in> set a \<or> args = [s, a, b]"
    by (cases args rule: remdups_adj.cases; cases "tl (tl args)"; cases "tl (tl (tl args))")
      (auto simp: bindArgs_def contains_char_def split: if_splits)
  moreover have "verifyTargetTypeFromArgs (tl args) = Inr ()"
    using r by (auto simp: bindArgs_def split: if_splits)
  ultimately show "\<exists>service ty name. args = service # tl args \<and> names_target (tl args) ty name"
    using verify_words [of "tl args" a b] by auto
next
  assume "\<exists>service ty name. args = service # tl args \<and> names_target (tl args) ty name"
  then obtain s ty name where n: "args = s # tl args" "names_target (tl args) ty name" by blast
  have "verifyTargetTypeFromArgs (tl args) = Inr ()"
    using names_target_shapes [OF n(2)] verify_words [of "tl args"] n(2) by blast
  moreover obtain a where "args = [s, a] \<and> CHR ''/'' \<in> set a \<or> (args = [s, ty, name] \<and> CHR ''/'' \<notin> set ty)"
    using names_target_shapes [OF n(2)] n(1) by metis
  ultimately show "bindArgs args = Inr ()" by (auto simp: bindArgs_def contains_char_def)
qed

lemma create_check:
  "createServiceArgs args = Inr () \<longleftrightarrow>
     (\<exists>w. args = [w] \<and> CHR '':'' \<in> set w) \<or> (\<exists>a p. args = [a, p] \<and> CHR '':'' \<notin> set a)"
  by (cases args rule: remdups_adj.cases) (auto simp: createServiceArgs_def contains_char_def)

lemma create_parse:
  assumes "createServiceArgs args = Inr ()"
  shows "\<exists>a p. service_args args = Inr (a, p) \<and> CHR '':'' \<notin> set a"
proof (cases "length args = 1")
  case True
  then obtain w where w: "args = [w]" "CHR '':'' \<in> set w" using assms by (auto simp: create_check)
  have "split_on (CHR '':'') w ! 0 \<in> set (split_on (CHR '':'') w)"
    using split_on_two_parts [OF w(2)] by (intro nth_mem) simp
  then show ?thesis
    using w split_on_two_parts [OF w(2)] split_on_no_sep [of "CHR '':''" w]
    by (simp add: service_args_def index_args_def Let_def)
next
  case False
  then show ?thesis using assms by (auto simp: create_check service_args_def index_args_def)
qed

lemma checks_no_panic:
  "exposeTargetArgs args \<noteq> Inl (Panic p)" "bindArgs args \<noteq> Inl (Panic p)" "createServiceArgs args \<noteq> Inl (Panic p)"
proof -
  show "exposeTargetArgs args \<noteq> Inl (Panic p)"
  proof (cases "length args \<le> 2")
    case True
    then consider "args = []" | a where "args = [a]" | a b where "args = [a, b]"
      by (cases args rule: remdups_adj.cases) auto
    then show ?thesis
      by cases (auto simp: exposeTargetArgs_def contains_char_def verify_no_panic)
  qed (auto simp: exposeTargetArgs_def split: list.splits)
  show "bindArgs args \<noteq> Inl (Panic p)"
  proof (cases "2 \<le> length args \<and> length args \<le> 3")
    case True
    then consider s a where "args = [s, a]" | s a b where "args = [s, a, b]"
      by (cases args rule: remdups_adj.cases; cases "tl (tl args)") auto
    then show ?thesis
      by cases (auto simp: bindArgs_def contains_char_def verify_no_panic)
  qed (auto simp: bindArgs_def)
  show "createServiceArgs args \<noteq> Inl (Panic p)"
    by (auto simp: createServiceArgs_def)
qed

text \<open>
  C35 (type). The argument checks are exact and enough. \<open>expose\<close> and \<open>unexpose\<close> accept exactly the
  arguments that name a target of a valid type, in two words or in one word with a slash that contains
  \<open>container\<close>; \<open>bind\<close> and \<open>unbind\<close> the same after the service; \<open>service create\<close> a word with a colon or
  two words without. A check never panics, and what it accepts the command reads without an index out
  of range, with a target type that the service operations support.
\<close>

theorem accepted_arguments:
  "(exposeTargetArgs args = Inr () \<longleftrightarrow> (\<exists>ty name. names_target args ty name)) \<and>
   (bindArgs args = Inr () \<longleftrightarrow> (\<exists>service ty name. args = service # tl args \<and> names_target (tl args) ty name)) \<and>
   (createServiceArgs args = Inr () \<longleftrightarrow>
     (\<exists>w. args = [w] \<and> CHR '':'' \<in> set w) \<or> (\<exists>a p. args = [a, p] \<and> CHR '':'' \<notin> set a)) \<and>
   (\<forall>ty name. names_target args ty name \<longrightarrow>
     parseTargetTypeAndName args = Inr (ty, name) \<and> ty \<in> {''container'', ''host-service''}) \<and>
   (createServiceArgs args = Inr () \<longrightarrow> (\<exists>a p. service_args args = Inr (a, p) \<and> CHR '':'' \<notin> set a)) \<and>
   (\<forall>p. exposeTargetArgs args \<noteq> Inl (Panic p) \<and> bindArgs args \<noteq> Inl (Panic p) \<and>
     createServiceArgs args \<noteq> Inl (Panic p))"
  using names_target_parse create_parse checks_no_panic
  by (auto simp: expose_check bind_check create_check names_target_def validExposeTargets_def)

lemma accepted_arguments_witness:
  "parseTargetTypeAndName [''container/web''] = Inr (''container'', ''web'') \<and>
   (\<exists>a p. service_args [''db:5432''] = Inr (a, p) \<and> CHR '':'' \<notin> set a)"
proof -
  have "names_target [''container/web''] ''container'' ''web''"
    by (auto simp: names_target_def validExposeTargets_def contains_str_def sublist_def intro: exI [of _ "[]"])
  then have "parseTargetTypeAndName [''container/web''] = Inr (''container'', ''web'')"
    using accepted_arguments [of "[''container/web'']"] by blast
  moreover have "createServiceArgs [''db:5432''] = Inr ()"
    using accepted_arguments [of "[''db:5432'']"] by simp
  ultimately show ?thesis using accepted_arguments [of "[''db:5432'']"] by blast
qed

section \<open>check-connection\<close>

text \<open>A connector was seen connected between two worlds of a run: an inspection sent between them
  answered so.\<close>

definition seen_during :: "VanClient \<Rightarrow> string \<Rightarrow> World \<Rightarrow> World \<Rightarrow> bool" where
  "seen_during cli name w w' \<longleftrightarrow>
     (\<exists>v v' vci. only_queries w v \<and> ConnectorInspect cli name v = (Inr vci, v') \<and> ci_Connected vci \<and> only_queries v' w')"

lemma only_queries_refl [simp]: "only_queries w w"
  using queries.refl_R by (simp add: reflp_def)

lemma only_queries_trans: "only_queries w w1 \<Longrightarrow> only_queries w1 w2 \<Longrightarrow> only_queries w w2"
  using queries.trans_R by (rule transpD)

lemma seen_during_mono: "only_queries w w1 \<Longrightarrow> seen_during cli n w1 w2 \<Longrightarrow> only_queries w2 w3 \<Longrightarrow> seen_during cli n w w3"
  unfolding seen_during_def by (blast intro: only_queries_trans)

text \<open>An inspection sends one to five requests.\<close>

lemma sends_one: "InspectContainer n dd w = (r, w1) \<Longrightarrow> length (calls w1) = Suc (length (calls w))"
  by (auto simp: InspectContainer_def dd_InspectContainer_def dest!: api_call_calls)

lemma seen_connected_step:
  assumes "seen_connected cli n w = (b, w')"
  shows "only_queries w w'" and "b \<Longrightarrow> seen_during cli n w w'"
    and "length (calls w) < length (calls w')" and "length (calls w') \<le> length (calls w) + 5"
proof -
  obtain r where r: "ConnectorInspect cli n w = (r, w')" "b \<longleftrightarrow> (\<exists>vci. r = Inr vci \<and> ci_Connected vci)"
    using assms by (auto simp: seen_connected_def split: prod.splits sum.splits)
  show q: "only_queries w w'" using keepsD [OF querying_client(2) r(1)] .
  show "length (calls w') \<le> length (calls w) + 5"
    using keepsD [OF at_most_ConnectorInspect r(1)] by (simp add: at_most_def)
  show "seen_during cli n w w'" if seen: b
  proof -
    obtain vci where "r = Inr vci" "ci_Connected vci" using seen r(2) by blast
    then show ?thesis using r(1) only_queries_refl unfolding seen_during_def by blast
  qed
  obtain a w1 where a: "InspectContainer ''skupper-router'' (DockerInterface cli) w = (a, w1)"
    by (cases "InspectContainer ''skupper-router'' (DockerInterface cli) w")
  have "only_queries w1 w'"
  proof (cases a)
    case (Inl e)
    then have "w' = w1" using r(1) a by (simp add: ConnectorInspect_def)
    then show ?thesis by simp
  next
    case (Inr x)
    then have "inspect_connection cli n w1 = (r, w')" using r(1) a by (simp add: ConnectorInspect_def)
    with querying_inspect_connection show ?thesis by (rule keepsD)
  qed
  then have "length (calls w1) \<le> length (calls w')" by (auto simp: only_queries_def)
  then show "length (calls w) < length (calls w')" using sends_one [OF a] by simp
qed

text \<open>One round, and all of them: the names stay, the counter is the number of flags, a flag that was
  set stays set, and one that is newly set was seen.\<close>

definition grown :: "VanClient \<Rightarrow> World \<Rightarrow> World \<Rightarrow> (string \<times> bool) list \<Rightarrow> (string \<times> bool) list \<Rightarrow> bool" where
  "grown cli w w' = list_all2 (\<lambda>(n, a) (n', a'). n' = n \<and> (a \<longrightarrow> a') \<and> (a' \<and> \<not> a \<longrightarrow> seen_during cli n w w'))"

definition active :: "(string \<times> bool) list \<Rightarrow> nat" where
  "active cs = length (filter snd cs)"

lemma grown_mono: "only_queries w w1 \<Longrightarrow> grown cli w1 w2 cs cs' \<Longrightarrow> only_queries w2 w3 \<Longrightarrow> grown cli w w3 cs cs'"
  unfolding grown_def by (erule list_all2_mono) (auto intro: seen_during_mono)

lemma grown_refl: "grown cli w w' cs cs"
  unfolding grown_def by (rule list_all2_refl) auto

lemma grown_trans:
  assumes "grown cli w w1 cs cs1" and "grown cli w1 w2 cs1 cs2" and "only_queries w w1" and "only_queries w1 w2"
  shows "grown cli w w2 cs cs2"
proof -
  have "grown cli w w2 cs cs1" "grown cli w w2 cs1 cs2"
    using assms grown_mono only_queries_refl by blast+
  then show ?thesis
    unfolding grown_def by (rule list_all2_trans [rotated]) auto
qed

lemma grown_names: "grown cli w w' cs cs' \<Longrightarrow> map fst cs' = map fst cs"
  unfolding grown_def by (induction rule: list_all2_induct) auto

lemma check_round_run:
  assumes "check_round cli cs k w = (cs', k', w')"
  shows "only_queries w w' \<and> grown cli w w' cs cs' \<and> k' + active cs = k + active cs' \<and>
    length (calls w) + length cs \<le> length (calls w') \<and> length (calls w') \<le> length (calls w) + 5 * length cs"
  using assms
proof (induction cs arbitrary: k w cs' k' w')
  case (Cons c cs)
  obtain n a where c: "c = (n, a)" by (cases c)
  obtain b w1 where b: "seen_connected cli n w = (b, w1)" by (cases "seen_connected cli n w")
  obtain cs2 k2 w2 where r: "check_round cli cs (if b \<and> \<not> a then k + 1 else k) w1 = (cs2, k2, w2)"
    by (cases "check_round cli cs (if b \<and> \<not> a then k + 1 else k) w1")
  have eq: "cs' = (n, a \<or> b) # cs2" "k' = k2" "w' = w2" using Cons.prems c b r by simp_all
  note step = seen_connected_step [OF b]
  from Cons.IH [OF r] have ih: "only_queries w1 w2" "grown cli w1 w2 cs cs2"
    "k2 + active cs = (if b \<and> \<not> a then k + 1 else k) + active cs2"
    "length (calls w1) + length cs \<le> length (calls w2)" "length (calls w2) \<le> length (calls w1) + 5 * length cs" by auto
  have q: "only_queries w w2" using step(1) ih(1) by (rule only_queries_trans)
  have "grown cli w w2 cs cs2" using step(1) ih(2) only_queries_refl by (rule grown_mono)
  moreover have "b \<Longrightarrow> seen_during cli n w w2"
    using seen_during_mono [OF only_queries_refl step(2) ih(1)] by blast
  ultimately have "grown cli w w2 (c # cs) ((n, a \<or> b) # cs2)"
    by (auto simp: grown_def c)
  then show ?case using q ih step(3,4) by (simp add: eq c active_def split: if_splits)
qed (simp add: grown_def)

lemma check_rounds_run:
  assumes "check_rounds n cli cs (active cs) w = (cs', w')"
  shows "only_queries w w' \<and> grown cli w w' cs cs' \<and> length (calls w') \<le> length (calls w) + n * (5 * length cs)"
  using assms
proof (induction n arbitrary: cs w)
  case (Suc n)
  show ?case
  proof (cases "active cs < length cs")
    case True
    obtain cs1 k1 w1 where r: "check_round cli cs (active cs) w = (cs1, k1, w1)"
      by (cases "check_round cli cs (active cs) w")
    from check_round_run [OF r] have one: "only_queries w w1" "grown cli w w1 cs cs1" "k1 = active cs1"
      "length (calls w1) \<le> length (calls w) + 5 * length cs" by auto
    have "check_rounds n cli cs1 (active cs1) w1 = (cs', w')" using Suc.prems True r one(3) by simp
    from Suc.IH [OF this] have rest: "only_queries w1 w'" "grown cli w1 w' cs1 cs'"
      "length (calls w') \<le> length (calls w1) + n * (5 * length cs1)" by auto
    have "length cs1 = length cs" using grown_names [OF one(2)] by (metis length_map)
    then show ?thesis
      using one rest only_queries_trans [OF one(1) rest(1)] grown_trans [OF one(2) rest(2) one(1) rest(1)] by simp
  qed (use Suc.prems in \<open>simp add: grown_refl\<close>)
qed (simp add: grown_refl)

text \<open>When the router answers that the connectors are connected from some request on, enough rounds see
  all of them.\<close>

definition answers_from :: "VanClient \<Rightarrow> string set \<Rightarrow> nat \<Rightarrow> World \<Rightarrow> bool" where
  "answers_from cli ns L w \<longleftrightarrow>
     (\<forall>v. only_queries w v \<and> L \<le> length (calls v) \<longrightarrow>
        (\<forall>n \<in> ns. \<exists>vci v'. ConnectorInspect cli n v = (Inr vci, v') \<and> ci_Connected vci))"

lemma answers_from_later: "answers_from cli ns L w \<Longrightarrow> only_queries w w1 \<Longrightarrow> answers_from cli ns L w1"
  unfolding answers_from_def by (blast intro: only_queries_trans)

lemma round_sees_all:
  assumes "check_round cli cs k w = (cs', k', w')" and "answers_from cli (set (map fst cs)) L w" and "L \<le> length (calls w)"
  shows "list_all snd cs'"
  using assms
proof (induction cs arbitrary: k w cs' k' w')
  case (Cons c cs)
  obtain n a where c: "c = (n, a)" by (cases c)
  have "\<exists>vci v'. ConnectorInspect cli n w = (Inr vci, v') \<and> ci_Connected vci"
    using Cons.prems(2,3) c only_queries_refl unfolding answers_from_def by (metis (no_types) fst_conv image_eqI list.set_intros(1) set_map)
  then obtain w1 where b: "seen_connected cli n w = (True, w1)" by (auto simp: seen_connected_def)
  obtain cs2 k2 w2 where r: "check_round cli cs (if \<not> a then k + 1 else k) w1 = (cs2, k2, w2)"
    by (cases "check_round cli cs (if \<not> a then k + 1 else k) w1")
  note step = seen_connected_step [OF b]
  have "answers_from cli (set (map fst cs)) L w1"
    using answers_from_later [OF Cons.prems(2) step(1)] by (auto simp: answers_from_def)
  with Cons.IH [OF r] Cons.prems(3) step(3) have "list_all snd cs2" by simp
  then show ?case using Cons.prems(1) c b r by (auto split: if_splits)
qed simp

lemma all_active: "list_all snd cs \<Longrightarrow> active cs = length cs"
  by (induction cs) (auto simp: active_def)

lemma active_all: "length cs \<le> active cs \<Longrightarrow> list_all snd cs"
proof (induction cs)
  case (Cons c cs)
  then show ?case using length_filter_le [of snd cs] by (cases "snd c") (simp_all add: active_def)
qed simp

lemma rounds_see_all:
  assumes "answers_from cli (set (map fst cs)) L w" and "L < length (calls w) + n"
    and "check_rounds n cli cs (active cs) w = (cs', w')"
  shows "n = 0 \<or> list_all snd cs'"
  using assms
proof (induction n arbitrary: cs w)
  case (Suc n)
  show ?case
  proof (cases "active cs < length cs")
    case True
    obtain cs1 k1 w1 where r: "check_round cli cs (active cs) w = (cs1, k1, w1)"
      by (cases "check_round cli cs (active cs) w")
    from check_round_run [OF r] have one: "only_queries w w1" "grown cli w w1 cs cs1" "k1 = active cs1"
      "length (calls w) + length cs \<le> length (calls w1)" by auto
    have rest: "check_rounds n cli cs1 (active cs1) w1 = (cs', w')" using Suc.prems(3) True r one(3) by simp
    have names: "map fst cs1 = map fst cs" by (rule grown_names [OF one(2)])
    show ?thesis
    proof (cases "L \<le> length (calls w)")
      case True
      have "list_all snd cs1" using round_sees_all [OF r Suc.prems(1) True] .
      moreover have "cs' = cs1" using rest all_active [OF calculation] by (cases n) simp_all
      ultimately show ?thesis by simp
    next
      case False
      have "answers_from cli (set (map fst cs1)) L w1"
        using answers_from_later [OF Suc.prems(1) one(1)] names by simp
      moreover have "L < length (calls w1) + n" using Suc.prems(2) one(4) True by simp
      moreover have "n \<noteq> 0" using False Suc.prems(2) by simp
      ultimately show ?thesis using Suc.IH [OF _ _ rest] by simp
    qed
  next
    case False
    then have "list_all snd cs" by (intro active_all) simp
    then show ?thesis using Suc.prems(3) False by simp
  qed
qed simp

lemma ConnectorInspect_name:
  assumes "ConnectorInspect cli name w = (Inr vci, w')"
  shows "tc_Name (ci_Connector vci) = name"
  using assms [unfolded ConnectorInspect_def inspect_connection_def bindE_Inr_iff] by auto

lemma at_most_ConnectorList: "keeps (at_most 1) (ConnectorList cli)"
proof -
  have entries: "keeps (=) (connector_entries cli r fs)" for r fs
  proof (induction fs)
    case Nil
    show ?case unfolding connector_entries.simps by (rule only_reads)
  next
    case (Cons f fs)
    show ?case unfolding connector_entries.simps connector_entry_def by (intro only_reads Cons)
  qed
  have "keeps (=) (with_router_config cli (\<lambda>current.
      bindE (Wrapf ''Failed to read connector definitions'')
        (os_ReadDir (Host cli) (skupper_path cli ConnectionsPath)) (\<lambda>fnames. connector_entries cli current fnames)))"
    unfolding with_router_config_def by (intro only_reads entries)
  then have "keeps (at_most (1 + 0)) (ConnectorList cli)"
    unfolding ConnectorList_def InspectContainer_def dd_InspectContainer_def
    by (intro at_most_bind at_most_steps at_most_same)
  then show ?thesis by simp
qed

lemma first_connectors_run:
  assumes "first_connectors cli name w = (cs, w1)"
  shows "only_queries w w1" and "{n. (n, True) \<in> set cs} \<subseteq> {n. seen_during cli n w w1}"
    and "name = ''all'' \<or> map fst cs = [] \<or> map fst cs = [name]" and "length (calls w1) \<le> length (calls w) + 5"
proof -
  obtain l wl where l: "ConnectorList cli w = (l, wl)" by (cases "ConnectorList cli w")
  obtain r wr where r: "ConnectorInspect cli name w = (r, wr)" by (cases "ConnectorInspect cli name w")
  note ql = keepsD [OF querying_client(1) l] and qr = keepsD [OF querying_client(2) r]
  note cl = keepsD [OF at_most_ConnectorList l] and cr = keepsD [OF at_most_ConnectorInspect r]
  show "only_queries w w1" "name = ''all'' \<or> map fst cs = [] \<or> map fst cs = [name]"
    "length (calls w1) \<le> length (calls w) + 5"
    using assms l r ql qr cl cr ConnectorInspect_name [of cli name w]
    by (auto simp: first_connectors_def at_most_def split: if_splits sum.splits)
  have "seen_during cli n w wr" if "r = Inr vci" "ci_Connected vci" "n = name" for vci n
    using that r only_queries_refl unfolding seen_during_def by blast
  then show "{n. (n, True) \<in> set cs} \<subseteq> {n. seen_during cli n w w1}"
    using assms l r ConnectorInspect_name [of cli name w]
    by (auto simp: first_connectors_def split: if_splits sum.splits)
qed

lemma grown_active:
  assumes "grown cli w w' cs cs'"
  shows "{n. (n, True) \<in> set cs'} \<subseteq> {n. (n, True) \<in> set cs} \<union> {n. seen_during cli n w w'}"
  using assms unfolding grown_def by (induction rule: list_all2_induct) auto

lemma check_connection_run:
  "\<exists>cs w'. cmd_check_connection cli waitFor name w = ((connection_text name cs, None), w') \<and>
    map fst cs \<in> (if name = ''all'' then UNIV else {[], [name]}) \<and>
    {n. (n, True) \<in> set cs} \<subseteq> {n. seen_during cli n w w'} \<and> only_queries w w' \<and>
    length (calls w') \<le> length (calls w) + 5 + nat waitFor * (5 * length cs)"
proof -
  obtain cs w1 where first: "first_connectors cli name w = (cs, w1)" by (cases "first_connectors cli name w")
  obtain cs' w' where r: "check_rounds (nat waitFor) cli cs (active cs) w1 = (cs', w')"
    by (cases "check_rounds (nat waitFor) cli cs (active cs) w1")
  note f = first_connectors_run [OF first]
  from check_rounds_run [OF r] have g: "only_queries w1 w'" "grown cli w1 w' cs cs'"
    "length (calls w') \<le> length (calls w1) + nat waitFor * (5 * length cs)" by auto
  have names: "map fst cs' = map fst cs" by (rule grown_names [OF g(2)])
  then have "length cs' = length cs" by (metis length_map)
  then have "length (calls w') \<le> length (calls w) + 5 + nat waitFor * (5 * length cs')" using g(3) f(4) by simp
  moreover have "{n. (n, True) \<in> set cs'} \<subseteq> {n. seen_during cli n w w'}"
    using grown_active [OF g(2)] f(2) seen_during_mono [OF only_queries_refl _ g(1)] seen_during_mono [OF f(1) _ only_queries_refl]
    by blast
  ultimately show ?thesis
    using first r names f(3) only_queries_trans [OF f(1) g(1)]
    by (intro exI [of _ cs'] exI [of _ w']) (auto simp: cmd_check_connection_def active_def)
qed

text \<open>
  C36 (bounds). \<open>check-connection\<close> ends, without an error, after at most \<open>waitFor\<close> rounds of at most five
  requests for each connector it reports, all of them queries, and writes no file. It reports the
  connector it was asked for, or those of the site for \<open>all\<close>, and a connector it reports as active was
  seen connected in an answer of the router during this run.
\<close>

theorem check_connection_report:
  "\<exists>cs w'. cmd_check_connection cli waitFor name w = ((connection_text name cs, None), w') \<and>
    map fst cs \<in> (if name = ''all'' then UNIV else {[], [name]}) \<and>
    {n. (n, True) \<in> set cs} \<subseteq> {n. seen_during cli n w w'} \<and> only_queries w w' \<and>
    length (calls w') \<le> length (calls w) + 5 + nat waitFor * (5 * length cs)"
  by (rule check_connection_run)

text \<open>
  C37 (liveness). When the router answers from some request on that the connectors are connected, and
  more rounds are waited for than requests are missing until then, \<open>check-connection\<close> reports every
  one of them as active.
\<close>

theorem check_connection_sees:
  assumes "answers_from cli (set (map fst (fst (first_connectors cli name w)))) L w"
    and "int L < int (length (calls w)) + waitFor" and "0 < waitFor"
  shows "fst (cmd_check_connection cli waitFor name w) =
    (connection_text name (map (\<lambda>c. (fst c, True)) (fst (first_connectors cli name w))), None)"
proof -
  obtain cs w1 where first: "first_connectors cli name w = (cs, w1)" by (cases "first_connectors cli name w")
  obtain cs' w' where r: "check_rounds (nat waitFor) cli cs (active cs) w1 = (cs', w')"
    by (cases "check_rounds (nat waitFor) cli cs (active cs) w1")
  note f = first_connectors_run [OF first]
  have "length (calls w) \<le> length (calls w1)" using f(1) by (auto simp: only_queries_def)
  then have "L < length (calls w1) + nat waitFor" using assms(2) by linarith
  moreover have "answers_from cli (set (map fst cs)) L w1"
    using answers_from_later [OF assms(1) f(1)] first by simp
  ultimately have "list_all snd cs'" using rounds_see_all [OF _ _ r] assms(3) by simp
  then have "cs' = map (\<lambda>n. (n, True)) (map fst cs')" by (induction cs') auto
  then have "cs' = map (\<lambda>n. (n, True)) (map fst cs)"
    using grown_names [of cli w1 w' cs cs'] check_rounds_run [OF r] by simp
  then have "cs' = map (\<lambda>c. (fst c, True)) cs" by (simp add: comp_def)
  then show ?thesis using first r by (simp add: cmd_check_connection_def active_def)
qed

text \<open>A site whose router reports the connection \<open>east\<close> from the eighth request on.\<close>

definition link_text :: string where
  "link_text = ''[{\"role\":\"inter-router\",\"host\":\"10.0.0.7:55671\",\"active\":true}]''"

definition link_client :: skupDockerClient where
  "link_client = (sim_client (fmupd ''skupper-router'' sample_router fmempty))
     \<lparr>sd_client := (sim_api (fmupd ''skupper-router'' sample_router fmempty))
        \<lparr>api_exec_attach := \<lambda>hist. Inr (if length hist < 8 then ''[]'' else link_text, [])\<rparr>\<rparr>"

definition link_cli :: VanClient where
  "link_cli = \<lparr>DockerInterface = link_client, Host = sample_host\<rparr>"

definition link_world :: World where
  "link_world = \<lparr>files =
     fmupd [''t'', ''skupper'', ''connections'', ''east'', ''inter-router-port''] (File ''55671'')
      (fmupd [''t'', ''skupper'', ''connections'', ''east'', ''inter-router-host''] (File ''10.0.0.7'')
        (fmupd [''t'', ''skupper'', ''connections'', ''east''] Dir
          (files (site_world west_config ''uid'' fmempty)))), calls = []\<rparr>"

definition link_connection :: Connection where
  "link_connection = zero_Connection\<lparr>nx_Role := ''inter-router'', nx_Host := ''10.0.0.7:55671'', nx_Active := True\<rparr>"

lemma link_texts:
  "unmarshal (dec_list (decode_struct connection_fields) zero_Connection) ''[]'' [] = Inr []"
  "unmarshal (dec_list (decode_struct connection_fields) zero_Connection) link_text [] = Inr [link_connection]"
  by code_simp+

lemma link_call [simp]:
  "api_call link_client ctx call answer w = (answer (calls (send call ctx w)), send call ctx w)"
  by (simp add: api_call_def contextError_def Let_def link_client_def)

lemma read_router_config:
  "router_config cli w = Some r \<Longrightarrow> GetRouterConfigFromFile (Host cli) (config_file cli) w = (Inr (Some r), w)"
  by (auto simp: router_config_def GetRouterConfigFromFile_def os_ReadFile_def split: sum.splits)

lemma link_config: "files v = files link_world \<Longrightarrow> router_config link_cli v = Some west_config"
proof -
  assume v: "files v = files link_world"
  have "router_config site_cli v = router_config site_cli (site_world west_config ''uid'' fmempty)"
    using resolve_config [OF site_cli_at]
    by (simp add: router_config_def config_path_def fs_ReadFile_def v link_world_def split: option.split node.split)
  moreover have "router_config link_cli v = router_config site_cli v"
    by (simp add: router_config_def config_file_def skupper_path_def link_cli_def)
  ultimately show ?thesis using config_of_site_world [OF wf_west] by simp
qed

lemma link_token:
  assumes "files v = files link_world" and "k \<in> {''host'', ''port''}"
  shows "read_token_file link_cli (''east/inter-router-'' @ k) v =
    (Inr (if k = ''host'' then ''10.0.0.7'' else ''55671''), v)"
proof -
  have "site_at link_cli [''t'']" using site_cli_at by (simp add: link_cli_def)
  moreover have "plain ''east''" "plain (''inter-router-'' @ k)" using assms(2) by (auto simp: plain_def)
  ultimately have path: "resolve (Host link_cli) (skupper_path link_cli ConnectionsPath @ ''/east/inter-router-'' @ k) =
      [''t'', ''skupper'', ''connections'', ''east'', ''inter-router-'' @ k]"
    using resolve_connection(2) [of link_cli "[''t'']" "''east''" "''inter-router-'' @ k"] by (simp add: connections_dir_def)
  have "fs_ReadFile (files v) [''t'', ''skupper'', ''connections'', ''east'', ''inter-router-'' @ k] =
      Inr (if k = ''host'' then ''10.0.0.7'' else ''55671'')"
    using assms(2) by (auto simp: assms(1) fs_ReadFile_def link_world_def)
  moreover have "skupper_path link_cli ConnectionsPath @ ''/east/inter-router-'' @ k \<noteq> []" by simp
  ultimately have "os_ReadFile (Host link_cli) (skupper_path link_cli ConnectionsPath @ ''/east/inter-router-'' @ k) v =
      (Inr (if k = ''host'' then ''10.0.0.7'' else ''55671''), v)"
    unfolding os_ReadFile_def path by simp
  then show ?thesis by (simp add: read_token_file_def)
qed

lemma link_sees:
  assumes "idle (fmupd ''skupper-router'' sample_router fmempty) u"
  shows "dd_InspectContainer link_client ''skupper-router'' u = (Inr (sim_json ''skupper-router'' sample_router),
    send (ContainerInspect ''skupper-router'') (getTimeoutContext link_client) u)"
proof -
  have "api_inspect (sd_client link_client) = sim_answer (fmupd ''skupper-router'' sample_router fmempty) sim_inspect"
    by (simp add: link_client_def)
  then show ?thesis using assms by (simp add: dd_InspectContainer_def idle_def)
qed

lemma link_inspect:
  assumes "only_queries link_world v"
  shows "\<exists>vci v'. ConnectorInspect link_cli ''east'' v = (Inr vci, v') \<and> (ci_Connected vci \<longleftrightarrow> 4 \<le> length (calls v))"
proof -
  define s where "s = fmupd ''skupper-router'' sample_router fmempty"
  have v: "files v = files link_world" and "idle s v"
  proof -
    from assms obtain rs where rs: "files v = files link_world" "calls v = rs" "list_all (\<lambda>r. is_query (rq_call r)) rs"
      by (auto simp: only_queries_def link_world_def)
    have "sim_run s rs = s" using rs(3)
    proof (induction rs rule: rev_induct)
      case (snoc r rs)
      then show ?case by (cases "rq_call r") simp_all
    qed simp
    then show "files v = files link_world" "idle s v" using rs by (simp_all add: idle_def)
  qed
  let ?ctx = "getTimeoutContext link_client"
  let ?v1 = "send (ContainerInspect ''skupper-router'') ?ctx v"
  let ?v2 = "send (ContainerInspect ''skupper-router'') ?ctx ?v1"
  let ?v5 = "send (ExecInspect ''exec'') ?ctx (send (ExecAttach ''exec'') ?ctx
      (send (ExecCreate ''skupper-router'' (getQuery ''connection'')) ?ctx ?v2))"
  let ?out = "if length (calls v) < 4 then ''[]'' else link_text"
  have api: "api_inspect (sd_client link_client) = sim_answer s sim_inspect"
    "api_exec_create (sd_client link_client) = (\<lambda>_. Inr ''exec'')" "api_exec_inspect (sd_client link_client) = (\<lambda>_. Inr 0)"
    "api_exec_attach (sd_client link_client) = (\<lambda>hist. Inr (if length hist < 8 then ''[]'' else link_text, []))"
    by (simp_all add: link_client_def s_def sim_api_def)
  have "idle s ?v1" using \<open>idle s v\<close> by (rule idle_query) simp
  then have inspect: "InspectContainer ''skupper-router'' link_client v = (Inr (sim_json ''skupper-router'' sample_router), ?v1)"
    "dd_InspectContainer link_client ''skupper-router'' ?v1 = (Inr (sim_json ''skupper-router'' sample_router), ?v2)"
    using link_sees \<open>idle s v\<close> unfolding InspectContainer_def s_def by blast+
  have "routerExec (getQuery ''connection'') link_client ?v1 = (Inr \<lparr>ex_ExitCode = 0, ex_Stdout = ?out, ex_Stderr = []\<rparr>, ?v5)"
    using inspect(2)
    by (simp add: routerExec_def Exec_def dd_CreateExec_def dd_AttachExec_def dd_InspectExec_def api sim_json_def)
  then have conns: "GetConnections link_client ?v1 = (Inr (if length (calls v) < 4 then [] else [link_connection]), ?v5)"
    by (simp add: GetConnections_def query_router_def link_texts)
  have files: "files ?v1 = files link_world" using v by simp
  have suffix: "token_suffix west_config = ''/inter-router-''"
    by (simp add: token_suffix_def west_config_def InitialConfig_def IsEdge_def ModeInterior_def ModeEdge_def)
  have "connected_to (GetInterRouterOrEdgeConnection ''10.0.0.7:55671'' [link_connection])"
    by (simp add: connected_to_def link_connection_def zero_Connection_def)
  moreover have "\<not> connected_to (GetInterRouterOrEdgeConnection ''10.0.0.7:55671'' [])"
    by (simp add: connected_to_def)
  moreover note read_router_config [OF link_config [OF files]] link_token [OF files, of "''host''"] link_token [OF files, of "''port''"]
  ultimately show ?thesis
    using inspect(1) conns
    by (simp add: ConnectorInspect_def inspect_connection_def suffix deref_def link_cli_def not_less)
qed

lemma check_connection_sees_witness:
  "fst (cmd_check_connection link_cli 9 ''east'' link_world) = (line ''Connection for east is active'', None) \<and>
    \<not> snd (hd (fst (first_connectors link_cli ''east'' link_world)))"
proof -
  from link_inspect [of link_world] obtain vci v' where
    first: "ConnectorInspect link_cli ''east'' link_world = (Inr vci, v')" "\<not> ci_Connected vci"
    by (auto simp: link_world_def)
  then have east: "fst (first_connectors link_cli ''east'' link_world) = [(''east'', False)]"
    using ConnectorInspect_name [OF first(1)] by (simp add: first_connectors_def)
  have "answers_from link_cli {''east''} 8 link_world"
    unfolding answers_from_def using link_inspect by fastforce
  then show ?thesis
    using check_connection_sees [of link_cli "''east''" link_world 8 9] east
    by (simp add: link_world_def connection_text_def lines_def)
qed

section \<open>The commands that only look\<close>

lemma cmd_end_world [simp]: "snd (cmd_end m h out w) = snd (m w)"
  by (auto simp: cmd_end_def split: prod.split sum.split)

lemma querying_cmd: "keeps only_queries m \<Longrightarrow> only_queries w (snd (cmd_end m h out w))"
  by (simp add: keeps_def)

text \<open>
  C40 (safety). The commands that show something, \<open>status\<close>, \<open>version\<close>, \<open>list-connectors\<close>, \<open>list-exposed\<close> and
  \<open>check-connection\<close>, write no file and ask the docker daemon for nothing but information, in any
  order and number, whatever it answers and whatever the files hold.
\<close>

theorem looking_changes_nothing:
  "only_queries w (snd (cmd_status cli w)) \<and> only_queries w (snd (cmd_version v cli w)) \<and>
   only_queries w (snd (cmd_list_connectors cli w)) \<and> only_queries w (snd (cmd_list_exposed cli w)) \<and>
   only_queries w (snd (cmd_check_connection cli waitFor name w))"
proof -
  have "only_queries w (snd (cmd_status cli w))" "only_queries w (snd (cmd_list_connectors cli w))"
    "only_queries w (snd (cmd_list_exposed cli w))"
    unfolding cmd_status_def cmd_list_connectors_def cmd_list_exposed_def by (intro querying_cmd querying)+
  moreover have "snd (cmd_version v cli w) = snd (RouterInspect cli w)"
  proof -
    have "snd (case p of ((out, err), w') \<Rightarrow> ((f out, err), w')) = snd p" for p :: "(string \<times> error option) \<times> World" and f :: "string \<Rightarrow> string"
      by (cases p rule: prod.exhaust; cases "fst p") simp
    then show ?thesis by (simp only: cmd_version_def cmd_end_world)
  qed
  then have "only_queries w (snd (cmd_version v cli w))"
    using querying_client(5) [of cli] by (simp add: keeps_def)
  moreover have "only_queries w (snd (cmd_check_connection cli waitFor name w))"
    using check_connection_run [of cli waitFor name w] by auto
  ultimately show ?thesis by blast
qed

end
