(* ===== verification/Exposing.thy ===== *)
theory Exposing
  imports Commands
begin

text \<open>
  \<open>expose\<close> and \<open>unexpose\<close> of the command line as a whole: what the pair does to the services file, and
  that leaving out the address, as the first allows, makes the second fail.
\<close>

lemma expose_found:
  assumes "ServiceInterfaceInspect cli a w = (Inr found, w')"
  shows "\<exists>m. services cli w = Some m \<and> found = fmlookup m a \<and> files w' = files w"
proof -
  have up: "router_up cli w" using assms unfolding ServiceInterfaceInspect_def by (rule need_router_Inr)
  let ?w1 = "send (ContainerInspect ''skupper-router'') (getTimeoutContext (DockerInterface cli)) w"
  have run: "bindE id (client_load id cli) (\<lambda>svcDefs. returnE (fmlookup svcDefs a)) ?w1 = (Inr found, w')"
    using assms by (simp add: ServiceInterfaceInspect_def need_router_up [OF up])
  obtain m where m: "services cli w = Some m"
  proof (cases "services cli w")
    case None
    then have "services cli ?w1 = None" by simp
    then show thesis using run client_services.load_fails [of cli ?w1 id] by auto
  qed
  with inspect_run [OF up m, of a] assms show ?thesis by auto
qed

lemma bindE_Inr_case: "cmd_end m h out w = ((t, None), w') \<Longrightarrow> \<exists>x. m w = (Inr x, w') \<and> t = out x"
  by (auto simp: cmd_end_def split: prod.splits sum.splits)

text \<open>What an exposed service at a free address is.\<close>

definition exposed_address :: "ServiceInterfaceCreateOptions \<Rightarrow> string \<Rightarrow> string" where
  "exposed_address opts name = (if so_Address opts = [] then name else so_Address opts)"

definition requested_service :: "ServiceInterfaceCreateOptions \<Rightarrow> string \<Rightarrow> ServiceInterface" where
  "requested_service opts address =
     zero_ServiceInterface\<lparr>si_Address := address, si_Port := so_Port opts, si_Protocol := so_Protocol opts\<rparr>"

lemma expose_success:
  assumes "cmd_expose cli opts args w = ((out, None), w1)" and "names_target args ty name"
    and "services cli w = Some m" and "fmlookup m (exposed_address opts name) = None"
  obtains w0 where "files w0 = files w"
    "ServiceInterfaceBind cli (requested_service opts (exposed_address opts name)) ty name (so_Protocol opts) (so_TargetPort opts) w0 = (Inr (), w1)"
    "out = line (ty @ '' '' @ name @ '' exposed as '' @ exposed_address opts name)"
proof -
  let ?a = "exposed_address opts name"
  define opts' where "opts' = (if so_Address opts = [] then opts\<lparr>so_Address := name\<rparr> else opts)"
  have a: "so_Address opts' = ?a" "so_Port opts' = so_Port opts" "so_Protocol opts' = so_Protocol opts"
    "so_TargetPort opts' = so_TargetPort opts"
    by (simp_all add: opts'_def exposed_address_def)
  from bindE_Inr_case [OF assms(1) [unfolded cmd_expose_def]] obtain x where
    x: "out = line x" and run0: "bindE id (liftE (parseTargetTypeAndName args)) (\<lambda>(targetType, targetName).
        if so_Address opts = [] \<and> targetType = ''host-service'' then
          failE (Errorf (''--address option is required for target type 'service'' @ apostrophe))
        else
          (let opts = (if so_Address opts = [] then opts\<lparr>so_Address := targetName\<rparr> else opts)
           in bindE id (expose cli targetType targetName opts) (\<lambda>_.
              returnE (targetType @ '' '' @ targetName @ '' exposed as '' @ so_Address opts)))) w = (Inr x, w1)"
    by blast
  have given: "\<not> (so_Address opts = [] \<and> ty = ''host-service'')"
    using run0 names_target_parse [OF assms(2)] by (intro notI) simp
  then have "bindE id (expose cli ty name opts') (\<lambda>_. returnE (ty @ '' '' @ name @ '' exposed as '' @ so_Address opts')) w =
      (Inr x, w1)"
    using run0 names_target_parse [OF assms(2)] by (simp only: opts'_def Let_def liftE_def bindE_step prod.case if_False)
  then have e: "expose cli ty name opts' w = (Inr (), w1)" and out: "x = ty @ '' '' @ name @ '' exposed as '' @ ?a"
    using a(1) by (auto simp: bindE_Inr_iff)
  from e [unfolded expose_def bindE_Inr_iff] a obtain found w0 service where
    found: "ServiceInterfaceInspect cli ?a w = (Inr found, w0)" and
    service: "service_to_expose opts' found = Inr service" and
    bind: "ServiceInterfaceBind cli (service\<lparr>si_Origin := []\<rparr>) ty name (so_Protocol opts) (so_TargetPort opts) w0 = (Inr (), w1)"
    by auto
  from expose_found [OF found] assms(3,4) have none: "found = None" and w0: "files w0 = files w" by auto
  have "service\<lparr>si_Origin := []\<rparr> = requested_service opts ?a"
    using service a by (auto simp: none service_to_expose_def requested_service_def zero_ServiceInterface_def)
  with bind w0 x out show thesis using that by simp
qed

lemma unbind_run:
  assumes "router_stays_up cli w" and "wf_fs (files w)" and "services cli w = Some m"
    and "ty \<in> set validExposeTargets" and "remove_target cli a name del m = Inr m'"
  shows "\<exists>w'. ServiceInterfaceUnbind cli ty name a del w = (Inr (), w') \<and> services cli w' = Some m'"
proof -
  let ?w1 = "send (ContainerInspect ''skupper-router'') (getTimeoutContext (DockerInterface cli)) w"
  have up: "router_up cli w" "router_up cli ?w1"
    using router_stays_up_now [OF assms(1)] router_stays_up_now [OF router_stays_up_send [OF assms(1)]] .
  from modify_run [OF up(2), of m "remove_target cli a name del", OF _ _ assms(5)] remove_target_ok [OF assms(5)] assms(2,3)
  obtain w' where "removeServiceInterfaceTarget a name del cli ?w1 = (Inr (), w')" "services cli w' = Some m'"
    by (auto simp: removeServiceInterfaceTarget_def send_simps)
  then show ?thesis
    using assms(4) by (auto simp: ServiceInterfaceUnbind_def need_router_up [OF up(1)] validExposeTargets_def)
qed

lemma unbind_refused:
  assumes "router_stays_up cli w" and "services cli w = Some m"
    and "ty \<in> set validExposeTargets" and "remove_target cli a name del m = Inl e"
  shows "\<exists>w'. ServiceInterfaceUnbind cli ty name a del w = (Inl e, w') \<and> files w' = files w"
proof -
  let ?w1 = "send (ContainerInspect ''skupper-router'') (getTimeoutContext (DockerInterface cli)) w"
  let ?w2 = "send (ContainerInspect ''skupper-router'') (getTimeoutContext (DockerInterface cli)) ?w1"
  have up: "router_up cli w" "router_up cli ?w1"
    using router_stays_up_now [OF assms(1)] router_stays_up_now [OF router_stays_up_send [OF assms(1)]] .
  have "services cli ?w2 = Some m" using assms(2) by simp
  from client_services.modify_refused [where on_read = retrieve_failed and f = "remove_target cli a name del", OF this assms(4)]
  have "removeServiceInterfaceTarget a name del cli ?w1 = (Inl e, ?w2)"
    by (simp add: removeServiceInterfaceTarget_def need_router_up [OF up(2)])
  then show ?thesis
    using assms(3) by (auto simp: ServiceInterfaceUnbind_def need_router_up [OF up(1)] validExposeTargets_def send_simps)
qed

lemma names_target_valid: "names_target args ty name \<Longrightarrow> ty \<in> set validExposeTargets"
  by (auto simp: names_target_def)

text \<open>
  C34 (roundtrip). A service exposed at a free address of a site, by any of the accepted forms of the
  arguments, is the site's own with one target; \<open>unexpose\<close> with that address and the same arguments
  succeeds and leaves the services file as it was, for as long as the router is there. Without an address, which
  \<open>expose\<close> takes to be the name of the target, \<open>unexpose\<close> looks for the empty address: it fails and the
  service stays.
\<close>

theorem expose_unexpose:
  assumes "cmd_expose cli opts args w = ((out, None), w1)" and "names_target args ty name"
    and "services cli w = Some m" and "fmlookup m (exposed_address opts name) = None"
    and "wf_fs (files w)" and "int64_range (so_Port opts)" and "int64_range (so_TargetPort opts)"
    and "router_stays_up cli w1" and "fmlookup m [] = None" and "exposed_address opts name \<noteq> []"
  shows "(\<exists>d t. services cli w1 = Some (fmupd (exposed_address opts name) d m) \<and> si_Targets d = [t] \<and> si_Origin d = []) \<and>
    (\<exists>w2. cmd_unexpose cli (exposed_address opts name) args w1 = ((line (ty @ '' '' @ name @ '' unexposed''), None), w2) \<and>
      services cli w2 = services cli w) \<and>
    (\<exists>e w2. cmd_unexpose cli [] args w1 = (([], Some e), w2) \<and> files w2 = files w1)"
proof -
  let ?a = "exposed_address opts name" and ?s = "requested_service opts (exposed_address opts name)"
  from expose_success [OF assms(1-4)] obtain w0 where w0: "files w0 = files w"
    "ServiceInterfaceBind cli ?s ty name (so_Protocol opts) (so_TargetPort opts) w0 = (Inr (), w1)" by blast
  have s: "si_Address ?s = ?a" "si_Targets ?s = []" by (simp_all add: requested_service_def zero_ServiceInterface_def)
  have "service_ok ?s" using assms(6) by (simp add: requested_service_def zero_ServiceInterface_def service_ok_def)
  from bind_success [OF _ this assms(7) w0(2)] w0(1) assms(5) obtain m0 target s' t' where
    m0: "services cli w0 = Some m0" "services cli w1 = Some (put_service (addTargetToServiceInterface s' t') True m0)"
      "wf_fs (files w1)"
    and target: "st_TargetPort target \<in> {0, 9090}" "si_Port ?s = 0 \<and> so_TargetPort opts = 0 \<or> st_TargetPort target = 0"
      "ty = ''container'' \<and> st_Name target = name \<and> st_Selector target = container_selector \<or>
       ty = ''host-service'' \<and> st_Name target = host_target_name cli name \<and> st_Selector target = host_selector"
    and ports: "bind_ports (so_Protocol opts) (so_TargetPort opts) ?s target = Inr (s', t')" by metis
  have "services cli w0 = services cli w"
    unfolding services_def by (rule services_at_files [OF w0(1)])
  then have [simp]: "m0 = m" using m0(1) assms(3) by simp
  have s': "si_Address s' = ?a" "si_Targets s' = []" "st_Name t' = st_Name target" "st_Selector t' = st_Selector target"
    using ports target(1,2) s by (auto simp: bind_ports_cases split: if_splits)
  let ?d = "(addTargetToServiceInterface s' t')\<lparr>si_Origin := []\<rparr>"
  have d: "services cli w1 = Some (fmupd ?a ?d m)" "si_Targets ?d = [t']"
    using m0(2) s' by (simp_all add: put_service_def addTargetToServiceInterface_def Let_def)
  have valid: "ty \<in> set validExposeTargets" using names_target_valid [OF assms(2)] .
  have parse: "parseTargetTypeAndName args = Inr (ty, name)" by (rule names_target_parse [OF assms(2)])
  have "target_matches cli ?a name t'" using target(3) s' by (auto simp: target_matches_def Let_def)
  then have "remove_target cli ?a name True (fmupd ?a ?d m) = Inr m"
    using d(2) assms(4) by (simp add: remove_target_def Let_def fmdrop_fmupd_same fmdrop_idle fmlookup_dom_iff)
  from unbind_run [OF assms(8) m0(3) d(1) valid this] obtain w2 where
    w2: "ServiceInterfaceUnbind cli ty name ?a True w1 = (Inr (), w2)" "services cli w2 = Some m" by blast
  have "cmd_unexpose cli ?a args w1 = ((line (ty @ '' '' @ name @ '' unexposed''), None), w2)"
    using w2(1) parse assms(10) by (simp add: cmd_unexpose_def cmd_end_def)
  moreover have "\<exists>e w2. cmd_unexpose cli [] args w1 = (([], Some e), w2) \<and> files w2 = files w1"
  proof (cases "ty = ''host-service''")
    case True
    then show ?thesis using parse by (simp add: cmd_unexpose_def cmd_end_def)
  next
    case False
    have "\<exists>e. remove_target cli [] name True (fmupd ?a ?d m) = Inl e"
      using assms(9,10) by (simp add: remove_target_def)
    then obtain e where "remove_target cli [] name True (fmupd ?a ?d m) = Inl e" ..
    from unbind_refused [OF assms(8) d(1) valid this] show ?thesis
      using parse False by (auto simp: cmd_unexpose_def cmd_end_def)
  qed
  ultimately show ?thesis using d w2(2) assms(3) by auto
qed

section \<open>At a concrete site\<close>

definition sample_opts :: ServiceInterfaceCreateOptions where
  "sample_opts = \<lparr>so_Protocol = ''tcp'', so_Address = [], so_Port = 0, so_TargetPort = 5432, so_Headless = False\<rparr>"

lemma sample_expose_run:
  "\<exists>w1. cmd_expose sample_cli sample_opts [''container'', ''pg3''] sample_site =
      ((line ''container pg3 exposed as pg3'', None), w1) \<and> router_stays_up sample_cli w1"
proof -
  let ?s = "requested_service sample_opts ''pg3''"
  let ?rr = "router_request sample_cli"
  let ?t = "zero_ServiceInterfaceTarget\<lparr>st_Name := ''pg3'', st_Selector := container_selector\<rparr>"
  have up: "router_up sample_cli sample_site" by (rule router_stays_up_now [OF sample_site_up])
  from inspect_run [OF up services_sample_site, of "''pg3''"] obtain w0 where
    w0: "ServiceInterfaceInspect sample_cli ''pg3'' sample_site = (Inr None, w0)" "files w0 = files sample_site"
      "calls w0 = [?rr]" by (auto simp: sample_defs_def sample_site_def)
  let ?w1 = "send (ContainerInspect ''skupper-router'') (getTimeoutContext (DockerInterface sample_cli)) w0"
  let ?w2 = "send (ContainerInspect ''pg3'') (getTimeoutContext (DockerInterface sample_cli)) ?w1"
  have stays: "router_stays_up sample_cli w" if "calls w = [?rr, ?rr, \<lparr>rq_call = ContainerInspect ''pg3'', rq_context = ctx\<rparr>] \<or> calls w = [?rr]" for w ctx
    by (rule router_stays_up_sim [where s = "fmupd ''skupper-router'' sample_router (fmupd ''pg3'' sample_router fmempty)"])
      (use that in \<open>auto simp: sample_cli_def sim_run_def router_request_def\<close>)
  have up0: "router_up sample_cli w0" using stays [of w0] w0(3) by (intro router_stays_up_now) simp
  have "services sample_cli w0 = services sample_cli sample_site"
    unfolding services_def by (rule services_at_files [OF w0(2)])
  then have w2: "wf_fs (files ?w2)" "services sample_cli ?w2 = Some sample_defs"
    using w0(2) wf_sample_site services_sample_site by simp_all
  have calls1: "calls ?w1 = [?rr, ?rr]" using w0(3) by (simp add: router_request_def)
  have inspect: "InspectContainer ''pg3'' (DockerInterface sample_cli) ?w1 = (Inr (sim_json ''pg3'' sample_router), ?w2)"
    using w0(3) by (simp add: sample_cli_def router_request_def sim_run_def sim_answer_def)
  have target: "getServiceInterfaceTarget ''container'' ''pg3'' False sample_cli ?w1 = (Inr ?t, ?w2)"
    by (simp add: getServiceInterfaceTarget_def inspect)
  have ports: "bind_ports ''tcp'' 5432 ?s ?t = Inr (?s\<lparr>si_Port := 5432\<rparr>, ?t)"
    by (simp add: bind_ports_def requested_service_def sample_opts_def zero_ServiceInterface_def zero_ServiceInterfaceTarget_def)
  have "service_ok (addTargetToServiceInterface (?s\<lparr>si_Port := 5432\<rparr>) ?t)"
    by (rule addTarget_ok)
      (simp_all add: service_ok_def target_ok_def requested_service_def zero_ServiceInterface_def zero_ServiceInterfaceTarget_def int64_range_def)
  then obtain w1 where stored: "updateServiceInterface (addTargetToServiceInterface (?s\<lparr>si_Port := 5432\<rparr>) ?t) True sample_cli ?w2 = (Inr (), w1)"
    "calls w1 = calls ?w2"
    using client_services.modify_done [where on_read = retrieve_failed, OF w2,
        of "\<lambda>c. Inr (put_service (addTargetToServiceInterface (?s\<lparr>si_Port := 5432\<rparr>) ?t) True c)"] put_service_ok
    unfolding updateServiceInterface_def by blast
  have valid: "validateServiceInterface ?s = Inr ()"
    by (simp add: validateServiceInterface_def requested_service_def sample_opts_def port_ok_def zero_ServiceInterface_def)
  have "ServiceInterfaceBind sample_cli ?s ''container'' ''pg3'' ''tcp'' 5432 w0 = (Inr (), w1)"
    using target ports stored(1) valid
    by (simp add: ServiceInterfaceBind_def need_router_up [OF up0] requested_service_def sample_opts_def zero_ServiceInterface_def)
  then have "cmd_expose sample_cli sample_opts [''container'', ''pg3''] sample_site = ((line ''container pg3 exposed as pg3'', None), w1)"
    using w0(1)
    by (simp add: cmd_expose_def cmd_end_def parseTargetTypeAndName_def index_args_def Let_def expose_def service_to_expose_def
        sample_opts_def requested_service_def zero_ServiceInterface_def)
  moreover have "router_stays_up sample_cli w1"
    using stays [of w1] stored(2) calls1 by simp
  ultimately show ?thesis by blast
qed

lemma expose_unexpose_witness:
  "\<exists>w1 w2 e w3. cmd_expose sample_cli sample_opts [''container'', ''pg3''] sample_site =
      ((line ''container pg3 exposed as pg3'', None), w1) \<and>
    cmd_unexpose sample_cli ''pg3'' [''container'', ''pg3''] w1 = ((line ''container pg3 unexposed'', None), w2) \<and>
    services sample_cli w2 = Some sample_defs \<and>
    cmd_unexpose sample_cli [] [''container'', ''pg3''] w1 = (([], Some e), w3)"
proof -
  from sample_expose_run obtain w1 where
    w1: "cmd_expose sample_cli sample_opts [''container'', ''pg3''] sample_site =
      ((line ''container pg3 exposed as pg3'', None), w1)" "router_stays_up sample_cli w1" by blast
  have names: "names_target [''container'', ''pg3''] ''container'' ''pg3''"
    by (simp add: names_target_def validExposeTargets_def)
  have a: "exposed_address sample_opts ''pg3'' = ''pg3''" "so_Port sample_opts = 0" "so_TargetPort sample_opts = 5432"
    by (simp_all add: exposed_address_def sample_opts_def)
  have free: "fmlookup sample_defs (exposed_address sample_opts ''pg3'') = None" "fmlookup sample_defs [] = None"
    by (simp_all add: a sample_defs_def)
  from expose_unexpose [OF w1(1) names services_sample_site free(1) wf_sample_site _ _ w1(2) free(2)] w1(1) services_sample_site
  show ?thesis by (simp add: a int64_range_def) blast
qed

end
