(* ===== verification/Sites.thy ===== *)
theory Sites
  imports Exposing
begin

text \<open>
  The life of a site on the host: what \<open>RouterCreate\<close> writes and asks for, and what \<open>RouterRemove\<close> takes
  away. The files an operation leaves alone are a set of paths (\<open>same_at\<close>), so that each step of the
  creation is accounted for by where it may write.
\<close>

section \<open>Paths left alone\<close>

definition same_at :: "path set \<Rightarrow> World \<Rightarrow> World \<Rightarrow> bool" where
  "same_at Q w w' \<longleftrightarrow> (\<forall>q \<in> Q. fmlookup (files w') q = fmlookup (files w) q)"

interpretation alone: step_relation "same_at Q" for Q
  by unfold_locales (auto simp: same_at_def reflp_def transp_def)

named_theorems leaving \<open>operations that leave a set of paths alone\<close>

lemmas [leaving] = alone.kept alone.kept_option alone.kept_prod alone.kept_sum

lemma same_at_docker: "keeps docker_step m \<Longrightarrow> keeps (same_at Q) m"
  by (auto simp: keeps_def same_at_def docker_step_def)

lemma leaving_reads [leaving]:
  "keeps (same_at Q) (os_ReadFile h s)" "keeps (same_at Q) (os_ReadDir h s)"
  by (intro alone.kept_same only_reads)+

lemma leaving_writes [leaving]:
  "resolve h s \<notin> Q \<Longrightarrow> keeps (same_at Q) (os_WriteFile h s c)"
  "resolve h s \<notin> Q \<Longrightarrow> keeps (same_at Q) (os_Mkdir h s)"
  by (auto simp: keeps_def same_at_def os_defs fs_WriteFile_def fs_Mkdir_def)

text \<open>Making a directory changes no entry that is there.\<close>

definition more_entries :: "World \<Rightarrow> World \<Rightarrow> bool" where
  "more_entries w w' \<longleftrightarrow> (\<forall>q n. fmlookup (files w) q = Some n \<longrightarrow> fmlookup (files w') q = Some n)"

interpretation more: step_relation more_entries
  by unfold_locales (auto simp: more_entries_def reflp_def transp_def)

lemma more_Mkdir: "keeps more_entries (os_Mkdir h s)"
  by (auto simp: keeps_def more_entries_def os_defs fs_Mkdir_def fmlookup_dom_iff)

lemma more_docker: "keeps docker_step m \<Longrightarrow> keeps more_entries m"
  by (auto simp: keeps_def more_entries_def docker_step_def)

lemma mkdirs_lookup: "q \<notin> set ps \<Longrightarrow> fmlookup (snd (mkdirs ps fs)) q = fmlookup fs q"
  by (induction ps arbitrary: fs) (auto split: option.split node.split)

lemma leaving_MkdirAll [leaving]:
  "\<forall>q \<in> Q. \<not> prefix q (resolve h s) \<Longrightarrow> keeps (same_at Q) (os_MkdirAll h s)"
proof -
  assume Q: "\<forall>q \<in> Q. \<not> prefix q (resolve h s)"
  have "q \<notin> set (tl (prefixes (resolve h s)))" if "q \<in> Q" for q
  proof
    assume "q \<in> set (tl (prefixes (resolve h s)))"
    then have "q \<in> set (prefixes (resolve h s))" by (cases "prefixes (resolve h s)") simp_all
    then show False using Q that by (simp add: in_set_prefixes)
  qed
  then have "fmlookup (snd (mkdirs (tl (prefixes (resolve h s))) fs)) q = fmlookup fs q" if "q \<in> Q" for q fs
    using that by (simp add: mkdirs_lookup)
  then show ?thesis
    by (auto simp: keeps_def same_at_def os_MkdirAll_def fs_MkdirAll_def split: prod.split) (metis snd_conv)
qed

lemma leaving_RemoveAll [leaving]:
  "\<forall>q \<in> Q. \<not> prefix (resolve h s) q \<Longrightarrow> keeps (same_at Q) (os_RemoveAll h s)"
  by (auto simp: keeps_def same_at_def os_defs fs_RemoveAll_def)

section \<open>Taking a site down\<close>

text \<open>The requests a removal may send, and in which order: containers of the site and the listed proxies
  only, each removed right after it was stopped.\<close>

definition proxy_ids :: "ContainerSummary list \<Rightarrow> string list" where
  "proxy_ids listed = map ct_ID (filter (\<lambda>c. fmlookup (ct_Labels c) ''skupper.io/component'' = Some ''proxy'') listed)"

definition own_container :: "string list \<Rightarrow> string \<Rightarrow> bool" where
  "own_container proxies n \<longleftrightarrow> n = ControllerDeploymentName \<or> n = TransportDeploymentName \<or> n \<in> set proxies"

fun removal_call :: "string list \<Rightarrow> docker_call \<Rightarrow> bool" where
  "removal_call proxies (ContainerStop n t) \<longleftrightarrow> own_container proxies n"
| "removal_call proxies (ContainerRemove n) \<longleftrightarrow> own_container proxies n"
| "removal_call proxies (NetworkDisconnect net n force) \<longleftrightarrow> net = ''skupper-network''"
| "removal_call proxies (NetworkRemove net) \<longleftrightarrow> net = ''skupper-network''"
| "removal_call proxies (ContainerInspect n) \<longleftrightarrow> True"
| "removal_call proxies (ContainerList options) \<longleftrightarrow> True"
| "removal_call proxies (NetworkInspect net) \<longleftrightarrow> True"
| "removal_call proxies _ \<longleftrightarrow> False"

fun stops_first :: "docker_call option \<Rightarrow> docker_call list \<Rightarrow> bool" where
  "stops_first prev [] \<longleftrightarrow> True"
| "stops_first prev (c # cs) \<longleftrightarrow>
     (case c of
        ContainerRemove n \<Rightarrow> (case prev of Some (ContainerStop m t) \<Rightarrow> m = n | _ \<Rightarrow> False)
      | _ \<Rightarrow> True) \<and> stops_first (Some c) cs"

lemma stops_first_start: "stops_first None cs \<Longrightarrow> stops_first prev cs"
  by (cases cs) (auto split: docker_call.splits)

lemma stops_first_append: "stops_first prev xs \<Longrightarrow> stops_first None ys \<Longrightarrow> stops_first prev (xs @ ys)"
  by (induction xs arbitrary: prev) (auto intro: stops_first_start)

definition takedown :: "string list \<Rightarrow> World \<Rightarrow> World \<Rightarrow> bool" where
  "takedown proxies w w' \<longleftrightarrow> (\<exists>rs. map rq_call (calls w') = map rq_call (calls w) @ rs \<and>
     list_all (removal_call proxies) rs \<and> stops_first None rs)"

interpretation removing: step_relation "takedown proxies" for proxies
proof unfold_locales
  show "reflp (takedown proxies)" by (auto simp: takedown_def reflp_def intro: exI [of _ "[]"])
  show "transp (takedown proxies)"
    unfolding takedown_def transp_def by (auto intro: stops_first_append)
qed

lemma takedown_call:
  assumes "removal_call proxies call" and "\<And>n. call \<noteq> ContainerRemove n"
  shows "keeps (takedown proxies) (api_call d ctx call answer)"
proof -
  have "stops_first None [call]" using assms(2) by (cases call) auto
  then show ?thesis
    using assms(1) by (auto simp: keeps_def takedown_def api_call_def Let_def send_def split: option.split)
qed

lemma takedown_stop_and_remove:
  assumes "own_container proxies name"
  shows "keeps (takedown proxies) (stop_and_remove a b name dd)"
  unfolding keeps_def
proof
  fix w
  obtain r w1 where stop: "StopContainer name dd w = (r, w1)" by fastforce
  have c1: "calls w1 = calls w @ [\<lparr>rq_call = ContainerStop name (10 * second), rq_context = getCustomTimeoutContext dd (10 * second)\<rparr>]"
    using api_call_calls stop unfolding StopContainer_def dd_StopContainer_def by blast
  show "takedown proxies w (snd (stop_and_remove a b name dd w))"
  proof (cases r)
    case (Inl e)
    then show ?thesis
      using stop c1 assms by (simp add: stop_and_remove_def takedown_def)
  next
    case (Inr x)
    obtain r2 w2 where remove: "RemoveContainer name dd w1 = (r2, w2)" by fastforce
    have "calls w2 = calls w1 @ [\<lparr>rq_call = ContainerRemove name, rq_context = getTimeoutContext dd\<rparr>]"
      using api_call_calls remove unfolding RemoveContainer_def dd_RemoveContainer_def by blast
    then show ?thesis
      using stop remove c1 Inr assms by (cases r2) (simp_all add: stop_and_remove_def takedown_def)
  qed
qed

lemma takedown_inspect: "keeps (takedown proxies) (InspectContainer n dd)"
  unfolding InspectContainer_def dd_InspectContainer_def by (rule takedown_call) simp_all

lemma takedown_remove_if_there:
  assumes "own_container proxies name"
  shows "keeps (takedown proxies) (remove_if_there a b name dd)"
  unfolding remove_if_there_def
  by (intro removing.kept removing.kept_sum takedown_inspect takedown_stop_and_remove assms)

lemma takedown_proxies:
  "set (proxy_ids cs) \<subseteq> set proxies \<Longrightarrow> keeps (takedown proxies) (remove_proxies cs dd)"
proof (induction cs)
  case Nil
  show ?case unfolding remove_proxies.simps by (rule removing.kept)
next
  case (Cons c cs)
  then have rest: "keeps (takedown proxies) (remove_proxies cs dd)" by (auto simp: proxy_ids_def split: if_splits)
  show ?case
  proof (cases "fmlookup (ct_Labels c) ''skupper.io/component'' = Some ''proxy''")
    case True
    then have "own_container proxies (ct_ID c)" using Cons.prems by (simp add: proxy_ids_def own_container_def)
    then show ?thesis
      unfolding remove_proxies.simps if_P [OF True] by (intro removing.kept takedown_stop_and_remove rest)
  next
    case False
    show ?thesis unfolding remove_proxies.simps if_not_P [OF False] by (rule rest)
  qed
qed

lemma takedown_network: "keeps (takedown proxies) (remove_site_network cli)"
  unfolding remove_site_network_def InspectNetworkOp_def RemoveNetwork_def dd_InspectNetwork_def
    dd_DisconnectContainerFromNetwork_def dd_RemoveNetwork_def
  by (intro removing.kept removing.kept_sum removing.kept_prod takedown_call) simp_all

lemma removal_ends:
  "\<exists>es w'. stop_and_remove a b name dd w = (Inr es, w')"
  "\<exists>es w'. remove_if_there a b name dd w = (Inr es, w')"
  "\<exists>es w'. remove_proxies cs dd w = (Inr es, w')"
  "\<exists>es w'. remove_all_proxies dd w = (Inr es, w')"
  "\<exists>es w'. remove_site_network cli w = (Inr es, w')"
proof -
  show stop: "\<exists>es w'. stop_and_remove a b name dd w = (Inr es, w')" for a b name w
    by (auto simp: stop_and_remove_def tryE_def split: prod.split sum.split)
  show "\<exists>es w'. remove_if_there a b name dd w = (Inr es, w')"
    using stop by (simp add: remove_if_there_def tryE_def split: prod.split sum.split)
  show proxies: "\<exists>es w'. remove_proxies cs dd w = (Inr es, w')" for cs w
  proof (induction cs arbitrary: w)
    case (Cons c cs)
    obtain es w1 where es: "stop_and_remove ''Failed to stop proxy container'' ''Failed to remove proxy container'' (ct_ID c) dd w = (Inr es, w1)"
      using stop by blast
    obtain rest w2 where "remove_proxies cs dd w1 = (Inr rest, w2)" using Cons by blast
    then show ?case using es Cons [of w] by simp
  qed simp
  show "\<exists>es w'. remove_all_proxies dd w = (Inr es, w')"
    using proxies by (simp add: remove_all_proxies_def tryE_def split: prod.split sum.split)
  show "\<exists>es w'. remove_site_network cli w = (Inr es, w')"
    by (simp add: remove_site_network_def tryE_def split: prod.split sum.split)
qed

lemma remove_all_proxies_run:
  assumes "remove_all_proxies dd w = (r, w')"
  shows "\<exists>listed. (listed = [] \<or> fst (ListContainers \<lparr>lo_All = True, lo_Labels = [''skupper.io/component'']\<rparr> dd w) = Inr listed) \<and>
    takedown (proxy_ids listed) w w'"
proof -
  let ?opts = "\<lparr>lo_All = True, lo_Labels = [''skupper.io/component'']\<rparr>"
  obtain q w1 where list: "ListContainers ?opts dd w = (q, w1)" by fastforce
  have asked: "takedown proxies w w1" for proxies
    using takedown_call [of proxies "ContainerList ?opts", THEN keepsD] list
    unfolding ListContainers_def dd_ListContainers_def by simp
  show ?thesis
  proof (cases q)
    case (Inl e)
    then have "w' = w1" using assms list by (simp add: remove_all_proxies_def)
    then show ?thesis using asked by blast
  next
    case (Inr listed)
    then have "remove_proxies listed dd w1 = (r, w')" using assms list by (simp add: remove_all_proxies_def)
    then have "takedown (proxy_ids listed) w1 w'" using takedown_proxies [of listed] by (auto intro: keepsD)
    then have "takedown (proxy_ids listed) w w'"
      using asked removing.trans_R [THEN transpD] by blast
    then show ?thesis using list Inr by auto
  qed
qed

lemma docker_removal [docker_only]:
  "keeps docker_step (stop_and_remove a b name dd)" "keeps docker_step (remove_if_there a b name dd)"
  "keeps docker_step (remove_proxies cs dd)" "keeps docker_step (remove_all_proxies dd)"
  "keeps docker_step (remove_site_network cli)"
proof -
  show stop: "keeps docker_step (stop_and_remove a b name dd)" for a b name
    unfolding stop_and_remove_def by (intro docker.kept docker.kept_sum docker_only)
  show "keeps docker_step (remove_if_there a b name dd)"
    unfolding remove_if_there_def by (intro docker.kept docker.kept_sum docker_only stop)
  show proxies: "keeps docker_step (remove_proxies cs dd)" for cs
  proof (induction cs)
    case Nil
    show ?case unfolding remove_proxies.simps by (rule docker.kept)
  next
    case (Cons c cs)
    then show ?case unfolding remove_proxies.simps by (auto intro: docker.kept stop)
  qed
  show "keeps docker_step (remove_all_proxies dd)"
    unfolding remove_all_proxies_def by (intro docker.kept docker.kept_sum docker_only proxies)
  show "keeps docker_step (remove_site_network cli)"
    unfolding remove_site_network_def InspectNetworkOp_def RemoveNetwork_def
    by (intro docker.kept docker.kept_sum docker.kept_prod docker_only)
qed

text \<open>
  C14 (safety). \<open>RouterRemove\<close> always runs to its end, whatever the daemon answers, and collects the errors.
  It leaves no file of the site's directory and changes no other file; it stops and removes only the
  controller, the router and the containers listed with the label of a proxy, each removed right after it was
  stopped; and the only network it takes apart is \<open>skupper-network\<close>.
\<close>

theorem router_remove_result:
  assumes "site_at cli d"
  shows "\<exists>errors w' v listed. RouterRemove cli w = (Inr errors, w') \<and>
    files w' = fs_RemoveAll (files w) (d @ [''skupper'']) \<and> docker_step w v \<and>
    (listed = [] \<or> fst (ListContainers \<lparr>lo_All = True, lo_Labels = [''skupper.io/component'']\<rparr> (DockerInterface cli) v) = Inr listed) \<and>
    takedown (proxy_ids listed) w w'"
proof -
  let ?dd = "DockerInterface cli"
  note stop1 = removal_ends(2) [of "''Could not stop controller container''" "''Could not remove controller container''"
      ControllerDeploymentName ?dd w]
  then obtain e1 w1 where r1: "remove_if_there ''Could not stop controller container'' ''Could not remove controller container''
      ControllerDeploymentName ?dd w = (Inr e1, w1)" by blast
  obtain e2 w2 where r2: "remove_all_proxies ?dd w1 = (Inr e2, w2)" using removal_ends(4) by blast
  obtain e3 w3 where r3: "remove_if_there ''Could not stop transport container'' ''Could not remove controller container''
      TransportDeploymentName ?dd w2 = (Inr e3, w3)" using removal_ends(2) by blast
  obtain e4 w4 where r4: "remove_site_network cli w3 = (Inr e4, w4)" using removal_ends(5) by blast
  let ?w5 = "w4\<lparr>files := fs_RemoveAll (files w4) (d @ [''skupper''])\<rparr>"
  have path: "resolve (Host cli) (skupper_path cli HostPath) = d @ [''skupper'']"
    using resolve_skupper [OF assms, of "[]" "Host cli" HostPath] by (simp add: skupper_path_def sub_path_def)
  have r5: "remove_host_files cli w4 = (Inr [], ?w5)"
    using assms by (simp add: remove_host_files_def os_RemoveAll_def path)
  have run: "RouterRemove cli w = (Inr (e1 @ e2 @ e3 @ e4), ?w5)"
    using r1 r2 r3 r4 r5 by (simp add: RouterRemove_def Let_def)
  note step = docker_onlyD [OF docker_removal(2) r1] docker_onlyD [OF docker_removal(4) r2]
    docker_onlyD [OF docker_removal(2) r3] docker_onlyD [OF docker_removal(5) r4]
  from remove_all_proxies_run [OF r2] obtain listed where
    listed: "listed = [] \<or> fst (ListContainers \<lparr>lo_All = True, lo_Labels = [''skupper.io/component'']\<rparr> ?dd w1) = Inr listed"
      "takedown (proxy_ids listed) w1 w2" by blast
  have own: "own_container p ControllerDeploymentName" "own_container p TransportDeploymentName" for p
    by (simp_all add: own_container_def)
  have "takedown (proxy_ids listed) w w1" "takedown (proxy_ids listed) w2 w3" "takedown (proxy_ids listed) w3 w4"
    using keepsD [OF takedown_remove_if_there [OF own(1)] r1] keepsD [OF takedown_remove_if_there [OF own(2)] r3]
      keepsD [OF takedown_network r4] by blast+
  then have "takedown (proxy_ids listed) w w4"
    using listed(2) removing.trans_R [of "proxy_ids listed"] unfolding transp_def by blast
  then have "takedown (proxy_ids listed) w ?w5" by (simp add: takedown_def)
  moreover have "files ?w5 = fs_RemoveAll (files w) (d @ [''skupper''])" using step by simp
  moreover have "docker_step w w1" using step by (simp add: docker_step_def)
  ultimately show ?thesis using run listed(1) by blast
qed

lemma router_remove_result_witness:
  "\<exists>errors w'. RouterRemove site_cli (site_world west_config ''uid'' fmempty) = (Inr errors, w') \<and>
    fmlookup (files w') [''t'', ''skupper'', ''config'', ''qdrouterd.json''] = None \<and>
    fmlookup (files w') [''token''] \<noteq> None"
proof -
  from router_remove_result [OF site_cli_at, of "site_world west_config ''uid'' fmempty"] obtain errors w' where
    run: "RouterRemove site_cli (site_world west_config ''uid'' fmempty) = (Inr errors, w')"
      "files w' = fs_RemoveAll (files (site_world west_config ''uid'' fmempty)) [''t'', ''skupper'']" by auto
  have "fmlookup (files w') [''t'', ''skupper'', ''config'', ''qdrouterd.json''] = None"
    by (simp add: run(2) fs_RemoveAll_def)
  moreover have "fmlookup (files w') [''token''] \<noteq> None"
    by (simp add: run(2) fs_RemoveAll_def site_world_def)
  ultimately show ?thesis using run(1) by blast
qed

end
