(* ===== verification/Creation.thy ===== *)
theory Creation
  imports Sites
begin

text \<open>
  What \<open>RouterCreate\<close> leaves on the host and asks the daemon for: the directories and the three files a
  site consists of, whatever was there before, and the requests in their order.
\<close>

section \<open>Where the steps write\<close>

definition services_at_path :: "path \<Rightarrow> path" where
  "services_at_path d = d @ [''skupper'', ''services'', ''skupper-services'']"

definition site_path :: "path \<Rightarrow> path" where
  "site_path d = d @ [''skupper'', ''sites'', ''skupper0.json'']"

definition certs_dir :: "path \<Rightarrow> path" where
  "certs_dir d = d @ [''skupper'', ''qpid-dispatch-certs'']"

text \<open>The certificate package names its files plainly.\<close>

definition plain_certs :: "host \<Rightarrow> bool" where
  "plain_certs h \<longleftrightarrow>
     (\<forall>name subject. fmpred (\<lambda>k _. plain k) (h_ca_cert h name subject)) \<and>
     (\<forall>name subject hosts ca. fmpred (\<lambda>k _. plain k) (h_gen_cert h name subject hosts ca))"

lemma resolve_under:
  assumes "site_at cli d" and "list_all plain es"
  shows "resolve (Host cli) (skupper_path cli p @ abs_path es) = d @ ''skupper'' # sub_path p @ es"
  using resolve_skupper [OF assms] by (simp add: skupper_path_def)

lemma resolve_cert:
  assumes "site_at cli d" and "plain name"
  shows "resolve (Host cli) (skupper_path cli CertsPath @ CHR ''/'' # name) = certs_dir d @ [name]"
    and "plain k \<Longrightarrow> resolve (Host cli) (skupper_path cli CertsPath @ CHR ''/'' # name @ CHR ''/'' # k) = certs_dir d @ [name, k]"
  using resolve_under [OF assms(1), of "[name]" CertsPath] resolve_under [OF assms(1), of "[name, k]" CertsPath] assms(2)
  by (simp_all add: certs_dir_def sub_path_def)

definition off_certs :: "path \<Rightarrow> path set \<Rightarrow> bool" where
  "off_certs d Q \<longleftrightarrow> (\<forall>q \<in> Q. \<not> prefix (certs_dir d) q)"

lemma off_certs_not_in: "off_certs d Q \<Longrightarrow> certs_dir d @ es \<notin> Q"
  by (auto simp: off_certs_def)

lemma leaving_write_certs:
  assumes "site_at cli d" and "plain name" and "fmpred (\<lambda>k _. plain k) data" and "off_certs d Q"
    and "range_ok (h_rng (Host cli))"
  shows "keeps (same_at Q) (write_certs cli name msg data)"
  unfolding write_certs_def
proof (rule keeps_forE [OF _ alone.refl_R alone.trans_R])
  fix kv
  assume "kv \<in> set (range_of (h_rng (Host cli)) data)"
  moreover obtain k v where kv: "kv = (k, v)" by (cases kv)
  ultimately have "plain k" using assms(3,5) by (auto simp: range_of_iff fmpred_iff)
  then have "resolve (Host cli) (skupper_path cli CertsPath @ CHR ''/'' # name @ CHR ''/'' # k) \<notin> Q"
    using resolve_cert(2) [OF assms(1,2)] off_certs_not_in [OF assms(4)] by simp
  then show "keeps (same_at Q) (case kv of (k, v) \<Rightarrow>
      bindE (Wrapf msg) (os_WriteFile (Host cli) (skupper_path cli CertsPath @ ''/'' @ name @ ''/'' @ k) v) returnE)"
    unfolding kv by (auto intro!: leaving)
qed

lemma leaving_ensureCA:
  assumes "site_at cli d" and "plain name" and "plain_certs (Host cli)" and "off_certs d Q"
    and "range_ok (h_rng (Host cli))"
  shows "keeps (same_at Q) (ensureCA cli name)"
proof -
  have "resolve (Host cli) (skupper_path cli CertsPath @ ''/'' @ name) \<notin> Q"
    using resolve_cert(1) [OF assms(1,2)] off_certs_not_in [OF assms(4)] by simp
  moreover have "fmpred (\<lambda>k _. plain k) (h_ca_cert (Host cli) name name)"
    using assms(3) by (simp add: plain_certs_def)
  ultimately show ?thesis
    unfolding ensureCA_def Let_def
    by (intro leaving leaving_write_certs [OF assms(1,2) _ assms(4,5)])
qed

lemma leaving_generateCredentials:
  assumes "site_at cli d" and "plain name" and "plain_certs (Host cli)" and "off_certs d Q"
    and "range_ok (h_rng (Host cli))"
  shows "keeps (same_at Q) (generateCredentials cli ca name subject hosts json)"
proof -
  have "plain ''connect.json''" by (simp add: plain_def)
  then have connect: "resolve (Host cli) (skupper_path cli CertsPath @ ''/'' @ name @ ''/connect.json'') \<notin> Q"
    using resolve_cert(2) [OF assms(1,2)] off_certs_not_in [OF assms(4)] by simp
  have data: "fmpred (\<lambda>k _. plain k) (h_gen_cert (Host cli) name subject hosts' caData)" for hosts' caData
    using assms(3) by (simp add: plain_certs_def)
  show ?thesis
  proof (cases json)
    case True
    show ?thesis
      unfolding generateCredentials_def if_P [OF True]
      by (intro leaving alone.kept_same only_reads leaving_write_certs [OF assms(1,2) data assms(4,5)] connect)
  next
    case False
    show ?thesis
      unfolding generateCredentials_def if_not_P [OF False]
      by (intro leaving alone.kept_same only_reads leaving_write_certs [OF assms(1,2) data assms(4,5)])
  qed
qed

lemma leaving_make_certificates:
  assumes "site_at cli d" and "plain_certs (Host cli)" and "off_certs d Q" and "range_ok (h_rng (Host cli))"
  shows "keeps (same_at Q) (make_certificates cli (router_spec cli options siteId name))"
proof -
  have cas: "plain (ca_Name ca)" if "ca \<in> set (site_authorities options)" for ca
    using that by (auto simp: site_authorities_def plain_def split: if_splits)
  have creds: "plain (cd_Name c)" if "c \<in> set (site_credentials options)" for c
    using that by (auto simp: site_credentials_def plain_def split: if_splits)
  have "keeps (same_at Q) (forE (\<lambda>ca. logged (ensureCA cli (ca_Name ca))) (site_authorities options))"
    by (intro keeps_forE [OF _ alone.refl_R alone.trans_R] leaving leaving_ensureCA [OF assms(1) _ assms(2-4)] cas)
  moreover have "keeps (same_at Q) (forE (\<lambda>c. logged (generateCredentials cli (cd_CA c) (cd_Name c) (cd_Subject c)
      (cd_Hosts c) (cd_ConnectJson c))) (site_credentials options))"
    by (intro keeps_forE [OF _ alone.refl_R alone.trans_R] leaving leaving_generateCredentials [OF assms(1) _ assms(2-4)] creds)
  ultimately show ?thesis
    unfolding make_certificates_def router_spec_def by (auto intro!: leaving)
qed

lemma leaving_docker [leaving]:
  "keeps (same_at Q) (NewTransportNetwork n dd)" "keeps (same_at Q) (NewTransportContainer rng van dd)"
  "keeps (same_at Q) (NewControllerContainer rng van dd)" "keeps (same_at Q) (StartContainer n dd)"
  "keeps (same_at Q) (dd_PullImage dd ref auth)" "keeps (same_at Q) (van_name cli options)"
proof -
  have "keeps docker_step (NewTransportNetwork n dd)"
    unfolding NewTransportNetwork_def by (auto intro: docker.kept docker_only)
  moreover have "keeps docker_step (NewTransportContainer rng van dd)" "keeps docker_step (NewControllerContainer rng van dd)"
    unfolding NewTransportContainer_def NewControllerContainer_def Let_def by (intro docker.kept docker_only)+
  moreover have "keeps docker_step (van_name cli options)"
    unfolding van_name_def by (auto intro!: docker.kept docker.kept_sum docker_only)
  ultimately show "keeps (same_at Q) (NewTransportNetwork n dd)" "keeps (same_at Q) (NewTransportContainer rng van dd)"
    "keeps (same_at Q) (NewControllerContainer rng van dd)" "keeps (same_at Q) (StartContainer n dd)"
    "keeps (same_at Q) (dd_PullImage dd ref auth)" "keeps (same_at Q) (van_name cli options)"
    by (auto intro: same_at_docker docker_only)
qed

lemma leaving_launch:
  assumes "site_at cli d" and "plain_certs (Host cli)" and "off_certs d Q" and "range_ok (h_rng (Host cli))"
  shows "keeps (same_at Q) (launch cli (router_spec cli options siteId name))"
  unfolding launch_def Let_def by (intro leaving leaving_make_certificates [OF assms])

text \<open>The directories are made with \<open>Mkdir\<close> alone: entries that are there stay, and only paths below the site's
  own directory, none of them below \<open>connections\<close>, are made.\<close>

lemma more_make_directories: "keeps more_entries (make_directories cli van)"
  unfolding make_directories_def by (intro more.kept more.kept_prod more_Mkdir)

definition made_dirs :: "path \<Rightarrow> path set" where
  "made_dirs d = {d @ [''skupper'', p] | p. p \<in> {''sasl-config'', ''console-users'', ''config'', ''connections'', ''qpid-dispatch-certs'', ''services''}} \<union>
     {certs_dir d @ [v] | v. v \<in> set [''skupper'', ''skupper-amqps'', ''router-config'', ''skupper-internal'', ''skupper-console-users'', ''skupper-sasl-config'']}"

lemma leaving_make_directories:
  assumes "site_at cli d" and "Q \<inter> made_dirs d = {}" and "range_ok (h_rng (Host cli))"
  shows "keeps (same_at Q) (make_directories cli (router_spec cli options siteId name))"
proof -
  have dir: "keeps (same_at Q) (os_Mkdir (Host cli) (skupper_path cli p))"
    if "p \<in> {SaslConfigPath, ConsoleUsersPath, ConfigPath, ConnectionsPath, CertsPath, ServicesPath}" for p
  proof -
    have "resolve (Host cli) (skupper_path cli p) \<in> made_dirs d"
      using resolve_under [OF assms(1), of "[]" p] that by (auto simp: made_dirs_def sub_path_def)
    then show ?thesis using assms(2) by (intro leaving) blast
  qed
  have "keeps (same_at Q) (forE (\<lambda>(mnt, _). os_Mkdir (Host cli) mnt) (range_of (h_rng (Host cli)) (transport_mounts cli)))"
  proof (rule keeps_forE [OF _ alone.refl_R alone.trans_R])
    fix kv
    assume "kv \<in> set (range_of (h_rng (Host cli)) (transport_mounts cli))"
    moreover obtain k v where kv: "kv = (k, v)" by (cases kv)
    ultimately have "fmlookup (transport_mounts cli) k = Some v" using assms(3) by (simp add: range_of_iff)
    then have "k \<in> skupper_path cli ` {SaslConfigPath, ConsoleUsersPath, ConfigPath, ConnectionsPath, CertsPath}"
      by (auto simp: transport_mounts_def fmlookup_of_list split: if_splits)
    then show "keeps (same_at Q) (case kv of (mnt, _) \<Rightarrow> os_Mkdir (Host cli) mnt)"
      unfolding kv using dir by auto
  qed
  moreover have "keeps (same_at Q) (forE (\<lambda>v. os_Mkdir (Host cli) (skupper_path cli CertsPath @ ''/'' @ v)) (transport_volumes options))"
  proof (rule keeps_forE [OF _ alone.refl_R alone.trans_R])
    fix v
    assume "v \<in> set (transport_volumes options)"
    then have v: "v \<in> set [''skupper'', ''skupper-amqps'', ''router-config'', ''skupper-internal'', ''skupper-console-users'', ''skupper-sasl-config'']"
      by (auto simp: transport_volumes_def split: if_splits)
    then have "plain v" by (auto simp: plain_def)
    then have "resolve (Host cli) (skupper_path cli CertsPath @ ''/'' @ v) \<in> made_dirs d"
      using resolve_cert(1) [OF assms(1)] v by (auto simp: made_dirs_def)
    then show "keeps (same_at Q) (os_Mkdir (Host cli) (skupper_path cli CertsPath @ ''/'' @ v))"
      using assms(2) by (intro leaving) blast
  qed
  ultimately show ?thesis
    unfolding make_directories_def router_spec_def RouterSpec.simps DeploymentSpec.simps
    by (intro alone.kept(4)) (assumption | rule dir, simp)+
qed

section \<open>The files written\<close>

lemma os_WriteFile_Inr:
  "os_WriteFile h s c w = (Inr (), w') \<Longrightarrow> fmlookup (files w') (resolve h s) = Some (File c) \<and> resolve h s \<noteq> []"
  by (auto simp: os_WriteFile_def fs_WriteFile_def split: if_splits)

lemma console_writes:
  assumes "site_at cli d" and "plain (sc_User options)"
    and "\<forall>q \<in> Q. \<not> prefix (d @ [''skupper'', ''sasl-config'']) q \<and> \<not> prefix (d @ [''skupper'', ''console-users'']) q"
  shows "keeps (same_at Q) (bindE id
      (os_WriteFile (Host cli) (skupper_path cli SaslConfigPath @ ''/qdrouterd.conf'') sasl_config) (\<lambda>_.
      os_WriteFile (Host cli) (skupper_path cli ConsoleUsersPath @ ''/'' @ sc_User options) (sc_Password options)))"
proof -
  have "plain ''qdrouterd.conf''" by (simp add: plain_def)
  then have "resolve (Host cli) (skupper_path cli SaslConfigPath @ ''/qdrouterd.conf'') = d @ [''skupper'', ''sasl-config''] @ [''qdrouterd.conf'']"
    "resolve (Host cli) (skupper_path cli ConsoleUsersPath @ ''/'' @ sc_User options) = d @ [''skupper'', ''console-users''] @ [sc_User options]"
    using resolve_under [OF assms(1), of "[''qdrouterd.conf'']" SaslConfigPath]
      resolve_under [OF assms(1), of "[sc_User options]" ConsoleUsersPath] assms(2) by (simp_all add: sub_path_def)
  moreover have "d @ [''skupper'', ''sasl-config''] @ [''qdrouterd.conf''] \<notin> Q" "d @ [''skupper'', ''console-users''] @ [sc_User options] \<notin> Q"
    using assms(3) by (metis append_assoc prefixI)+
  ultimately show ?thesis by (intro leaving) simp_all
qed

lemma resolve_services: "site_at cli d \<Longrightarrow>
    resolve (Host cli) (skupper_path cli ServicesPath @ ''/skupper-services'') = services_at_path d"
  using resolve_under [of cli d "[''skupper-services'']" ServicesPath]
  by (simp add: services_at_path_def sub_path_def plain_def)

lemma resolve_site: "site_at cli d \<Longrightarrow> resolve (Host cli) (site_file cli DefaultBridgeName) = site_path d"
  using resolve_under [of cli d "[''skupper0.json'']" SitesPath]
  by (simp add: site_file_def DefaultBridgeName_def site_path_def sub_path_def plain_def)

lemma site_paths_apart:
  "services_at_path d \<noteq> config_path d" "services_at_path d \<noteq> site_path d" "config_path d \<noteq> site_path d"
  "off_certs d {services_at_path d, config_path d, site_path d}"
  by (simp_all add: services_at_path_def config_path_def site_path_def off_certs_def certs_dir_def)

text \<open>After the files of a site are written the three of them are there.\<close>

lemma write_site_files_run:
  assumes "site_at cli d" and "plain (sc_User options) \<or> \<not> (sc_EnableConsole options \<and> sc_AuthMode options = ConsoleAuthModeInternal)"
    and "write_site_files cli options van w = (Inr (), w')"
  shows "fmlookup (files w') (services_at_path d) = Some (File (marshal_defs fmempty))"
    and "fmlookup (files w') (config_path d) = Some (File (rs_RouterConfig van))"
    and "fmlookup (files w') (site_path d) = fmlookup (files w) (site_path d)"
proof -
  let ?Q = "{services_at_path d, config_path d, site_path d}"
  let ?console = "if sc_EnableConsole options \<and> sc_AuthMode options = ConsoleAuthModeInternal then
       bindE id (os_WriteFile (Host cli) (skupper_path cli SaslConfigPath @ ''/qdrouterd.conf'') sasl_config) (\<lambda>_.
       os_WriteFile (Host cli) (skupper_path cli ConsoleUsersPath @ ''/'' @ sc_User options) (sc_Password options))
     else returnE ()"
  from assms(3) [unfolded write_site_files_def bindE_Inr_iff] obtain w1 w2 where
    s: "os_WriteFile (Host cli) (skupper_path cli ServicesPath @ ''/skupper-services'') (marshal_defs fmempty) w = (Inr (), w1)" and
    c: "os_WriteFile (Host cli) (config_file cli) (rs_RouterConfig van) w1 = (Inr (), w2)" and
    k: "?console w2 = (Inr (), w')" by auto
  have "keeps (same_at ?Q) ?console"
  proof (cases "sc_EnableConsole options \<and> sc_AuthMode options = ConsoleAuthModeInternal")
    case True
    then have "plain (sc_User options)" using assms(2) by blast
    from console_writes [OF assms(1) this, of ?Q] True show ?thesis
      by (simp add: services_at_path_def config_path_def site_path_def)
  next
    case False
    then show ?thesis using alone.kept(1) [of ?Q "()"] by auto
  qed
  then have w': "same_at ?Q w2 w'" using k by (rule keepsD)
  have "keeps (same_at {services_at_path d, site_path d}) (os_WriteFile (Host cli) (config_file cli) (rs_RouterConfig van))"
    using resolve_config [OF assms(1)] site_paths_apart by (intro leaving) (metis insertE singletonD)
  then have w2: "same_at {services_at_path d, site_path d} w1 w2" using c by (rule keepsD)
  have "keeps (same_at {site_path d}) (os_WriteFile (Host cli) (skupper_path cli ServicesPath @ ''/skupper-services'') (marshal_defs fmempty))"
    using resolve_services [OF assms(1)] site_paths_apart by (intro leaving) simp
  then have w1: "same_at {site_path d} w w1" using s by (rule keepsD)
  show "fmlookup (files w') (services_at_path d) = Some (File (marshal_defs fmempty))"
    using os_WriteFile_Inr [OF s] resolve_services [OF assms(1)] w' w2 by (simp add: same_at_def)
  show "fmlookup (files w') (config_path d) = Some (File (rs_RouterConfig van))"
    using os_WriteFile_Inr [OF c] resolve_config [OF assms(1)] w' by (simp add: same_at_def)
  show "fmlookup (files w') (site_path d) = fmlookup (files w) (site_path d)"
    using w' w2 w1 by (simp add: same_at_def)
qed

section \<open>The requests\<close>

definition asks :: "docker_call list \<Rightarrow> World \<Rightarrow> World \<Rightarrow> bool" where
  "asks cs w w' \<longleftrightarrow> map rq_call (calls w') = map rq_call (calls w) @ cs"

lemma asks_append: "asks xs w w1 \<Longrightarrow> asks ys w1 w2 \<Longrightarrow> asks (xs @ ys) w w2"
  by (simp add: asks_def)

interpretation silent: step_relation "asks []"
  by unfold_locales (simp_all add: asks_def reflp_def transp_def)

named_theorems asking \<open>operations that send no request\<close>

lemmas [asking] = silent.kept silent.kept_option silent.kept_prod silent.kept_sum

lemma asking_files [asking]:
  "keeps (asks []) (os_ReadFile h s)" "keeps (asks []) (os_ReadDir h s)" "keeps (asks []) (os_WriteFile h s c)"
  "keeps (asks []) (os_Mkdir h s)" "keeps (asks []) (os_MkdirAll h s)" "keeps (asks []) (os_RemoveAll h s)"
  by (simp_all add: keeps_def asks_def os_defs split: prod.split)

lemma asking_site [asking]:
  "keeps (asks []) (make_directories cli van)" "keeps (asks []) (write_site_files cli options van)"
  "keeps (asks []) (make_certificates cli van)" "keeps (asks []) (SiteConfigCreate cli spec)"
proof -
  have certs: "keeps (asks []) (write_certs cli n m data)" for n m data
    unfolding write_certs_def by (intro asking)
  have ca: "keeps (asks []) (ensureCA cli n)" for n
    unfolding ensureCA_def Let_def by (intro asking certs)
  have cred: "keeps (asks []) (generateCredentials cli ca n s hs j)" for ca n s hs j
    unfolding generateCredentials_def
    by (intro asking certs silent.kept_same [OF keeps_eq_getCertData]) (auto intro: asking)
  show "keeps (asks []) (make_certificates cli van)"
    unfolding make_certificates_def by (intro asking ca cred)
  show "keeps (asks []) (make_directories cli van)"
    unfolding make_directories_def by (intro asking)
  show "keeps (asks []) (SiteConfigCreate cli spec)"
    unfolding SiteConfigCreate_def Let_def by (intro asking)
  show "keeps (asks []) (write_site_files cli options van)"
    unfolding write_site_files_def by (intro asking) (auto intro: asking)
qed

lemma asks_call: "api_call d ctx call answer w = (r, w') \<Longrightarrow> asks [call] w w'"
  by (auto simp: asks_def dest: api_call_calls)

lemma asks_pull: "dd_PullImage d ref auth w = (r, w') \<Longrightarrow> asks [ImagePull ref (base64EncodeAuth auth)] w w'"
  by (auto simp: asks_def dd_PullImage_def send_def Let_def split: sum.splits)

lemma asks_launch:
  assumes "launch cli van w = (Inr (), w')"
  shows "asks [NetworkCreate TransportNetworkName True ''bridge'' network_options,
      ContainerCreate (with_shm (getTransportContainerCreateConfig (h_rng (Host cli)) van)),
      ContainerStart TransportDeploymentName,
      ContainerCreate (with_shm (getControllerContainerCreateConfig (h_rng (Host cli)) van)),
      ContainerStart ControllerDeploymentName] w w'"
proof -
  let ?dd = "DockerInterface cli" and ?rng = "h_rng (Host cli)"
  let ?tc = "getTransportContainerCreateConfig ?rng van" and ?cc = "getControllerContainerCreateConfig ?rng van"
  have name: "cr_Name (with_shm c) = cr_Name c" for c by (simp add: with_shm_def split: option.split)
  have names: "cr_Name ?tc = TransportDeploymentName" "cr_Name ?cc = ControllerDeploymentName" "TransportNetworkName \<noteq> []"
    by (simp_all add: getTransportContainerCreateConfig_def getControllerContainerCreateConfig_def TransportNetworkName_def)
  from assms [unfolded launch_def Let_def bindE_Inr_iff] obtain n w1 t w2 w3 x w4 c w5 y where
    n: "NewTransportNetwork TransportNetworkName ?dd w = (Inr n, w1)" and
    t: "NewTransportContainer ?rng van ?dd w1 = (Inr t, w2)" and
    certs: "make_certificates cli van w2 = (Inr (), w3)" and
    t2: "StartContainer (cr_Name t) ?dd w3 = (Inr x, w4)" and
    c: "NewControllerContainer ?rng van ?dd w4 = (Inr c, w5)" and
    c2: "StartContainer (cr_Name c) ?dd w5 = (Inr y, w')"
    by (auto simp: oper_simps)
  have "asks [NetworkCreate TransportNetworkName True ''bridge'' network_options] w w1"
    using n names(3) by (auto simp: NewTransportNetwork_def dd_CreateNetwork_def dest: asks_call)
  moreover have "t = with_shm ?tc" "asks [ContainerCreate (with_shm ?tc)] w1 w2"
    using t by (auto simp: NewTransportContainer_def Let_def bindE_Inr_iff dd_CreateContainer_def dest: asks_call)
  moreover have "asks [] w2 w3" using asking_site(3) certs by (rule keepsD)
  moreover have "asks [ContainerStart TransportDeploymentName] w3 w4"
    using t2 \<open>t = _\<close> names(1) name by (auto simp: StartContainer_def dd_StartContainer_def dest: asks_call)
  moreover have "c = with_shm ?cc" "asks [ContainerCreate (with_shm ?cc)] w4 w5"
    using c by (auto simp: NewControllerContainer_def Let_def bindE_Inr_iff dd_CreateContainer_def dest: asks_call)
  moreover have "asks [ContainerStart ControllerDeploymentName] w5 w'"
    using c2 \<open>c = _\<close> names(2) name by (auto simp: StartContainer_def dd_StartContainer_def dest: asks_call)
  ultimately show ?thesis by (simp add: asks_def)
qed

section \<open>Creating a site\<close>

lemma console_options_user:
  "console_options h options0 = Inr options \<Longrightarrow> sc_User options0 = [] \<or> plain (sc_User options0) \<Longrightarrow>
    plain (sc_User options) \<or> \<not> (sc_EnableConsole options \<and> sc_AuthMode options = ConsoleAuthModeInternal)"
  by (auto simp: console_options_def plain_def split: if_splits)

definition creation_requests :: "VanClient \<Rightarrow> SiteConfigSpec \<Rightarrow> RouterSpec \<Rightarrow> docker_call list" where
  "creation_requests cli options van =
     (if sc_SkupperName options = [] then [InfoCall] else []) @
     [ImagePull (ds_Image (rs_Transport van)) (base64EncodeAuth ''{}''),
      ImagePull (ds_Image (rs_Controller van)) (base64EncodeAuth ''{}''),
      NetworkCreate TransportNetworkName True ''bridge'' network_options,
      ContainerCreate (with_shm (getTransportContainerCreateConfig (h_rng (Host cli)) van)),
      ContainerStart TransportDeploymentName,
      ContainerCreate (with_shm (getControllerContainerCreateConfig (h_rng (Host cli)) van)),
      ContainerStart ControllerDeploymentName]"

lemma van_name_run:
  assumes "van_name cli options w = (Inr name, w')"
  shows "asks (if sc_SkupperName options = [] then [InfoCall] else []) w w' \<and> files w' = files w \<and>
    (sc_SkupperName options = [] \<or> name = sc_SkupperName options)"
proof (cases "sc_SkupperName options = []")
  case True
  obtain r w1 where info: "dd_Info (DockerInterface cli) w = (r, w1)" by fastforce
  then have "w' = w1" using assms True by (cases r) (simp_all add: van_name_def)
  then show ?thesis
    using True docker_onlyD(1) [OF keeps_dd(13) info] asks_call [OF info [unfolded dd_Info_def]] by simp
next
  case False
  then show ?thesis using assms by (simp add: van_name_def asks_def)
qed

lemma wf_initial_router_config: "wf_config (initial_router_config options name uid)"
  by (simp add: initial_router_config_def with_site_listeners_def with_console_def base_config_def keyed_rules)

text \<open>The phases of a creation that succeeds.\<close>

lemma RouterCreate_phases:
  assumes "RouterCreate cli options0 w = (Inr (), w')"
  obtains options name w1 w2 w3 w4 w5 where
    "console_options (Host cli) options0 = Inr options"
    "asks [] w w1" "SiteConfigCreate cli options w1 = (Inr \<lparr>sg_Spec = options, sg_UID = h_uuid (Host cli)\<rparr>, w2)"
    "sc_SkupperName options = [] \<or> name = sc_SkupperName options" "files w3 = files w2"
    "asks ((if sc_SkupperName options = [] then [InfoCall] else []) @
       [ImagePull (ds_Image (rs_Transport (router_spec cli options (h_uuid (Host cli)) name))) (base64EncodeAuth ''{}''),
        ImagePull (ds_Image (rs_Controller (router_spec cli options (h_uuid (Host cli)) name))) (base64EncodeAuth ''{}'')]) w2 w3"
    "make_directories cli (router_spec cli options (h_uuid (Host cli)) name) w3 = (Inr (), w4)"
    "write_site_files cli options (router_spec cli options (h_uuid (Host cli)) name) w4 = (Inr (), w5)"
    "launch cli (router_spec cli options (h_uuid (Host cli)) name) w5 = (Inr (), w')"
proof -
  from assms [unfolded RouterCreate_def build_site_def deploy_def bindE_Inr_iff] obtain options wa wb wc sc w2 van wd we w3 w4 w5 where
    options: "console_options (Host cli) options0 = Inr options" and
    a: "logged (os_RemoveAll (Host cli) (skupper_path cli HostPath)) w = (Inr (), wa)" and
    b: "os_MkdirAll (Host cli) (skupper_path cli HostPath) wa = (Inr (), wb)" and
    c: "os_Mkdir (Host cli) (skupper_path cli SitesPath) wb = (Inr (), wc)" and
    site: "SiteConfigCreate cli options wc = (Inr sc, w2)" and
    van: "GetRouterSpecFromOpts cli options (sg_UID sc) w2 = (Inr van, wd)" and
    p1: "dd_PullImage (DockerInterface cli) (ds_Image (rs_Transport van)) ''{}'' wd = (Inr (), we)" and
    p2: "dd_PullImage (DockerInterface cli) (ds_Image (rs_Controller van)) ''{}'' we = (Inr (), w3)" and
    rest: "make_directories cli van w3 = (Inr (), w4)" "write_site_files cli options van w4 = (Inr (), w5)"
      "launch cli van w5 = (Inr (), w')"
    by auto
  have "asks [] w wa" "asks [] wa wb" "asks [] wb wc"
    using keepsD [OF silent.kept(7) [OF asking_files(6)] a] keepsD [OF asking_files(5) b] keepsD [OF asking_files(4) c] by blast+
  then have start: "asks [] w wc" by (simp add: asks_def)
  have sc: "sc = \<lparr>sg_Spec = options, sg_UID = h_uuid (Host cli)\<rparr>"
    using site by (auto simp: SiteConfigCreate_def Let_def bindE_Inr_iff NewUUID_def)
  from van obtain name where name: "van_name cli options w2 = (Inr name, wd)"
    "van = router_spec cli options (h_uuid (Host cli)) name"
    by (auto simp: GetRouterSpecFromOpts_def bindE_Inr_iff sc)
  note info = van_name_run [OF name(1)]
  have files: "files w3 = files w2"
    using docker_onlyD(1) [OF keeps_pull p1] docker_onlyD(1) [OF keeps_pull p2] info by simp
  have "asks ((if sc_SkupperName options = [] then [InfoCall] else []) @
       [ImagePull (ds_Image (rs_Transport van)) (base64EncodeAuth ''{}''),
        ImagePull (ds_Image (rs_Controller van)) (base64EncodeAuth ''{}'')]) w2 w3"
    using asks_append [OF conjunct1 [OF info] asks_append [OF asks_pull [OF p1] asks_pull [OF p2]]] by simp
  then show thesis
    using that [OF options start site [unfolded sc] _ files, of name] info rest name(2) by simp
qed

lemma file_views:
  assumes "site_at cli d" and "range_ok (h_rng (Host cli))"
  shows "fmlookup (files w) (services_at_path d) = Some (File (marshal_defs fmempty)) \<Longrightarrow> services cli w = Some fmempty"
    and "fmlookup (files w) (config_path d) = Some (File (rs_RouterConfig (router_spec cli options uid name))) \<Longrightarrow>
      router_config cli w = Some (initial_router_config options name uid)"
    and "fmlookup (files w) (site_path d) = Some (File (marshal enc_site sc)) \<Longrightarrow> site_of cli w = Some sc"
proof -
  have read: "fs_ReadFile (files w) p = Inr c" if "fmlookup (files w) p = Some (File c)" "p \<noteq> []" for p c
    using that by (simp add: fs_ReadFile_def)
  have ne: "services_at_path d \<noteq> []" "config_path d \<noteq> []" "site_path d \<noteq> []"
    by (simp_all add: services_at_path_def config_path_def site_path_def)
  have s: "services_file cli = skupper_path cli ServicesPath @ ''/skupper-services''" "services_file cli \<noteq> []"
    by (simp_all add: services_file_def skupper_path_def)
  show "services cli w = Some fmempty" if "fmlookup (files w) (services_at_path d) = Some (File (marshal_defs fmempty))"
    using read [OF that ne(1)] resolve_services [OF assms(1)] s
    by (simp add: services_def services_at_def keyed_rules)
  show "router_config cli w = Some (initial_router_config options name uid)"
    if "fmlookup (files w) (config_path d) = Some (File (rs_RouterConfig (router_spec cli options uid name)))"
    using read [OF that ne(2)] resolve_config [OF assms(1)] read_written [OF assms(2) wf_initial_router_config, of options name uid]
    by (simp add: router_config_def router_spec_def MarshalRouterConfig_def)
  show "site_of cli w = Some sc" if "fmlookup (files w) (site_path d) = Some (File (marshal enc_site sc))"
  proof -
    have "dec_ptr dec_site zero_SiteConfig (enc_site sc) (Some zero_SiteConfig) =
        bindR (dec_site (enc_site sc) zero_SiteConfig) (\<lambda>v. Inr (Some v))"
      by (simp add: dec_ptr_def enc_site_def encode_struct_def)
    then have "unmarshal (dec_ptr dec_site zero_SiteConfig) (marshal enc_site sc) (Some zero_SiteConfig) = Inr (Some sc)"
      using site.dec_enc [of sc] by simp
    moreover have "site_file cli DefaultBridgeName \<noteq> []" by (simp add: site_file_def)
    then have "os_ReadFile (Host cli) (site_file cli DefaultBridgeName) w = (Inr (marshal enc_site sc), w)"
      using read [OF that ne(3)] resolve_site [OF assms(1)] by (simp add: os_ReadFile_def)
    ultimately show ?thesis by (simp add: site_of_def SiteConfigInspect_def)
  qed
qed

lemma creation_leaves:
  assumes "site_at cli d" and "plain_certs (Host cli)" and "range_ok (h_rng (Host cli))"
    and "sc_User options0 = [] \<or> plain (sc_User options0)" and "RouterCreate cli options0 w = (Inr (), w')"
  shows "\<exists>options name. console_options (Host cli) options0 = Inr options \<and>
    (sc_SkupperName options = [] \<or> name = sc_SkupperName options) \<and>
    services cli w' = Some fmempty \<and>
    router_config cli w' = Some (initial_router_config options name (h_uuid (Host cli))) \<and>
    site_of cli w' = Some \<lparr>sg_Spec = options, sg_UID = h_uuid (Host cli)\<rparr> \<and>
    map rq_call (calls w') = map rq_call (calls w) @
      creation_requests cli options (router_spec cli options (h_uuid (Host cli)) name)"
proof (rule RouterCreate_phases [OF assms(5)])
  fix options name w1 w2 w3 w4 w5
  assume options: "console_options (Host cli) options0 = Inr options" and start: "asks [] w w1"
    and site: "SiteConfigCreate cli options w1 = (Inr \<lparr>sg_Spec = options, sg_UID = h_uuid (Host cli)\<rparr>, w2)"
    and name: "sc_SkupperName options = [] \<or> name = sc_SkupperName options" and same: "files w3 = files w2"
    and pulls: "asks ((if sc_SkupperName options = [] then [InfoCall] else []) @
       [ImagePull (ds_Image (rs_Transport (router_spec cli options (h_uuid (Host cli)) name))) (base64EncodeAuth ''{}''),
        ImagePull (ds_Image (rs_Controller (router_spec cli options (h_uuid (Host cli)) name))) (base64EncodeAuth ''{}'')]) w2 w3"
    and dirs: "make_directories cli (router_spec cli options (h_uuid (Host cli)) name) w3 = (Inr (), w4)"
    and written: "write_site_files cli options (router_spec cli options (h_uuid (Host cli)) name) w4 = (Inr (), w5)"
    and launched: "launch cli (router_spec cli options (h_uuid (Host cli)) name) w5 = (Inr (), w')"
  let ?van = "router_spec cli options (h_uuid (Host cli)) name"
  let ?sc = "\<lparr>sg_Spec = options, sg_UID = h_uuid (Host cli)\<rparr>"
  note files5 = write_site_files_run [OF assms(1) console_options_user [OF options assms(4)] written]
  have "keeps (same_at {services_at_path d, config_path d, site_path d}) (launch cli ?van)"
    by (rule leaving_launch [OF assms(1,2) site_paths_apart(4) assms(3)])
  then have end_same: "same_at {services_at_path d, config_path d, site_path d} w5 w'" using launched by (rule keepsD)
  have "fmlookup (files w2) (site_path d) = Some (File (marshal enc_site ?sc))"
    using site os_WriteFile_Inr [of "Host cli" "site_file cli DefaultBridgeName" "marshal enc_site ?sc" w1 w2]
      resolve_site [OF assms(1)]
    by (auto simp: SiteConfigCreate_def Let_def bindE_Inr_iff NewUUID_def)
  then have "fmlookup (files w4) (site_path d) = Some (File (marshal enc_site ?sc))"
    using keepsD [OF more_make_directories dirs] same by (simp add: more_entries_def)
  then have "fmlookup (files w') (site_path d) = Some (File (marshal enc_site ?sc))"
    "fmlookup (files w') (services_at_path d) = Some (File (marshal_defs fmempty))"
    "fmlookup (files w') (config_path d) = Some (File (rs_RouterConfig ?van))"
    using files5 end_same by (simp_all add: same_at_def)
  note views = file_views(3) [OF assms(1,3) this(1)] file_views(1) [OF assms(1,3) this(2)] file_views(2) [OF assms(1,3) this(3)]
  have "asks (creation_requests cli options ?van) w w'"
  proof -
    have "asks [] w1 w2" "asks [] w3 w4" "asks [] w4 w5"
      using keepsD [OF asking_site(4) site] keepsD [OF asking_site(1) dirs] keepsD [OF asking_site(2) written] by blast+
    then show ?thesis
      using start pulls asks_launch [OF launched] by (simp add: asks_def creation_requests_def)
  qed
  then show ?thesis using options name views by (auto simp: asks_def)
qed

text \<open>
  C6 (functional). After a successful creation the site is the one the options describe, whatever files were
  there before: no services, the router configuration built from the options with the new site id, and
  the site configuration with both, each read back from its file; and the requests sent are exactly the
  name of the host if none was given, the two images, the network, and the router before the controller,
  each created and then started.
\<close>

theorem router_create_result:
  assumes "site_at cli d" and "plain_certs (Host cli)" and "range_ok (h_rng (Host cli))"
    and "sc_User options0 = [] \<or> plain (sc_User options0)" and "RouterCreate cli options0 w = (Inr (), w')"
  shows "\<exists>options name. console_options (Host cli) options0 = Inr options \<and>
    (sc_SkupperName options = [] \<or> name = sc_SkupperName options) \<and>
    services cli w' = Some fmempty \<and>
    router_config cli w' = Some (initial_router_config options name (h_uuid (Host cli))) \<and>
    site_of cli w' = Some \<lparr>sg_Spec = options, sg_UID = h_uuid (Host cli)\<rparr> \<and>
    map rq_call (calls w') = map rq_call (calls w) @
      creation_requests cli options (router_spec cli options (h_uuid (Host cli)) name)"
  by (rule creation_leaves [OF assms])

text \<open>A creation that gets past the check of its options, whether it succeeds or not.\<close>

lemma leaving_write_site_files:
  assumes "site_at cli d" and "plain (sc_User options) \<or> \<not> (sc_EnableConsole options \<and> sc_AuthMode options = ConsoleAuthModeInternal)"
    and "\<forall>q \<in> Q. \<not> prefix (d @ [''skupper'', ''sasl-config'']) q \<and> \<not> prefix (d @ [''skupper'', ''console-users'']) q"
    and "services_at_path d \<notin> Q" and "config_path d \<notin> Q"
  shows "keeps (same_at Q) (write_site_files cli options van)"
proof -
  have files: "keeps (same_at Q) (os_WriteFile (Host cli) (skupper_path cli ServicesPath @ ''/skupper-services'') c)"
    "keeps (same_at Q) (os_WriteFile (Host cli) (config_file cli) c)" for c
    using assms(4,5) resolve_services [OF assms(1)] resolve_config [OF assms(1)] by (intro leaving; simp)+
  show ?thesis
  proof (cases "sc_EnableConsole options \<and> sc_AuthMode options = ConsoleAuthModeInternal")
    case True
    then have "plain (sc_User options)" using assms(2) by blast
    note console = console_writes [OF assms(1) this assms(3)]
    show ?thesis
      unfolding write_site_files_def if_P [OF True] by (rule alone.kept(4) files console)+
  next
    case False
    show ?thesis
      unfolding write_site_files_def if_not_P [OF False] by (intro alone.kept files)
  qed
qed

lemma spec_then:
  "bindE id (GetRouterSpecFromOpts cli options uid) k =
     bindE id (van_name cli options) (\<lambda>name. k (router_spec cli options uid name))"
  by (auto simp: GetRouterSpecFromOpts_def bindE_def fun_eq_iff split: prod.split sum.split)

lemma leaving_build_site:
  assumes "site_at cli d" and "plain_certs (Host cli)" and "range_ok (h_rng (Host cli))"
    and "plain (sc_User options) \<or> \<not> (sc_EnableConsole options \<and> sc_AuthMode options = ConsoleAuthModeInternal)"
    and Q: "\<forall>q \<in> Q. \<not> prefix q (d @ [''skupper''])" "off_certs d Q" "Q \<inter> made_dirs d = {}"
      "d @ [''skupper'', ''sites''] \<notin> Q" "site_path d \<notin> Q" "services_at_path d \<notin> Q" "config_path d \<notin> Q"
      "\<forall>q \<in> Q. \<not> prefix (d @ [''skupper'', ''sasl-config'']) q \<and> \<not> prefix (d @ [''skupper'', ''console-users'']) q"
  shows "keeps (same_at Q) (build_site cli options)"
proof -
  have top: "resolve (Host cli) (skupper_path cli HostPath) = d @ [''skupper'']"
    "resolve (Host cli) (skupper_path cli SitesPath) = d @ [''skupper'', ''sites'']"
    using resolve_under [OF assms(1), of "[]" HostPath] resolve_under [OF assms(1), of "[]" SitesPath]
    by (simp_all add: sub_path_def)
  have "keeps (same_at Q) (os_MkdirAll (Host cli) (skupper_path cli HostPath))"
    "keeps (same_at Q) (os_Mkdir (Host cli) (skupper_path cli SitesPath))"
    using Q(1,4) top by (intro leaving; simp)+
  moreover have "keeps (same_at Q) (SiteConfigCreate cli options)"
    unfolding SiteConfigCreate_def Let_def using Q(5) resolve_site [OF assms(1)] by (intro leaving) simp
  moreover have "keeps (same_at Q) (deploy cli options (router_spec cli options uid name))" for uid name
    unfolding deploy_def
    by (intro alone.kept(4) leaving_docker leaving_make_directories [OF assms(1) Q(3) assms(3)]
        leaving_write_site_files [OF assms(1,4) Q(8,6,7)] leaving_launch [OF assms(1,2) Q(2) assms(3)])
  ultimately show ?thesis
    unfolding build_site_def spec_then by (intro alone.kept(4) leaving_docker)
qed

text \<open>
  C33 (error). A creation clears the site's directory before it knows whether it will succeed: once the
  options pass, whatever the daemon answers and however it ends, every file of every connection that was
  there is gone, and nothing outside the site's directory and the directories above it has changed.
\<close>

theorem router_create_clears:
  assumes "site_at cli d" and "plain_certs (Host cli)" and "range_ok (h_rng (Host cli))"
    and "sc_User options0 = [] \<or> plain (sc_User options0)" and "console_options (Host cli) options0 = Inr options"
    and "RouterCreate cli options0 w = (r, w')"
  shows "fmlookup (files w') (connections_dir d @ name # es) = None \<and>
    (prefix (d @ [''skupper'']) q \<or> prefix q d \<or> fmlookup (files w') q = fmlookup (files w) q)"
proof -
  let ?top = "d @ [''skupper'']"
  have top: "resolve (Host cli) (skupper_path cli HostPath) = ?top"
    using resolve_under [OF assms(1), of "[]" HostPath] by (simp add: sub_path_def)
  let ?w1 = "w\<lparr>files := fs_RemoveAll (files w) ?top\<rparr>"
  have "logged (os_RemoveAll (Host cli) (skupper_path cli HostPath)) w = (Inr (), ?w1)"
    using assms(1) by (simp add: logged_def tryE_def os_RemoveAll_def top)
  then have run: "build_site cli options ?w1 = (r, w')"
    using assms(5,6) by (simp add: RouterCreate_def)
  note keep = leaving_build_site [OF assms(1-3) console_options_user [OF assms(5,4)], THEN keepsD, OF _ _ _ _ _ _ _ _ run]
  have below: "made_dirs d \<subseteq> {p. prefix ?top p}"
    by (auto simp: made_dirs_def certs_dir_def)
  have "same_at {connections_dir d @ name # es} ?w1 w'"
    by (rule keep) (auto simp: off_certs_def certs_dir_def connections_dir_def made_dirs_def site_path_def
        services_at_path_def config_path_def)
  moreover have "fmlookup (files ?w1) (connections_dir d @ name # es) = None"
    by (simp add: fs_RemoveAll_def connections_dir_def)
  moreover have "fmlookup (files w') q = fmlookup (files w) q" if "\<not> prefix ?top q" "\<not> prefix q d"
  proof -
    have deeper: "\<not> prefix (d @ ''skupper'' # es) q" for es
      using that(1) append_prefixD [of ?top es q] by auto
    have "same_at {q} ?w1 w'"
      by (rule keep) (use that below deeper in \<open>auto simp: off_certs_def certs_dir_def site_path_def
          services_at_path_def config_path_def prefix_snoc\<close>)
    then show ?thesis using that by (simp add: same_at_def fs_RemoveAll_def)
  qed
  ultimately show ?thesis by (auto simp: same_at_def)
qed

section \<open>A creation that succeeds\<close>

text \<open>A daemon that grants every request, a pull with any messages that report no error, and a host where the directory for sites exists.\<close>

definition grants :: "skupDockerClient \<Rightarrow> bool" where
  "grants dd \<longleftrightarrow> (\<forall>hist. api_context (sd_client dd) hist = NoContextError \<and>
     (\<exists>items. api_pull (sd_client dd) hist = Inr items \<and> list_all good_item items) \<and>
     (\<exists>n. api_create (sd_client dd) hist = Inr n) \<and> api_unit (sd_client dd) hist = Inr () \<and>
     (\<exists>n. api_info_name (sd_client dd) hist = Inr n))"

lemma granted:
  assumes "grants dd"
  shows "\<exists>w'. dd_PullImage dd ref auth w = (Inr (), w') \<and> files w' = files w"
    and "\<exists>x w'. NewTransportNetwork TransportNetworkName dd w = (Inr x, w') \<and> files w' = files w"
    and "\<exists>x w'. NewTransportContainer rng van dd w = (Inr x, w') \<and> files w' = files w"
    and "\<exists>x w'. NewControllerContainer rng van dd w = (Inr x, w') \<and> files w' = files w"
    and "\<exists>w'. StartContainer name dd w = (Inr (), w') \<and> files w' = files w"
    and "\<exists>x w'. dd_Info dd w = (Inr x, w') \<and> files w' = files w"
proof -
  have call: "api_call dd ctx call answer w = (answer (calls (send call ctx w)), send call ctx w)" for ctx call and answer :: "'x answer" and w
    using assms by (simp add: api_call_def grants_def contextError_def Let_def)
  have g: "\<exists>items. api_pull (sd_client dd) hist = Inr items \<and> list_all good_item items" "api_unit (sd_client dd) hist = Inr ()"
    "\<exists>n. api_create (sd_client dd) hist = Inr n" "\<exists>n. api_info_name (sd_client dd) hist = Inr n" for hist
    using assms by (simp_all add: grants_def)
  have create: "\<exists>n. dd_CreateContainer dd opts w = (Inr n, send (ContainerCreate (with_shm opts)) (getTimeoutContext dd) w)" for opts w
    using g(3) by (auto simp: dd_CreateContainer_def call)
  show "\<exists>w'. dd_PullImage dd ref auth w = (Inr (), w') \<and> files w' = files w"
    using g(1) [of "calls w @ [\<lparr>rq_call = ImagePull ref (base64EncodeAuth auth), rq_context = Cancelable\<rparr>]"]
    by (auto simp: dd_PullImage_def Let_def pull_loop_done send_def)
  show "\<exists>x w'. NewTransportNetwork TransportNetworkName dd w = (Inr x, w') \<and> files w' = files w"
    using g(3) by (auto simp: NewTransportNetwork_def TransportNetworkName_def dd_CreateNetwork_def call)
  show "\<exists>x w'. NewTransportContainer rng van dd w = (Inr x, w') \<and> files w' = files w"
    using create [of "getTransportContainerCreateConfig rng van" w] by (auto simp: NewTransportContainer_def Let_def)
  show "\<exists>x w'. NewControllerContainer rng van dd w = (Inr x, w') \<and> files w' = files w"
    using create [of "getControllerContainerCreateConfig rng van" w] by (auto simp: NewControllerContainer_def Let_def)
  show "\<exists>w'. StartContainer name dd w = (Inr (), w') \<and> files w' = files w"
    by (simp add: StartContainer_def dd_StartContainer_def call g)
  show "\<exists>x w'. dd_Info dd w = (Inr x, w') \<and> files w' = files w"
    using g(4) by (auto simp: dd_Info_def call)
qed

text \<open>The certificate steps cannot panic, so that dropping their errors lets the creation go on.\<close>

definition calm :: "(World, 'a) oper \<Rightarrow> bool" where
  "calm m \<longleftrightarrow> (\<forall>w p. fst (m w) \<noteq> Inl (Panic p))"

lemma raised_calm: "e \<noteq> Panic p \<Longrightarrow> h = id \<or> (\<exists>s. h = Wrapf s) \<Longrightarrow> raised h e \<noteq> Panic p"
  by (cases e) (auto simp: raised_def)

lemma calm_bind:
  assumes "calm m" and "\<And>x. calm (k x)" and "h = id \<or> (\<exists>s. h = Wrapf s)"
  shows "calm (bindE h m k)"
  unfolding calm_def
proof (intro allI)
  fix w p
  obtain r w1 where m: "m w = (r, w1)" by fastforce
  show "fst (bindE h m k w) \<noteq> Inl (Panic p)"
  proof (cases r)
    case (Inl e)
    then have "e \<noteq> Panic p" using assms(1) m by (metis calm_def fst_conv)
    then show ?thesis using m Inl raised_calm [OF _ assms(3)] by simp
  next
    case (Inr x)
    then show ?thesis using m assms(2) by (simp add: calm_def)
  qed
qed

lemma calm_steps:
  "calm (returnE x)" "calm (os_WriteFile h s c)" "calm (os_Mkdir h s)" "calm (os_ReadFile h s)"
  by (auto simp: calm_def os_defs fs_WriteFile_def fs_Mkdir_def fs_ReadFile_def parent_error_def
      split: option.split node.split)

lemma calm_forE: "(\<And>x. calm (f x)) \<Longrightarrow> calm (forE f xs)"
proof (induction xs)
  case Nil
  show ?case unfolding forE.simps by (rule calm_steps)
next
  case (Cons x xs)
  then show ?case unfolding forE.simps by (intro calm_bind) auto
qed

lemma calm_write_certs: "calm (write_certs cli n m data)"
  unfolding write_certs_def by (intro calm_forE) (auto intro!: calm_bind calm_steps split: prod.split)

lemma getCertData_Inr: "\<exists>q w'. getCertData cli n w = (Inr q, w')"
proof -
  have "\<exists>q w'. read_certs h p fs m w = (Inr q, w')" for h p fs m w
    by (induction fs arbitrary: m w) (auto simp: tryE_def split: prod.split sum.split)
  then show ?thesis by (simp add: getCertData_def Let_def tryE_def split: prod.split sum.split)
qed

lemma calm_getCertData: "calm (getCertData cli n)"
  unfolding calm_def using getCertData_Inr by (metis fst_conv sum.distinct(1))

lemma logged_calm: "calm m \<Longrightarrow> \<exists>w'. logged m w = (Inr (), w')"
  by (cases "m w") (auto simp: logged_def calm_def tryE_def split: sum.split error.split, metis fst_conv)

lemma forE_Inr: "(\<And>x w. x \<in> set xs \<Longrightarrow> \<exists>w'. f x w = (Inr (), w')) \<Longrightarrow> \<exists>w'. forE f xs w = (Inr (), w')"
proof (induction xs arbitrary: w)
  case (Cons x xs)
  then obtain w1 where "f x w = (Inr (), w1)" by force
  then show ?case using Cons by simp
qed simp

lemma make_certificates_Inr: "\<exists>w'. make_certificates cli van w = (Inr (), w')"
proof -
  have ca: "calm (ensureCA cli n)" for n
    unfolding ensureCA_def Let_def by (intro calm_bind calm_steps calm_write_certs) auto
  have cred: "calm (generateCredentials cli a n s hs j)" for a n s hs j
    unfolding generateCredentials_def
    by (auto intro!: calm_bind calm_steps calm_write_certs calm_getCertData split: prod.split)
  obtain w1 where "forE (\<lambda>ca. logged (ensureCA cli (ca_Name ca))) (rs_CertAuthoritys van) w = (Inr (), w1)"
    using forE_Inr [of _ "\<lambda>ca. logged (ensureCA cli (ca_Name ca))"] logged_calm [OF ca] by blast
  moreover obtain w2 where "forE (\<lambda>c. logged (generateCredentials cli (cd_CA c) (cd_Name c) (cd_Subject c) (cd_Hosts c) (cd_ConnectJson c)))
      (rs_Credentials van) w1 = (Inr (), w2)"
    using forE_Inr [of _ "\<lambda>c. logged (generateCredentials cli (cd_CA c) (cd_Name c) (cd_Subject c) (cd_Hosts c) (cd_ConnectJson c))"]
      logged_calm [OF cred] by blast
  ultimately show ?thesis by (simp add: make_certificates_def)
qed

lemma launch_granted:
  assumes "grants (DockerInterface cli)"
  shows "\<exists>w'. launch cli van w = (Inr (), w')"
proof -
  let ?dd = "DockerInterface cli" and ?rng = "h_rng (Host cli)"
  note g = granted [OF assms]
  obtain n w1 where "NewTransportNetwork TransportNetworkName ?dd w = (Inr n, w1)" using g(2) by blast
  moreover obtain t w2 where "NewTransportContainer ?rng van ?dd w1 = (Inr t, w2)" using g(3) by blast
  moreover obtain w3 where "make_certificates cli van w2 = (Inr (), w3)" using make_certificates_Inr by blast
  moreover obtain w4 where "StartContainer (cr_Name t) ?dd w3 = (Inr (), w4)" using g(5) by blast
  moreover obtain c w5 where "NewControllerContainer ?rng van ?dd w4 = (Inr c, w5)" using g(4) by blast
  moreover obtain w6 where "StartContainer (cr_Name c) ?dd w5 = (Inr (), w6)" using g(5) by blast
  ultimately show ?thesis by (simp add: launch_def Let_def)
qed

text \<open>Making directories in a directory that is there.\<close>

lemma Mkdir_run:
  assumes "s \<noteq> []" and "resolve h s = p @ [x]" and "is_dir (files w) p" and "fmlookup (files w) (p @ [x]) = None"
  shows "os_Mkdir h s w = (Inr (), w\<lparr>files := fmupd (p @ [x]) Dir (files w)\<rparr>)"
  using assms by (simp add: os_Mkdir_def fs_Mkdir_def fmlookup_dom_iff)

lemma WriteFile_run:
  assumes "s \<noteq> []" and "resolve h s = p @ [x]" and "is_dir (files w) p" and "fmlookup (files w) (p @ [x]) \<noteq> Some Dir"
  shows "os_WriteFile h s c w = (Inr (), w\<lparr>files := fmupd (p @ [x]) (File c) (files w)\<rparr>)"
  using assms by (simp add: os_WriteFile_def fs_WriteFile_def)

lemma Mkdirs_run:
  assumes "is_dir (files w) p" and "distinct (map (resolve h) ss)"
    and "\<forall>s \<in> set ss. s \<noteq> [] \<and> (\<exists>x. resolve h s = p @ [x]) \<and> fmlookup (files w) (resolve h s) = None"
  shows "\<exists>w'. forE (os_Mkdir h) ss w = (Inr (), w') \<and>
    (\<forall>q. fmlookup (files w') q = (if q \<in> resolve h ` set ss then Some Dir else fmlookup (files w) q))"
  using assms
proof (induction ss arbitrary: w)
  case (Cons s ss)
  then obtain x where x: "resolve h s = p @ [x]" by auto
  let ?w1 = "w\<lparr>files := fmupd (p @ [x]) Dir (files w)\<rparr>"
  have run: "os_Mkdir h s w = (Inr (), ?w1)" using Cons.prems x by (intro Mkdir_run) auto
  have "is_dir (files ?w1) p" using Cons.prems(1) by (simp add: is_dir_def)
  moreover have "\<forall>s' \<in> set ss. s' \<noteq> [] \<and> (\<exists>x. resolve h s' = p @ [x]) \<and> fmlookup (files ?w1) (resolve h s') = None"
    using Cons.prems(2,3) x by (auto simp: image_iff)
  ultimately obtain w' where "forE (os_Mkdir h) ss ?w1 = (Inr (), w')"
    "\<forall>q. fmlookup (files w') q = (if q \<in> resolve h ` set ss then Some Dir else fmlookup (files ?w1) q)"
    using Cons.IH [of ?w1] Cons.prems(2) by auto
  then show ?case using run x by auto
qed simp

lemma forE_pairs: "forE (\<lambda>(a, _). f a) xs = forE f (map fst xs)"
  by (induction xs) auto

lemma forE_map: "forE f (map g xs) = forE (\<lambda>x. f (g x)) xs"
  by (induction xs) auto

text \<open>\<open>MkdirAll\<close> of a new directory in one that is there.\<close>

lemma mkdirs_there: "\<forall>p \<in> set ps. fmlookup fs p = Some Dir \<Longrightarrow> mkdirs (ps @ qs) fs = mkdirs qs fs"
  by (induction ps) auto

lemma prefixes_there:
  assumes "wf_fs fs" and "fmlookup fs d = Some Dir" and "prefix p d" and "p \<noteq> []"
  shows "fmlookup fs p = Some Dir"
  using assms(2,3)
proof (induction d rule: rev_induct)
  case (snoc x d)
  show ?case
  proof (cases "p = d @ [x]")
    case False
    then have p: "prefix p d" using snoc.prems(2) by (simp add: prefix_snoc)
    have "is_dir fs d" using assms(1) snoc.prems(1) unfolding wf_fs_def by (metis butlast_snoc)
    then have "fmlookup fs d = Some Dir" using p assms(4) by (auto simp: is_dir_def)
    then show ?thesis using snoc.IH p by blast
  qed (use snoc.prems in simp)
qed (use assms(4) in simp)

lemma MkdirAll_run:
  assumes "wf_fs fs" and "fmlookup fs d = Some Dir" and "fmlookup fs (d @ [x]) = None"
  shows "fs_MkdirAll fs (d @ [x]) = (Inr (), fmupd (d @ [x]) Dir fs)"
proof -
  obtain ps where ps: "prefixes d = [] # ps" "\<forall>p \<in> set ps. p \<noteq> []" by (cases d) auto
  have "p \<noteq> [] \<and> prefix p d" if "p \<in> set ps" for p
  proof -
    have "p \<noteq> []" using ps(2) that by blast
    moreover have "p \<in> set (prefixes d)" using ps(1) that by simp
    ultimately show ?thesis by (simp add: in_set_prefixes)
  qed
  then have "\<forall>p \<in> set ps. fmlookup fs p = Some Dir" using prefixes_there [OF assms(1,2)] by blast
  then have "mkdirs (ps @ [d @ [x]]) fs = mkdirs [d @ [x]] fs" by (rule mkdirs_there)
  then show ?thesis using assms(3) ps(1) by (simp add: fs_MkdirAll_def prefixes_snoc)
qed

section \<open>The directories and files of a new site\<close>

definition site_dirs :: "path \<Rightarrow> path set" where
  "site_dirs d = (\<lambda>p. d @ [''skupper'', p]) ` {''sasl-config'', ''console-users'', ''config'', ''connections'', ''qpid-dispatch-certs''}"

lemma make_directories_run:
  assumes "site_at cli d" and "range_ok (h_rng (Host cli))" and "fmlookup (files w) (d @ [''skupper'']) = Some Dir"
    and "\<forall>q \<in> made_dirs d. fmlookup (files w) q = None"
  shows "\<exists>w'. make_directories cli (router_spec cli options uid name) w = (Inr (), w') \<and>
    (\<forall>q \<in> site_dirs d \<union> {d @ [''skupper'', ''services'']}. fmlookup (files w') q = Some Dir) \<and>
    (\<forall>q. q \<notin> made_dirs d \<longrightarrow> fmlookup (files w') q = fmlookup (files w) q)"
proof -
  let ?h = "Host cli" and ?rng = "h_rng (Host cli)" and ?top = "d @ [''skupper'']"
  let ?ps = "{SaslConfigPath, ConsoleUsersPath, ConfigPath, ConnectionsPath, CertsPath}"
  let ?ms = "map fst (range_of ?rng (transport_mounts cli))"
  let ?vs = "map (\<lambda>v. skupper_path cli CertsPath @ ''/'' @ v) (transport_volumes options)"
  have path: "resolve ?h (skupper_path cli p) = d @ ''skupper'' # sub_path p" for p
    using resolve_under [OF assms(1), of "[]" p] by simp
  have ms: "set ?ms = skupper_path cli ` ?ps"
    using assms(2) by (auto simp: range_of_keys range_ok_set transport_mounts_def fmdom_fmap_of_list)
  have "resolve ?h ` skupper_path cli ` ?ps = site_dirs d"
    by (auto simp: path site_dirs_def sub_path_def)
  then have dirs: "resolve ?h ` set ?ms = site_dirs d" by (simp only: ms)
  have "inj_on (resolve ?h) (skupper_path cli ` ?ps)"
    by (auto simp: inj_on_def path sub_path_def)
  then have distinct: "distinct (map (resolve ?h) ?ms)"
    using range_of_distinct [OF assms(2), of "transport_mounts cli"] ms by (metis distinct_map)
  have new: "\<forall>s \<in> set ?ms. s \<noteq> [] \<and> (\<exists>x. resolve ?h s = ?top @ [x]) \<and> fmlookup (files w) (resolve ?h s) = None"
  proof
    fix s
    assume "s \<in> set ?ms"
    then obtain p where p: "p \<in> ?ps" "s = skupper_path cli p" by (auto simp only: ms image_iff)
    then have "resolve ?h s \<in> made_dirs d" by (auto simp: path made_dirs_def sub_path_def)
    then show "s \<noteq> [] \<and> (\<exists>x. resolve ?h s = ?top @ [x]) \<and> fmlookup (files w) (resolve ?h s) = None"
      using p assms(1,4) by (auto simp: path sub_path_def)
  qed
  have "is_dir (files w) ?top" using assms(3) by (simp add: is_dir_def)
  from Mkdirs_run [OF this distinct new] obtain w1 where
    w1: "forE (os_Mkdir ?h) ?ms w = (Inr (), w1)"
      "\<forall>q. fmlookup (files w1) q = (if q \<in> site_dirs d then Some Dir else fmlookup (files w) q)"
    unfolding dirs by blast
  have vols: "plain v \<and> certs_dir d @ [v] \<in> made_dirs d" if "v \<in> set (transport_volumes options)" for v
    using that by (auto simp: transport_volumes_def plain_def made_dirs_def split: if_splits)
  then have vpath: "resolve ?h (skupper_path cli CertsPath @ ''/'' @ v) = certs_dir d @ [v]" if "v \<in> set (transport_volumes options)" for v
    using that resolve_cert(1) [OF assms(1)] by simp
  have "distinct (transport_volumes options)" by (simp add: transport_volumes_def)
  then have distinct2: "distinct (map (resolve ?h) ?vs)"
    using vpath by (auto simp: distinct_map inj_on_def)
  have apart: "certs_dir d @ [v] \<notin> site_dirs d" for v by (auto simp: site_dirs_def certs_dir_def)
  have new2: "\<forall>s \<in> set ?vs. s \<noteq> [] \<and> (\<exists>x. resolve ?h s = certs_dir d @ [x]) \<and> fmlookup (files w1) (resolve ?h s) = None"
    using vols vpath apart w1(2) assms(4) by auto
  have "certs_dir d \<in> site_dirs d" by (simp add: site_dirs_def certs_dir_def)
  then have "is_dir (files w1) (certs_dir d)" using w1(2) by (simp add: is_dir_def)
  from Mkdirs_run [OF this distinct2 new2] obtain w2 where
    w2: "forE (os_Mkdir ?h) ?vs w1 = (Inr (), w2)"
      "\<forall>q. fmlookup (files w2) q = (if q \<in> resolve ?h ` set ?vs then Some Dir else fmlookup (files w1) q)" by blast
  have vset: "resolve ?h ` set ?vs = (\<lambda>v. certs_dir d @ [v]) ` set (transport_volumes options)"
    using vpath by (auto simp: image_iff)
  note w2' = w2(2) [unfolded vset]
  have s: "resolve ?h (skupper_path cli ServicesPath) = ?top @ [''services'']" by (simp add: path sub_path_def)
  have top2: "fmlookup (files w2) ?top = Some Dir"
    using w2(2) w1(2) vset assms(3) by (auto simp: certs_dir_def site_dirs_def)
  have "?top @ [''services''] \<in> made_dirs d" by (simp add: made_dirs_def)
  then have "fmlookup (files w2) (?top @ [''services'']) = None"
    using w2(2) w1(2) vset assms(4) by (auto simp: certs_dir_def site_dirs_def)
  then have w3: "os_Mkdir ?h (skupper_path cli ServicesPath) w2 =
      (Inr (), w2\<lparr>files := fmupd (?top @ [''services'']) Dir (files w2)\<rparr>)"
    using top2 s assms(1) by (intro Mkdir_run) (simp_all add: is_dir_def)
  have "make_directories cli (router_spec cli options uid name) w =
      (Inr (), w2\<lparr>files := fmupd (?top @ [''services'']) Dir (files w2)\<rparr>)"
    using w1(1) w2(1) w3 by (simp add: make_directories_def router_spec_def forE_pairs forE_map)
  moreover have "certs_dir d @ [v] \<in> made_dirs d" if "v \<in> set (transport_volumes options)" for v
    using vols that by blast
  moreover have "site_dirs d \<subseteq> made_dirs d" by (auto simp: site_dirs_def made_dirs_def)
  moreover have "site_dirs d \<inter> resolve ?h ` set ?vs = {}" using vset apart by auto
  ultimately show ?thesis
    using w1(2) w2' \<open>?top @ [''services''] \<in> made_dirs d\<close> unfolding vset by auto
qed

lemma site_write_run:
  assumes "site_at cli d" and "plain x" and "p \<noteq> HostPath"
    and "fmlookup (files w) (d @ [''skupper'', skupperPaths p]) = Some Dir"
    and "fmlookup (files w) (d @ [''skupper'', skupperPaths p, x]) \<noteq> Some Dir"
  shows "os_WriteFile (Host cli) (skupper_path cli p @ CHR ''/'' # x) c w =
    (Inr (), w\<lparr>files := fmupd (d @ [''skupper'', skupperPaths p, x]) (File c) (files w)\<rparr>)"
proof -
  have "resolve (Host cli) (skupper_path cli p @ CHR ''/'' # x) = (d @ [''skupper'', skupperPaths p]) @ [x]"
    using resolve_under [OF assms(1), of "[x]" p] assms(2,3) by (simp add: sub_path_def)
  from WriteFile_run [OF _ this, of w c] assms(4,5) show ?thesis by (simp add: is_dir_def)
qed

lemma write_site_files_done:
  assumes "site_at cli d" and "plain (sc_User options) \<or> \<not> (sc_EnableConsole options \<and> sc_AuthMode options = ConsoleAuthModeInternal)"
    and "\<forall>p \<in> {ServicesPath, ConfigPath, SaslConfigPath, ConsoleUsersPath}.
      fmlookup (files w) (d @ [''skupper'', skupperPaths p]) = Some Dir \<and>
      (\<forall>x. fmlookup (files w) (d @ [''skupper'', skupperPaths p, x]) \<noteq> Some Dir)"
  shows "\<exists>w'. write_site_files cli options van w = (Inr (), w')"
proof -
  have names: "plain ''skupper-services''" "plain ''qdrouterd.json''" "plain ''qdrouterd.conf''" by (simp_all add: plain_def)
  let ?w1 = "w\<lparr>files := fmupd (d @ [''skupper'', skupperPaths ServicesPath, ''skupper-services'']) (File (marshal_defs fmempty)) (files w)\<rparr>"
  let ?w2 = "?w1\<lparr>files := fmupd (d @ [''skupper'', skupperPaths ConfigPath, ''qdrouterd.json'']) (File (rs_RouterConfig van)) (files ?w1)\<rparr>"
  have one: "os_WriteFile (Host cli) (skupper_path cli ServicesPath @ ''/skupper-services'') (marshal_defs fmempty) w = (Inr (), ?w1)"
    using assms(3) by (intro site_write_run [OF assms(1) names(1)]) auto
  have two: "os_WriteFile (Host cli) (config_file cli) (rs_RouterConfig van) ?w1 = (Inr (), ?w2)"
    unfolding config_file_def using assms(3) by (intro site_write_run [OF assms(1) names(2)]) auto
  show ?thesis
  proof (cases "sc_EnableConsole options \<and> sc_AuthMode options = ConsoleAuthModeInternal")
    case False
    then show ?thesis using one two by (auto simp: write_site_files_def)
  next
    case True
    then have user: "plain (sc_User options)" using assms(2) by blast
    let ?w3 = "?w2\<lparr>files := fmupd (d @ [''skupper'', skupperPaths SaslConfigPath, ''qdrouterd.conf'']) (File sasl_config) (files ?w2)\<rparr>"
    have three: "os_WriteFile (Host cli) (skupper_path cli SaslConfigPath @ ''/qdrouterd.conf'') sasl_config ?w2 = (Inr (), ?w3)"
      using assms(3) by (intro site_write_run [OF assms(1) names(3)]) auto
    have "\<exists>w4. os_WriteFile (Host cli) (skupper_path cli ConsoleUsersPath @ CHR ''/'' # sc_User options) (sc_Password options) ?w3 = (Inr (), w4)"
      using assms(3) by (intro exI) (rule site_write_run [OF assms(1) user]; auto)
    then show ?thesis using one two three True by (auto simp: write_site_files_def)
  qed
qed

lemma deploy_granted:
  assumes "site_at cli d" and "range_ok (h_rng (Host cli))" and "grants (DockerInterface cli)"
    and "plain (sc_User options) \<or> \<not> (sc_EnableConsole options \<and> sc_AuthMode options = ConsoleAuthModeInternal)"
    and "fmlookup (files w) (d @ [''skupper'']) = Some Dir"
    and "\<And>e es. e \<noteq> ''sites'' \<Longrightarrow> fmlookup (files w) (d @ ''skupper'' # e # es) = None"
  shows "\<exists>w'. deploy cli options (router_spec cli options uid name) w = (Inr (), w')"
proof -
  let ?dd = "DockerInterface cli" and ?van = "router_spec cli options uid name"
  let ?ps = "{ServicesPath, ConfigPath, SaslConfigPath, ConsoleUsersPath}"
  note g = granted [OF assms(3)]
  obtain w1 where p1: "dd_PullImage ?dd (ds_Image (rs_Transport ?van)) ''{}'' w = (Inr (), w1)" "files w1 = files w"
    using g(1) by blast
  obtain w2 where p2: "dd_PullImage ?dd (ds_Image (rs_Controller ?van)) ''{}'' w1 = (Inr (), w2)" "files w2 = files w1"
    using g(1) by blast
  have files2: "files w2 = files w" by (simp add: p1(2) p2(2))
  have "\<forall>q \<in> made_dirs d. fmlookup (files w2) q = None"
    using assms(6) by (auto simp: files2 made_dirs_def certs_dir_def)
  then obtain w3 where dirs: "make_directories cli ?van w2 = (Inr (), w3)"
      "\<forall>q \<in> site_dirs d \<union> {d @ [''skupper'', ''services'']}. fmlookup (files w3) q = Some Dir"
      "\<forall>q. q \<notin> made_dirs d \<longrightarrow> fmlookup (files w3) q = fmlookup (files w2) q"
    using make_directories_run [OF assms(1,2), of w2] assms(5) files2 by metis
  have there: "fmlookup (files w3) (d @ [''skupper'', skupperPaths p]) = Some Dir" if "p \<in> ?ps" for p
    using that dirs(2) by (auto simp: site_dirs_def)
  have "fmlookup (files w3) (d @ [''skupper'', skupperPaths p, x]) = None" if "p \<in> ?ps" for p x
  proof -
    have "d @ [''skupper'', skupperPaths p, x] \<notin> made_dirs d" "skupperPaths p \<noteq> ''sites''"
      using that by (auto simp: made_dirs_def certs_dir_def)
    then show ?thesis using dirs(3) assms(6) [of "skupperPaths p" "[x]"] files2 by simp
  qed
  then have "\<forall>p \<in> ?ps. fmlookup (files w3) (d @ [''skupper'', skupperPaths p]) = Some Dir \<and>
      (\<forall>x. fmlookup (files w3) (d @ [''skupper'', skupperPaths p, x]) \<noteq> Some Dir)"
    using there by (metis option.distinct(1))
  from write_site_files_done [OF assms(1,4) this] obtain w4 where
    written: "write_site_files cli options ?van w3 = (Inr (), w4)" by blast
  obtain w5 where "launch cli ?van w4 = (Inr (), w5)" using launch_granted [OF assms(3)] by blast
  then show ?thesis using p1(1) p2(1) dirs(1) written by (simp add: deploy_def)
qed

lemma van_name_granted:
  assumes "grants (DockerInterface cli)"
  shows "\<exists>name w'. van_name cli options w = (Inr name, w') \<and> files w' = files w"
  using granted(6) [OF assms, of w] by (cases "sc_SkupperName options = []") (auto simp: van_name_def)

lemma creation_granted:
  assumes "site_at cli d" and "range_ok (h_rng (Host cli))" and "grants (DockerInterface cli)"
    and "wf_fs (files w)" and "fmlookup (files w) d = Some Dir"
    and "sc_User options0 = [] \<or> plain (sc_User options0)" and "console_options (Host cli) options0 = Inr options"
  shows "\<exists>w'. RouterCreate cli options0 w = (Inr (), w')"
proof -
  let ?h = "Host cli" and ?top = "d @ [''skupper'']"
  have d: "d \<noteq> []" using assms(1) by (simp add: rooted_at_def)
  have path: "resolve ?h (skupper_path cli p) = d @ ''skupper'' # sub_path p" for p
    using resolve_under [OF assms(1), of "[]" p] by simp
  define F where "F = fs_RemoveAll (files w) ?top"
  have F: "wf_fs F" "fmlookup F d = Some Dir" "\<And>es. fmlookup F (?top @ es) = None"
    using wf_fs_RemoveAll [OF assms(4)] assms(5) by (simp_all add: F_def fs_RemoveAll_def)
  have removed: "logged (os_RemoveAll ?h (skupper_path cli HostPath)) w = (Inr (), w\<lparr>files := F\<rparr>)"
    using assms(1) by (simp add: logged_def tryE_def os_RemoveAll_def path sub_path_def F_def)
  let ?w1 = "w\<lparr>files := fmupd ?top Dir F\<rparr>" and ?w2 = "w\<lparr>files := fmupd (?top @ [''sites'']) Dir (fmupd ?top Dir F)\<rparr>"
  have made: "os_MkdirAll ?h (skupper_path cli HostPath) (w\<lparr>files := F\<rparr>) = (Inr (), ?w1)"
    using MkdirAll_run [OF F(1,2), of "''skupper''"] F(3) [of "[]"] assms(1) by (simp add: os_MkdirAll_def path sub_path_def)
  have sites: "os_Mkdir ?h (skupper_path cli SitesPath) ?w1 = (Inr (), ?w2)"
    using Mkdir_run [of "skupper_path cli SitesPath" ?h ?top "''sites''" ?w1] F(3) [of "[''sites'']"] assms(1)
    by (simp add: path sub_path_def is_dir_def)
  have "plain ''skupper0.json''" by (simp add: plain_def)
  from site_write_run [OF assms(1) this, of SitesPath ?w2] F(3) [of "[''sites'', ''skupper0.json'']"]
  have "os_WriteFile ?h (site_file cli DefaultBridgeName) c ?w2 =
      (Inr (), ?w2\<lparr>files := fmupd (?top @ [''sites'', ''skupper0.json'']) (File c) (files ?w2)\<rparr>)" for c
    by (simp add: site_file_def DefaultBridgeName_def)
  then obtain c where site: "SiteConfigCreate cli options ?w2 =
      (Inr \<lparr>sg_Spec = options, sg_UID = h_uuid ?h\<rparr>, ?w2\<lparr>files := fmupd (?top @ [''sites'', ''skupper0.json'']) (File c) (files ?w2)\<rparr>)"
    by (simp add: SiteConfigCreate_def Let_def NewUUID_def)
  define w3 where "w3 = ?w2\<lparr>files := fmupd (?top @ [''sites'', ''skupper0.json'']) (File c) (files ?w2)\<rparr>"
  obtain name w4 where name: "van_name cli options w3 = (Inr name, w4)" "files w4 = files w3"
    using van_name_granted [OF assms(3)] by blast
  have "fmlookup (files w4) ?top = Some Dir" by (simp add: name(2) w3_def)
  moreover have "fmlookup (files w4) (d @ ''skupper'' # e # es) = None" if "e \<noteq> ''sites''" for e es
    using that F(3) [of "e # es"] by (simp add: name(2) w3_def)
  ultimately obtain w5 where "deploy cli options (router_spec cli options (h_uuid ?h) name) w4 = (Inr (), w5)"
    using deploy_granted [OF assms(1-3) console_options_user [OF assms(7,6)]] by blast
  then have "build_site cli options (w\<lparr>files := F\<rparr>) = (Inr (), w5)"
    using made sites site name(1) by (simp add: build_site_def spec_then w3_def)
  then show ?thesis using removed assms(7) by (simp add: RouterCreate_def)
qed

text \<open>
  C32 (liveness). On a host where the directory for sites exists, with options that pass their check and a daemon that
  grants every request, a creation succeeds, whatever is in the site's directory before.
\<close>

theorem router_create_succeeds:
  assumes "site_at cli d" and "range_ok (h_rng (Host cli))" and "grants (DockerInterface cli)"
    and "wf_fs (files w)" and "fmlookup (files w) d = Some Dir"
    and "sc_User options0 = [] \<or> plain (sc_User options0)" and "console_options (Host cli) options0 = Inr options"
  shows "\<exists>w'. RouterCreate cli options0 w = (Inr (), w')"
  using assms by (rule creation_granted)

section \<open>At a concrete host\<close>

definition yes_client :: skupDockerClient where
  "yes_client = newSkupDockerClient ((sim_api fmempty)\<lparr>api_unit := \<lambda>_. Inr (), api_create := \<lambda>_. Inr ''id''\<rparr>) 0 (10 * second)"

definition init_cli :: VanClient where
  "init_cli = \<lparr>DockerInterface = yes_client, Host = sample_host\<rparr>"

definition init_options :: SiteConfigSpec where
  "init_options = zero_SiteConfigSpec\<lparr>sc_SkupperName := ''west''\<rparr>"

lemma init_facts:
  "site_at init_cli [''t'']" "range_ok (h_rng (Host init_cli))" "grants (DockerInterface init_cli)"
  "plain_certs (Host init_cli)" "console_options (Host init_cli) init_options = Inr init_options"
  "sc_User init_options = []" "sc_SkupperName init_options = ''west''"
proof -
  show "site_at init_cli [''t'']" using site_cli_at by (simp add: init_cli_def)
  show "range_ok (h_rng (Host init_cli))" by (simp add: init_cli_def)
  show "grants (DockerInterface init_cli)"
    by (simp add: grants_def init_cli_def yes_client_def newSkupDockerClient_def sim_api_def sim_messages_good)
  show "plain_certs (Host init_cli)" by (simp add: plain_certs_def init_cli_def sample_host_def)
  show "console_options (Host init_cli) init_options = Inr init_options" "sc_User init_options = []"
    "sc_SkupperName init_options = ''west''"
    by (simp_all add: console_options_def init_options_def zero_SiteConfigSpec_def)
qed

lemma wf_link_world: "wf_fs (files link_world)"
  unfolding link_world_def world.simps
  by (intro wf_fs_upd_File wf_fs_upd_Dir wf_site_world) (simp_all add: site_world_def is_dir_def sub_dirs_def)

lemma link_world_dir: "fmlookup (files link_world) [''t''] = Some Dir"
  by (simp add: link_world_def site_world_def sub_dirs_def)

lemma router_create_succeeds_witness: "\<exists>w'. RouterCreate init_cli init_options link_world = (Inr (), w')"
  using router_create_succeeds [OF init_facts(1-3) wf_link_world link_world_dir _ init_facts(5)] init_facts(6) by blast

lemma router_create_result_witness:
  "\<exists>w'. RouterCreate init_cli init_options link_world = (Inr (), w') \<and> services init_cli w' = Some fmempty \<and>
    router_config init_cli w' = Some (initial_router_config init_options ''west'' ''uuid'')"
proof -
  from creation_granted [OF init_facts(1-3) wf_link_world link_world_dir _ init_facts(5)] init_facts(6) obtain w' where
    run: "RouterCreate init_cli init_options link_world = (Inr (), w')" by blast
  have "h_uuid (Host init_cli) = ''uuid''" by (simp add: init_cli_def sample_host_def)
  with router_create_result [OF init_facts(1,4,2) _ run] run init_facts(5-7) show ?thesis by auto
qed

lemma router_create_clears_witness:
  "fmlookup (files link_world) [''t'', ''skupper'', ''connections'', ''east'', ''inter-router-host''] \<noteq> None \<and>
   fmlookup (files (snd (RouterCreate init_cli init_options link_world)))
     [''t'', ''skupper'', ''connections'', ''east'', ''inter-router-host''] = None"
proof -
  obtain r w' where run: "RouterCreate init_cli init_options link_world = (r, w')" by fastforce
  from router_create_clears [OF init_facts(1,4,2) _ init_facts(5) run, of "''east''" "[''inter-router-host'']"] init_facts(6) run
  show ?thesis by (simp add: connections_dir_def link_world_def)
qed

end
