(* ===== verification/CommandLine.thy ===== *)
theory CommandLine
  imports Cli Creation
begin

text \<open>
  The table of commands of \<open>cmd/skupper-docker/main.go\<close>: for each the words that name it, the check of its arguments, its
  flags with their defaults, and what it runs with the values of the flags. The package that parses the command
  line is not under \<open>src/\<close>: its own two argument checks are parameters, and a command is given the values of its
  flags. Help texts are left out.
\<close>

section \<open>Flags\<close>

datatype flag = StringFlag string string | BoolFlag string bool | IntFlag string int | Int32Flag string int32

record flag_values =
  fv_string :: "string \<Rightarrow> string"
  fv_bool :: "string \<Rightarrow> bool"
  fv_int :: "string \<Rightarrow> int"
  fv_int32 :: "string \<Rightarrow> int32"

section \<open>Commands\<close>

record cobra =
  cb_NoArgs :: "string list \<Rightarrow> unit result"
  cb_ExactArgs :: "nat \<Rightarrow> string list \<Rightarrow> unit result"

record cobra_command =
  cm_Use :: string
  cm_Args :: "string list \<Rightarrow> unit result"
  cm_Flags :: "flag list"
  cm_RunE :: "VanClient \<Rightarrow> flag_values \<Rightarrow> string list \<Rightarrow> command"

definition with_arg :: "(string \<Rightarrow> command) \<Rightarrow> string list \<Rightarrow> command" where
  "with_arg f args w = (case index_args args 0 of Inl e \<Rightarrow> (([], Some e), w) | Inr a \<Rightarrow> f a w)"

definition init_spec :: "flag_values \<Rightarrow> SiteConfigSpec" where
  "init_spec v =
     \<lparr>sc_SkupperName = fv_string v ''id'', sc_SkupperNamespace = [], sc_IsEdge = fv_bool v ''edge'',
      sc_EnableController = fv_bool v ''enable-proxy-controller'',
      sc_EnableServiceSync = fv_bool v ''enable-service-sync'',
      sc_EnableRouterConsole = fv_bool v ''enable-router-console'', sc_EnableConsole = fv_bool v ''enable-console'',
      sc_AuthMode = fv_string v ''console-auth'', sc_User = fv_string v ''console-user'',
      sc_Password = fv_string v ''console-password'', sc_MapToHost = fv_bool v ''publish-to-host'',
      sc_Replicas = 0, sc_TraceLog = fv_bool v ''enable-trace-log''\<rparr>"

definition NewCmdInit :: "cobra \<Rightarrow> cobra_command" where
  "NewCmdInit cb =
     \<lparr>cm_Use = ''init'', cm_Args = cb_NoArgs cb,
      cm_Flags =
        [StringFlag ''id'' [], BoolFlag ''edge'' False, BoolFlag ''enable-proxy-controller'' False,
         BoolFlag ''enable-service-sync'' True, BoolFlag ''enable-router-console'' False,
         BoolFlag ''enable-console'' False, StringFlag ''console-auth'' [], StringFlag ''console-user'' [],
         StringFlag ''console-password'' [], BoolFlag ''publish-to-host'' False, BoolFlag ''enable-trace-log'' False],
      cm_RunE = (\<lambda>cli v args. cmd_init cli (init_spec v))\<rparr>"

definition NewCmdDelete :: "(error \<Rightarrow> string) \<Rightarrow> cobra \<Rightarrow> cobra_command" where
  "NewCmdDelete show_error cb =
     \<lparr>cm_Use = ''delete'', cm_Args = cb_NoArgs cb, cm_Flags = [],
      cm_RunE = (\<lambda>cli v args. cmd_delete show_error cli)\<rparr>"

definition NewCmdConnectionToken :: "cobra \<Rightarrow> cobra_command" where
  "NewCmdConnectionToken cb =
     \<lparr>cm_Use = ''connection-token <output-file>'', cm_Args = cb_ExactArgs cb 1,
      cm_Flags = [StringFlag ''client-identity'' ''skupper''],
      cm_RunE = (\<lambda>cli v. with_arg (cmd_connection_token cli (fv_string v ''client-identity'')))\<rparr>"

definition NewCmdConnect :: "cobra \<Rightarrow> cobra_command" where
  "NewCmdConnect cb =
     \<lparr>cm_Use = ''connect <connection-token-file>'', cm_Args = cb_ExactArgs cb 1,
      cm_Flags = [StringFlag ''connection-name'' [], Int32Flag ''cost'' 1],
      cm_RunE = (\<lambda>cli v. with_arg
        (cmd_connect cli \<lparr>co_Name = fv_string v ''connection-name'', co_Cost = fv_int32 v ''cost''\<rparr>))\<rparr>"

definition NewCmdDisconnect :: "cobra \<Rightarrow> cobra_command" where
  "NewCmdDisconnect cb =
     \<lparr>cm_Use = ''disconnect <name>'', cm_Args = cb_ExactArgs cb 1, cm_Flags = [],
      cm_RunE = (\<lambda>cli v. with_arg (cmd_disconnect cli))\<rparr>"

definition NewCmdListConnectors :: "cobra \<Rightarrow> cobra_command" where
  "NewCmdListConnectors cb =
     \<lparr>cm_Use = ''list-connectors'', cm_Args = cb_NoArgs cb, cm_Flags = [],
      cm_RunE = (\<lambda>cli v args. cmd_list_connectors cli)\<rparr>"

definition NewCmdCheckConnection :: "cobra \<Rightarrow> cobra_command" where
  "NewCmdCheckConnection cb =
     \<lparr>cm_Use = ''check-connection all|<connection-name>'', cm_Args = cb_ExactArgs cb 1, cm_Flags = [IntFlag ''wait'' 1],
      cm_RunE = (\<lambda>cli v. with_arg (cmd_check_connection cli (fv_int v ''wait'')))\<rparr>"

definition NewCmdStatus :: "cobra \<Rightarrow> cobra_command" where
  "NewCmdStatus cb =
     \<lparr>cm_Use = ''status'', cm_Args = cb_NoArgs cb, cm_Flags = [], cm_RunE = (\<lambda>cli v args. cmd_status cli)\<rparr>"

definition NewCmdExpose :: cobra_command where
  "NewCmdExpose =
     \<lparr>cm_Use = ''expose [container <name>|host-service]'', cm_Args = exposeTargetArgs,
      cm_Flags = [StringFlag ''protocol'' ''tcp'', StringFlag ''address'' [], IntFlag ''port'' 0, IntFlag ''target-port'' 0],
      cm_RunE = (\<lambda>cli v. cmd_expose cli
        \<lparr>so_Protocol = fv_string v ''protocol'', so_Address = fv_string v ''address'', so_Port = fv_int v ''port'',
         so_TargetPort = fv_int v ''target-port'', so_Headless = False\<rparr>)\<rparr>"

definition NewCmdUnexpose :: cobra_command where
  "NewCmdUnexpose =
     \<lparr>cm_Use = ''unexpose [container <name>|host-service <name>]'', cm_Args = exposeTargetArgs,
      cm_Flags = [StringFlag ''address'' []],
      cm_RunE = (\<lambda>cli v. cmd_unexpose cli (fv_string v ''address''))\<rparr>"

definition NewCmdListExposed :: "cobra \<Rightarrow> cobra_command" where
  "NewCmdListExposed cb =
     \<lparr>cm_Use = ''list-exposed'', cm_Args = cb_NoArgs cb, cm_Flags = [],
      cm_RunE = (\<lambda>cli v args. cmd_list_exposed cli)\<rparr>"

definition NewCmdCreateService :: cobra_command where
  "NewCmdCreateService =
     \<lparr>cm_Use = ''create <name> <port>'', cm_Args = createServiceArgs,
      cm_Flags = [StringFlag ''mapping'' ''tcp'', StringFlag ''aggregate'' [], BoolFlag ''event-channel'' False],
      cm_RunE = (\<lambda>cli v. cmd_create_service cli
        (zero_ServiceInterface\<lparr>si_Protocol := fv_string v ''mapping'', si_Aggregate := fv_string v ''aggregate'',
           si_EventChannel := fv_bool v ''event-channel''\<rparr>))\<rparr>"

definition NewCmdDeleteService :: "cobra \<Rightarrow> cobra_command" where
  "NewCmdDeleteService cb =
     \<lparr>cm_Use = ''delete <name>'', cm_Args = cb_ExactArgs cb 1, cm_Flags = [],
      cm_RunE = (\<lambda>cli v. with_arg (cmd_delete_service cli))\<rparr>"

definition NewCmdBind :: cobra_command where
  "NewCmdBind =
     \<lparr>cm_Use = ''bind <service-name> <target-type> <target-name>'', cm_Args = bindArgs,
      cm_Flags = [StringFlag ''protocol'' [], IntFlag ''target-port'' 0],
      cm_RunE = (\<lambda>cli v. cmd_bind cli (fv_string v ''protocol'') (fv_int v ''target-port''))\<rparr>"

definition NewCmdUnbind :: cobra_command where
  "NewCmdUnbind =
     \<lparr>cm_Use = ''unbind <service-name> <target-type> <target-name>'', cm_Args = bindArgs, cm_Flags = [],
      cm_RunE = (\<lambda>cli v. cmd_unbind cli)\<rparr>"

definition NewCmdVersion :: "string \<Rightarrow> cobra \<Rightarrow> cobra_command" where
  "NewCmdVersion version cb =
     \<lparr>cm_Use = ''version'', cm_Args = cb_NoArgs cb, cm_Flags = [], cm_RunE = (\<lambda>cli v args. cmd_version version cli)\<rparr>"

text \<open>\<open>service\<close> runs nothing itself and has two commands of its own; the others are directly below the root.\<close>

datatype command_tree = Run cobra_command | Group string "cobra_command list"

definition NewCmdService :: "cobra_command list \<Rightarrow> command_tree" where
  "NewCmdService cs = Group ''service create <name> <port> or service delete port'' cs"

definition root_commands :: "(error \<Rightarrow> string) \<Rightarrow> string \<Rightarrow> cobra \<Rightarrow> command_tree list" where
  "root_commands show_error version cb =
     [Run (NewCmdInit cb), Run (NewCmdDelete show_error cb), Run (NewCmdConnectionToken cb), Run (NewCmdConnect cb),
      Run (NewCmdDisconnect cb), Run (NewCmdListConnectors cb), Run (NewCmdCheckConnection cb), Run (NewCmdStatus cb),
      Run NewCmdExpose, Run NewCmdUnexpose, Run (NewCmdListExposed cb),
      NewCmdService [NewCmdCreateService, NewCmdDeleteService cb],
      Run NewCmdBind, Run NewCmdUnbind, Run (NewCmdVersion version cb)]"

section \<open>Two flags without effect\<close>

definition differ_in_unused :: "flag_values \<Rightarrow> flag_values \<Rightarrow> bool" where
  "differ_in_unused v v' \<longleftrightarrow>
     fv_string v' = fv_string v \<and>
     (\<forall>n. n \<noteq> ''enable-proxy-controller'' \<and> n \<noteq> ''enable-service-sync'' \<longrightarrow> fv_bool v' n = fv_bool v n)"

lemma unused_spec:
  assumes "differ_in_unused v v'"
  shows "init_spec v' = (init_spec v)\<lparr>sc_EnableController := sc_EnableController (init_spec v'),
    sc_EnableServiceSync := sc_EnableServiceSync (init_spec v')\<rparr>"
  using assms by (simp add: differ_in_unused_def init_spec_def)

lemma unused_console:
  assumes "console_options h options = Inr o1"
  shows "console_options h (options\<lparr>sc_EnableController := x, sc_EnableServiceSync := y\<rparr>) =
    Inr (o1\<lparr>sc_EnableController := x, sc_EnableServiceSync := y\<rparr>)"
  using assms by (auto simp: console_options_def split: if_splits)

lemma unused_config:
  "initial_router_config (options\<lparr>sc_EnableController := x, sc_EnableServiceSync := y\<rparr>) name uid =
     initial_router_config options name uid"
  by (simp add: initial_router_config_def with_site_listeners_def with_console_def)

lemma unused_requests:
  "creation_requests cli (options\<lparr>sc_EnableController := x, sc_EnableServiceSync := y\<rparr>)
      (router_spec cli (options\<lparr>sc_EnableController := x, sc_EnableServiceSync := y\<rparr>) uid name) =
    creation_requests cli options (router_spec cli options uid name)"
  by (simp add: creation_requests_def router_spec_def unused_config transport_env_def transport_ports_def transport_volumes_def
      controller_env_def site_authorities_def site_credentials_def)

lemma init_success:
  assumes "cm_RunE (NewCmdInit cb) cli v args w = ((out, None), w')"
  shows "RouterCreate cli (init_spec v) w = (Inr (), w')"
  using assms by (auto simp: NewCmdInit_def cmd_init_def cmd_end_def split: prod.splits sum.splits)

text \<open>
  C18 (equivalence). What \<open>init\<close> makes of its flags: with a name given, a successful run leaves the site its flags
  describe, and the flags \<open>enable-proxy-controller\<close> and \<open>enable-service-sync\<close> have no effect: two runs on the same host that
  differ in them only ask the daemon for the same images, network and containers, the controller's included, and
  leave the same services and router configuration.
\<close>

theorem init_ignores_flags:
  assumes "site_at cli d" and "plain_certs (Host cli)" and "range_ok (h_rng (Host cli))"
    and "fv_string v ''console-user'' = [] \<or> plain (fv_string v ''console-user'')" and "fv_string v ''id'' \<noteq> []"
    and "differ_in_unused v v'"
    and "cm_RunE (NewCmdInit cb) cli v [] w = ((out, None), w1)" and "cm_RunE (NewCmdInit cb) cli v' [] w = ((out', None), w2)"
  shows "map rq_call (calls w2) = map rq_call (calls w1) \<and> ContainerStart ControllerDeploymentName \<in> set (map rq_call (calls w1)) \<and>
    services cli w2 = services cli w1 \<and> router_config cli w2 = router_config cli w1 \<and>
    (\<exists>options. console_options (Host cli) (init_spec v) = Inr options \<and>
      site_of cli w1 = Some \<lparr>sg_Spec = options, sg_UID = h_uuid (Host cli)\<rparr> \<and>
      router_config cli w1 = Some (initial_router_config options (fv_string v ''id'') (h_uuid (Host cli))))"
proof -
  let ?s = "init_spec v" and ?s' = "init_spec v'" and ?uid = "h_uuid (Host cli)"
  have user: "sc_User ?s = [] \<or> plain (sc_User ?s)" "sc_User ?s' = [] \<or> plain (sc_User ?s')"
    using assms(4,6) by (simp_all add: init_spec_def differ_in_unused_def)
  obtain o1 n1 where one: "console_options (Host cli) ?s = Inr o1" "sc_SkupperName o1 = [] \<or> n1 = sc_SkupperName o1"
    "services cli w1 = Some fmempty" "router_config cli w1 = Some (initial_router_config o1 n1 ?uid)"
    "site_of cli w1 = Some \<lparr>sg_Spec = o1, sg_UID = ?uid\<rparr>"
    "map rq_call (calls w1) = map rq_call (calls w) @ creation_requests cli o1 (router_spec cli o1 ?uid n1)"
    using creation_leaves [OF assms(1-3) user(1) init_success [OF assms(7)]] by blast
  obtain o2 n2 where two: "console_options (Host cli) ?s' = Inr o2" "sc_SkupperName o2 = [] \<or> n2 = sc_SkupperName o2"
    "services cli w2 = Some fmempty" "router_config cli w2 = Some (initial_router_config o2 n2 ?uid)"
    "map rq_call (calls w2) = map rq_call (calls w) @ creation_requests cli o2 (router_spec cli o2 ?uid n2)"
    using creation_leaves [OF assms(1-3) user(2) init_success [OF assms(8)]] by blast
  let ?x = "sc_EnableController ?s'" and ?y = "sc_EnableServiceSync ?s'"
  have o2: "o2 = o1\<lparr>sc_EnableController := ?x, sc_EnableServiceSync := ?y\<rparr>"
    using two(1) unused_console [OF one(1), of ?y ?x] unused_spec [OF assms(6)] by simp
  have "sc_SkupperName o1 = fv_string v ''id''"
    using one(1) by (auto simp: console_options_def init_spec_def split: if_splits)
  then have names: "n1 = fv_string v ''id''" "n2 = fv_string v ''id''" using one(2) two(2) assms(5) by (simp_all add: o2)
  have requests: "map rq_call (calls w2) = map rq_call (calls w1)"
    unfolding two(5) one(6) o2 names unused_requests ..
  have controller: "ContainerStart ControllerDeploymentName \<in> set (map rq_call (calls w1))"
    unfolding one(6) by (simp add: creation_requests_def)
  have "router_config cli w2 = router_config cli w1" unfolding two(4) one(4) o2 names unused_config ..
  then show ?thesis using requests controller one(1,3,4,5) two(3) names(1) by auto
qed

section \<open>Witness\<close>

text \<open>
  A parser for the witness: it sets every declared flag to its default and then each given one, as the package
  documents. The runs are \<open>init --id west\<close> and \<open>init --id west --enable-proxy-controller\<close>.
\<close>

fun set_flag :: "flag \<Rightarrow> flag_values \<Rightarrow> flag_values" where
  "set_flag (StringFlag n x) v = v\<lparr>fv_string := (fv_string v)(n := x)\<rparr>"
| "set_flag (BoolFlag n x) v = v\<lparr>fv_bool := (fv_bool v)(n := x)\<rparr>"
| "set_flag (IntFlag n x) v = v\<lparr>fv_int := (fv_int v)(n := x)\<rparr>"
| "set_flag (Int32Flag n x) v = v\<lparr>fv_int32 := (fv_int32 v)(n := x)\<rparr>"

definition sample_cobra :: cobra where
  "sample_cobra = \<lparr>cb_NoArgs = (\<lambda>_. Inr ()), cb_ExactArgs = (\<lambda>_ _. Inr ())\<rparr>"

definition given_flags :: "flag list \<Rightarrow> flag_values" where
  "given_flags given =
     fold set_flag (cm_Flags (NewCmdInit sample_cobra) @ given)
       \<lparr>fv_string = (\<lambda>_. []), fv_bool = (\<lambda>_. False), fv_int = (\<lambda>_. 0), fv_int32 = (\<lambda>_. 0)\<rparr>"

definition west_flags :: "flag list" where
  "west_flags = [StringFlag ''id'' ''west'']"

definition proxy_flags :: "flag list" where
  "proxy_flags = west_flags @ [BoolFlag ''enable-proxy-controller'' True]"

lemma west_values:
  "fv_string (given_flags west_flags) ''id'' = ''west''" "fv_string (given_flags west_flags) ''console-user'' = []"
  "fv_string (given_flags proxy_flags) ''console-user'' = []"
  "differ_in_unused (given_flags west_flags) (given_flags proxy_flags)"
  by (simp_all add: given_flags_def west_flags_def proxy_flags_def NewCmdInit_def differ_in_unused_def)

lemma west_options:
  "console_options (Host init_cli) (init_spec (given_flags west_flags)) = Inr (init_spec (given_flags west_flags))"
  "console_options (Host init_cli) (init_spec (given_flags proxy_flags)) = Inr (init_spec (given_flags proxy_flags))"
  by (simp_all add: console_options_def init_spec_def given_flags_def west_flags_def proxy_flags_def NewCmdInit_def)

lemma init_runs:
  assumes "console_options (Host init_cli) (init_spec v) = Inr (init_spec v)" and "fv_string v ''console-user'' = []"
  shows "\<exists>out w'. cm_RunE (NewCmdInit sample_cobra) init_cli v [] link_world = ((out, None), w')"
proof -
  have "sc_User (init_spec v) = []" using assms(2) by (simp add: init_spec_def)
  then obtain w' where "RouterCreate init_cli (init_spec v) link_world = (Inr (), w')"
    using creation_granted [OF init_facts(1-3) wf_link_world link_world_dir _ assms(1)] by blast
  then show ?thesis by (simp add: NewCmdInit_def cmd_init_def cmd_end_def)
qed

lemma init_ignores_flags_witness:
  "\<exists>out w1 out' w2.
     cm_RunE (NewCmdInit sample_cobra) init_cli (given_flags west_flags) [] link_world = ((out, None), w1) \<and>
     cm_RunE (NewCmdInit sample_cobra) init_cli (given_flags proxy_flags) [] link_world = ((out', None), w2) \<and>
     map rq_call (calls w2) = map rq_call (calls w1) \<and> ContainerStart ControllerDeploymentName \<in> set (map rq_call (calls w1))"
proof -
  obtain out w1 where a: "cm_RunE (NewCmdInit sample_cobra) init_cli (given_flags west_flags) [] link_world = ((out, None), w1)"
    using init_runs [OF west_options(1) west_values(2)] by blast
  obtain out' w2 where b: "cm_RunE (NewCmdInit sample_cobra) init_cli (given_flags proxy_flags) [] link_world = ((out', None), w2)"
    using init_runs [OF west_options(2) west_values(3)] by blast
  have user: "fv_string (given_flags west_flags) ''console-user'' = [] \<or> plain (fv_string (given_flags west_flags) ''console-user'')"
    and named: "fv_string (given_flags west_flags) ''id'' \<noteq> []" by (simp_all add: west_values)
  from a b init_ignores_flags [OF init_facts(1,4,2) user named west_values(4) a b] show ?thesis by blast
qed

end
