(* ===== verification/Streams.thy ===== *)
theory Streams
  imports LibDocker
begin

text \<open>
  The rest of \<open>pkg/docker/libdocker/skupper_docker_client.go\<close>: the methods that connect the program's
  streams to a container's (\<open>Logs\<close>, \<open>StartExec\<close>, \<open>AttachToContainer\<close>), which end only when a stream does, and
  the short calls no other component uses. \<open>holdHijackedConnection\<close> starts two goroutines and waits on two
  channels; it is a step relation over what the three of them have done, and a function of the streams says what
  every order of the steps returns. \<open>stdcopy\<close>, the demultiplexer of the docker library, is a parameter.
\<close>

section \<open>Copying\<close>

text \<open>A writer takes every byte, or a number of them and then fails. \<open>io.Copy\<close> stops at the first error of either
  side and at the end of the file, which is no error; \<open>None\<close> is a copy that does not end.\<close>

record writer =
  wr_limit :: "nat option"
  wr_error :: error

definition Discard :: writer where
  "Discard = \<lparr>wr_limit = None, wr_error = PackageError []\<rparr>"

definition io_Copy :: "writer \<Rightarrow> reader \<Rightarrow> (string \<times> error option) option" where
  "io_Copy dst src =
     (case wr_limit dst of
        Some n \<Rightarrow>
          if n < length (rd_data src) then Some (take n (rd_data src), Some (wr_error dst))
          else map_option (Pair (rd_data src)) (rd_end src)
      | None \<Rightarrow> map_option (Pair (rd_data src)) (rd_end src))"

text \<open>What both output writers got, and the error.\<close>

type_synonym copied = "((string \<times> string) \<times> error option) option"

type_synonym demultiplexer = "writer \<Rightarrow> writer \<Rightarrow> reader \<Rightarrow> copied"

definition or_discard :: "writer option \<Rightarrow> writer" where
  "or_discard w = (case w of None \<Rightarrow> Discard | Some x \<Rightarrow> x)"

definition redirectResponseToOutputStream ::
  "demultiplexer \<Rightarrow> bool \<Rightarrow> writer option \<Rightarrow> writer option \<Rightarrow> reader \<Rightarrow> copied" where
  "redirectResponseToOutputStream stdcopy tty outputStream errorStream resp =
     (if tty then map_option (\<lambda>(bytes, err). ((bytes, []), err)) (io_Copy (or_discard outputStream) resp)
      else stdcopy (or_discard outputStream) (or_discard errorStream) resp)"

section \<open>Holding a connection\<close>

text \<open>\<open>ha_copy\<close> is what the goroutine that copies the output ends with, \<open>ha_input\<close> the bytes the one that copies
  the input has written when it ends (its error is dropped); each is \<open>None\<close> when that copy never ends.\<close>

record hold_args =
  ha_outputs :: bool
  ha_copy :: copied
  ha_input :: "string option"

definition hold_args_of ::
  "demultiplexer \<Rightarrow> bool \<Rightarrow> reader option \<Rightarrow> writer option \<Rightarrow> writer option \<Rightarrow> reader \<Rightarrow> writer \<Rightarrow> hold_args" where
  "hold_args_of stdcopy tty inputStream outputStream errorStream resp conn =
     \<lparr>ha_outputs = (outputStream \<noteq> None \<or> errorStream \<noteq> None),
      ha_copy = redirectResponseToOutputStream stdcopy tty outputStream errorStream resp,
      ha_input = (case inputStream of None \<Rightarrow> Some [] | Some input \<Rightarrow> map_option fst (io_Copy conn input))\<rparr>"

text \<open>Where the three are: the output copier (absent, copying, blocked on the unbuffered channel
  \<open>receiveStdout\<close> with its result, gone), the input copier (copying, copied, write half closed, \<open>stdinDone\<close>
  closed) and the caller (at the \<open>select\<close>, at the second receive, returned).\<close>

datatype out_state = OutAbsent | OutCopying | OutSending "error option" | OutGone

datatype in_state = InCopying | InCopied | InClosed | InDone

datatype main_state = AtSelect | AtReceive | Returned "error option"

record hold =
  ho_out :: out_state
  ho_in :: in_state
  ho_main :: main_state
  ho_written :: "string \<times> string"
  ho_sent :: string

definition hold_start :: "hold_args \<Rightarrow> hold" where
  "hold_start a =
     \<lparr>ho_out = (if ha_outputs a then OutCopying else OutAbsent), ho_in = InCopying, ho_main = AtSelect,
      ho_written = ([], []), ho_sent = []\<rparr>"

inductive hold_step :: "hold_args \<Rightarrow> hold \<Rightarrow> hold \<Rightarrow> bool" for a where
  output_copied: "ho_out s = OutCopying \<Longrightarrow> ha_copy a = Some (bytes, err) \<Longrightarrow>
    hold_step a s (s\<lparr>ho_out := OutSending err, ho_written := bytes\<rparr>)"
| input_copied: "ho_in s = InCopying \<Longrightarrow> ha_input a = Some bytes \<Longrightarrow>
    hold_step a s (s\<lparr>ho_in := InCopied, ho_sent := bytes\<rparr>)"
| write_closed: "ho_in s = InCopied \<Longrightarrow> hold_step a s (s\<lparr>ho_in := InClosed\<rparr>)"
| stdin_done: "ho_in s = InClosed \<Longrightarrow> hold_step a s (s\<lparr>ho_in := InDone\<rparr>)"
| select_output: "ho_main s = AtSelect \<Longrightarrow> ho_out s = OutSending err \<Longrightarrow>
    hold_step a s (s\<lparr>ho_main := Returned err, ho_out := OutGone\<rparr>)"
| select_stdin: "ho_main s = AtSelect \<Longrightarrow> ho_in s = InDone \<Longrightarrow>
    hold_step a s (s\<lparr>ho_main := (if ha_outputs a then AtReceive else Returned None)\<rparr>)"
| receive_output: "ho_main s = AtReceive \<Longrightarrow> ho_out s = OutSending err \<Longrightarrow>
    hold_step a s (s\<lparr>ho_main := Returned err, ho_out := OutGone\<rparr>)"

inductive_cases hold_stepE: "hold_step a s s'"

abbreviation hold_reaches :: "hold_args \<Rightarrow> hold \<Rightarrow> bool" where
  "hold_reaches a \<equiv> (hold_step a)\<^sup>*\<^sup>* (hold_start a)"

text \<open>What the call returns: nothing as long as the copy it waits for goes on.\<close>

definition hold_result :: "hold_args \<Rightarrow> error option option" where
  "hold_result a =
     (if ha_outputs a then map_option snd (ha_copy a) else map_option (\<lambda>_. None) (ha_input a))"

definition holdHijackedConnection ::
  "demultiplexer \<Rightarrow> bool \<Rightarrow> reader option \<Rightarrow> writer option \<Rightarrow> writer option \<Rightarrow> reader \<Rightarrow> writer \<Rightarrow> error option option"
where
  "holdHijackedConnection stdcopy tty inputStream outputStream errorStream resp conn =
     hold_result (hold_args_of stdcopy tty inputStream outputStream errorStream resp conn)"

section \<open>The calls that hold a stream\<close>

record StreamOptions =
  so_RawTerminal :: bool
  so_InputStream :: "reader option"
  so_OutputStream :: "writer option"
  so_ErrorStream :: "writer option"
  so_ExecStarted :: "bool option"

text \<open>\<open>so_ExecStarted\<close> is the channel: \<open>Some True\<close> when another goroutine receives from it, \<open>Some False\<close> when none does,
  and then the send blocks. \<open>conn\<close> is the write side of the connection the daemon's client hands back.\<close>

definition ended :: "error option option \<Rightarrow> unit result option" where
  "ended r = map_option (\<lambda>e. case e of None \<Rightarrow> Inr () | Some err \<Rightarrow> Inl err) r"

definition waits :: "(World, 'a) oper \<Rightarrow> ('a \<Rightarrow> unit result option) \<Rightarrow> World \<Rightarrow> unit result option \<times> World" where
  "waits m k w = (case m w of (Inl e, w') \<Rightarrow> (Some (Inl e), w') | (Inr x, w') \<Rightarrow> (k x, w'))"

definition dd_Logs ::
  "demultiplexer \<Rightarrow> skupDockerClient \<Rightarrow> string \<Rightarrow> string \<Rightarrow> StreamOptions \<Rightarrow> World \<Rightarrow> unit result option \<times> World" where
  "dd_Logs stdcopy d id' opts sopts =
     waits (api_call d Cancelable (ContainerLogs id' opts) (api_stream (sd_client d)))
       (\<lambda>resp. ended (map_option snd (redirectResponseToOutputStream stdcopy (so_RawTerminal sopts)
          (so_OutputStream sopts) (so_ErrorStream sopts) resp)))"

record ExecStartCheck =
  es_Detach :: bool
  es_Tty :: bool

definition dd_StartExec ::
  "demultiplexer \<Rightarrow> writer \<Rightarrow> skupDockerClient \<Rightarrow> string \<Rightarrow> ExecStartCheck \<Rightarrow> StreamOptions \<Rightarrow> World \<Rightarrow>
   unit result option \<times> World" where
  "dd_StartExec stdcopy conn d startExec opts sopts =
     (if es_Detach opts then
        waits (api_call d Cancelable (ExecStart startExec) (api_unit (sd_client d))) (\<lambda>_. Some (Inr ()))
      else
        waits (api_call d Cancelable (ExecAttach startExec) (api_stream (sd_client d)))
          (\<lambda>resp. if so_ExecStarted sopts = Some False then None
             else ended (holdHijackedConnection stdcopy (so_RawTerminal sopts \<or> es_Tty opts) (so_InputStream sopts)
               (so_OutputStream sopts) (so_ErrorStream sopts) resp conn)))"

definition dd_AttachToContainer ::
  "demultiplexer \<Rightarrow> writer \<Rightarrow> skupDockerClient \<Rightarrow> string \<Rightarrow> string \<Rightarrow> StreamOptions \<Rightarrow> World \<Rightarrow>
   unit result option \<times> World" where
  "dd_AttachToContainer stdcopy conn d id' opts sopts =
     waits (api_call d Cancelable (ContainerAttach id' opts) (api_stream (sd_client d)))
       (\<lambda>resp. ended (holdHijackedConnection stdcopy (so_RawTerminal sopts) (so_InputStream sopts)
          (so_OutputStream sopts) (so_ErrorStream sopts) resp conn))"

section \<open>Short calls and errors\<close>

text \<open>The options of the docker library that the client only hands on are opaque texts.\<close>

definition dd_UpdateContainerResources :: "skupDockerClient \<Rightarrow> string \<Rightarrow> string \<Rightarrow> (World, unit) oper" where
  "dd_UpdateContainerResources d id' updateConfig =
     api_call d (getTimeoutContext d) (ContainerUpdate id' updateConfig) (api_unit (sd_client d))"

definition dd_ListImages :: "skupDockerClient \<Rightarrow> string \<Rightarrow> (World, string list list) oper" where
  "dd_ListImages d opts = api_call d (getTimeoutContext d) (ImageList opts) (api_images (sd_client d))"

definition dd_Version :: "skupDockerClient \<Rightarrow> (World, string) oper" where
  "dd_Version d = api_call d (getTimeoutContext d) ServerVersionCall (api_os (sd_client d))"

text \<open>The pattern \<open>No such container: [0-9a-z]+\<close> anywhere in the message of the error.\<close>

definition no_such_container :: string where
  "no_such_container = ''No such container: ''"

definition alnum :: "char \<Rightarrow> bool" where
  "alnum c \<longleftrightarrow> (CHR ''0'' \<le> c \<and> c \<le> CHR ''9'') \<or> (CHR ''a'' \<le> c \<and> c \<le> CHR ''z'')"

fun IsContainerNotFoundError :: "string \<Rightarrow> bool" where
  "IsContainerNotFoundError [] = False"
| "IsContainerNotFoundError (c # message) =
     (let rest = drop (length no_such_container) (c # message)
      in (prefix no_such_container (c # message) \<and> rest \<noteq> [] \<and> alnum (hd rest)) \<or>
         IsContainerNotFoundError message)"

definition IsImageNotFoundError :: "error \<Rightarrow> bool" where
  "IsImageNotFoundError err = (case err of ImageNotFound _ \<Rightarrow> True | _ \<Rightarrow> False)"

section \<open>Every order of the steps\<close>

text \<open>How far the three have come; every step adds one, but leaving the \<open>select\<close> for good adds one or two.\<close>

fun out_rank :: "out_state \<Rightarrow> nat" where
  "out_rank OutCopying = 1" | "out_rank _ = 0"

fun in_rank :: "in_state \<Rightarrow> nat" where
  "in_rank InCopying = 3" | "in_rank InCopied = 2" | "in_rank InClosed = 1" | "in_rank InDone = 0"

fun main_rank :: "main_state \<Rightarrow> nat" where
  "main_rank AtSelect = 2" | "main_rank AtReceive = 1" | "main_rank (Returned e) = 0"

definition hold_rank :: "hold \<Rightarrow> nat" where
  "hold_rank s = out_rank (ho_out s) + in_rank (ho_in s) + main_rank (ho_main s)"

lemma hold_step_rank: "hold_step a s s' \<Longrightarrow> hold_rank s' < hold_rank s"
  by (erule hold_stepE) (simp_all add: hold_rank_def)

lemma hold_steps_bound:
  "(hold_step a ^^ n) s s' \<Longrightarrow> n + hold_rank s' \<le> hold_rank s"
proof (induction n arbitrary: s')
  case (Suc n)
  then obtain t where "(hold_step a ^^ n) s t" "hold_step a t s'" by auto
  with Suc.IH [of t] hold_step_rank [of a t s'] show ?case by simp
qed simp

text \<open>What holds of the three on the way.\<close>

definition hold_inv :: "hold_args \<Rightarrow> hold \<Rightarrow> bool" where
  "hold_inv a s \<longleftrightarrow>
     (ho_out s = OutAbsent \<longleftrightarrow> \<not> ha_outputs a) \<and>
     (\<forall>err. ho_out s = OutSending err \<longrightarrow> ha_copy a = Some (ho_written s, err)) \<and>
     (ho_out s = OutGone \<longleftrightarrow> (\<exists>err. ho_main s = Returned err) \<and> ha_outputs a) \<and>
     (\<forall>err. ho_main s = Returned err \<and> ha_outputs a \<longrightarrow> ha_copy a = Some (ho_written s, err)) \<and>
     (\<forall>err. ho_main s = Returned err \<and> \<not> ha_outputs a \<longrightarrow> err = None \<and> ho_in s = InDone) \<and>
     (ho_main s = AtReceive \<longrightarrow> ha_outputs a \<and> ho_in s = InDone) \<and>
     (ho_in s \<noteq> InCopying \<longrightarrow> ha_input a = Some (ho_sent s))"

lemma hold_inv_start: "hold_inv a (hold_start a)"
  by (simp add: hold_inv_def hold_start_def)

lemma hold_inv_step: "hold_step a s s' \<Longrightarrow> hold_inv a s \<Longrightarrow> hold_inv a s'"
  by (erule hold_stepE) (auto simp: hold_inv_def)

lemma hold_reaches_inv: "hold_reaches a s \<Longrightarrow> hold_inv a s"
  by (induction rule: rtranclp_induct) (auto intro: hold_inv_start hold_inv_step)

lemma hold_returned:
  assumes "hold_inv a s" and "ho_main s = Returned err"
  shows "hold_result a = Some err"
  using assms by (cases "ha_outputs a") (auto simp: hold_inv_def hold_result_def)

text \<open>Progress: as long as the copy that is waited for can end, some goroutine can step.\<close>

lemma hold_progress:
  assumes "hold_inv a s" and "hold_result a = Some err" and "\<nexists>s'. hold_step a s s'"
  shows "ho_main s = Returned err"
proof -
  have stuck: "\<And>s'. \<not> hold_step a s s'" using assms(3) by blast
  show ?thesis
  proof (cases "ha_outputs a")
    case True
    then obtain bytes where copy: "ha_copy a = Some (bytes, err)"
      using assms(2) by (auto simp: hold_result_def)
    have "ho_out s \<noteq> OutCopying" using stuck hold_step.output_copied [OF _ copy] by blast
    then obtain e where "ho_out s = OutSending e \<or> ho_out s = OutGone"
      using assms(1) True by (cases "ho_out s") (auto simp: hold_inv_def)
    moreover have "ho_main s = AtSelect \<or> ho_main s = AtReceive \<Longrightarrow> ho_out s \<noteq> OutSending e"
      using stuck hold_step.select_output hold_step.receive_output by blast
    ultimately show ?thesis
      using assms(1) True copy hold_returned [OF assms(1)] assms(2)
      by (cases "ho_main s") (auto simp: hold_inv_def)
  next
    case False
    then obtain bytes where input: "ha_input a = Some bytes" "err = None"
      using assms(2) by (auto simp: hold_result_def)
    have "ho_in s = InDone"
      using stuck hold_step.input_copied [OF _ input(1)] hold_step.write_closed hold_step.stdin_done
      by (cases "ho_in s") blast+
    then have "ho_main s \<noteq> AtSelect" using stuck hold_step.select_stdin by blast
    then show ?thesis using assms(1) False input(2) by (cases "ho_main s") (auto simp: hold_inv_def)
  qed
qed

text \<open>
  C11 (liveness). Holding a connection, whatever the order in which the three goroutines run: it ends after at most
  six steps; whenever the copy it waits for ends, it returns, and it returns that copy's error with every byte of
  the copy written, or nil once the input was written when there is no output; no goroutine is left blocked on the
  channel of the output. A terminal session in particular returns when its output ends, with all of it
  written, though its input never does.
\<close>

theorem hold_connection:
  assumes "a = hold_args_of stdcopy tty input output err resp conn" and "hold_reaches a s"
  shows "(\<forall>e. ho_main s = Returned e \<longrightarrow>
      holdHijackedConnection stdcopy tty input output err resp conn = Some e \<and> ho_out s \<noteq> OutSending e \<and>
      (if output \<noteq> None \<or> err \<noteq> None
       then redirectResponseToOutputStream stdcopy tty output err resp = Some (ho_written s, e)
       else e = None \<and> ho_in s = InDone)) \<and>
    (\<forall>e. holdHijackedConnection stdcopy tty input output err resp conn = Some e \<and>
      (\<nexists>s'. hold_step a s s') \<longrightarrow> ho_main s = Returned e) \<and>
    (\<forall>n s'. (hold_step a ^^ n) (hold_start a) s' \<longrightarrow> n \<le> 6) \<and>
    (\<forall>w e. tty \<and> output = Some w \<and> wr_limit w = None \<and> rd_end resp = Some None \<and> ho_main s = Returned e \<longrightarrow>
      e = None \<and> ho_written s = (rd_data resp, []))"
proof -
  have inv: "hold_inv a s" by (rule hold_reaches_inv [OF assms(2)])
  have args: "ha_outputs a \<longleftrightarrow> output \<noteq> None \<or> err \<noteq> None"
    "ha_copy a = redirectResponseToOutputStream stdcopy tty output err resp"
    "holdHijackedConnection stdcopy tty input output err resp conn = hold_result a"
    by (simp_all add: assms(1) hold_args_of_def holdHijackedConnection_def)
  have returned: "holdHijackedConnection stdcopy tty input output err resp conn = Some e \<and> ho_out s \<noteq> OutSending e \<and>
      (if output \<noteq> None \<or> err \<noteq> None
       then redirectResponseToOutputStream stdcopy tty output err resp = Some (ho_written s, e)
       else e = None \<and> ho_in s = InDone)" if r: "ho_main s = Returned e" for e
    using hold_returned [OF inv r, folded args(3)] inv r by (cases "ha_outputs a") (auto simp: args(1,2) hold_inv_def)
  have bound: "n \<le> 6" if "(hold_step a ^^ n) (hold_start a) s'" for n s'
    using hold_steps_bound [OF that] by (simp add: hold_rank_def hold_start_def split: if_splits)
  have session: "e = None \<and> ho_written s = (rd_data resp, [])"
    if "tty" "output = Some w" "wr_limit w = None" "rd_end resp = Some None" "ho_main s = Returned e" for w e
    using returned [OF that(5)] that by (simp add: redirectResponseToOutputStream_def or_discard_def io_Copy_def)
  have progress: "ho_main s = Returned e"
    if "holdHijackedConnection stdcopy tty input output err resp conn = Some e \<and> (\<nexists>s'. hold_step a s s')" for e
    using hold_progress [OF inv] that by (simp add: args(3))
  show ?thesis using returned progress bound session by blast
qed

text \<open>The witness: a session whose input stays open; the output ends first and the call returns.\<close>

definition sample_session :: hold_args where
  "sample_session =
     hold_args_of (\<lambda>_ _ _. None) True (Some \<lparr>rd_data = ''ls'', rd_end = None\<rparr>) (Some Discard) None
       \<lparr>rd_data = ''bin'', rd_end = Some None\<rparr> Discard"

lemma hold_connection_witness:
  "\<exists>s. hold_reaches sample_session s \<and> ho_main s = Returned None \<and> ho_written s = (''bin'', []) \<and> ho_in s = InCopying"
proof -
  let ?s0 = "hold_start sample_session"
  let ?s1 = "?s0\<lparr>ho_out := OutSending None, ho_written := (''bin'', [])\<rparr>"
  let ?s2 = "?s1\<lparr>ho_main := Returned None, ho_out := OutGone\<rparr>"
  have copy: "ha_copy sample_session = Some ((''bin'', []), None)" "ha_outputs sample_session"
    by (simp_all add: sample_session_def hold_args_of_def redirectResponseToOutputStream_def or_discard_def
        io_Copy_def Discard_def)
  have "hold_step sample_session ?s0 ?s1"
    by (rule hold_step.output_copied [OF _ copy(1)]) (simp add: hold_start_def copy(2))
  moreover have "hold_step sample_session ?s1 ?s2"
    by (rule hold_step.select_output) (simp_all add: hold_start_def)
  ultimately have reach: "hold_reaches sample_session ?s2" by (rule rtranclp_trans [OF r_into_rtranclp r_into_rtranclp])
  have "\<forall>w e. True \<and> Some Discard = Some w \<and> wr_limit w = None \<and> Some None = Some (None :: error option) \<and>
      ho_main ?s2 = Returned e \<longrightarrow> e = None \<and> ho_written ?s2 = (''bin'', [])"
    using hold_connection [OF sample_session_def reach, THEN conjunct2, THEN conjunct2, THEN conjunct2]
    unfolding reader.simps .
  then have "ho_written ?s2 = (''bin'', [])" by (simp add: Discard_def)
  then show ?thesis using reach by (intro exI [of _ ?s2]) (simp add: hold_start_def)
qed

end
