(* ===== verification/PullProgress.thy ===== *)
theory PullProgress
  imports LibDocker
begin

text \<open>
  The progress of an image pull in \<open>pkg/docker/libdocker/skupper_docker_client.go\<close>: the loop that decodes the
  daemon's messages notes the newest one and its time, and a second goroutine looks at it at every tick of ten
  seconds and cancels the pull when it is older than the client's deadline. A pull is a machine over the
  events of both, with their times in nanoseconds.
\<close>

section \<open>Progress\<close>

record progress =
  pg_message :: "PullMessage option"
  pg_timestamp :: int

definition newProgress :: "int \<Rightarrow> progress" where
  "newProgress now = \<lparr>pg_message = None, pg_timestamp = now\<rparr>"

definition progress_set :: "PullMessage \<Rightarrow> int \<Rightarrow> progress \<Rightarrow> progress" where
  "progress_set msg now p = p\<lparr>pg_message := Some msg, pg_timestamp := now\<rparr>"

text \<open>\<open>pm_Progress\<close> is the text of the message's progress bar, if it has one.\<close>

definition progress_get :: "progress \<Rightarrow> string \<times> int" where
  "progress_get p =
     (case pg_message p of
        None \<Rightarrow> (''No progress'', pg_timestamp p)
      | Some m \<Rightarrow>
          let pre = (if pm_ID m \<noteq> [] then pm_ID m @ '': '' else [])
          in (case pm_Progress m of
                None \<Rightarrow> (pre @ pm_Status m, pg_timestamp p)
              | Some bar \<Rightarrow> (pre @ pm_Status m @ '' '' @ bar, pg_timestamp p)))"

section \<open>The reporter\<close>

text \<open>\<open>rp_cancelled\<close> is what its \<open>cancel\<close> has done to the pull's context, \<open>rp_stopped\<close> whether \<open>stopCh\<close> is closed;
  after either its goroutine does nothing more.\<close>

record progressReporter =
  rp_progress :: progress
  rp_image :: string
  rp_cancelled :: bool
  rp_stopped :: bool
  rp_deadline :: int

definition newProgressReporter :: "string \<Rightarrow> int \<Rightarrow> int \<Rightarrow> progressReporter" where
  "newProgressReporter img imagePullProgressDeadline now =
     \<lparr>rp_progress = newProgress now, rp_image = img, rp_cancelled = False, rp_stopped = False,
      rp_deadline = imagePullProgressDeadline\<rparr>"

definition report_interval :: int where
  "report_interval = 10 * second"

definition reporter_tick :: "int \<Rightarrow> progressReporter \<Rightarrow> progressReporter" where
  "reporter_tick now r =
     (if rp_cancelled r \<or> rp_stopped r then r
      else if now - snd (progress_get (rp_progress r)) > rp_deadline r then r\<lparr>rp_cancelled := True\<rparr>
      else r)"

definition reporter_stop :: "progressReporter \<Rightarrow> progressReporter" where
  "reporter_stop r = r\<lparr>rp_stopped := True\<rparr>"

section \<open>A pull\<close>

text \<open>The events of a pull: a tick, a message decoded or failed to be decoded (as it is once the context is
  cancelled), the end of the stream. The deferred \<open>stop\<close> runs when the loop returns.\<close>

datatype pull_event = Ticked int | Decoded int pull_item | StreamEnd

record pulling =
  pl_reporter :: progressReporter
  pl_result :: "unit result option"

definition pull_return :: "unit result \<Rightarrow> pulling \<Rightarrow> pulling" where
  "pull_return r s = s\<lparr>pl_result := Some r, pl_reporter := reporter_stop (pl_reporter s)\<rparr>"

definition pull_start :: "string \<Rightarrow> int \<Rightarrow> int \<Rightarrow> pulling" where
  "pull_start img deadline now = \<lparr>pl_reporter = newProgressReporter img deadline now, pl_result = None\<rparr>"

fun pull_step :: "pull_event \<Rightarrow> pulling \<Rightarrow> pulling" where
  "pull_step (Ticked now) s = s\<lparr>pl_reporter := reporter_tick now (pl_reporter s)\<rparr>"
| "pull_step (Decoded now item) s =
     (if pl_result s \<noteq> None then s
      else case item of
             PullBad e \<Rightarrow> pull_return (Inl e) s
           | PullOk m \<Rightarrow>
               (case pm_Error m of
                  Some msg \<Rightarrow> pull_return (Inl (DockerError msg)) s
                | None \<Rightarrow>
                    s\<lparr>pl_reporter := (pl_reporter s)
                        \<lparr>rp_progress := progress_set m now (rp_progress (pl_reporter s))\<rparr>\<rparr>))"
| "pull_step StreamEnd s = (if pl_result s \<noteq> None then s else pull_return (Inr ()) s)"

definition pull_run :: "string \<Rightarrow> int \<Rightarrow> int \<Rightarrow> pull_event list \<Rightarrow> pulling" where
  "pull_run img deadline start events = fold pull_step events (pull_start img deadline start)"

section \<open>When a pull is cancelled\<close>

text \<open>The messages of a run, and the time of the last progress.\<close>

fun items_of :: "pull_event list \<Rightarrow> pull_item list" where
  "items_of [] = []"
| "items_of (Decoded now item # es) = item # items_of es"
| "items_of (_ # es) = items_of es"

fun last_progress :: "int \<Rightarrow> pull_event list \<Rightarrow> int" where
  "last_progress t [] = t"
| "last_progress t (Decoded now item # es) = last_progress now es"
| "last_progress t (_ # es) = last_progress t es"

fun going_on :: "pull_event list \<Rightarrow> bool" where
  "going_on [] = True"
| "going_on (Decoded now item # es) = (good_item item \<and> going_on es)"
| "going_on (Ticked now # es) = going_on es"
| "going_on (StreamEnd # es) = False"

lemma going_on_append [simp]: "going_on (es @ es') \<longleftrightarrow> going_on es \<and> going_on es'"
  by (induction es rule: going_on.induct) auto

lemma last_progress_append [simp]: "last_progress t (es @ es') = last_progress (last_progress t es) es'"
  by (induction t es rule: last_progress.induct) auto

lemma progress_get_time [simp]: "snd (progress_get p) = pg_timestamp p"
  by (simp add: progress_get_def Let_def split: option.split)

text \<open>The state after events that end nothing.\<close>

lemma going_on_state:
  "going_on es \<Longrightarrow> pl_result (pull_run img deadline start es) = None \<and>
     \<not> rp_stopped (pl_reporter (pull_run img deadline start es)) \<and>
     rp_deadline (pl_reporter (pull_run img deadline start es)) = deadline \<and>
     pg_timestamp (rp_progress (pl_reporter (pull_run img deadline start es))) = last_progress start es"
proof (induction es rule: rev_induct)
  case Nil
  show ?case by (simp add: pull_run_def pull_start_def newProgressReporter_def newProgress_def)
next
  case (snoc e es)
  then have IH: "pl_result (pull_run img deadline start es) = None"
    "\<not> rp_stopped (pl_reporter (pull_run img deadline start es))"
    "rp_deadline (pl_reporter (pull_run img deadline start es)) = deadline"
    "pg_timestamp (rp_progress (pl_reporter (pull_run img deadline start es))) = last_progress start es" by auto
  have step: "pull_run img deadline start (es @ [e]) = pull_step e (pull_run img deadline start es)"
    by (simp add: pull_run_def)
  show ?case
  proof (cases e)
    case (Ticked now)
    then show ?thesis using IH unfolding step by (simp add: reporter_tick_def)
  next
    case (Decoded now item)
    then obtain m where "item = PullOk m" "pm_Error m = None"
      using snoc.prems by (cases item) (auto simp: good_item_def)
    then show ?thesis using IH Decoded unfolding step by (simp add: progress_set_def)
  next
    case StreamEnd
    then show ?thesis using snoc.prems by simp
  qed
qed

text \<open>Cancelled exactly when some tick found no progress for longer than the deadline.\<close>

lemma cancelled_iff:
  "going_on es \<Longrightarrow> rp_cancelled (pl_reporter (pull_run img deadline start es)) \<longleftrightarrow>
     (\<exists>pre now post. es = pre @ Ticked now # post \<and> now - last_progress start pre > deadline)"
proof (induction es rule: rev_induct)
  case Nil
  show ?case by (simp add: pull_run_def pull_start_def newProgressReporter_def)
next
  case (snoc e es)
  let ?s = "pull_run img deadline start es" and ?late = "\<lambda>es. \<exists>pre now post. es = pre @ Ticked now # post \<and>
    now - last_progress start pre > deadline"
  have es: "going_on es" using snoc.prems by simp
  note st = going_on_state [OF es, of img deadline start]
  have split: "?late (es @ [e]) \<longleftrightarrow> ?late es \<or> (\<exists>now. e = Ticked now \<and> now - last_progress start es > deadline)"
    (is "?L \<longleftrightarrow> ?R")
  proof
    assume ?L
    then obtain pre now post where c: "es @ [e] = pre @ Ticked now # post" "now - last_progress start pre > deadline" by blast
    then show ?R by (cases post rule: rev_cases) auto
  next
    assume ?R
    then show ?L
    proof
      assume "?late es"
      then obtain pre now post where "es = pre @ Ticked now # post" "now - last_progress start pre > deadline" by blast
      then have "es @ [e] = pre @ Ticked now # (post @ [e])" "now - last_progress start pre > deadline" by simp_all
      then show ?L by blast
    qed blast
  qed
  have step: "pull_run img deadline start (es @ [e]) = pull_step e ?s" by (simp add: pull_run_def)
  have "rp_cancelled (pl_reporter (pull_step e ?s)) \<longleftrightarrow>
      rp_cancelled (pl_reporter ?s) \<or> (\<exists>now. e = Ticked now \<and> now - last_progress start es > deadline)"
  proof (cases e)
    case (Ticked now)
    then show ?thesis using st by (simp add: reporter_tick_def)
  next
    case (Decoded now item)
    then obtain m where "item = PullOk m" "pm_Error m = None"
      using snoc.prems by (cases item) (auto simp: good_item_def)
    then show ?thesis using st Decoded by simp
  next
    case StreamEnd
    then show ?thesis using snoc.prems by simp
  qed
  then show ?case using snoc.IH [OF es] split step by simp
qed

text \<open>The result is that of \<open>pull_loop\<close> over the messages.\<close>

lemma pull_settled: "pl_result s = Some r \<Longrightarrow> pl_result (fold pull_step es s) = Some r"
proof (induction es arbitrary: s)
  case (Cons e es)
  have "pl_result (pull_step e s) = Some r" using Cons.prems by (cases e) simp_all
  then show ?case using Cons.IH by simp
qed simp

lemma pull_run_result:
  assumes "StreamEnd \<notin> set es"
  shows "pl_result s = None \<Longrightarrow> pl_result (fold pull_step (es @ [StreamEnd]) s) = Some (pull_loop (items_of es))"
  using assms
proof (induction es arbitrary: s)
  case Nil
  then show ?case by (simp add: pull_return_def)
next
  case (Cons e es)
  show ?case
  proof (cases e)
    case (Ticked now)
    with Cons.IH [of "pull_step e s"] Cons.prems show ?thesis by simp
  next
    case (Decoded now item)
    show ?thesis
    proof (cases "good_item item")
      case True
      then obtain m where "item = PullOk m" "pm_Error m = None" by (cases item) (auto simp: good_item_def)
      with Decoded Cons.IH [of "pull_step e s"] Cons.prems show ?thesis by simp
    next
      case False
      then have "\<exists>err. pull_step e s = pull_return (Inl err) s \<and> pull_loop (items_of (e # es)) = Inl err"
        using Decoded Cons.prems by (cases item) (auto simp: good_item_def)
      then obtain err where "pl_result (pull_step e s) = Some (Inl err)" "pull_loop (items_of (e # es)) = Inl err"
        by (auto simp: pull_return_def)
      then show ?thesis using pull_settled [of "pull_step e s" "Inl err" "es @ [StreamEnd]"] by simp
    qed
  next
    case StreamEnd
    then show ?thesis using Cons.prems by simp
  qed
qed

text \<open>Ticks at a regular distance find a silence soon after the deadline.\<close>

lemma regular_tick:
  fixes start limit interval :: int
  assumes "0 < interval" and "i < j" and "start + int i * interval \<le> limit + interval"
    and "limit < start + int (j - 1) * interval"
  obtains k where "i \<le> k" "k < j" "limit < start + int k * interval" "start + int k * interval \<le> limit + interval"
proof -
  define P where "P k \<longleftrightarrow> i \<le> k \<and> limit < start + int k * interval" for k
  have last: "P (j - 1)" using assms(2,4) by (auto simp: P_def)
  define k where "k = (LEAST k. P k)"
  have k: "P k" unfolding k_def using last by (rule LeastI)
  have "k \<le> j - 1" unfolding k_def using last by (rule Least_le)
  moreover have "start + int k * interval \<le> limit + interval"
  proof (cases "k = i")
    case False
    then obtain n where n: "k = Suc n" "i \<le> n" using k by (cases k) (auto simp: P_def)
    then have "\<not> P n" using not_less_Least [of n P] by (simp add: k_def)
    with n have "start + int n * interval \<le> limit" by (simp add: P_def)
    then show ?thesis by (simp add: n(1) distrib_right)
  qed (use assms(3) in simp)
  moreover have "i \<le> k" "limit < start + int k * interval" using k by (simp_all add: P_def)
  moreover have "k < j" using \<open>k \<le> j - 1\<close> assms(2) by linarith
  ultimately show thesis using that by blast
qed

definition ticks :: "int \<Rightarrow> nat \<Rightarrow> nat \<Rightarrow> pull_event list" where
  "ticks start i j = map (\<lambda>k. Ticked (start + int k * report_interval)) [i..<j]"

lemma going_on_ticks [simp]: "going_on (ticks start i j)"
proof -
  have "going_on (map (\<lambda>k. Ticked (f k)) xs)" for f and xs :: "nat list" by (induction xs) simp_all
  then show ?thesis by (simp add: ticks_def)
qed

lemma last_progress_ticks [simp]: "last_progress t (ticks start i j) = t"
proof -
  have "last_progress t (map (\<lambda>k. Ticked (f k)) xs) = t" for f and xs :: "nat list" by (induction xs) simp_all
  then show ?thesis by (simp add: ticks_def)
qed

lemma silence_cancelled:
  assumes "going_on es" and "i < j" and "last_progress start es + deadline < start + int (j - 1) * report_interval"
    and "start + int i * report_interval \<le> last_progress start es + deadline + report_interval"
  shows "\<exists>k. i \<le> k \<and> k < j \<and> start + int k * report_interval \<le> last_progress start es + deadline + report_interval \<and>
    rp_cancelled (pl_reporter (pull_run img deadline start (es @ ticks start i (Suc k))))"
proof -
  have "0 < report_interval" by (simp add: report_interval_def second_def)
  then obtain k where k: "i \<le> k" "k < j" "last_progress start es + deadline < start + int k * report_interval"
    "start + int k * report_interval \<le> last_progress start es + deadline + report_interval"
    using regular_tick [OF _ assms(2,4,3)] by blast
  have "es @ ticks start i (Suc k) = (es @ ticks start i k) @ Ticked (start + int k * report_interval) # []"
    using k(1) by (simp add: ticks_def)
  moreover have "start + int k * report_interval - last_progress start (es @ ticks start i k) > deadline"
    using k(3) by simp
  ultimately have "rp_cancelled (pl_reporter (pull_run img deadline start (es @ ticks start i (Suc k))))"
    using cancelled_iff [of "es @ ticks start i (Suc k)" img deadline start] assms(1) by (metis going_on_append going_on_ticks)
  with k show ?thesis by blast
qed

text \<open>
  C17 (bounds). A pull in which nothing has ended yet is cancelled exactly when some tick found the newest message
  older than the client's deadline, so a pull that keeps reporting is never cut off however long it takes; with the
  ticks every ten seconds, one that falls silent is cancelled no later than ten seconds after the deadline; and what
  it returns when its stream ends is what the loop over its messages returns, whatever the ticks in between.
\<close>

theorem pull_deadline:
  assumes "going_on es"
  shows "(rp_cancelled (pl_reporter (pull_run img deadline start es)) \<longleftrightarrow>
      (\<exists>pre now post. es = pre @ Ticked now # post \<and> now - last_progress start pre > deadline)) \<and>
    (\<forall>i j. i < j \<and> last_progress start es + deadline < start + int (j - 1) * report_interval \<and>
      start + int i * report_interval \<le> last_progress start es + deadline + report_interval \<longrightarrow>
      (\<exists>k. i \<le> k \<and> k < j \<and> start + int k * report_interval \<le> last_progress start es + deadline + report_interval \<and>
        rp_cancelled (pl_reporter (pull_run img deadline start (es @ ticks start i (Suc k)))))) \<and>
    pl_result (pull_run img deadline start (es @ [StreamEnd])) = Some (Inr ()) \<and>
    (\<forall>es'. StreamEnd \<notin> set es' \<longrightarrow>
      pl_result (pull_run img deadline start (es' @ [StreamEnd])) = Some (pull_loop (items_of es')))"
proof -
  have fresh: "pl_result (pull_start img deadline start) = None" by (simp add: pull_start_def)
  have "pull_step StreamEnd (pull_run img deadline start es) = pull_return (Inr ()) (pull_run img deadline start es)"
    using going_on_state [OF assms] by simp
  then have "pl_result (pull_run img deadline start (es @ [StreamEnd])) = Some (Inr ())"
    by (simp add: pull_run_def pull_return_def)
  then show ?thesis
    using cancelled_iff [OF assms] silence_cancelled [OF assms] pull_run_result [OF _ fresh]
    unfolding pull_run_def by blast
qed

text \<open>The witness: with the deadline of \<open>NewClient\<close>, a message after three seconds, then silence. The tick at ten
  seconds finds it seven seconds old, the one at twenty cancels.\<close>

definition sample_pull :: "pull_event list" where
  "sample_pull = [Decoded (3 * second) (PullOk \<lparr>pm_ID = [], pm_Status = ''Downloading'', pm_Progress = None, pm_Error = None\<rparr>)]"

lemma pull_deadline_witness:
  "\<not> rp_cancelled (pl_reporter (pull_run ''img'' (10 * second) 0 sample_pull)) \<and>
    (\<exists>k. 1 \<le> k \<and> k < 3 \<and> int k * report_interval \<le> 23 * second \<and>
      rp_cancelled (pl_reporter (pull_run ''img'' (10 * second) 0 (sample_pull @ ticks 0 1 (Suc k)))))"
proof -
  have on: "going_on sample_pull" by (simp add: sample_pull_def good_item_def)
  have last: "last_progress 0 sample_pull = 3 * second" by (simp add: sample_pull_def)
  note all = pull_deadline [OF on, of "''img''" "10 * second" 0, unfolded last]
  have "sample_pull \<noteq> pre @ Ticked now # post" for pre now post by (cases pre) (auto simp: sample_pull_def)
  then have "\<not> rp_cancelled (pl_reporter (pull_run ''img'' (10 * second) 0 sample_pull))" using all by blast
  moreover have "(1 :: nat) < 3 \<and> 3 * second + 10 * second < 0 + int (3 - 1) * report_interval \<and>
      0 + int 1 * report_interval \<le> 3 * second + 10 * second + report_interval"
    by (simp add: report_interval_def second_def)
  from all [THEN conjunct2, THEN conjunct1, rule_format, OF this]
  have "\<exists>k. 1 \<le> k \<and> k < 3 \<and> 0 + int k * report_interval \<le> 3 * second + 10 * second + report_interval \<and>
      rp_cancelled (pl_reporter (pull_run ''img'' (10 * second) 0 (sample_pull @ ticks 0 1 (Suc k))))" .
  then have "\<exists>k. 1 \<le> k \<and> k < 3 \<and> int k * report_interval \<le> 23 * second \<and>
      rp_cancelled (pl_reporter (pull_run ''img'' (10 * second) 0 (sample_pull @ ticks 0 1 (Suc k))))"
    by (simp add: report_interval_def)
  ultimately show ?thesis by blast
qed

end
