(* ===== verification/Spec2Isabelle.thy ===== *)
theory Spec2Isabelle
  imports TwoSites Startup CommandLine Exposing Commands Streams PullProgress
begin

text \<open>
  A verification development of skupper-docker: the command line that sets up a Skupper site on a docker
  host, and the service controller that runs in it.

  \<^bold>\<open>The program.\<close> A site is a directory of files on the host (\<open>$SKUPPER_TMPDIR/skupper\<close>) and a few
  containers: a router (\<open>skupper-router\<close>), the service controller, and one proxy container for each service. The
  command line (\<open>cmd/skupper-docker/main.go\<close>) calls the client (\<open>client/*.go\<close>), which writes the files and asks
  the docker daemon for containers through \<open>pkg/docker\<close> and \<open>pkg/docker/libdocker\<close>. The controller
  (\<open>cmd/service-controller\<close>) watches the file of service definitions, which the client's commands change and
  which is mounted into it; it keeps one proxy container per definition, tells the other sites of the services
  defined at this one, and writes the services it hears of into the same file. \<open>pkg/qdr\<close> builds and reads the
  routers' configurations and queries a running router.

  \<^bold>\<open>How the code is modelled.\<close> A function that can fail returns \<open>error + 'a\<close> (\<open>Prelude\<close>); one that touches
  the host or the daemon is a state-passing operation \<open>World \<Rightarrow> 'a result \<times> World\<close>, built with \<open>bindE\<close> (return
  the wrapped error), \<open>tryE\<close> (look at the error) and \<open>logged\<close> (drop it). A panic of the source is the error
  \<open>Panic\<close>, which no wrapping catches. The world is the file system and the list of the requests sent to the
  daemon. The daemon is a parameter, \<open>docker_api\<close>: its answers are functions of the whole list of requests, so it
  may keep any state and fail at any time. The machine is a parameter, \<open>host\<close>: environment, working directory, random
  bytes, network interfaces, the certificate library, and the order in which a \<open>range\<close> loop visits a map, which Go
  leaves open and every theorem leaves arbitrary (\<open>range_ok\<close>): \<open>h_rng\<close> is the order of the loops of one command or
  handler, and in the reconciliation, where the order shows in the texts of the proxies, every loop has an order of its own
  (\<open>h_loops\<close>, read by \<open>in_order\<close>). Go maps are finite maps, \<open>int32\<close> is a 32-bit
  word, \<open>int\<close> is an integer whose 64-bit range is checked where a number enters the program. Record fields carry a
  prefix of the type's name; methods of the docker client the prefix \<open>dd_\<close>.

  \<^bold>\<open>The theories\<close>, in the order of their imports.
  \<^item> \<open>Prelude\<close>, \<open>GoMaps\<close>, \<open>GoStrings\<close>: errors, the binds and the locale \<open>step_relation\<close> (a relation between worlds
    that every composition keeps), maps and the locales \<open>keyed_store\<close>, \<open>keyed_store_remove\<close>, the functions of
    \<open>strings\<close>, \<open>strconv\<close> and \<open>path/filepath\<close> the program calls.
  \<^item> \<open>JsonText\<close>, \<open>JsonCodec\<close>: \<open>encoding/json\<close>, printer, parser and struct coding, with the locale \<open>json_codec\<close>;
    the parser takes fuel and has enough when given the length of the text (\<open>parse_json_fuel\<close>).
  \<^item> \<open>Types\<close>, \<open>SpecTypes\<close> (\<open>api/types\<close>), \<open>Host\<close>, \<open>Paths\<close> (files and \<open>pkg/utils\<close>), \<open>EnvVars\<close> (\<open>envvars.go\<close>).
  \<^item> \<open>LibDocker\<close>, \<open>Streams\<close>, \<open>PullProgress\<close> (\<open>pkg/docker/libdocker\<close>): the methods with the context each call
    is sent under; held connections and logs, whose goroutines are the step relation \<open>hold_step\<close>; the progress
    reporter of a pull as a machine over ticks and messages. \<open>Containers\<close> (\<open>pkg/docker/containers.go\<close>,
    \<open>networks.go\<close>): what each container is created with, restarts. \<open>SimDocker\<close>: a small daemon, the instance of the parameter
    in the witnesses; no theorem is about it.
  \<^item> \<open>ServiceStore\<close>: the file of service definitions, with the locale \<open>file_store\<close> the client
    (\<open>ServiceInterfaces\<close>), the controller (\<open>ServiceSync\<close>) and the router configuration (\<open>SiteFiles\<close>) interpret.
  \<^item> \<open>Qdr\<close>, \<open>RouterJson\<close>, \<open>ProxyConfig\<close> (\<open>pkg/qdr/qdr.go\<close>): the configuration and its methods, its text, and the
    configuration of a service proxy.
  \<^item> \<open>ServiceInterfaces\<close> (\<open>client/serviceinterface_*.go\<close>): the commands on services.
  \<^item> \<open>Bridges\<close>, \<open>ServiceSync\<close>, \<open>Controller\<close> (\<open>cmd/service-controller\<close>): bindings, synchronisation between sites,
    reconciliation of proxies; \<open>ProxyTexts\<close>: what the texts of a proxy owe to the order of the loops; \<open>Reconcile\<close>: reconciliation against a daemon that keeps its documented promises
    (\<open>container_daemon\<close>); \<open>ControllerRuns\<close>: the handlers in any order, as the step relation \<open>controller_step\<close>;
    \<open>Workers\<close>: the goroutines that call them, how each starts and ends; \<open>Startup\<close>: \<open>main\<close> of the controller and
    \<open>WaitForContainerStatus\<close>; \<open>TwoSites\<close>: a service on its way from one site to another.
  \<^item> \<open>SiteFiles\<close>, \<open>Connectors\<close>, \<open>Connecting\<close> (\<open>client/site_config_*.go\<close>, \<open>client/connector_*.go\<close>): the files of a
    site, tokens, connecting and disconnecting.
  \<^item> \<open>Mgmt\<close>, \<open>Queries\<close> (\<open>pkg/qdr/mgmt.go\<close>, \<open>container.go\<close>, \<open>client/router_inspect.go\<close>): the management queries
    and the status of a site.
  \<^item> \<open>Routers\<close>, \<open>Sites\<close>, \<open>Creation\<close> (\<open>client/router_create.go\<close>, \<open>router_remove.go\<close>): creating and removing a site.
  \<^item> \<open>Cli\<close>, \<open>Commands\<close>, \<open>Exposing\<close>, \<open>CommandLine\<close> (\<open>cmd/skupper-docker/main.go\<close>): argument checks, commands,
    the table of commands with their flags and defaults.

  \<^bold>\<open>What is shown.\<close> The properties are the theorems under a text that begins with their number.
  \<^item> Across components: a service defined at one site ends as a proxy at another, which runs unless that very proxy
    was there before and was left alone (\<open>TwoSites\<close>); the
    controller's goroutines, under every order of events, only reach sites its handlers can reach, and send only
    their own services and only once the broker granted the connection (\<open>Workers\<close>), and in every such site the services file is readable, keyed and free of
    this site's own origin (\<open>ControllerRuns\<close>); the workers start only beside a running router and after
    a pull that went well (\<open>Startup\<close>).
  \<^item> Reconciliation: one round leaves exactly the proxies of the defined services, each with a configuration generated
    from its service, and touches no other container. Every proxy it creates runs; a proxy found with its
    configuration is left as it was, so one that has stopped is never started again. The next round, in whatever orders,
    touches no proxy but those of this site's services with several targets, whose text depends on the order; such a
    one can be created anew each time (\<open>Reconcile\<close>).
  \<^item> Synchronisation: an update changes the file to a reference merge, two sites agree after it, an origin not
    heard from for a minute expires and is forgotten (\<open>ServiceSync\<close>).
  \<^item> Configuration: what the methods build is read back from its text unchanged; the proxy's bridges
    (\<open>Qdr\<close>, \<open>RouterJson\<close>, \<open>ProxyConfig\<close>).
  \<^item> The client: service commands touch one address or nothing, what each leaves, round trips of bind and unbind,
    expose and unexpose; what connecting leaves and which containers it restarts, and that a token made at one site connects another; what creating
    a site leaves, which flags of \<open>init\<close> it depends on, when it succeeds and what it destroys when it fails; that removing one always ends.
  \<^item> Looking: status and checks send queries only, \<open>check-connection\<close> ends and reports what was answered, the
    reference count of sites.
  \<^item> The docker client: a held connection returns with the whole of its output in every order of its goroutines, a
    silent pull is cancelled soon after its deadline and a reporting one never.

  Several theorems state behaviour the code does not seem to intend, as the code has it: a stale index deletes
  another origin's definition (\<open>stale_index_deletes\<close>), a proxy is created anew for a text that says the same in another
  order (\<open>order_recreates_proxy\<close>), a failed worker is never restarted (\<open>failed_worker_is_silent\<close>), a port out of
  range is stored (\<open>bind_validity\<close>), an edge site gets a connector without a host (\<open>token_connects\<close>), no name is free
  once \<open>conn9\<close> is taken (\<open>generated_name_fresh\<close>), a failed creation has destroyed the old site
  (\<open>router_create_clears\<close>).

  \<^bold>\<open>Hypotheses on code outside the repository.\<close> \<open>range_ok\<close>: a loop visits every key once. \<open>container_daemon\<close>: a
  created container has the configuration asked for, listings and inspections tell the truth, start, stop and
  remove do what they say. \<open>token_law\<close>: the certificate library reads back the annotations it was given.
  \<open>retries\<close>: the retry loop calls its check at most once an interval. \<open>grants\<close>: a daemon that refuses nothing and answers
  every pull with messages of which none reports an error. Each has an instance in a witness.

  \<^bold>\<open>Not modelled.\<close> Parsing the command line and the dispatch to a command belong to the cobra package: a command
  takes its arguments and the values of its flags. Help texts are left out. \<open>validateIPAddress\<close>, \<open>validateTargetHost\<close>, \<open>getDockerClient\<close>, \<open>describe\<close> and the
  structs of \<open>pkg/service\<close> are used by nothing. Permissions, symbolic links and a full disk are not part of the file
  system; log lines are left out, and so are the values rendered into error texts and the messages printed before an
  error is returned. The controller's goroutines share their state without a lock; the model runs each handler to
  its end, so data races are outside of it. Time passes only where the code reads a clock, which is then an
  argument. A services file that holds \<open>null\<close> is read as an empty map, where the Go map is nil from then on and storing
  into it panics. Numbers are read when they are written as integers: a router configuration with one such as \<open>5e3\<close> is
  an error here, where Go reads it through a float, and \<open>convert\<close> keeps the order of an object's members, where Go sorts
  them on the way. Bytes of a text that are not UTF-8 are kept, where \<open>encoding/json\<close> replaces them. The controller's and the client's paths to the services file are two names of one mounted file; a
  theorem about either speaks of the file at its own path.
\<close>

end
